(* ===== verification/SF_Prelude.thy ===== *)
theory SF_Prelude
  imports Complex_Main "HOL-Library.Word" "HOL-Library.Monad_Syntax"
begin

text \<open>
  Shared vocabulary of the Stonefish development: the scalar and index types of the
  C++ sources, checked access to \<open>std::vector\<close>, the counting \<open>for\<close> loop over an
  \<open>unsigned int\<close>, and the arithmetic of row-major indices \<open>j * width + i\<close>, both on
  natural numbers and on 32-bit words.

  \<^item> \<open>Scalar\<close> is Bullet's \<open>btScalar\<close>, idealised as a real number: rounding is not
    modelled, so every statement about scalars is a statement about exact arithmetic.
  \<^item> \<open>uint\<close> is \<open>unsigned int\<close>, a 32-bit word whose \<open>+\<close> and \<open>*\<close> wrap around.
  \<^item> Reading or writing a vector outside its bounds is undefined behaviour in C++;
    here it is the value \<open>None\<close>, so that "the code stays inside its vectors" is a
    theorem and not an assumption.
  \<^item> The API errors that the design names (index out of range, topology violation,
    invalid parameter) are the datatype \<open>error\<close>; operations that can be refused
    return \<open>error + 'a\<close>.
\<close>

section \<open>Collections of facts\<close>

named_theorems sf_defs \<open>definitions unfolded to run a model on concrete input\<close>
named_theorems sf_inv \<open>facts that an operation keeps an invariant\<close>

section \<open>Types shared by all components\<close>

type_synonym Scalar = real
type_synonym uint = "32 word"
type_synonym cint = "32 word"

datatype error = IndexOutOfRange | TopologyViolation | InvalidParameter

type_synonym 'a result = "error + 'a"

section \<open>Checked vector access\<close>

definition at_opt :: "'a list \<Rightarrow> uint \<Rightarrow> 'a option" where
  "at_opt xs i = (if unat i < length xs then Some (xs ! unat i) else None)"

definition put_opt :: "'a list \<Rightarrow> uint \<Rightarrow> 'a \<Rightarrow> 'a list option" where
  "put_opt xs i v = (if unat i < length xs then Some (xs[unat i := v]) else None)"

definition map_back :: "('a \<Rightarrow> 'a) \<Rightarrow> 'a list \<Rightarrow> 'a list option" where
  "map_back f xs = (if xs = [] then None else Some (butlast xs @ [f (last xs)]))"

definition map_at :: "uint \<Rightarrow> ('a \<Rightarrow> 'a) \<Rightarrow> 'a list \<Rightarrow> 'a list option" where
  "map_at i f xs = (if unat i < length xs then Some (xs[unat i := f (xs ! unat i)]) else None)"

definition mapi :: "(nat \<Rightarrow> 'a \<Rightarrow> 'b) \<Rightarrow> 'a list \<Rightarrow> 'b list" where
  "mapi f xs = map (\<lambda>(i, x). f i x) (enumerate 0 xs)"

section \<open>Operations that can be refused\<close>

definition bindE :: "'a result \<Rightarrow> ('a \<Rightarrow> 'b result) \<Rightarrow> 'b result" where
  "bindE r f = (case r of Inl err \<Rightarrow> Inl err | Inr v \<Rightarrow> f v)"

definition dropE :: "('s \<times> 'a) result \<Rightarrow> 's result" where
  "dropE r = (case r of Inl err \<Rightarrow> Inl err | Inr (s, v) \<Rightarrow> Inr s)"

fun runE :: "('s \<Rightarrow> 's result) list \<Rightarrow> 's \<Rightarrow> 's result" where
  "runE [] s = Inr s"
| "runE (c # cs) s = bindE (c s) (runE cs)"

section \<open>Counting loops over an unsigned counter\<close>

lemma unat_inc:
  fixes i n :: "'a::len word"
  assumes "i < n"
  shows "unat (i + 1) = Suc (unat i)"
proof -
  from assms have "unat i < unat n" by (simp add: word_less_nat_alt)
  moreover have "unat n < 2 ^ LENGTH('a)" by (rule unsigned_less)
  ultimately have "unat i + 1 < 2 ^ LENGTH('a)" by linarith
  then show ?thesis by (simp add: unat_word_ariths)
qed

function uint_for :: "uint \<Rightarrow> uint \<Rightarrow> (uint \<Rightarrow> 's \<Rightarrow> 's) \<Rightarrow> 's \<Rightarrow> 's" where
  "uint_for i n body s = (if i < n then uint_for (i + 1) n body (body i s) else s)"
  by pat_completeness auto
termination
  by (relation "measure (\<lambda>(i, n, body, s). unat n - unat i)")
    (auto simp: unat_inc word_less_nat_alt)

function uint_forE :: "uint \<Rightarrow> uint \<Rightarrow> (uint \<Rightarrow> 's \<Rightarrow> 's option) \<Rightarrow> 's \<Rightarrow> 's option" where
  "uint_forE i n body s =
     (if i < n then Option.bind (body i s) (uint_forE (i + 1) n body) else Some s)"
  by pat_completeness auto
termination
  by (relation "measure (\<lambda>(i, n, body, s). unat n - unat i)")
    (auto simp: unat_inc word_less_nat_alt)

declare uint_for.simps [simp del] uint_forE.simps [simp del]

lemmas [sf_defs] = at_opt_def put_opt_def map_back_def map_at_def uint_for.simps uint_forE.simps
  bindE_def dropE_def mapi_def

section \<open>Sequences of operations that can be refused\<close>

lemma bindE_simps [simp]: "bindE (Inl err) f = Inl err" "bindE (Inr v) f = f v"
  by (simp_all add: bindE_def)

lemma dropE_simps [simp]: "dropE (Inl err) = Inl err" "dropE (Inr (s, v)) = Inr s"
  by (simp_all add: dropE_def)

lemma bindE_Inr_iff: "bindE r f = Inr y \<longleftrightarrow> (\<exists>v. r = Inr v \<and> f v = Inr y)"
  by (cases r) simp_all

lemma dropE_Inr_iff: "dropE r = Inr s \<longleftrightarrow> (\<exists>v. r = Inr (s, v))"
  by (cases r) auto

lemma runE_append: "runE (cs @ ds) s = bindE (runE cs s) (runE ds)"
  by (induction cs arbitrary: s) (simp_all add: bindE_def split: sum.splits)

lemma runE_inv:
  assumes "runE cs s = Inr s'" and "I s"
    and "\<And>c t t'. c \<in> set cs \<Longrightarrow> I t \<Longrightarrow> c t = Inr t' \<Longrightarrow> I t'"
  shows "I s'"
  using assms by (induction cs arbitrary: s) (auto simp: bindE_Inr_iff)

section \<open>Facts about checked access\<close>

lemma at_opt_Some_iff [simp]: "at_opt xs i = Some v \<longleftrightarrow> unat i < length xs \<and> v = xs ! unat i"
  by (auto simp: at_opt_def)

lemma at_opt_None_iff [simp]: "at_opt xs i = None \<longleftrightarrow> length xs \<le> unat i"
  by (auto simp: at_opt_def)

lemma put_opt_Some_iff [simp]:
  "put_opt xs i v = Some ys \<longleftrightarrow> unat i < length xs \<and> ys = xs[unat i := v]"
  by (auto simp: put_opt_def)

lemma put_opt_None_iff [simp]: "put_opt xs i v = None \<longleftrightarrow> length xs \<le> unat i"
  by (auto simp: put_opt_def)

lemma at_opt_in [simp]: "unat i < length xs \<Longrightarrow> at_opt xs i = Some (xs ! unat i)"
  by (simp add: at_opt_def)

lemma put_opt_in [simp]: "unat i < length xs \<Longrightarrow> put_opt xs i v = Some (xs[unat i := v])"
  by (simp add: put_opt_def)

lemma at_opt_out: "length xs \<le> unat i \<Longrightarrow> at_opt xs i = None"
  by (simp add: at_opt_def)

lemma put_opt_out: "length xs \<le> unat i \<Longrightarrow> put_opt xs i v = None"
  by (simp add: put_opt_def)

lemma list_update_prefix:
  "p < length xs \<Longrightarrow> (map v [0..<p] @ drop p xs)[p := v p] = map v [0..<Suc p] @ drop (Suc p) xs"
  by (simp add: list_update_append Cons_nth_drop_Suc [symmetric])

lemma put_opt_at_opt: "put_opt xs i v = Some ys \<Longrightarrow> at_opt ys i = Some v"
  by auto

lemma map_back_single [simp]: "map_back f [x] = Some [f x]"
  by (simp add: map_back_def)

lemma map_at_0_single [simp]: "map_at 0 f [x] = Some [f x]"
  by (simp add: map_at_def)

lemma map_back_length: "map_back f xs = Some ys \<Longrightarrow> length ys = length xs"
  by (auto simp: map_back_def split: if_splits)

lemma map_at_length: "map_at i f xs = Some ys \<Longrightarrow> length ys = length xs"
  by (auto simp: map_at_def split: if_splits)

lemma fold_snoc_map: "fold (\<lambda>x acc. acc @ [f x]) xs ys = ys @ map f xs"
  by (induction xs arbitrary: ys) simp_all

lemma length_mapi [simp]: "length (mapi f xs) = length xs"
  by (simp add: mapi_def)

lemma nth_mapi [simp]: "i < length xs \<Longrightarrow> mapi f xs ! i = f i (xs ! i)"
  by (simp add: mapi_def nth_enumerate_eq)

lemma unat_pos: "c \<noteq> (0 :: 'a::len word) \<Longrightarrow> 0 < unat c"
  by (simp add: unat_gt_0)

lemma unat_pred: "n \<noteq> (0 :: 'a::len word) \<Longrightarrow> unat (n - 1) + 1 = unat n"
  using unat_pos [of n] by (simp add: unat_minus_one)

lemma unat_of_nat_less:
  fixes n :: "'a::len word"
  shows "k < unat n \<Longrightarrow> unat (word_of_nat k :: 'a word) = k"
  by (simp add: le_unat_uoi [of k n])

lemma unat_of_nat_uint: "k < 2 ^ 32 \<Longrightarrow> unat (word_of_nat k :: uint) = k"
  by (simp add: unat_of_nat)

lemma unsigned_of_nat_less:
  fixes n :: "'a::len word"
  assumes "k < unat n"
  shows "(unsigned (word_of_nat k :: 'a word) :: real) = real k"
proof -
  have "(unsigned (word_of_nat k :: 'a word) :: real) = real (unat (word_of_nat k :: 'a word))"
    by simp
  also from assms have "\<dots> = real k" by (simp only: unat_of_nat_less)
  finally show ?thesis .
qed

section \<open>Facts about the loops\<close>

lemma uint_for_stop [simp]: "\<not> i < n \<Longrightarrow> uint_for i n body s = s"
  by (simp add: uint_for.simps)

lemma uint_for_step: "i < n \<Longrightarrow> uint_for i n body s = uint_for (i + 1) n body (body i s)"
  by (simp add: uint_for.simps [of i])

lemma uint_forE_stop [simp]: "\<not> i < n \<Longrightarrow> uint_forE i n body s = Some s"
  by (simp add: uint_forE.simps)

lemma uint_forE_step:
  "i < n \<Longrightarrow> uint_forE i n body s = Option.bind (body i s) (uint_forE (i + 1) n body)"
  by (simp add: uint_forE.simps [of i])

lemma uint_forE_fail: "i < n \<Longrightarrow> body i s = None \<Longrightarrow> uint_forE i n body s = None"
  by (simp add: uint_forE_step)

lemma word_inc_le:
  fixes i n :: "'a::len word"
  shows "i < n \<Longrightarrow> i + 1 \<le> n"
  by (simp add: word_le_nat_alt word_less_nat_alt unat_inc)

text \<open>The loop as a fold over the counter values it visits, in order.\<close>

lemma uint_for_fold:
  "uint_for i n body s = fold body (map word_of_nat [unat i..<unat n]) s"
proof (induction i n body s rule: uint_for.induct)
  case (1 i n body s)
  show ?case
  proof (cases "i < n")
    case True
    then have lt: "unat i < unat n" by (simp add: word_less_nat_alt)
    from True have "uint_for i n body s = uint_for (i + 1) n body (body i s)"
      by (rule uint_for_step)
    also from True have "\<dots> = fold body (map word_of_nat [unat (i + 1)..<unat n]) (body i s)"
      by (rule "1.IH")
    also from lt True have "\<dots> = fold body (map word_of_nat [unat i..<unat n]) s"
      by (simp add: unat_inc upt_conv_Cons)
    finally show ?thesis .
  next
    case False
    then show ?thesis by (simp add: word_less_nat_alt)
  qed
qed

text \<open>
  A loop whose body cannot fail is the pure loop.
\<close>

lemma uint_forE_pure: "uint_forE i n (\<lambda>k t. Some (f k t)) s = Some (uint_for i n f s)"
proof (induction i n f s rule: uint_for.induct)
  case (1 i n f s)
  then show ?case
    by (cases "i < n") (simp_all add: uint_forE_step uint_for_step)
qed

text \<open>
  Total correctness of a failing loop from an invariant indexed by the counter: if the
  invariant holds on entry and every iteration inside the range succeeds and re-establishes
  it for the next counter value, the loop returns a state that satisfies it at the bound.
\<close>

lemma uint_forE_rule:
  assumes "I i s" and "i \<le> n"
    and step: "\<And>k t. i \<le> k \<Longrightarrow> k < n \<Longrightarrow> I k t \<Longrightarrow> \<exists>t'. body k t = Some t' \<and> I (k + 1) t'"
  shows "\<exists>s'. uint_forE i n body s = Some s' \<and> I n s'"
  using assms
proof (induction i n body s rule: uint_forE.induct)
  case (1 i n body s)
  show ?case
  proof (cases "i < n")
    case True
    with "1.prems" obtain t' where t': "body i s = Some t'" "I (i + 1) t'"
      by blast
    have le: "i + 1 \<le> n" using True by (rule word_inc_le)
    have "i \<le> i + 1" using True by (simp add: word_le_nat_alt unat_inc)
    then have "\<exists>s'. uint_forE (i + 1) n body t' = Some s' \<and> I n s'"
      using True t' le "1.prems"(3) by (intro "1.IH") auto
    with True t' show ?thesis by (simp add: uint_forE_step)
  next
    case False
    with "1.prems" have "i = n" by simp
    with "1.prems" show ?thesis by simp
  qed
qed

text \<open>
  Partial correctness in the other direction: a loop that returned has run every
  iteration of its range successfully, each from a state that satisfies whatever the
  iterations keep true, and the final state satisfies it as well.
\<close>

lemma uint_forE_Some_inv:
  assumes "uint_forE i n body s = Some s'" and "I s"
    and pres: "\<And>k t t'. k < n \<Longrightarrow> I t \<Longrightarrow> body k t = Some t' \<Longrightarrow> I t'"
  shows "I s'"
  using assms
proof (induction i n body s rule: uint_forE.induct)
  case (1 i n body s)
  show ?case
  proof (cases "i < n")
    case True
    with "1.prems"(1) obtain t where t: "body i s = Some t" "uint_forE (i + 1) n body t = Some s'"
      by (auto simp: uint_forE_step bind_eq_Some_conv)
    from True "1.prems"(2) t(1) have "I t" by (rule "1.prems"(3))
    from True t this "1.prems"(3) show ?thesis by (rule "1.IH")
  next
    case False
    with "1.prems" show ?thesis by simp
  qed
qed

lemma uint_forE_Some_iter:
  assumes "uint_forE i n body s = Some s'" and "I s"
    and pres: "\<And>k t t'. k < n \<Longrightarrow> I t \<Longrightarrow> body k t = Some t' \<Longrightarrow> I t'"
    and k: "i \<le> k" "k < n"
  shows "\<exists>t t'. I t \<and> body k t = Some t'"
  using assms
proof (induction i n body s rule: uint_forE.induct)
  case (1 i n body s)
  from "1.prems"(4,5) have lt: "i < n" by simp
  with "1.prems"(1) obtain t where t: "body i s = Some t" "uint_forE (i + 1) n body t = Some s'"
    by (auto simp: uint_forE_step bind_eq_Some_conv)
  show ?case
  proof (cases "k = i")
    case True
    with t "1.prems"(2) show ?thesis by blast
  next
    case False
    with "1.prems"(4) have "i < k" by auto
    then have le: "i + 1 \<le> k" by (rule word_inc_le)
    from lt "1.prems"(2) t(1) have "I t" by (rule "1.prems"(3))
    with lt t show ?thesis using "1.prems"(3) le "1.prems"(5) by (rule "1.IH")
  qed
qed

section \<open>Fractions of a count\<close>

lemma frac_bounds:
  fixes k m :: nat
  assumes "k < m"
  shows "0 \<le> real k / real m" and "real k / real m < 1"
  using assms by simp_all

lemma frac_less:
  fixes i j m :: nat
  assumes "i < j" and "j < m"
  shows "real i / real m < real j / real m"
  using assms by (simp add: divide_strict_right_mono)

section \<open>Row-major indices\<close>

lemma idx_bound:
  fixes j i :: nat
  assumes "j < l" and "i < r"
  shows "j * r + i < l * r"
proof -
  from assms have "j * r + i < j * r + r" by simp
  also have "\<dots> = Suc j * r" by simp
  also from assms have "\<dots> \<le> l * r" by (intro mult_le_mono1) simp
  finally show ?thesis .
qed

lemma idx_inj:
  fixes j i j' i' :: nat
  assumes "i < r" and "i' < r" and "j * r + i = j' * r + i'"
  shows "j = j' \<and> i = i'"
proof -
  from assms(1,2) have "(j * r + i) div r = j" and "(j' * r + i') div r = j'"
    by simp_all
  with assms(3) have "j = j'" by metis
  with assms(3) show ?thesis by simp
qed

text \<open>
  The index computed on 32-bit words is the mathematical one exactly when the size of the
  grid fits a word.
\<close>

lemma unat_idx:
  fixes j i l r :: "'a::len word"
  assumes "j < l" and "i < r" and "unat l * unat r < 2 ^ LENGTH('a)"
  shows "unat (j * r + i) = unat j * unat r + unat i"
proof -
  from assms(1,2) have "unat j * unat r + unat i < unat l * unat r"
    by (intro idx_bound) (simp_all add: word_less_nat_alt)
  with assms(3) have lt: "unat j * unat r + unat i < 2 ^ LENGTH('a)" by simp
  then have "unat j * unat r < 2 ^ LENGTH('a)" by simp
  then have "unat (j * r) = unat j * unat r" by (simp add: unat_mult_lem)
  with lt show ?thesis by (simp add: unat_word_ariths)
qed

lemma unat_idx_less:
  fixes j i l r :: "'a::len word"
  assumes "j < l" and "i < r" and "unat l * unat r < 2 ^ LENGTH('a)"
  shows "unat (j * r + i) < unat (l * r)"
proof -
  from assms(3) have "unat (l * r) = unat l * unat r" by (simp add: unat_mult_lem)
  moreover from assms(1,2) have "unat j * unat r + unat i < unat l * unat r"
    by (intro idx_bound) (simp_all add: word_less_nat_alt)
  ultimately show ?thesis using assms by (simp add: unat_idx)
qed

text \<open>
  When the size of the grid does not fit a word, the wrapped size \<open>l * r\<close> is itself one
  of the indices the nested loop computes: the cell just past the end of a vector of that
  size.
\<close>

lemma idx_overflow_escapes:
  fixes l r :: "'a::len word"
  assumes "2 ^ LENGTH('a) \<le> unat l * unat r"
  shows "\<exists>j i. j < l \<and> i < r \<and> unat (j * r + i) = unat (l * r)"
proof -
  let ?N = "unat (l * r)" and ?R = "unat r"
  have N: "?N < 2 ^ LENGTH('a)" by (rule unsigned_less)
  with assms have NL: "?N < unat l * ?R" by linarith
  then have R: "0 < ?R" by (cases "?R = 0") simp_all
  from NL R have j0: "?N div ?R < unat l" by (simp add: less_mult_imp_div_less)
  from R have i0: "?N mod ?R < ?R" by simp
  let ?j = "word_of_nat (?N div ?R) :: 'a word" and ?i = "word_of_nat (?N mod ?R) :: 'a word"
  from j0 have uj: "unat ?j = ?N div ?R" by (rule unat_of_nat_less)
  from i0 have ui: "unat ?i = ?N mod ?R" by (rule unat_of_nat_less)
  have "unat (?j * r + ?i) = (unat ?j * ?R + unat ?i) mod 2 ^ LENGTH('a)"
    by (simp only: unat_word_ariths mod_simps)
  also have "\<dots> = ?N" using N by (simp add: uj ui)
  finally have "unat (?j * r + ?i) = ?N" .
  moreover from j0 i0 have "?j < l" "?i < r" by (simp_all add: word_less_nat_alt uj ui)
  ultimately show ?thesis by blast
qed

section \<open>The iterations of the loops\<close>

lemma fold_append_concat: "fold (\<lambda>x acc. acc @ g x) xs ys = ys @ concat (map g xs)"
  by (induction xs arbitrary: ys) simp_all

lemma uint_forE_pure_fun: "uint_forE i n (\<lambda>k t. Some (f k t)) = (\<lambda>s. Some (uint_for i n f s))"
  by (rule ext) (rule uint_forE_pure)

lemma uint_for_trace: "uint_for i n (\<lambda>k ks. ks @ [f k]) ys = ys @ map (f \<circ> word_of_nat) [unat i..<unat n]"
  by (simp add: uint_for_fold fold_snoc_map [of f])


section \<open>Extrema of monotone images\<close>

lemma Min_image_mono:
  fixes f :: "real \<Rightarrow> real"
  assumes "finite A" and "A \<noteq> {}" and "\<And>x y. x \<le> y \<Longrightarrow> f x \<le> f y"
  shows "f (Min A) = Min (f ` A)"
  using assms by (intro Min_eqI [symmetric]) auto

lemma Max_image_antimono:
  fixes f :: "real \<Rightarrow> real"
  assumes "finite A" and "A \<noteq> {}" and "\<And>x y. x \<le> y \<Longrightarrow> f y \<le> f x"
  shows "f (Min A) = Max (f ` A)"
  using assms by (intro Max_eqI [symmetric]) auto

end
