(* ===== verification/Bullet_LinearMath.thy ===== *)
theory Bullet_LinearMath
  imports SF_Prelude
begin

text \<open>
  The part of Bullet's linear-math library that the Stonefish sources call:
  \<open>btVector3\<close> (alias \<open>Vector3\<close>) with its arithmetic, \<open>dot\<close>, \<open>cross\<close>, \<open>length\<close> and
  \<open>lerp\<close>; \<open>btMatrix3x3\<close> with \<open>getColumn\<close>; \<open>btTransform\<close> with \<open>getBasis\<close> and
  \<open>getOrigin\<close>; \<open>btClamp\<close>; the constant \<open>BT_LARGE_FLOAT\<close>; and the degree-to-radian
  conversion \<open>UnitSystem::Angle\<close>. Bullet is a library the sources only call, so these
  definitions state the meaning of the calls; the lemmas are the algebra the sensor and
  the multibody proofs share.

  Vectors form an additive group and a real vector space (the type-class instances
  below), so the library's \<open>algebra_simps\<close> and \<open>scaleR\<close> lemmas apply to them.
  \<open>getColumn\<close> is meant for the indices 0, 1, 2, the only ones the sources use.
\<close>

section \<open>Vectors\<close>

datatype Vector3 = Vector3 (getX: Scalar) (getY: Scalar) (getZ: Scalar)

instantiation Vector3 :: ab_group_add
begin

definition zero_Vector3 :: Vector3 where
  "zero_Vector3 = Vector3 0 0 0"

definition plus_Vector3 :: "Vector3 \<Rightarrow> Vector3 \<Rightarrow> Vector3" where
  "plus_Vector3 a b = Vector3 (getX a + getX b) (getY a + getY b) (getZ a + getZ b)"

definition uminus_Vector3 :: "Vector3 \<Rightarrow> Vector3" where
  "uminus_Vector3 a = Vector3 (- getX a) (- getY a) (- getZ a)"

definition minus_Vector3 :: "Vector3 \<Rightarrow> Vector3 \<Rightarrow> Vector3" where
  "minus_Vector3 a b = Vector3 (getX a - getX b) (getY a - getY b) (getZ a - getZ b)"

instance
  by standard
    (simp_all add: zero_Vector3_def plus_Vector3_def uminus_Vector3_def minus_Vector3_def)

end

instantiation Vector3 :: real_vector
begin

definition scaleR_Vector3 :: "real \<Rightarrow> Vector3 \<Rightarrow> Vector3" where
  "scaleR_Vector3 k a = Vector3 (k * getX a) (k * getY a) (k * getZ a)"

instance
  by standard
    (simp_all add: scaleR_Vector3_def plus_Vector3_def algebra_simps)

end

definition dot :: "Vector3 \<Rightarrow> Vector3 \<Rightarrow> Scalar" where
  "dot a b = getX a * getX b + getY a * getY b + getZ a * getZ b"

definition cross :: "Vector3 \<Rightarrow> Vector3 \<Rightarrow> Vector3" where
  "cross a b = Vector3 (getY a * getZ b - getZ a * getY b)
                       (getZ a * getX b - getX a * getZ b)
                       (getX a * getY b - getY a * getX b)"

definition length2 :: "Vector3 \<Rightarrow> Scalar" where
  "length2 a = dot a a"

definition length_v :: "Vector3 \<Rightarrow> Scalar" where
  "length_v a = sqrt (length2 a)"

definition lerp :: "Vector3 \<Rightarrow> Vector3 \<Rightarrow> Scalar \<Rightarrow> Vector3" where
  "lerp a b t = Vector3 (getX a + (getX b - getX a) * t)
                        (getY a + (getY b - getY a) * t)
                        (getZ a + (getZ b - getZ a) * t)"

section \<open>Matrices and transforms\<close>

datatype Matrix3x3 = Matrix3x3 (row0: Vector3) (row1: Vector3) (row2: Vector3)

definition component :: "Vector3 \<Rightarrow> int \<Rightarrow> Scalar" where
  "component a i = (if i = 0 then getX a else if i = 1 then getY a else getZ a)"

definition getColumn :: "Matrix3x3 \<Rightarrow> int \<Rightarrow> Vector3" where
  "getColumn m i = Vector3 (component (row0 m) i) (component (row1 m) i) (component (row2 m) i)"

record Transform =
  getBasis :: Matrix3x3
  getOrigin :: Vector3

definition identity_matrix :: Matrix3x3 where
  "identity_matrix = Matrix3x3 (Vector3 1 0 0) (Vector3 0 1 0) (Vector3 0 0 1)"

definition identity_transform :: Transform where
  "identity_transform = \<lparr>getBasis = identity_matrix, getOrigin = 0\<rparr>"

text \<open>A rotation matrix: its columns are unit vectors, orthogonal to each other.\<close>

definition orthonormal :: "Matrix3x3 \<Rightarrow> bool" where
  "orthonormal m \<longleftrightarrow>
     dot (getColumn m 0) (getColumn m 0) = 1 \<and> dot (getColumn m 1) (getColumn m 1) = 1 \<and>
     dot (getColumn m 2) (getColumn m 2) = 1 \<and> dot (getColumn m 0) (getColumn m 1) = 0 \<and>
     dot (getColumn m 0) (getColumn m 2) = 0 \<and> dot (getColumn m 1) (getColumn m 2) = 0"

section \<open>Scalars\<close>

definition BT_LARGE_FLOAT :: Scalar where
  "BT_LARGE_FLOAT = 10 ^ 30"

definition btClamp :: "Scalar \<Rightarrow> Scalar \<Rightarrow> Scalar \<Rightarrow> Scalar" where
  "btClamp a lb ub = (if a < lb then lb else if ub < a then ub else a)"

definition Angle :: "bool \<Rightarrow> Scalar \<Rightarrow> Scalar" where
  "Angle degrees a = (if degrees then a / 180 * pi else a)"

lemmas vec_defs = zero_Vector3_def plus_Vector3_def uminus_Vector3_def minus_Vector3_def
  scaleR_Vector3_def dot_def cross_def length2_def lerp_def

lemmas [sf_defs] = vec_defs length_v_def component_def getColumn_def identity_matrix_def
  identity_transform_def btClamp_def Angle_def

section \<open>Component-wise reasoning\<close>

lemma Vector3_eq_iff: "a = b \<longleftrightarrow> getX a = getX b \<and> getY a = getY b \<and> getZ a = getZ b"
  by (cases a; cases b) simp

lemma getX_simps [simp]:
  "getX 0 = 0" "getX (a + b) = getX a + getX b" "getX (a - b) = getX a - getX b"
  "getX (- a) = - getX a" "getX (k *\<^sub>R a) = k * getX a"
  by (simp_all add: vec_defs)

lemma getY_simps [simp]:
  "getY 0 = 0" "getY (a + b) = getY a + getY b" "getY (a - b) = getY a - getY b"
  "getY (- a) = - getY a" "getY (k *\<^sub>R a) = k * getY a"
  by (simp_all add: vec_defs)

lemma getZ_simps [simp]:
  "getZ 0 = 0" "getZ (a + b) = getZ a + getZ b" "getZ (a - b) = getZ a - getZ b"
  "getZ (- a) = - getZ a" "getZ (k *\<^sub>R a) = k * getZ a"
  by (simp_all add: vec_defs)

section \<open>Dot and cross product\<close>

lemma dot_commute: "dot a b = dot b a"
  by (simp add: dot_def mult.commute)

lemma dot_add_left: "dot (a + b) c = dot a c + dot b c"
  by (simp add: dot_def algebra_simps)

lemma dot_add_right: "dot a (b + c) = dot a b + dot a c"
  by (simp add: dot_def algebra_simps)

lemma dot_scale_left: "dot (k *\<^sub>R a) b = k * dot a b"
  by (simp add: dot_def algebra_simps)

lemma dot_scale_right: "dot a (k *\<^sub>R b) = k * dot a b"
  by (simp add: dot_def algebra_simps)

lemmas dot_linear = dot_add_left dot_add_right dot_scale_left dot_scale_right

lemma dot_zero [simp]: "dot 0 a = 0" "dot a 0 = 0"
  by (simp_all add: dot_def)

lemma length2_nonneg [simp]: "0 \<le> length2 a"
  by (simp add: length2_def dot_def)

lemma length2_eq_0_iff: "length2 a = 0 \<longleftrightarrow> a = 0"
proof
  assume "length2 a = 0"
  then have "getX a * getX a + (getY a * getY a + getZ a * getZ a) = 0"
    by (simp add: length2_def dot_def)
  then have "getX a * getX a = 0 \<and> getY a * getY a + getZ a * getZ a = 0"
    by (intro iffD1 [OF add_nonneg_eq_0_iff]) simp_all
  moreover from this have "getY a * getY a = 0 \<and> getZ a * getZ a = 0"
    by (intro iffD1 [OF add_nonneg_eq_0_iff]) simp_all
  ultimately show "a = 0" by (simp add: Vector3_eq_iff)
qed (simp add: length2_def)

lemma cross_orthogonal_left: "dot a (cross a b) = 0"
  by (simp add: dot_def cross_def algebra_simps)

lemma cross_orthogonal_right: "dot b (cross a b) = 0"
  by (simp add: dot_def cross_def algebra_simps)

lemma cross_self [simp]: "cross a a = 0"
  by (simp add: cross_def zero_Vector3_def)

lemma cross_anticommute: "cross a b = - cross b a"
  by (simp add: Vector3_eq_iff cross_def)

section \<open>Length\<close>

lemma length_v_nonneg [simp]: "0 \<le> length_v a"
  by (simp add: length_v_def)

lemma length_v_zero [simp]: "length_v 0 = 0"
  by (simp add: length_v_def length2_def)

lemma length2_scale: "length2 (k *\<^sub>R a) = k\<^sup>2 * length2 a"
  by (simp add: length2_def dot_linear power2_eq_square)

lemma length_v_scale: "length_v (k *\<^sub>R a) = \<bar>k\<bar> * length_v a"
  by (simp add: length_v_def length2_scale real_sqrt_mult)

lemma length_v_unit: "length2 a = 1 \<Longrightarrow> length_v a = 1"
  by (simp add: length_v_def)

section \<open>Interpolation\<close>

lemma lerp_alt: "lerp a b t = a + t *\<^sub>R (b - a)"
  by (simp add: Vector3_eq_iff lerp_def mult.commute)

lemma lerp_0 [simp]: "lerp a b 0 = a"
  by (simp add: lerp_alt)

lemma lerp_1 [simp]: "lerp a b 1 = b"
  by (simp add: lerp_alt)

text \<open>
  Interpolating between two points of the ray \<open>o + s d\<close> stays on the ray: the parameter
  is interpolated.
\<close>

lemma lerp_on_ray:
  "lerp (p + a *\<^sub>R d) (p + b *\<^sub>R d) t - p = (a + (b - a) * t) *\<^sub>R d"
  by (simp add: Vector3_eq_iff lerp_def algebra_simps)

section \<open>Columns of a matrix\<close>

lemma getColumn_identity [simp]:
  "getColumn identity_matrix 0 = Vector3 1 0 0"
  "getColumn identity_matrix 1 = Vector3 0 1 0"
  "getColumn identity_matrix 2 = Vector3 0 0 1"
  by (simp_all add: getColumn_def identity_matrix_def component_def)

lemma orthonormal_identity [simp]: "orthonormal identity_matrix"
  by (simp add: orthonormal_def dot_def)

lemma orthonormalD:
  assumes "orthonormal m"
  shows "dot (getColumn m 0) (getColumn m 0) = 1" "dot (getColumn m 1) (getColumn m 1) = 1"
    "dot (getColumn m 2) (getColumn m 2) = 1" "dot (getColumn m 0) (getColumn m 1) = 0"
    "dot (getColumn m 0) (getColumn m 2) = 0" "dot (getColumn m 1) (getColumn m 2) = 0"
    "dot (getColumn m 1) (getColumn m 0) = 0" "dot (getColumn m 2) (getColumn m 0) = 0"
    "dot (getColumn m 2) (getColumn m 1) = 0"
  using assms by (simp_all add: orthonormal_def dot_commute)

section \<open>Clamping and constants\<close>

lemma BT_LARGE_FLOAT_pos [simp]: "0 < BT_LARGE_FLOAT"
  by (simp add: BT_LARGE_FLOAT_def)

lemma btClamp_bounds: "lb \<le> ub \<Longrightarrow> lb \<le> btClamp a lb ub \<and> btClamp a lb ub \<le> ub"
  by (simp add: btClamp_def)

lemma btClamp_id: "lb \<le> a \<Longrightarrow> a \<le> ub \<Longrightarrow> btClamp a lb ub = a"
  by (simp add: btClamp_def)

lemma btClamp_idem: "lb \<le> ub \<Longrightarrow> btClamp (btClamp a lb ub) lb ub = btClamp a lb ub"
  by (simp add: btClamp_def)

lemma cos_sin_square [simp]:
  fixes a :: real
  shows "cos a * cos a + sin a * sin a = 1" "sin a * sin a + cos a * cos a = 1"
  using sin_cos_squared_add [of a] by (simp_all add: power2_eq_square add.commute)

lemma Angle_360 [simp]: "Angle True 360 = 2 * pi"
  by (simp add: Angle_def)

lemma Angle_nonneg: "0 \<le> a \<Longrightarrow> 0 \<le> Angle d a"
  by (simp add: Angle_def)


lemma triple_cyclic: "dot (cross a b) c = dot (cross b c) a"
  by (simp add: dot_def cross_def algebra_simps)


lemma cross_dot [simp]: "dot (cross a b) a = 0" "dot (cross a b) b = 0"
  by (simp_all add: dot_def cross_def algebra_simps)

end
