(* ===== verification/LiDAR360_Sensor.thy ===== *)
theory LiDAR360_Sensor
  imports Bullet_LinearMath
begin

text \<open>
  The 360-degree LiDAR of \<open>Library/src/sensors/scalar/LiDAR360.cpp\<close>: a grid of
  \<open>layers \<times> resolution\<close> beams, one distance per beam, stored row by row in the vector
  \<open>distances\<close> at index \<open>j * resolution + i\<close>.

  \<^item> The record \<open>LiDAR360\<close> holds the members the class reads and writes. Members of the
    base classes that the file uses are fields of \<open>LinkSensor\<close>; \<open>min_range\<close> and
    \<open>max_range\<close> are \<open>None\<close> until \<open>setRange\<close> assigns them, as the constructor leaves them
    unset.
  \<^item> \<open>LiDAR360_new\<close> is the constructor, \<open>InternalUpdate\<close>, \<open>Render\<close>, \<open>setRange\<close>,
    \<open>setNoise\<close> and the getters are the methods, each with the loops and the vector
    accesses of the source. A vector access outside its bounds makes the operation return
    \<open>None\<close>.
  \<^item> The collision world is a parameter: \<open>RayTest\<close> takes the two end points of a ray and
    returns the hit fraction of the closest hit, if any. The frame of the sensor
    (\<open>getSensorFrame\<close>), the flag \<open>isRenderable\<close> and the items of \<open>Sensor::Render\<close> are
    parameters as well. Console output is not modelled.
  \<^item> \<open>LiDAR360_inv\<close> is the class invariant: the three vectors have the sizes the grid
    needs, the angle tables hold the values the constructor computed, and there is
    exactly one channel.
  \<^item> The lemmas of this theory characterise one scan: when \<open>InternalUpdate\<close> returns,
    what each cell holds, and that the index of a beam stays within the vector exactly
    when the size of the grid fits 32 bits. The other properties of the sensor are in
    \<open>LiDAR360_Properties\<close>.
\<close>

section \<open>Data\<close>

datatype QuantityType = QuantityType_LENGTH

datatype ScalarSensorType = ScalarSensorType_LiDAR360

datatype RenderableType = SENSOR_LINES | RENDERABLE_OTHER

record SensorChannel =
  channel_name :: string
  channel_type :: QuantityType
  rangeMin :: Scalar
  rangeMax :: Scalar
  stdDev :: Scalar

record Sample =
  nDim :: uint
  sample_data :: "Scalar list"

record Renderable =
  rtype :: RenderableType
  model :: Transform
  points :: "Vector3 list"

record LinkSensor =
  uniqueName :: string
  frequency :: Scalar
  historyLength :: int
  channels :: "SensorChannel list"

record LiDAR360 = LinkSensor +
  ang_range_hori :: Scalar
  ang_range_vert :: Scalar
  resolution :: uint
  layers :: uint
  angles_hori :: "Scalar list"
  angles_vert :: "Scalar list"
  distances :: "Scalar list"
  max_range :: "Scalar option"
  min_range :: "Scalar option"

type_synonym RayTest = "Vector3 \<Rightarrow> Vector3 \<Rightarrow> Scalar option"

section \<open>Constructor\<close>

definition angle_at :: "uint \<Rightarrow> uint \<Rightarrow> Scalar \<Rightarrow> Scalar" where
  "angle_at i n rng = real (unat i) / real (unat n) * rng - 0.5 * rng"

definition precompute_angles :: "uint \<Rightarrow> Scalar \<Rightarrow> Scalar list" where
  "precompute_angles n rng = uint_for 0 n (\<lambda>i acc. acc @ [angle_at i n rng]) []"

definition LiDAR360_new :: "string \<Rightarrow> uint \<Rightarrow> uint \<Rightarrow> Scalar \<Rightarrow> int \<Rightarrow> LiDAR360" where
  "LiDAR360_new name res lay freq hist =
     (let hori = Angle True 360; vert = Angle True (424 / 10) in
      \<lparr>uniqueName = name, frequency = freq, historyLength = hist,
       channels = [\<lparr>channel_name = ''Distance'', channel_type = QuantityType_LENGTH,
                    rangeMin = 0, rangeMax = BT_LARGE_FLOAT, stdDev = 0\<rparr>],
       ang_range_hori = hori, ang_range_vert = vert,
       resolution = res, layers = lay,
       angles_hori = precompute_angles res hori,
       angles_vert = precompute_angles lay vert,
       distances = replicate (unat (res * lay)) 0,
       max_range = None, min_range = None\<rparr>)"

section \<open>Measurement\<close>

definition beam_dir :: "Transform \<Rightarrow> Scalar \<Rightarrow> Scalar \<Rightarrow> Vector3" where
  "beam_dir mbTrans hAngle vAngle =
     cos hAngle *\<^sub>R getColumn (getBasis mbTrans) 0 + sin hAngle *\<^sub>R getColumn (getBasis mbTrans) 1
       + sin vAngle *\<^sub>R getColumn (getBasis mbTrans) 2"

definition measure_beam :: "RayTest \<Rightarrow> Transform \<Rightarrow> SensorChannel \<Rightarrow> Vector3 \<Rightarrow> Scalar" where
  "measure_beam rayTest mbTrans ch dir =
     (let p_from = getOrigin mbTrans + rangeMin ch *\<^sub>R dir;
          p_to = getOrigin mbTrans + rangeMax ch *\<^sub>R dir
      in case rayTest p_from p_to of
           Some fraction \<Rightarrow> length_v (lerp p_from p_to fraction - getOrigin mbTrans)
         | None \<Rightarrow> 0)"

definition beam_index :: "LiDAR360 \<Rightarrow> uint \<Rightarrow> uint \<Rightarrow> uint" where
  "beam_index s j i = j * resolution s + i"

definition update_beam ::
  "RayTest \<Rightarrow> Transform \<Rightarrow> Scalar \<Rightarrow> uint \<Rightarrow> uint \<Rightarrow> LiDAR360 \<Rightarrow> LiDAR360 option" where
  "update_beam rayTest mbTrans vAngle j i s = do {
     hAngle \<leftarrow> at_opt (angles_hori s) i;
     ch \<leftarrow> at_opt (channels s) 0;
     ds \<leftarrow> put_opt (distances s) (beam_index s j i)
            (measure_beam rayTest mbTrans ch (beam_dir mbTrans hAngle vAngle));
     Some (s\<lparr>distances := ds\<rparr>)
   }"

definition update_layer :: "RayTest \<Rightarrow> Transform \<Rightarrow> uint \<Rightarrow> LiDAR360 \<Rightarrow> LiDAR360 option" where
  "update_layer rayTest mbTrans j s = do {
     vAngle \<leftarrow> at_opt (angles_vert s) j;
     uint_forE 0 (resolution s) (update_beam rayTest mbTrans vAngle j) s
   }"

definition Sample_new :: "uint \<Rightarrow> Scalar list \<Rightarrow> Sample option" where
  "Sample_new n xs =
     (if unat n \<le> length xs then Some \<lparr>nDim = n, sample_data = take (unat n) xs\<rparr> else None)"

definition InternalUpdate ::
  "RayTest \<Rightarrow> Transform \<Rightarrow> Scalar \<Rightarrow> LiDAR360 \<Rightarrow> (LiDAR360 \<times> Sample) option" where
  "InternalUpdate rayTest mbTrans dt s = do {
     s' \<leftarrow> uint_forE 0 (layers s) (update_layer rayTest mbTrans) s;
     smp \<leftarrow> Sample_new (resolution s' * layers s') (distances s');
     Some (s', smp)
   }"

section \<open>Rendering\<close>

definition render_dir :: "Scalar \<Rightarrow> Scalar \<Rightarrow> Vector3" where
  "render_dir vAngle hAngle =
     Vector3 (cos vAngle * cos hAngle) (cos vAngle * sin hAngle) (sin vAngle)"

definition render_beam :: "LiDAR360 \<Rightarrow> Scalar \<Rightarrow> uint \<Rightarrow> uint \<Rightarrow> Vector3 list \<Rightarrow> Vector3 list option" where
  "render_beam s vAngle j i pts = do {
     hAngle \<leftarrow> at_opt (angles_hori s) i;
     d \<leftarrow> at_opt (distances s) (beam_index s j i);
     Some (pts @ [Vector3 0 0 0,
                  Vector3 (getX (render_dir vAngle hAngle) * d)
                          (getY (render_dir vAngle hAngle) * d)
                          (getZ (render_dir vAngle hAngle) * d)])
   }"

definition render_layer :: "LiDAR360 \<Rightarrow> uint \<Rightarrow> Vector3 list \<Rightarrow> Vector3 list option" where
  "render_layer s j pts = do {
     vAngle \<leftarrow> at_opt (angles_vert s) j;
     uint_forE 0 (resolution s) (render_beam s vAngle j) pts
   }"

definition Render :: "Renderable list \<Rightarrow> bool \<Rightarrow> Transform \<Rightarrow> LiDAR360 \<Rightarrow> Renderable list option" where
  "Render items isRenderable sensorFrame s =
     (if isRenderable then do {
        pts \<leftarrow> uint_forE 0 (layers s) (render_layer s) [];
        Some (items @ [\<lparr>rtype = SENSOR_LINES, model = sensorFrame, points = pts\<rparr>])
      } else Some items)"

section \<open>Settings and getters\<close>

definition setRange :: "Scalar \<Rightarrow> Scalar \<Rightarrow> LiDAR360 \<Rightarrow> LiDAR360 option" where
  "setRange range_min range_max s =
     (let lo = btClamp range_min 0 BT_LARGE_FLOAT;
          hi = btClamp range_max 0 BT_LARGE_FLOAT
      in do {
        cs \<leftarrow> map_back (\<lambda>c. c\<lparr>rangeMin := lo\<rparr>) (channels s);
        cs' \<leftarrow> map_back (\<lambda>c. c\<lparr>rangeMax := hi\<rparr>) cs;
        Some (s\<lparr>channels := cs', max_range := Some hi, min_range := Some lo\<rparr>)
      })"

definition setNoise :: "Scalar \<Rightarrow> LiDAR360 \<Rightarrow> LiDAR360 option" where
  "setNoise rangeStdDev s = do {
     cs \<leftarrow> map_at 0 (\<lambda>c. c\<lparr>stdDev := btClamp rangeStdDev 0 BT_LARGE_FLOAT\<rparr>) (channels s);
     Some (s\<lparr>channels := cs\<rparr>)
   }"

definition getScalarSensorType :: "LiDAR360 \<Rightarrow> ScalarSensorType" where
  "getScalarSensorType s = ScalarSensorType_LiDAR360"

definition getAngleRangeHori :: "LiDAR360 \<Rightarrow> Scalar" where
  "getAngleRangeHori s = ang_range_hori s"

definition getAngleRangeVert :: "LiDAR360 \<Rightarrow> Scalar" where
  "getAngleRangeVert s = ang_range_vert s"

section \<open>Invariant and reference definitions\<close>

definition angle_table :: "uint \<Rightarrow> Scalar \<Rightarrow> Scalar list" where
  "angle_table n rng = map (\<lambda>k. real k / real (unat n) * rng - rng / 2) [0..<unat n]"

definition LiDAR360_inv :: "LiDAR360 \<Rightarrow> bool" where
  "LiDAR360_inv s \<longleftrightarrow>
     angles_hori s = angle_table (resolution s) (ang_range_hori s) \<and>
     angles_vert s = angle_table (layers s) (ang_range_vert s) \<and>
     length (distances s) = unat (resolution s * layers s) \<and>
     length (channels s) = 1"

definition no_overflow :: "LiDAR360 \<Rightarrow> bool" where
  "no_overflow s \<longleftrightarrow> unat (layers s) * unat (resolution s) < 2 ^ 32"

text \<open>
  The specification of one scan: the value of beam \<open>(j, i)\<close> is the measurement along the
  direction given by the \<open>i\<close>-th horizontal and the \<open>j\<close>-th vertical angle, with the range
  of the first channel; \<open>scan\<close> lists the beams row by row. \<open>scanned s p\<close> is the sensor
  after the first \<open>p\<close> cells have been written.
\<close>

definition beam_value :: "RayTest \<Rightarrow> Transform \<Rightarrow> LiDAR360 \<Rightarrow> nat \<Rightarrow> nat \<Rightarrow> Scalar" where
  "beam_value rayTest mbTrans s j i =
     measure_beam rayTest mbTrans (channels s ! 0)
       (beam_dir mbTrans (angles_hori s ! i) (angles_vert s ! j))"

definition cell_value :: "RayTest \<Rightarrow> Transform \<Rightarrow> LiDAR360 \<Rightarrow> nat \<Rightarrow> Scalar" where
  "cell_value rayTest mbTrans s p =
     beam_value rayTest mbTrans s (p div unat (resolution s)) (p mod unat (resolution s))"

definition scan :: "RayTest \<Rightarrow> Transform \<Rightarrow> LiDAR360 \<Rightarrow> Scalar list" where
  "scan rayTest mbTrans s =
     map (cell_value rayTest mbTrans s) [0..<unat (layers s) * unat (resolution s)]"

definition same_setup :: "LiDAR360 \<Rightarrow> LiDAR360 \<Rightarrow> bool" where
  "same_setup s t \<longleftrightarrow> (\<exists>ds. t = s\<lparr>distances := ds\<rparr> \<and> length ds = length (distances s))"

definition scanned :: "RayTest \<Rightarrow> Transform \<Rightarrow> LiDAR360 \<Rightarrow> nat \<Rightarrow> LiDAR360" where
  "scanned rayTest mbTrans s p =
     s\<lparr>distances := map (cell_value rayTest mbTrans s) [0..<p] @ drop p (distances s)\<rparr>"

text \<open>
  The specification of \<open>Render\<close>: two points per cell, the origin of the sensor frame
  and the point at the stored distance along the drawing direction of the cell.
\<close>

definition render_cell :: "LiDAR360 \<Rightarrow> nat \<Rightarrow> Vector3 list" where
  "render_cell s p =
     [Vector3 0 0 0,
      (distances s ! p) *\<^sub>R render_dir (angles_vert s ! (p div unat (resolution s)))
                                    (angles_hori s ! (p mod unat (resolution s)))]"

definition render_points :: "LiDAR360 \<Rightarrow> nat \<Rightarrow> Vector3 list" where
  "render_points s n = concat (map (render_cell s) [0..<n])"

text \<open>
  The public methods as a datatype of calls, one step per call, and runs of calls: the
  sensor as a state machine driven by the simulation. \<open>Render\<close> reads the sensor and
  leaves it as it is.
\<close>

datatype LiDAR360_call =
    Call_InternalUpdate RayTest Transform Scalar
  | Call_Render "Renderable list" bool Transform
  | Call_setRange Scalar Scalar
  | Call_setNoise Scalar

fun LiDAR360_step :: "LiDAR360 \<Rightarrow> LiDAR360_call \<Rightarrow> LiDAR360 option" where
  "LiDAR360_step s (Call_InternalUpdate rayTest mbTrans dt) =
     map_option fst (InternalUpdate rayTest mbTrans dt s)"
| "LiDAR360_step s (Call_Render items isRenderable sensorFrame) =
     map_option (\<lambda>_. s) (Render items isRenderable sensorFrame s)"
| "LiDAR360_step s (Call_setRange range_min range_max) = setRange range_min range_max s"
| "LiDAR360_step s (Call_setNoise rangeStdDev) = setNoise rangeStdDev s"

fun LiDAR360_run :: "LiDAR360 \<Rightarrow> LiDAR360_call list \<Rightarrow> LiDAR360 option" where
  "LiDAR360_run s [] = Some s"
| "LiDAR360_run s (c # cs) = Option.bind (LiDAR360_step s c) (\<lambda>s'. LiDAR360_run s' cs)"

definition LiDAR360_ok :: "LiDAR360 \<Rightarrow> bool" where
  "LiDAR360_ok s \<longleftrightarrow> LiDAR360_inv s \<and> no_overflow s"

lemmas [sf_defs] = angle_at_def precompute_angles_def LiDAR360_new_def beam_dir_def
  measure_beam_def beam_index_def update_beam_def update_layer_def Sample_new_def InternalUpdate_def
  render_dir_def render_beam_def render_layer_def Render_def setRange_def setNoise_def
  getScalarSensorType_def getAngleRangeHori_def getAngleRangeVert_def angle_table_def
  LiDAR360_inv_def no_overflow_def beam_value_def cell_value_def scan_def
  render_cell_def render_points_def LiDAR360_ok_def

section \<open>The constructor\<close>

text \<open>
  The loop that fills an angle table computes the closed form: entry \<open>k\<close> is
  \<open>k / n * rng - rng / 2\<close>.
\<close>

lemma precompute_angles_table: "precompute_angles n r = angle_table n r"
proof -
  have "map (\<lambda>i. angle_at i n r) (map word_of_nat [0..<unat n])
      = map (\<lambda>k. real k / real (unat n) * r - r / 2) [0..<unat n]"
    by (simp add: angle_at_def unsigned_of_nat_less)
  then show ?thesis
    by (simp add: precompute_angles_def angle_table_def uint_for_fold fold_snoc_map)
qed

lemma length_angle_table [simp]: "length (angle_table n r) = unat n"
  by (simp add: angle_table_def)

lemma nth_angle_table:
  "k < unat n \<Longrightarrow> angle_table n r ! k = real k / real (unat n) * r - r / 2"
  by (simp add: angle_table_def)

lemma new_inv: "LiDAR360_inv (LiDAR360_new name res lay freq hist)"
  by (simp add: LiDAR360_inv_def LiDAR360_new_def precompute_angles_table Let_def)

section \<open>What the invariant gives\<close>

lemma inv_lengths:
  assumes "LiDAR360_inv s"
  shows "length (angles_hori s) = unat (resolution s)" "length (angles_vert s) = unat (layers s)"
    "length (distances s) = unat (resolution s * layers s)" "length (channels s) = 1"
  using assms by (simp_all add: LiDAR360_inv_def)

lemma no_overflow_unat:
  "no_overflow s \<Longrightarrow> unat (resolution s * layers s) = unat (layers s) * unat (resolution s)"
proof -
  assume "no_overflow s"
  then have "unat (layers s) * unat (resolution s) < 2 ^ LENGTH(32)"
    by (simp add: no_overflow_def)
  then have "unat (layers s * resolution s) = unat (layers s) * unat (resolution s)"
    by (rule unat_mult_lem [THEN iffD1])
  then show ?thesis by (simp add: mult.commute)
qed

lemma no_overflow_length:
  "LiDAR360_inv s \<Longrightarrow> no_overflow s \<Longrightarrow>
   length (distances s) = unat (layers s) * unat (resolution s)"
  by (simp add: inv_lengths no_overflow_unat)

lemma inv_frame [sf_inv]:
  "LiDAR360_inv s \<Longrightarrow> length ds = length (distances s) \<Longrightarrow> LiDAR360_inv (s\<lparr>distances := ds\<rparr>)"
  "LiDAR360_inv s \<Longrightarrow> LiDAR360_inv (s\<lparr>channels := [c]\<rparr>)"
  "LiDAR360_inv s \<Longrightarrow> LiDAR360_inv (s\<lparr>max_range := x\<rparr>)"
  "LiDAR360_inv s \<Longrightarrow> LiDAR360_inv (s\<lparr>min_range := x\<rparr>)"
  by (simp_all add: LiDAR360_inv_def)

lemma no_overflow_frame [simp]:
  "no_overflow (s\<lparr>distances := ds\<rparr>) = no_overflow s"
  "no_overflow (s\<lparr>channels := cs\<rparr>) = no_overflow s"
  "no_overflow (s\<lparr>max_range := x\<rparr>) = no_overflow s"
  "no_overflow (s\<lparr>min_range := x\<rparr>) = no_overflow s"
  by (simp_all add: no_overflow_def)

lemma no_overflow_new [simp]:
  "no_overflow (LiDAR360_new name res lay freq hist) \<longleftrightarrow> unat lay * unat res < 2 ^ 32"
  by (simp add: no_overflow_def LiDAR360_new_def Let_def)

lemma new_fields [simp]:
  "resolution (LiDAR360_new name res lay freq hist) = res"
  "layers (LiDAR360_new name res lay freq hist) = lay"
  "ang_range_hori (LiDAR360_new name res lay freq hist) = 2 * pi"
  "ang_range_vert (LiDAR360_new name res lay freq hist) = 53 * pi / 225"
  "distances (LiDAR360_new name res lay freq hist) = replicate (unat (res * lay)) 0"
  "max_range (LiDAR360_new name res lay freq hist) = None"
  "min_range (LiDAR360_new name res lay freq hist) = None"
  by (simp_all add: LiDAR360_new_def Let_def Angle_def)

lemma scan_frame [simp]: "scan r m (s\<lparr>distances := ds\<rparr>) = scan r m s"
  by (simp add: scan_def cell_value_def beam_value_def fun_eq_iff)

lemma length_scan [simp]: "length (scan rayTest mbTrans s) = unat (layers s) * unat (resolution s)"
  by (simp add: scan_def)

lemma nth_scan:
  assumes "j < unat (layers s)" and "i < unat (resolution s)"
  shows "scan rayTest mbTrans s ! (j * unat (resolution s) + i) = beam_value rayTest mbTrans s j i"
proof -
  from assms have "j * unat (resolution s) + i < unat (layers s) * unat (resolution s)"
    by (rule idx_bound)
  with assms(2) show ?thesis by (simp add: scan_def cell_value_def)
qed

section \<open>One scan, cell by cell\<close>

lemma scanned_fields [simp]:
  "angles_hori (scanned r m s p) = angles_hori s" "angles_vert (scanned r m s p) = angles_vert s"
  "channels (scanned r m s p) = channels s" "resolution (scanned r m s p) = resolution s"
  "layers (scanned r m s p) = layers s"
  "distances (scanned r m s p) = map (cell_value r m s) [0..<p] @ drop p (distances s)"
  by (simp_all add: scanned_def)

lemma scanned_0 [simp]: "scanned rayTest mbTrans s 0 = s"
  by (simp add: scanned_def)

text \<open>One iteration of the inner loop writes the next cell.\<close>

lemma update_beam_scanned:
  assumes inv: "LiDAR360_inv s" and nov: "no_overflow s"
    and j: "j < layers s" and i: "i < resolution s"
  shows "update_beam rayTest mbTrans (angles_vert s ! unat j) j i
           (scanned rayTest mbTrans s (unat j * unat (resolution s) + unat i))
         = Some (scanned rayTest mbTrans s (unat j * unat (resolution s) + unat (i + 1)))"
proof -
  let ?R = "unat (resolution s)" and ?p = "unat j * unat (resolution s) + unat i"
  from i have iR: "unat i < ?R" by (simp add: word_less_nat_alt)
  from j i nov have idx: "unat (beam_index s j i) = ?p"
    unfolding beam_index_def by (intro unat_idx) (simp_all add: no_overflow_def)
  from j i have "?p < unat (layers s) * ?R"
    by (intro idx_bound) (simp_all add: word_less_nat_alt)
  with inv nov have p: "?p < length (distances s)" by (simp add: no_overflow_length)
  from iR have cell: "cell_value rayTest mbTrans s ?p
      = measure_beam rayTest mbTrans (channels s ! 0)
          (beam_dir mbTrans (angles_hori s ! unat i) (angles_vert s ! unat j))"
    by (simp add: cell_value_def beam_value_def)
  have "put_opt (distances (scanned rayTest mbTrans s ?p))
          (beam_index (scanned rayTest mbTrans s ?p) j i)
          (cell_value rayTest mbTrans s ?p)
        = Some (distances (scanned rayTest mbTrans s (Suc ?p)))"
    using p idx by (simp add: list_update_prefix beam_index_def del: upt_Suc)
  with inv iR show ?thesis
    by (simp add: update_beam_def inv_lengths cell unat_inc [OF i] scanned_def del: upt_Suc)
qed

text \<open>One iteration of the outer loop writes the next row.\<close>

lemma update_layer_scanned:
  assumes inv: "LiDAR360_inv s" and nov: "no_overflow s" and j: "j < layers s"
  shows "update_layer rayTest mbTrans j (scanned rayTest mbTrans s (unat j * unat (resolution s)))
         = Some (scanned rayTest mbTrans s (unat (j + 1) * unat (resolution s)))"
proof -
  let ?R = "resolution s"
  let ?I = "\<lambda>i t. t = scanned rayTest mbTrans s (unat j * unat ?R + unat i)"
  have "\<exists>t. uint_forE 0 ?R (update_beam rayTest mbTrans (angles_vert s ! unat j) j)
          (scanned rayTest mbTrans s (unat j * unat ?R)) = Some t \<and> ?I ?R t"
    by (rule uint_forE_rule [where I = ?I]) (simp_all add: update_beam_scanned [OF inv nov j])
  moreover from j have "unat j < length (angles_vert s)"
    using inv by (simp add: inv_lengths word_less_nat_alt)
  moreover have "unat (j + 1) * unat ?R = unat j * unat ?R + unat ?R"
    by (simp add: unat_inc [OF j])
  ultimately show ?thesis
    by (auto simp: update_layer_def)
qed

lemma layers_scanned:
  assumes inv: "LiDAR360_inv s" and nov: "no_overflow s"
  shows "uint_forE 0 (layers s) (update_layer rayTest mbTrans) s
         = Some (s\<lparr>distances := scan rayTest mbTrans s\<rparr>)"
proof -
  let ?I = "\<lambda>j t. t = scanned rayTest mbTrans s (unat j * unat (resolution s))"
  have "\<exists>t. uint_forE 0 (layers s) (update_layer rayTest mbTrans) s = Some t \<and> ?I (layers s) t"
    by (rule uint_forE_rule [where I = ?I]) (simp_all add: update_layer_scanned [OF inv nov])
  with inv nov show ?thesis
    by (auto simp: scanned_def scan_def no_overflow_length)
qed

lemma InternalUpdate_eq:
  assumes "LiDAR360_inv s" and "no_overflow s"
  shows "InternalUpdate rayTest mbTrans dt s
         = Some (s\<lparr>distances := scan rayTest mbTrans s\<rparr>,
                 \<lparr>nDim = resolution s * layers s, sample_data = scan rayTest mbTrans s\<rparr>)"
  using assms by (simp add: InternalUpdate_def layers_scanned Sample_new_def no_overflow_unat)

section \<open>What a returned scan implies\<close>

text \<open>
  \<open>same_setup s t\<close>: \<open>t\<close> is \<open>s\<close> with other distances in a vector of the same size. The
  loops of \<open>InternalUpdate\<close> change nothing else, and each iteration that returned has
  written inside the vector.
\<close>

lemma same_setup_refl [simp]: "same_setup s s"
  by (auto simp: same_setup_def intro: exI [of _ "distances s"])

lemma same_setup_fields:
  assumes "same_setup s t"
  shows "resolution t = resolution s" "layers t = layers s" "angles_hori t = angles_hori s"
    "angles_vert t = angles_vert s" "channels t = channels s"
    "length (distances t) = length (distances s)" "beam_index t = beam_index s"
  using assms by (auto simp: same_setup_def beam_index_def fun_eq_iff)

lemma same_setup_inv: "same_setup s t \<Longrightarrow> LiDAR360_inv s \<Longrightarrow> LiDAR360_inv t"
  by (auto simp: same_setup_def LiDAR360_inv_def)

lemma update_beam_Some:
  assumes "update_beam rayTest mbTrans v j i t = Some t'"
  shows "unat (beam_index t j i) < length (distances t)"
    and "same_setup s t \<Longrightarrow> same_setup s t'"
  using assms by (auto simp: update_beam_def same_setup_def bind_eq_Some_conv)

lemma update_layer_Some:
  assumes "update_layer rayTest mbTrans j t = Some t'" and "same_setup s t"
  shows "same_setup s t'"
    and "i < resolution s \<Longrightarrow> unat (beam_index s j i) < length (distances s)"
proof -
  from assms(1) obtain v where
    loop: "uint_forE 0 (resolution t) (update_beam rayTest mbTrans v j) t = Some t'"
    by (auto simp: update_layer_def bind_eq_Some_conv)
  from loop assms(2) show "same_setup s t'"
    by (rule uint_forE_Some_inv) (rule update_beam_Some(2))
  assume "i < resolution s"
  with assms(2) have "i < resolution t" by (simp add: same_setup_fields)
  with loop assms(2) have "\<exists>u u'. same_setup s u \<and> update_beam rayTest mbTrans v j i u = Some u'"
    by (intro uint_forE_Some_iter [where I = "same_setup s"]) (auto intro: update_beam_Some(2))
  then show "unat (beam_index s j i) < length (distances s)"
    by (auto dest: update_beam_Some(1) simp: same_setup_fields)
qed

lemma layers_Some:
  assumes "uint_forE 0 (layers s) (update_layer rayTest mbTrans) s = Some s'"
  shows "same_setup s s'"
    and "j < layers s \<Longrightarrow> i < resolution s \<Longrightarrow> unat (beam_index s j i) < length (distances s)"
proof -
  from assms show "same_setup s s'"
    by (rule uint_forE_Some_inv [where I = "same_setup s"]) (auto intro: update_layer_Some(1))
  assume j: "j < layers s" and i: "i < resolution s"
  from assms have "\<exists>t t'. same_setup s t \<and> update_layer rayTest mbTrans j t = Some t'"
    using j by (intro uint_forE_Some_iter [where I = "same_setup s"]) (auto intro: update_layer_Some(1))
  with i show "unat (beam_index s j i) < length (distances s)"
    by (auto dest: update_layer_Some(2))
qed

lemma InternalUpdate_Some_layers:
  "InternalUpdate rayTest mbTrans dt s = Some (s', smp) \<Longrightarrow>
   uint_forE 0 (layers s) (update_layer rayTest mbTrans) s = Some s'"
  by (auto simp: InternalUpdate_def bind_eq_Some_conv)

text \<open>
  If the grid does not fit 32 bits, some beam has the index one past the end, so the
  scan cannot return.
\<close>

lemma InternalUpdate_Some_no_overflow:
  assumes inv: "LiDAR360_inv s" and ret: "InternalUpdate rayTest mbTrans dt s = Some x"
  shows "no_overflow s"
proof (rule ccontr)
  assume "\<not> no_overflow s"
  then have "2 ^ LENGTH(32) \<le> unat (layers s) * unat (resolution s)"
    by (simp add: no_overflow_def)
  then obtain j i where ji: "j < layers s" "i < resolution s"
    and esc: "unat (j * resolution s + i) = unat (layers s * resolution s)"
    using idx_overflow_escapes by blast
  from ret have "uint_forE 0 (layers s) (update_layer rayTest mbTrans) s = Some (fst x)"
    by (cases x) (simp add: InternalUpdate_Some_layers)
  with ji have "unat (beam_index s j i) < length (distances s)"
    by (intro layers_Some(2))
  with esc inv show False by (simp add: inv_lengths mult.commute beam_index_def)
qed

lemma InternalUpdate_overflow: "LiDAR360_inv s \<Longrightarrow> \<not> no_overflow s \<Longrightarrow>
  InternalUpdate rayTest mbTrans dt s = None"
  using InternalUpdate_Some_no_overflow by (cases "InternalUpdate rayTest mbTrans dt s") auto

lemma InternalUpdate_Some_inv:
  assumes "LiDAR360_inv s" and "InternalUpdate rayTest mbTrans dt s = Some (s', smp)"
  shows "LiDAR360_inv s'"
  using assms by (blast intro: same_setup_inv layers_Some(1) InternalUpdate_Some_layers)

section \<open>The scan, characterised\<close>

lemma beam_index_unat:
  assumes "no_overflow s" and "j < layers s" and "i < resolution s"
  shows "unat (beam_index s j i) = unat j * unat (resolution s) + unat i"
  unfolding beam_index_def using assms(2,3,1) by (intro unat_idx) (simp_all add: no_overflow_def)

text \<open>
  C1. \<open>InternalUpdate\<close> on a sensor that satisfies the class invariant: if
  \<open>layers * resolution\<close> fits 32 bits it returns, the cell \<open>j * resolution + i\<close> of
  \<open>distances\<close> holds the measurement of beam \<open>(j, i)\<close> for all beams (the list \<open>scan\<close>),
  nothing else of the sensor changes, and the sample handed to the history has
  \<open>resolution * layers\<close> dimensions and the same values; otherwise it accesses
  \<open>distances\<close> outside its bounds.
\<close>

theorem InternalUpdate_correct:
  assumes "LiDAR360_inv s"
  shows "InternalUpdate rayTest mbTrans dt s =
    (if no_overflow s
     then Some (s\<lparr>distances := scan rayTest mbTrans s\<rparr>,
                \<lparr>nDim = resolution s * layers s, sample_data = scan rayTest mbTrans s\<rparr>)
     else None)"
  using assms by (simp add: InternalUpdate_eq InternalUpdate_overflow)

theorem InternalUpdate_correct_witness:
  "LiDAR360_inv (the (setRange 1 2 (LiDAR360_new ''lidar'' 2 2 10 1))) \<and>
   map_option (sample_data \<circ> snd)
     (InternalUpdate (\<lambda>a b. if getX b < 0 then Some 0 else None) identity_transform 0
        (the (setRange 1 2 (LiDAR360_new ''lidar'' 2 2 10 1))))
   = Some [sqrt (1 + sin (53 * pi / 450) * sin (53 * pi / 450)), 0, 1, 0]"
  using InternalUpdate_correct [of "the (setRange 1 2 (LiDAR360_new ''lidar'' 2 2 10 1))"
      "\<lambda>a b. if getX b < 0 then Some 0 else None" identity_transform 0]
  by (simp add: sf_defs BT_LARGE_FLOAT_def Let_def upt_rec)

text \<open>
  C5. Memory safety of the index computation: when the grid fits 32 bits, the index
  \<open>j * resolution + i\<close> computed on \<open>unsigned int\<close> for a beam inside the grid is the
  mathematical one, lies inside \<open>distances\<close>, and two different beams never share a cell.
\<close>

theorem beam_index_in_bounds:
  assumes "LiDAR360_inv s" and "no_overflow s"
    and "j < layers s" and "i < resolution s" and "j' < layers s" and "i' < resolution s"
  shows "unat (beam_index s j i) < length (distances s) \<and>
         (beam_index s j i = beam_index s j' i' \<longrightarrow> j = j' \<and> i = i')"
proof -
  let ?R = "unat (resolution s)"
  from assms(3,4) have "unat j * ?R + unat i < unat (layers s) * ?R"
    by (intro idx_bound) (simp_all add: word_less_nat_alt)
  with assms have "unat (beam_index s j i) < length (distances s)"
    by (simp add: beam_index_unat no_overflow_length)
  moreover have "j = j' \<and> i = i'" if "beam_index s j i = beam_index s j' i'"
  proof -
    from that assms have "unat j * ?R + unat i = unat j' * ?R + unat i'"
      by (simp add: beam_index_unat [symmetric])
    with assms(4,6) have "unat j = unat j' \<and> unat i = unat i'"
      by (intro idx_inj [of _ ?R]) (simp_all add: word_less_nat_alt)
    then show ?thesis by (simp add: word_unat_eq_iff)
  qed
  ultimately show ?thesis by blast
qed

theorem beam_index_in_bounds_witness:
  "unat (beam_index (LiDAR360_new ''lidar'' 360 16 10 1) 15 359) = 5759 \<and>
   length (distances (LiDAR360_new ''lidar'' 360 16 10 1)) = 5760"
  using beam_index_in_bounds [of "LiDAR360_new ''lidar'' 360 16 10 1" 15 359 0 0]
  by (simp add: new_inv no_overflow_def beam_index_def LiDAR360_new_def Let_def)

text \<open>
  C9. A grid of 65536 by 65536 beams does not fit 32 bits: the constructor allocates
  \<open>65536 * 65536 mod 2^32 = 0\<close> cells, and the first scan writes outside \<open>distances\<close>
  whatever the world and the frame are. More generally a sensor as constructed can be
  scanned exactly when \<open>layers * resolution < 2^32\<close>.
\<close>

theorem InternalUpdate_new_overflow:
  "InternalUpdate rayTest mbTrans dt (LiDAR360_new name 65536 65536 freq hist) = None \<and>
   (InternalUpdate rayTest mbTrans dt (LiDAR360_new name res lay freq hist) = None
      \<longleftrightarrow> 2 ^ 32 \<le> unat lay * unat res)"
proof -
  have nov: "no_overflow (LiDAR360_new name r l freq hist) \<longleftrightarrow> unat l * unat r < 2 ^ 32" for r l
    by (simp add: no_overflow_def LiDAR360_new_def Let_def)
  have iff: "InternalUpdate rayTest mbTrans dt (LiDAR360_new name r l freq hist) = None
      \<longleftrightarrow> 2 ^ 32 \<le> unat l * unat r" for r l
    using new_inv [of name r l freq hist]
    by (cases "no_overflow (LiDAR360_new name r l freq hist)")
      (simp_all add: InternalUpdate_eq InternalUpdate_overflow nov)
  from iff [of 65536 65536] iff [of res lay] show ?thesis by simp
qed

end
