(* ===== verification/LiDAR360_Properties.thy ===== *)
theory LiDAR360_Properties
  imports LiDAR360_Sensor
begin

text \<open>
  Properties of the LiDAR of \<open>LiDAR360_Sensor\<close> beyond the characterisation of a scan:
  the direction and the distance of one beam, the points \<open>Render\<close> draws, the settings,
  sequences of calls (every call that returns keeps the invariant), the angle tables
  of the constructor, the boundary cases of an empty grid and of an inverted range,
  and that the directions of the beams are pairwise distinct in every state reached
  from the constructor.
\<close>

section \<open>Directions and distances of one beam\<close>

lemma length2_render_dir [simp]: "length2 (render_dir v h) = 1"
proof -
  have "length2 (render_dir v h)
      = cos v * cos v * (cos h * cos h + sin h * sin h) + sin v * sin v"
    by (simp only: length2_def dot_def render_dir_def Vector3.sel) algebra
  then show ?thesis by simp
qed

lemma length2_beam_dir:
  assumes "orthonormal (getBasis m)"
  shows "length2 (beam_dir m h v) = 1 + (sin v)\<^sup>2"
proof -
  have "length2 (beam_dir m h v) = (cos h * cos h + sin h * sin h) + sin v * sin v"
    by (simp add: length2_def beam_dir_def dot_linear orthonormalD [OF assms] algebra_simps)
  then show ?thesis by (simp add: power2_eq_square)
qed

lemma cross_beam_render:
  "cross (beam_dir identity_transform h v) (render_dir v h) = 0 \<longleftrightarrow> sin v = 0"
proof -
  have eq: "cross (beam_dir identity_transform h v) (render_dir v h)
      = Vector3 (sin h * (sin v * (1 - cos v))) (- (cos h * (sin v * (1 - cos v)))) 0"
    by (simp add: cross_def beam_dir_def render_dir_def identity_transform_def algebra_simps)
  have "sin v * (1 - cos v) = 0 \<longleftrightarrow> sin v = 0"
  proof
    assume "sin v * (1 - cos v) = 0"
    then consider "sin v = 0" | "cos v = 1" by auto
    then show "sin v = 0"
    proof cases
      case 2
      with sin_cos_squared_add [of v] show ?thesis by simp
    qed
  qed simp
  moreover have "sin h * k = 0 \<and> cos h * k = 0 \<longleftrightarrow> k = 0" for k
    using sin_zero_abs_cos_one [of h] by auto
  ultimately show ?thesis
    by (simp add: eq Vector3_eq_iff zero_Vector3_def)
qed

lemma measure_beam_hit:
  assumes "rayTest (getOrigin m + rangeMin ch *\<^sub>R d) (getOrigin m + rangeMax ch *\<^sub>R d) = Some f"
  shows "measure_beam rayTest m ch d
         = \<bar>rangeMin ch + (rangeMax ch - rangeMin ch) * f\<bar> * length_v d"
  using assms by (simp add: measure_beam_def lerp_on_ray length_v_scale)

lemma measure_beam_miss:
  assumes "rayTest (getOrigin m + rangeMin ch *\<^sub>R d) (getOrigin m + rangeMax ch *\<^sub>R d) = None"
  shows "measure_beam rayTest m ch d = 0"
  using assms by (simp add: measure_beam_def)

lemma measure_beam_nonneg [simp]: "0 \<le> measure_beam rayTest m ch d"
  by (simp add: measure_beam_def Let_def split: option.split)

lemma measure_beam_bounds:
  assumes "0 \<le> rangeMin ch" "rangeMin ch \<le> rangeMax ch"
    and "rayTest (getOrigin m + rangeMin ch *\<^sub>R d) (getOrigin m + rangeMax ch *\<^sub>R d) = Some f"
    and "0 \<le> f" "f \<le> 1"
  shows "rangeMin ch * length_v d \<le> measure_beam rayTest m ch d"
    and "measure_beam rayTest m ch d \<le> rangeMax ch * length_v d"
proof -
  let ?t = "rangeMin ch + (rangeMax ch - rangeMin ch) * f"
  from assms have lo: "rangeMin ch \<le> ?t" by simp
  from assms have "(rangeMax ch - rangeMin ch) * f \<le> (rangeMax ch - rangeMin ch) * 1"
    by (intro mult_left_mono) simp_all
  then have hi: "?t \<le> rangeMax ch" by simp
  from lo assms(1) have "\<bar>?t\<bar> = ?t" by simp
  with assms(3) have eq: "measure_beam rayTest m ch d = ?t * length_v d"
    by (simp add: measure_beam_hit)
  from lo show "rangeMin ch * length_v d \<le> measure_beam rayTest m ch d"
    unfolding eq by (intro mult_right_mono) simp_all
  from hi show "measure_beam rayTest m ch d \<le> rangeMax ch * length_v d"
    unfolding eq by (intro mult_right_mono) simp_all
qed

text \<open>
  C23. The beam that is measured and the beam that is drawn. In the frame of the sensor
  \<open>InternalUpdate\<close> casts the ray of horizontal angle \<open>h\<close> and vertical angle \<open>v\<close> along
  \<open>(cos h, sin h, sin v)\<close>, whose squared length is \<open>1 + sin\<^sup>2 v\<close> for every rotation of the
  sensor, while \<open>Render\<close> draws it along the unit vector
  \<open>(cos v cos h, cos v sin h, sin v)\<close>; the two directions are parallel only if
  \<open>sin v = 0\<close>.
\<close>

theorem beam_dir_render_dir:
  "length2 (render_dir v h) = 1 \<and>
   (orthonormal (getBasis m) \<longrightarrow> length2 (beam_dir m h v) = 1 + (sin v)\<^sup>2) \<and>
   (cross (beam_dir identity_transform h v) (render_dir v h) = 0 \<longleftrightarrow> sin v = 0)"
  by (simp add: length2_beam_dir cross_beam_render)

theorem beam_dir_render_dir_witness:
  "orthonormal (getBasis identity_transform) \<and>
   length2 (beam_dir identity_transform 0 (pi / 2)) = 2 \<and>
   beam_dir identity_transform 0 (pi / 2) = Vector3 1 0 1 \<and>
   render_dir (pi / 2) 0 = Vector3 0 0 1"
  using beam_dir_render_dir [of "pi / 2" 0 identity_transform]
  by (simp add: identity_transform_def beam_dir_def render_dir_def Vector3_eq_iff)

text \<open>
  C25. The distance stored for a beam that hits. With a range \<open>0 \<le> rangeMin \<le> rangeMax\<close>
  and a hit fraction between 0 and 1 the stored value is
  \<open>(rangeMin + (rangeMax - rangeMin) * fraction) * |dir|\<close>: it lies between
  \<open>rangeMin * |dir|\<close> and \<open>rangeMax * |dir|\<close>, where \<open>|dir| = sqrt (1 + sin\<^sup>2 v)\<close> is the
  length of the ray direction, so for \<open>sin v \<noteq> 0\<close> the sensor reports hits beyond
  \<open>rangeMax\<close>.
\<close>

theorem measure_beam_range:
  assumes "orthonormal (getBasis m)" and "0 \<le> rangeMin ch" and "rangeMin ch \<le> rangeMax ch"
    and "rayTest (getOrigin m + rangeMin ch *\<^sub>R beam_dir m h v)
                 (getOrigin m + rangeMax ch *\<^sub>R beam_dir m h v) = Some f"
    and "0 \<le> f" and "f \<le> 1"
  shows "measure_beam rayTest m ch (beam_dir m h v)
           = (rangeMin ch + (rangeMax ch - rangeMin ch) * f) * sqrt (1 + (sin v)\<^sup>2) \<and>
         rangeMin ch * sqrt (1 + (sin v)\<^sup>2) \<le> measure_beam rayTest m ch (beam_dir m h v) \<and>
         measure_beam rayTest m ch (beam_dir m h v) \<le> rangeMax ch * sqrt (1 + (sin v)\<^sup>2)"
proof -
  from assms(1) have len: "length_v (beam_dir m h v) = sqrt (1 + (sin v)\<^sup>2)"
    by (simp add: length_v_def length2_beam_dir)
  from assms(2,3,5) have "0 \<le> rangeMin ch + (rangeMax ch - rangeMin ch) * f" by simp
  with assms(4) have "measure_beam rayTest m ch (beam_dir m h v)
      = (rangeMin ch + (rangeMax ch - rangeMin ch) * f) * sqrt (1 + (sin v)\<^sup>2)"
    by (simp add: measure_beam_hit len)
  with measure_beam_bounds [of ch rayTest m "beam_dir m h v" f, OF assms(2-6)]
  show ?thesis by (simp add: len)
qed

theorem measure_beam_range_witness:
  "measure_beam (\<lambda>a b. Some 1) identity_transform
     \<lparr>channel_name = ''Distance'', channel_type = QuantityType_LENGTH,
      rangeMin = 0, rangeMax = 10, stdDev = 0\<rparr> (beam_dir identity_transform 0 (pi / 2))
   = 10 * sqrt 2"
  using measure_beam_range [of identity_transform
      "\<lparr>channel_name = ''Distance'', channel_type = QuantityType_LENGTH,
        rangeMin = 0, rangeMax = 10, stdDev = 0\<rparr>" "\<lambda>a b. Some 1" 0 "pi / 2" 1]
  by (simp add: identity_transform_def)

section \<open>Rendering\<close>

lemma render_points_0 [simp]: "render_points s 0 = []"
  by (simp add: render_points_def)

lemma render_points_Suc: "render_points s (Suc p) = render_points s p @ render_cell s p"
  by (simp add: render_points_def)

lemma length_render_points [simp]: "length (render_points s n) = 2 * n"
  by (induction n) (simp_all add: render_points_Suc render_cell_def)

lemma render_points_nth:
  assumes "p < n"
  shows "render_points s n ! (2 * p) = Vector3 0 0 0"
    and "render_points s n ! (2 * p + 1)
         = (distances s ! p) *\<^sub>R render_dir (angles_vert s ! (p div unat (resolution s)))
                                         (angles_hori s ! (p mod unat (resolution s)))"
proof -
  have "render_points s n ! (2 * p) = render_cell s p ! 0 \<and>
        render_points s n ! (2 * p + 1) = render_cell s p ! 1"
    using assms
  proof (induction n)
    case (Suc n)
    then show ?case
      by (cases "p = n") (auto simp: render_points_Suc nth_append less_Suc_eq)
  qed simp
  then show "render_points s n ! (2 * p) = Vector3 0 0 0"
    and "render_points s n ! (2 * p + 1)
         = (distances s ! p) *\<^sub>R render_dir (angles_vert s ! (p div unat (resolution s)))
                                         (angles_hori s ! (p mod unat (resolution s)))"
    by (simp_all add: render_cell_def)
qed

lemma render_points_beam:
  assumes "j < l" and "i < unat (resolution s)"
  shows "render_points s (l * unat (resolution s)) ! (2 * (j * unat (resolution s) + i))
         = Vector3 0 0 0"
    and "render_points s (l * unat (resolution s)) ! (2 * (j * unat (resolution s) + i) + 1)
         = (distances s ! (j * unat (resolution s) + i))
             *\<^sub>R render_dir (angles_vert s ! j) (angles_hori s ! i)"
  using render_points_nth [OF idx_bound [OF assms], of s] assms(2) by simp_all

lemma render_beam_points:
  assumes inv: "LiDAR360_inv s" and nov: "no_overflow s"
    and j: "j < layers s" and i: "i < resolution s"
  shows "render_beam s (angles_vert s ! unat j) j i
           (render_points s (unat j * unat (resolution s) + unat i))
         = Some (render_points s (unat j * unat (resolution s) + unat (i + 1)))"
proof -
  let ?R = "unat (resolution s)" and ?p = "unat j * unat (resolution s) + unat i"
  from i have iR: "unat i < ?R" by (simp add: word_less_nat_alt)
  from nov j i have idx: "unat (beam_index s j i) = ?p" by (rule beam_index_unat)
  from j i have "?p < unat (layers s) * ?R"
    by (intro idx_bound) (simp_all add: word_less_nat_alt)
  with inv nov have p: "?p < length (distances s)" by (simp add: no_overflow_length)
  from iR have "render_cell s ?p =
      [Vector3 0 0 0, (distances s ! ?p) *\<^sub>R render_dir (angles_vert s ! unat j) (angles_hori s ! unat i)]"
    by (simp add: render_cell_def)
  with inv iR p idx show ?thesis
    by (simp add: render_beam_def inv_lengths unat_inc [OF i] render_points_Suc
        Vector3_eq_iff mult.commute)
qed

lemma render_layer_points:
  assumes inv: "LiDAR360_inv s" and nov: "no_overflow s" and j: "j < layers s"
  shows "render_layer s j (render_points s (unat j * unat (resolution s)))
         = Some (render_points s (unat (j + 1) * unat (resolution s)))"
proof -
  let ?R = "resolution s"
  let ?I = "\<lambda>i pts. pts = render_points s (unat j * unat ?R + unat i)"
  have "\<exists>t. uint_forE 0 ?R (render_beam s (angles_vert s ! unat j) j)
          (render_points s (unat j * unat ?R)) = Some t \<and> ?I ?R t"
    by (rule uint_forE_rule [where I = ?I]) (simp_all add: render_beam_points [OF inv nov j])
  moreover from j have "unat j < length (angles_vert s)"
    using inv by (simp add: inv_lengths word_less_nat_alt)
  moreover have "unat (j + 1) * unat ?R = unat j * unat ?R + unat ?R"
    by (simp add: unat_inc [OF j])
  ultimately show ?thesis
    by (auto simp: render_layer_def)
qed

lemma Render_eq:
  assumes inv: "LiDAR360_inv s" and nov: "no_overflow s"
  shows "Render items isRenderable sensorFrame s =
     Some (if isRenderable
           then items @ [\<lparr>rtype = SENSOR_LINES, model = sensorFrame,
                          points = render_points s (unat (layers s) * unat (resolution s))\<rparr>]
           else items)"
proof -
  let ?I = "\<lambda>j pts. pts = render_points s (unat j * unat (resolution s))"
  have "\<exists>t. uint_forE 0 (layers s) (render_layer s) [] = Some t \<and> ?I (layers s) t"
    by (rule uint_forE_rule [where I = ?I]) (simp_all add: render_layer_points [OF inv nov])
  then show ?thesis by (auto simp: Render_def)
qed

text \<open>
  C19. \<open>Render\<close> on a sensor that satisfies the invariant and whose grid fits 32 bits: it
  returns the items of the base class followed, if the sensor is renderable, by one item of
  type \<open>SENSOR_LINES\<close> in the frame of the sensor with two points per beam, row by row:
  the origin, and the point at the stored distance of the beam along its drawing
  direction; \<open>2 * layers * resolution\<close> points in all. A sensor that is not renderable
  adds nothing.
\<close>

theorem Render_correct:
  assumes "LiDAR360_inv s" and "no_overflow s"
  shows "Render items False sensorFrame s = Some items \<and>
         (\<exists>pts. Render items True sensorFrame s
                  = Some (items @ [\<lparr>rtype = SENSOR_LINES, model = sensorFrame, points = pts\<rparr>]) \<and>
                length pts = 2 * (unat (layers s) * unat (resolution s)) \<and>
                (\<forall>j < unat (layers s). \<forall>i < unat (resolution s).
                   pts ! (2 * (j * unat (resolution s) + i)) = Vector3 0 0 0 \<and>
                   pts ! (2 * (j * unat (resolution s) + i) + 1)
                     = (distances s ! (j * unat (resolution s) + i))
                         *\<^sub>R render_dir (angles_vert s ! j) (angles_hori s ! i)))"
  using assms render_points_beam [of _ "unat (layers s)" _ s]
  by (simp add: Render_eq)

theorem Render_correct_witness:
  "LiDAR360_inv ((LiDAR360_new ''lidar'' 2 1 10 1)\<lparr>distances := [3, 5]\<rparr>) \<and>
   no_overflow ((LiDAR360_new ''lidar'' 2 1 10 1)\<lparr>distances := [3, 5]\<rparr>) \<and>
   Render [] True identity_transform ((LiDAR360_new ''lidar'' 2 1 10 1)\<lparr>distances := [3, 5]\<rparr>)
   = Some [\<lparr>rtype = SENSOR_LINES, model = identity_transform, points =
       [Vector3 0 0 0, Vector3 (- (3 * cos (53 * pi / 450))) 0 (- (3 * sin (53 * pi / 450))),
        Vector3 0 0 0, Vector3 (5 * cos (53 * pi / 450)) 0 (- (5 * sin (53 * pi / 450)))]\<rparr>]"
  using Render_correct [of "(LiDAR360_new ''lidar'' 2 1 10 1)\<lparr>distances := [3, 5]\<rparr>"
      "[]" identity_transform]
  by (simp add: sf_defs Let_def upt_rec Vector3_eq_iff)

section \<open>Settings\<close>

lemma inv_channel:
  assumes "LiDAR360_inv s"
  obtains c where "channels s = [c]"
  using assms by (cases "channels s") (auto simp: LiDAR360_inv_def)

lemma setRange_eq:
  assumes "LiDAR360_inv s"
  shows "setRange a b s =
    Some (s\<lparr>channels := [(channels s ! 0)\<lparr>rangeMin := btClamp a 0 BT_LARGE_FLOAT,
                                           rangeMax := btClamp b 0 BT_LARGE_FLOAT\<rparr>],
            max_range := Some (btClamp b 0 BT_LARGE_FLOAT),
            min_range := Some (btClamp a 0 BT_LARGE_FLOAT)\<rparr>)"
  using assms by (elim inv_channel) (simp add: setRange_def Let_def)

lemma setNoise_eq:
  assumes "LiDAR360_inv s"
  shows "setNoise sd s =
    Some (s\<lparr>channels := [(channels s ! 0)\<lparr>stdDev := btClamp sd 0 BT_LARGE_FLOAT\<rparr>]\<rparr>)"
  using assms by (elim inv_channel) (simp add: setNoise_def)

text \<open>
  C31. \<open>setRange\<close> on a sensor that satisfies the invariant returns, stores both bounds
  clamped into \<open>[0, BT_LARGE_FLOAT]\<close> in the one channel and in \<open>min_range\<close> and
  \<open>max_range\<close>, keeps the invariant and changes nothing else. It does not compare
  the two bounds: \<open>rangeMin \<le> rangeMax\<close> holds afterwards only if it held for the
  clamped arguments.
\<close>

theorem setRange_correct:
  assumes "LiDAR360_inv s"
  shows "\<exists>s'. setRange a b s = Some s' \<and> LiDAR360_inv s' \<and>
           s' = s\<lparr>channels := channels s', max_range := max_range s', min_range := min_range s'\<rparr> \<and>
           length (channels s') = 1 \<and>
           rangeMin (channels s' ! 0) = btClamp a 0 BT_LARGE_FLOAT \<and>
           rangeMax (channels s' ! 0) = btClamp b 0 BT_LARGE_FLOAT \<and>
           min_range s' = Some (rangeMin (channels s' ! 0)) \<and>
           max_range s' = Some (rangeMax (channels s' ! 0)) \<and>
           0 \<le> rangeMin (channels s' ! 0) \<and> rangeMin (channels s' ! 0) \<le> BT_LARGE_FLOAT \<and>
           0 \<le> rangeMax (channels s' ! 0) \<and> rangeMax (channels s' ! 0) \<le> BT_LARGE_FLOAT \<and>
           (rangeMin (channels s' ! 0) \<le> rangeMax (channels s' ! 0)
              \<longleftrightarrow> btClamp a 0 BT_LARGE_FLOAT \<le> btClamp b 0 BT_LARGE_FLOAT)"
  using assms btClamp_bounds [of 0 BT_LARGE_FLOAT]
  by (simp add: setRange_eq inv_frame less_imp_le)

theorem setRange_correct_witness:
  "LiDAR360_inv (LiDAR360_new ''lidar'' 2 2 10 1) \<and>
   map_option (\<lambda>s. (map rangeMin (channels s), map rangeMax (channels s), min_range s, max_range s))
     (setRange 5 (- 1) (LiDAR360_new ''lidar'' 2 2 10 1)) = Some ([5], [0], Some 5, Some 0)"
  using setRange_correct [of "LiDAR360_new ''lidar'' 2 2 10 1" 5 "- 1"]
  by (simp add: sf_defs BT_LARGE_FLOAT_def Let_def upt_rec)

section \<open>Sequences of calls\<close>

lemma step_ok:
  assumes "LiDAR360_ok s"
  shows "\<exists>s'. LiDAR360_step s c = Some s' \<and> LiDAR360_ok s' \<and>
           resolution s' = resolution s \<and> layers s' = layers s"
proof (cases c)
  case (Call_InternalUpdate r m dt)
  with assms show ?thesis
    by (simp add: LiDAR360_ok_def InternalUpdate_eq inv_frame no_overflow_length)
next
  case (Call_Render items b m)
  with assms show ?thesis by (simp add: LiDAR360_ok_def Render_eq)
next
  case (Call_setRange a b)
  with assms show ?thesis
    by (simp add: LiDAR360_ok_def setRange_eq inv_frame)
next
  case (Call_setNoise sd)
  with assms show ?thesis
    by (simp add: LiDAR360_ok_def setNoise_eq inv_frame)
qed

lemma run_ok:
  assumes "LiDAR360_ok s"
  shows "\<exists>s'. LiDAR360_run s cs = Some s' \<and> LiDAR360_ok s' \<and>
           resolution s' = resolution s \<and> layers s' = layers s"
  using assms
proof (induction cs arbitrary: s)
  case Nil
  then show ?case by simp
next
  case (Cons c cs)
  from Cons.prems obtain t where t: "LiDAR360_step s c = Some t" "LiDAR360_ok t"
    "resolution t = resolution s" "layers t = layers s"
    using step_ok by blast
  from Cons.IH [OF t(2)] t show ?case by auto
qed

text \<open>
  C2. Memory safety of the sensor as a whole: a sensor constructed with
  \<open>layers * resolution < 2^32\<close> can take any sequence of calls of \<open>InternalUpdate\<close>,
  \<open>Render\<close>, \<open>setRange\<close> and \<open>setNoise\<close>, with any world, frame and arguments; every call
  returns without touching a vector outside its bounds, and the state reached satisfies
  the class invariant with the resolution and the number of layers it was constructed
  with.
\<close>

theorem LiDAR360_calls_safe:
  assumes "unat lay * unat res < 2 ^ 32"
  shows "\<exists>s'. LiDAR360_run (LiDAR360_new name res lay freq hist) cs = Some s' \<and>
           LiDAR360_inv s' \<and> resolution s' = res \<and> layers s' = lay \<and>
           length (distances s') = unat lay * unat res"
proof -
  from assms have "LiDAR360_ok (LiDAR360_new name res lay freq hist)"
    by (simp add: LiDAR360_ok_def new_inv)
  from run_ok [OF this, of cs] show ?thesis
    by (auto simp: LiDAR360_ok_def no_overflow_length)
qed

theorem LiDAR360_calls_safe_witness:
  "unat (16 :: uint) * unat (360 :: uint) < 2 ^ 32 \<and>
   (\<exists>s'. LiDAR360_run (LiDAR360_new ''lidar'' 360 16 10 1)
           [Call_setRange 1 100, Call_InternalUpdate (\<lambda>a b. None) identity_transform (1 / 10),
            Call_Render [] True identity_transform, Call_setNoise (1 / 100)] = Some s' \<and>
         length (distances s') = 5760)"
  using LiDAR360_calls_safe [of 16 360 "''lidar''" 10 1
      "[Call_setRange 1 100, Call_InternalUpdate (\<lambda>a b. None) identity_transform (1 / 10),
        Call_Render [] True identity_transform, Call_setNoise (1 / 100)]"]
  by auto

section \<open>The angle tables\<close>

lemma angle_table_bounds:
  assumes "0 < r" and "a \<in> set (angle_table n r)"
  shows "- r / 2 \<le> a \<and> a < r / 2"
proof -
  from assms(2) obtain k where k: "k < unat n" "a = real k / real (unat n) * r - r / 2"
    by (auto simp: angle_table_def)
  from assms(1) frac_bounds [OF k(1)]
  have "0 \<le> real k / real (unat n) * r" "real k / real (unat n) * r < 1 * r"
    by (simp_all only: mult_strict_right_mono mult_nonneg_nonneg less_imp_le)
  with k(2) show ?thesis by simp
qed

lemma angle_table_increasing:
  assumes "0 < r"
  shows "sorted_wrt (<) (angle_table n r)"
proof -
  have "real i / real (unat n) * r - r / 2 < real j / real (unat n) * r - r / 2"
    if "i < j" "j < unat n" for i j
    using frac_less [OF that] assms by (simp only: mult_strict_right_mono diff_strict_right_mono)
  then show ?thesis
    by (simp add: angle_table_def sorted_wrt_map sorted_wrt_iff_nth_less del: of_nat_unat)
qed

lemma new_angles [simp]:
  "angles_hori (LiDAR360_new name res lay freq hist) = angle_table res (2 * pi)"
  "angles_vert (LiDAR360_new name res lay freq hist) = angle_table lay (53 * pi / 225)"
  by (simp_all add: LiDAR360_new_def precompute_angles_table Let_def Angle_def)

text \<open>
  C33. The angles of a constructed sensor. There are \<open>resolution\<close> horizontal angles,
  strictly increasing, starting at \<open>-\<pi>\<close> and all below \<open>\<pi>\<close>; there are \<open>layers\<close> vertical
  angles, strictly increasing, starting at minus half the vertical range (21.2 degrees)
  and all below plus half the range. The upper ends \<open>+180\<close> and \<open>+21.2\<close> degrees that the
  comments in the constructor name are never produced, and neither table has the
  \<open>resolution + 1\<close> or \<open>layers + 1\<close> entries those comments announce.
\<close>

theorem LiDAR360_new_angles:
  "length (angles_hori (LiDAR360_new name res lay freq hist)) = unat res \<and>
   length (angles_vert (LiDAR360_new name res lay freq hist)) = unat lay \<and>
   sorted_wrt (<) (angles_hori (LiDAR360_new name res lay freq hist)) \<and>
   sorted_wrt (<) (angles_vert (LiDAR360_new name res lay freq hist)) \<and>
   (\<forall>a \<in> set (angles_hori (LiDAR360_new name res lay freq hist)). - pi \<le> a \<and> a < pi) \<and>
   (\<forall>a \<in> set (angles_vert (LiDAR360_new name res lay freq hist)).
      - (53 * pi / 450) \<le> a \<and> a < 53 * pi / 450) \<and>
   (0 < res \<longrightarrow> angles_hori (LiDAR360_new name res lay freq hist) ! 0 = - pi) \<and>
   (0 < lay \<longrightarrow> angles_vert (LiDAR360_new name res lay freq hist) ! 0 = - (53 * pi / 450))"
  using angle_table_bounds [of "2 * pi" _ res] angle_table_bounds [of "53 * pi / 225" _ lay]
  by (auto simp: angle_table_increasing nth_angle_table word_greater_zero_iff unat_gt_0)

theorem LiDAR360_new_angles_witness:
  "angles_hori (LiDAR360_new ''lidar'' 4 1 10 1) = [- pi, - (pi / 2), 0, pi / 2] \<and>
   angles_vert (LiDAR360_new ''lidar'' 4 1 10 1) = [- (53 * pi / 450)] \<and>
   pi \<notin> set (angles_hori (LiDAR360_new ''lidar'' 4 1 10 1))"
  using LiDAR360_new_angles [of "''lidar''" 4 1 10 1]
  by (simp add: angle_table_def upt_rec)

text \<open>
  C40. The two loops of the constructor compute the closed form: the table built by
  appending \<open>i / n * range - 0.5 * range\<close> for the counter values \<open>0, 1, \<dots>\<close> below \<open>n\<close> on
  \<open>unsigned int\<close> is the list of \<open>k / n * range - range / 2\<close> for the natural numbers
  \<open>k < n\<close>, for every bound \<open>n\<close> up to \<open>2^32 - 1\<close>.
\<close>

theorem precompute_angles_correct:
  "precompute_angles n r = map (\<lambda>k. real k / real (unat n) * r - r / 2) [0..<unat n] \<and>
   length (precompute_angles n r) = unat n"
  by (simp add: precompute_angles_table angle_table_def del: of_nat_unat)

section \<open>Invariant\<close>

text \<open>
  C32. The constructor establishes the class invariant for every resolution and number of
  layers: the angle tables have \<open>resolution\<close> and \<open>layers\<close> entries with the closed-form
  values, \<open>distances\<close> has as many cells as the 32-bit product \<open>resolution * layers\<close>, all
  zero, there is exactly one channel, of range \<open>[0, BT_LARGE_FLOAT]\<close>, and \<open>min_range\<close> and
  \<open>max_range\<close> are unset.
\<close>

theorem LiDAR360_new_inv:
  "LiDAR360_inv (LiDAR360_new name res lay freq hist) \<and>
   distances (LiDAR360_new name res lay freq hist) = replicate (unat (res * lay)) 0 \<and>
   map rangeMin (channels (LiDAR360_new name res lay freq hist)) = [0] \<and>
   map rangeMax (channels (LiDAR360_new name res lay freq hist)) = [BT_LARGE_FLOAT] \<and>
   min_range (LiDAR360_new name res lay freq hist) = None \<and>
   max_range (LiDAR360_new name res lay freq hist) = None"
  by (simp add: new_inv) (simp add: LiDAR360_new_def Let_def)

text \<open>
  C28. Whenever \<open>InternalUpdate\<close> returns on a sensor that satisfies the invariant, with or
  without the grid fitting 32 bits, the sensor it returns satisfies the invariant, differs
  from the old one in the values of \<open>distances\<close> only, and the sample has
  \<open>resolution * layers\<close> dimensions and holds the new distances.
\<close>

theorem InternalUpdate_inv:
  assumes "LiDAR360_inv s" and "InternalUpdate rayTest mbTrans dt s = Some (s', smp)"
  shows "LiDAR360_inv s' \<and> same_setup s s' \<and>
         nDim smp = resolution s * layers s \<and> sample_data smp = distances s'"
proof -
  from assms have nov: "no_overflow s" by (rule InternalUpdate_Some_no_overflow)
  with assms show ?thesis
    by (auto simp: InternalUpdate_eq same_setup_def inv_frame no_overflow_length)
qed

theorem InternalUpdate_inv_witness:
  "LiDAR360_inv (LiDAR360_new ''lidar'' 2 2 10 1) \<and>
   InternalUpdate (\<lambda>a b. None) identity_transform 0 (LiDAR360_new ''lidar'' 2 2 10 1)
     = Some (LiDAR360_new ''lidar'' 2 2 10 1, \<lparr>nDim = 4, sample_data = [0, 0, 0, 0]\<rparr>)"
  using InternalUpdate_inv [of "LiDAR360_new ''lidar'' 2 2 10 1" "\<lambda>a b. None" identity_transform 0
      "LiDAR360_new ''lidar'' 2 2 10 1" "\<lparr>nDim = 4, sample_data = [0, 0, 0, 0]\<rparr>"]
  by (simp add: sf_defs BT_LARGE_FLOAT_def Let_def upt_rec) (simp add: numeral_eq_Suc)

text \<open>
  A scan is determined by the world, the frame and the setup of the sensor, not by
  the distances stored before: scanning twice in the same world and frame gives the same
  sensor and the same sample as scanning once, whatever the time steps are.
\<close>

theorem InternalUpdate_idempotent:
  assumes "LiDAR360_inv s"
  shows "Option.bind (InternalUpdate rayTest mbTrans dt s)
           (\<lambda>(s', smp). InternalUpdate rayTest mbTrans dt' s')
         = InternalUpdate rayTest mbTrans dt s"
proof (cases "no_overflow s")
  case True
  with assms show ?thesis
    by (simp add: InternalUpdate_eq inv_frame no_overflow_length)
next
  case False
  with assms show ?thesis by (simp add: InternalUpdate_overflow)
qed

theorem InternalUpdate_idempotent_witness:
  "LiDAR360_inv (LiDAR360_new ''lidar'' 1 1 10 1) \<and>
   Option.bind (InternalUpdate (\<lambda>a b. Some 0) identity_transform 0 (LiDAR360_new ''lidar'' 1 1 10 1))
     (\<lambda>(s', smp). InternalUpdate (\<lambda>a b. Some 0) identity_transform 1 s')
   = InternalUpdate (\<lambda>a b. Some 0) identity_transform 0 (LiDAR360_new ''lidar'' 1 1 10 1)"
  using InternalUpdate_idempotent [of "LiDAR360_new ''lidar'' 1 1 10 1" "\<lambda>a b. Some 0"
      identity_transform 0 1]
  by (simp add: new_inv)

section \<open>Boundary cases\<close>

text \<open>
  A grid without beams. With no layers or no beams per layer the loops of the
  constructor never divide by the count, a scan writes nothing and hands over a sample
  of dimension 0, and \<open>Render\<close> adds an item without points.
\<close>

lemma empty_grid:
  assumes "LiDAR360_inv s" and "resolution s = 0 \<or> layers s = 0"
  shows "distances s = []"
    and "InternalUpdate rayTest m dt s = Some (s, \<lparr>nDim = 0, sample_data = []\<rparr>)"
    and "Render items True f s
         = Some (items @ [\<lparr>rtype = SENSOR_LINES, model = f, points = []\<rparr>])"
proof -
  from assms(2) have n: "unat (layers s) * unat (resolution s) = 0" by auto
  then have nov: "no_overflow s" unfolding no_overflow_def by (simp only:) simp
  have "length (distances s) = 0" unfolding no_overflow_length [OF assms(1) nov] by (rule n)
  then show d: "distances s = []" by simp
  have "scan rayTest m s = []" unfolding scan_def n by simp
  moreover from assms(2) have "resolution s * layers s = 0" by auto
  ultimately show "InternalUpdate rayTest m dt s = Some (s, \<lparr>nDim = 0, sample_data = []\<rparr>)"
    using d by (simp add: InternalUpdate_eq [OF assms(1) nov])
  show "Render items True f s
      = Some (items @ [\<lparr>rtype = SENSOR_LINES, model = f, points = []\<rparr>])"
    unfolding Render_eq [OF assms(1) nov] n by simp
qed

lemma new_empty_grid:
  "angles_hori (LiDAR360_new name 0 lay freq hist) = []"
  "angles_vert (LiDAR360_new name res 0 freq hist) = []"
  "distances (LiDAR360_new name 0 lay freq hist) = []"
  "distances (LiDAR360_new name res 0 freq hist) = []"
  by (simp_all add: angle_table_def)

text \<open>
  An inverted range. \<open>setRange\<close> accepts \<open>rangeMin > rangeMax\<close>; the ray then runs from
  the far end towards the sensor, the distance stored for a hit lies between
  \<open>rangeMax\<close> and \<open>rangeMin\<close> times the length of the direction, and it falls as the
  fraction grows: the hit closest to the start of the ray, which is the one the ray
  test returns, is the one farthest from the sensor.
\<close>

lemma measure_beam_inverted:
  assumes "0 \<le> rangeMax ch" and "rangeMax ch \<le> rangeMin ch"
    and "rayTest (getOrigin m + rangeMin ch *\<^sub>R d) (getOrigin m + rangeMax ch *\<^sub>R d) = Some f"
    and "0 \<le> f" and "f \<le> 1"
  shows "measure_beam rayTest m ch d
         = (rangeMin ch - (rangeMin ch - rangeMax ch) * f) * length_v d"
    and "rangeMax ch * length_v d \<le> measure_beam rayTest m ch d"
    and "measure_beam rayTest m ch d \<le> rangeMin ch * length_v d"
proof -
  let ?t = "rangeMin ch - (rangeMin ch - rangeMax ch) * f"
  from assms(2,5) have "(rangeMin ch - rangeMax ch) * f \<le> (rangeMin ch - rangeMax ch) * 1"
    by (intro mult_left_mono) simp_all
  then have lo: "rangeMax ch \<le> ?t" by simp
  from assms(2,4) have hi: "?t \<le> rangeMin ch" by simp
  from lo assms(1) have "\<bar>?t\<bar> = ?t" by simp
  moreover have "rangeMin ch + (rangeMax ch - rangeMin ch) * f = ?t" by (simp add: algebra_simps)
  ultimately show eq: "measure_beam rayTest m ch d = ?t * length_v d"
    using assms(3) by (simp add: measure_beam_hit)
  from lo show "rangeMax ch * length_v d \<le> measure_beam rayTest m ch d"
    unfolding eq by (intro mult_right_mono) simp_all
  from hi show "measure_beam rayTest m ch d \<le> rangeMin ch * length_v d"
    unfolding eq by (intro mult_right_mono) simp_all
qed

lemma inverted_range_farthest_first:
  assumes "0 \<le> rangeMax ch" and "rangeMax ch \<le> rangeMin ch"
    and "near (getOrigin m + rangeMin ch *\<^sub>R d) (getOrigin m + rangeMax ch *\<^sub>R d) = Some f"
    and "far (getOrigin m + rangeMin ch *\<^sub>R d) (getOrigin m + rangeMax ch *\<^sub>R d) = Some g"
    and "0 \<le> f" and "f \<le> g" and "g \<le> 1"
  shows "measure_beam far m ch d \<le> measure_beam near m ch d"
proof -
  from assms(5-7) have f: "f \<le> 1" and g: "0 \<le> g" by simp_all
  from assms(2,6) have "(rangeMin ch - rangeMax ch) * f \<le> (rangeMin ch - rangeMax ch) * g"
    by (intro mult_left_mono) simp_all
  then have "(rangeMin ch - (rangeMin ch - rangeMax ch) * g) * length_v d
      \<le> (rangeMin ch - (rangeMin ch - rangeMax ch) * f) * length_v d"
    by (intro mult_right_mono) simp_all
  then show ?thesis
    unfolding measure_beam_inverted(1) [of ch near m d f, OF assms(1,2,3,5) f]
      measure_beam_inverted(1) [of ch far m d g, OF assms(1,2,4) g assms(7)] .
qed

section \<open>Distinct directions\<close>

text \<open>
  The direction of a ray determines the cosine and sine of its horizontal angle and the
  sine of its vertical angle; within the ranges of the constructor these determine the
  angles, and the strictly increasing tables determine the indices.
\<close>

lemma beam_dir_components:
  assumes "orthonormal (getBasis m)"
  shows "dot (beam_dir m h v) (getColumn (getBasis m) 0) = cos h"
    and "dot (beam_dir m h v) (getColumn (getBasis m) 1) = sin h"
    and "dot (beam_dir m h v) (getColumn (getBasis m) 2) = sin v"
  by (simp_all add: beam_dir_def dot_linear orthonormalD [OF assms])

lemma beam_dir_eq_iff:
  assumes "orthonormal (getBasis m)"
  shows "beam_dir m h v = beam_dir m h' v' \<longleftrightarrow> cos h = cos h' \<and> sin h = sin h' \<and> sin v = sin v'"
proof
  assume "beam_dir m h v = beam_dir m h' v'"
  from beam_dir_components [OF assms, of h v, unfolded this] beam_dir_components [OF assms, of h' v']
  show "cos h = cos h' \<and> sin h = sin h' \<and> sin v = sin v'" by simp
qed (simp add: beam_dir_def)

lemma angle_in_turn:
  fixes h h' :: real
  assumes "- pi \<le> h" "h < pi" "- pi \<le> h'" "h' < pi" and "cos h = cos h'" "sin h = sin h'"
  shows "h = h'"
proof -
  from assms(5,6) sin_cos_eq_iff [of h h'] obtain n :: int where n: "h = h' + 2 * pi * n"
    by auto
  from assms(1-4) have "\<bar>h - h'\<bar> < 2 * pi" by simp
  with n have "2 * pi * \<bar>real_of_int n\<bar> < 2 * pi * 1" by (simp add: abs_mult)
  with mult_less_cancel_left_pos [of "2 * pi" "\<bar>real_of_int n\<bar>" 1]
  have "\<bar>real_of_int n\<bar> < 1" by simp
  then have "n = 0" by simp
  with n show ?thesis by simp
qed

lemma angle_table_inj:
  assumes "0 < r" and "k < unat n" and "k' < unat n"
    and "angle_table n r ! k = angle_table n r ! k'"
  shows "k = k'"
proof (rule ccontr)
  note inc = angle_table_increasing [OF assms(1), of n]
  assume "k \<noteq> k'"
  then consider "k < k'" | "k' < k" by arith
  then show False
  proof cases
    case 1
    from sorted_wrt_nth_less [OF inc 1] assms(3,4) show False by simp
  next
    case 2
    from sorted_wrt_nth_less [OF inc 2] assms(2,4) show False by simp
  qed
qed

lemma new_angle_ranges:
  assumes "j < unat lay" and "i < unat res"
  shows "- pi \<le> angles_hori (LiDAR360_new name res lay freq hist) ! i"
    and "angles_hori (LiDAR360_new name res lay freq hist) ! i < pi"
    and "- (pi / 2) < angles_vert (LiDAR360_new name res lay freq hist) ! j"
    and "angles_vert (LiDAR360_new name res lay freq hist) ! j < pi / 2"
proof -
  from assms(2) have "angle_table res (2 * pi) ! i \<in> set (angle_table res (2 * pi))" by simp
  from angle_table_bounds [OF _ this]
  show "- pi \<le> angles_hori (LiDAR360_new name res lay freq hist) ! i"
    and "angles_hori (LiDAR360_new name res lay freq hist) ! i < pi" by simp_all
  from assms(1) have "angle_table lay (53 * pi / 225) ! j \<in> set (angle_table lay (53 * pi / 225))"
    by simp
  from angle_table_bounds [OF _ this]
  have "- (53 * pi / 450) \<le> angle_table lay (53 * pi / 225) ! j"
    "angle_table lay (53 * pi / 225) ! j < 53 * pi / 450" by simp_all
  moreover have "53 * pi / 450 < pi / 2" by simp
  ultimately show "- (pi / 2) < angles_vert (LiDAR360_new name res lay freq hist) ! j"
    and "angles_vert (LiDAR360_new name res lay freq hist) ! j < pi / 2" by simp_all
qed

lemma new_angles_inj:
  "i < unat res \<Longrightarrow> i' < unat res \<Longrightarrow>
     angles_hori (LiDAR360_new name res lay freq hist) ! i
       = angles_hori (LiDAR360_new name res lay freq hist) ! i' \<Longrightarrow> i = i'"
  "j < unat lay \<Longrightarrow> j' < unat lay \<Longrightarrow>
     angles_vert (LiDAR360_new name res lay freq hist) ! j
       = angles_vert (LiDAR360_new name res lay freq hist) ! j' \<Longrightarrow> j = j'"
  using angle_table_inj [of "2 * pi" i res i'] angle_table_inj [of "53 * pi / 225" j lay j']
  by simp_all

lemma render_dir_eq_iff:
  fixes v v' h h' :: real
  assumes "- (pi / 2) < v" "v < pi / 2" "- (pi / 2) < v'" "v' < pi / 2"
  shows "render_dir v h = render_dir v' h' \<longleftrightarrow> cos h = cos h' \<and> sin h = sin h' \<and> v = v'"
proof
  assume "render_dir v h = render_dir v' h'"
  then have eq: "cos v * cos h = cos v' * cos h'" "cos v * sin h = cos v' * sin h'"
    "sin v = sin v'"
    unfolding render_dir_def Vector3_eq_iff by simp_all
  have v: "v = v'" by (rule sin_inj_pi) (use assms eq(3) in \<open>simp_all only: less_imp_le\<close>)
  from cos_gt_zero_pi [OF assms(1,2)] have "cos v \<noteq> 0" by simp
  with eq(1,2) show "cos h = cos h' \<and> sin h = sin h' \<and> v = v'"
    unfolding v [symmetric] by simp
next
  assume "cos h = cos h' \<and> sin h = sin h' \<and> v = v'"
  then show "render_dir v h = render_dir v' h'" by (simp add: render_dir_def)
qed

text \<open>
  The beams of a constructed sensor: two beams of the grid have the same direction, when
  cast and when drawn, only if they are the same beam; the directions of the horizontal
  angles \<open>+\<pi>\<close> and \<open>-\<pi>\<close> coincide.
\<close>

lemma new_beams_distinct:
  assumes "orthonormal (getBasis m)"
    and "j < unat lay" and "i < unat res" and "j' < unat lay" and "i' < unat res"
  shows "(beam_dir m (angles_hori (LiDAR360_new name res lay freq hist) ! i)
                    (angles_vert (LiDAR360_new name res lay freq hist) ! j)
          = beam_dir m (angles_hori (LiDAR360_new name res lay freq hist) ! i')
                    (angles_vert (LiDAR360_new name res lay freq hist) ! j')
          \<longleftrightarrow> i = i' \<and> j = j')
    \<and> (render_dir (angles_vert (LiDAR360_new name res lay freq hist) ! j)
                   (angles_hori (LiDAR360_new name res lay freq hist) ! i)
          = render_dir (angles_vert (LiDAR360_new name res lay freq hist) ! j')
                   (angles_hori (LiDAR360_new name res lay freq hist) ! i')
          \<longleftrightarrow> i = i' \<and> j = j')
    \<and> beam_dir m pi v = beam_dir m (- pi) v"
proof -
  let ?s = "LiDAR360_new name res lay freq hist"
  let ?h = "angles_hori ?s ! i" and ?h' = "angles_hori ?s ! i'"
  let ?v = "angles_vert ?s ! j" and ?v' = "angles_vert ?s ! j'"
  note r = new_angle_ranges [OF assms(2,3), of name freq hist]
    and r' = new_angle_ranges [OF assms(4,5), of name freq hist]
  have h: "cos ?h = cos ?h' \<and> sin ?h = sin ?h' \<longleftrightarrow> i = i'"
  proof
    assume "cos ?h = cos ?h' \<and> sin ?h = sin ?h'"
    then have "?h = ?h'" by (intro angle_in_turn [OF r(1,2) r'(1,2)]) blast+
    then show "i = i'" by (rule new_angles_inj(1) [OF assms(3,5)])
  qed blast
  have v': "?v = ?v' \<longleftrightarrow> j = j'"
    by (rule iffI, rule new_angles_inj(2) [OF assms(2,4)]) blast+
  have v: "sin ?v = sin ?v' \<longleftrightarrow> ?v = ?v'"
    by (rule iffI, rule sin_inj_pi) (use r(3,4) r'(3,4) in \<open>simp_all only: less_imp_le\<close>)
  have "beam_dir m pi v = beam_dir m (- pi) v" by (simp add: beam_dir_def)
  then show ?thesis
    unfolding beam_dir_eq_iff [OF assms(1)] render_dir_eq_iff [OF r(3,4) r'(3,4)]
    using h v v' by blast
qed

section \<open>The directions after any sequence of calls\<close>

lemma step_keeps_tables:
  assumes "LiDAR360_step s c = Some t"
  shows "angles_hori t = angles_hori s \<and> angles_vert t = angles_vert s
    \<and> resolution t = resolution s \<and> layers t = layers s"
proof (cases c)
  case (Call_InternalUpdate r m dt)
  with assms obtain smp where "InternalUpdate r m dt s = Some (t, smp)" by auto
  from same_setup_fields [OF layers_Some(1) [OF InternalUpdate_Some_layers [OF this]]]
  show ?thesis by simp
next
  case (Call_Render items b m)
  with assms show ?thesis by auto
next
  case (Call_setRange a b)
  with assms show ?thesis by (auto simp: setRange_def Let_def bind_eq_Some_conv)
next
  case (Call_setNoise sd)
  with assms show ?thesis by (auto simp: setNoise_def bind_eq_Some_conv)
qed

lemma run_keeps_tables:
  assumes "LiDAR360_run s cs = Some t"
  shows "angles_hori t = angles_hori s \<and> angles_vert t = angles_vert s
    \<and> resolution t = resolution s \<and> layers t = layers s"
  using assms
proof (induction cs arbitrary: s)
  case Nil
  then show ?case by simp
next
  case (Cons c cs)
  then obtain u where u: "LiDAR360_step s c = Some u" "LiDAR360_run u cs = Some t"
    by (auto simp: bind_eq_Some_conv)
  from Cons.IH [OF u(2)] step_keeps_tables [OF u(1)] show ?case by simp
qed

text \<open>
  C24. No direction is measured twice. In every state that a constructed sensor reaches
  by a sequence of calls, the \<open>resolution * layers\<close> rays of a scan have pairwise
  different directions, for every rotation of the sensor, and so have the directions
  along which \<open>Render\<close> draws them: no call changes the angle tables. The horizontal
  angles divide the full turn into \<open>resolution\<close> steps from \<open>-\<pi>\<close> without reaching \<open>+\<pi>\<close>:
  a table of \<open>resolution + 1\<close> entries up to \<open>+\<pi>\<close>, as the comment in the constructor
  announces, would measure the direction of \<open>-\<pi>\<close> twice.
\<close>

theorem beams_distinct:
  assumes "LiDAR360_run (LiDAR360_new name res lay freq hist) cs = Some s"
    and "orthonormal (getBasis m)"
    and "j < unat (layers s)" and "i < unat (resolution s)"
    and "j' < unat (layers s)" and "i' < unat (resolution s)"
  shows "(beam_dir m (angles_hori s ! i) (angles_vert s ! j)
          = beam_dir m (angles_hori s ! i') (angles_vert s ! j') \<longleftrightarrow> i = i' \<and> j = j')
    \<and> (render_dir (angles_vert s ! j) (angles_hori s ! i)
          = render_dir (angles_vert s ! j') (angles_hori s ! i') \<longleftrightarrow> i = i' \<and> j = j')
    \<and> beam_dir m pi (angles_vert s ! j) = beam_dir m (- pi) (angles_vert s ! j)"
proof -
  note k = run_keeps_tables [OF assms(1)]
  from k assms(3-6) have b: "j < unat lay" "i < unat res" "j' < unat lay" "i' < unat res"
    by simp_all
  from new_beams_distinct [OF assms(2) b, of name freq hist] k show ?thesis
    by (simp add: beam_dir_def)
qed

theorem beams_distinct_witness:
  "case LiDAR360_run (LiDAR360_new ''lidar'' 4 2 10 1) [Call_setRange 1 5] of
     None \<Rightarrow> False
   | Some s \<Rightarrow> beam_dir identity_transform (angles_hori s ! 0) (angles_vert s ! 1)
        \<noteq> beam_dir identity_transform (angles_hori s ! 2) (angles_vert s ! 1)"
proof -
  have "LiDAR360_ok (LiDAR360_new ''lidar'' 4 2 10 1)" by (simp add: LiDAR360_ok_def new_inv)
  from run_ok [OF this, of "[Call_setRange 1 5]"] obtain s
    where s: "LiDAR360_run (LiDAR360_new ''lidar'' 4 2 10 1) [Call_setRange 1 5] = Some s"
      "resolution s = 4" "layers s = 2" by auto
  from beams_distinct [OF s(1), where m = identity_transform and j = 1 and i = 0
      and j' = 1 and i' = 2] s(2,3)
  have "beam_dir identity_transform (angles_hori s ! 0) (angles_vert s ! 1)
        \<noteq> beam_dir identity_transform (angles_hori s ! 2) (angles_vert s ! 1)"
    by (simp add: identity_transform_def)
  with s(1) show ?thesis by simp
qed

end
