(* ===== verification/Collision_World.thy ===== *)
theory Collision_World
  imports Bullet_LinearMath
begin

text \<open>
  The ray query of Bullet's collision world, \<open>btCollisionWorld::rayTest\<close> with a
  \<open>ClosestRayResultCallback\<close>, as the sensor calls it.

  Bullet is a library the sources only call, so the definitions state what the call
  does. The world is the list of its collision objects. An object carries the two
  filter words of its broadphase proxy, group and mask, and its narrow phase
  \<open>castRay\<close>: the fraction of the segment from \<open>rayFrom\<close> to \<open>rayTo\<close> at which the ray
  enters the shape, if it does. The callback carries the filter words of the ray, the
  smallest fraction found so far (1 at the start) and the object it belongs to.
  \<open>rayTest\<close> visits the objects in order; \<open>process\<close> skips an object once fraction 0
  has been reached, or when \<open>needsCollision\<close> fails: the group of each side must share
  a bit with the mask of the other. \<open>rayTestSingle\<close> reports a hit only if its
  fraction is strictly below the closest one so far.

  The lemmas show that the filter words of the callback never change, that the
  closest fraction after the query is the minimum of the starting fraction and the
  fractions of all objects that pass the filter, that the object recorded is one that
  has this fraction, and that the outcome depends only on the set of objects, not on
  their order.
\<close>

unbundle bit_operations_syntax

section \<open>Filters, objects and the callback\<close>

record CollisionFilter =
  m_collisionFilterGroup :: cint
  m_collisionFilterMask :: cint

record CollisionObject = CollisionFilter +
  castRay :: "Vector3 \<Rightarrow> Vector3 \<Rightarrow> Scalar option"

record ClosestRayResultCallback = CollisionFilter +
  m_rayFromWorld :: Vector3
  m_rayToWorld :: Vector3
  m_closestHitFraction :: Scalar
  m_collisionObject :: "nat option"

definition DefaultFilter :: cint where
  "DefaultFilter = 1"

definition AllFilter :: cint where
  "AllFilter = - 1"

definition ClosestRayResultCallback_new :: "Vector3 \<Rightarrow> Vector3 \<Rightarrow> ClosestRayResultCallback" where
  "ClosestRayResultCallback_new rayFromWorld rayToWorld =
     \<lparr>m_collisionFilterGroup = DefaultFilter, m_collisionFilterMask = AllFilter,
      m_rayFromWorld = rayFromWorld, m_rayToWorld = rayToWorld,
      m_closestHitFraction = 1, m_collisionObject = None\<rparr>"

definition hasHit :: "ClosestRayResultCallback \<Rightarrow> bool" where
  "hasHit cb = (m_collisionObject cb \<noteq> None)"

definition needsCollision :: "ClosestRayResultCallback \<Rightarrow> CollisionObject \<Rightarrow> bool" where
  "needsCollision cb proxy0 =
     ((m_collisionFilterGroup proxy0 AND m_collisionFilterMask cb) \<noteq> 0
      \<and> (m_collisionFilterGroup cb AND m_collisionFilterMask proxy0) \<noteq> 0)"

definition addSingleResult ::
  "nat \<Rightarrow> Scalar \<Rightarrow> ClosestRayResultCallback \<Rightarrow> ClosestRayResultCallback" where
  "addSingleResult obj hitFraction cb =
     cb\<lparr>m_closestHitFraction := hitFraction, m_collisionObject := Some obj\<rparr>"

section \<open>The query\<close>

definition rayTestSingle ::
  "Vector3 \<Rightarrow> Vector3 \<Rightarrow> nat \<Rightarrow> CollisionObject \<Rightarrow> ClosestRayResultCallback
     \<Rightarrow> ClosestRayResultCallback" where
  "rayTestSingle rayFrom rayTo i obj cb =
     (case castRay obj rayFrom rayTo of
        None \<Rightarrow> cb
      | Some fraction \<Rightarrow>
          if fraction < m_closestHitFraction cb then addSingleResult i fraction cb else cb)"

definition process ::
  "Vector3 \<Rightarrow> Vector3 \<Rightarrow> nat \<Rightarrow> CollisionObject \<Rightarrow> ClosestRayResultCallback
     \<Rightarrow> ClosestRayResultCallback" where
  "process rayFrom rayTo i obj cb =
     (if m_closestHitFraction cb = 0 then cb
      else if needsCollision cb obj then rayTestSingle rayFrom rayTo i obj cb
      else cb)"

fun rayTest_from ::
  "nat \<Rightarrow> CollisionObject list \<Rightarrow> Vector3 \<Rightarrow> Vector3 \<Rightarrow> ClosestRayResultCallback
     \<Rightarrow> ClosestRayResultCallback" where
  "rayTest_from i [] rayFrom rayTo cb = cb"
| "rayTest_from i (obj # objs) rayFrom rayTo cb =
     rayTest_from (Suc i) objs rayFrom rayTo (process rayFrom rayTo i obj cb)"

definition rayTest ::
  "CollisionObject list \<Rightarrow> Vector3 \<Rightarrow> Vector3 \<Rightarrow> ClosestRayResultCallback
     \<Rightarrow> ClosestRayResultCallback" where
  "rayTest world = rayTest_from 0 world"

section \<open>What the query is to compute\<close>

text \<open>
  The fractions at which the ray enters the objects that pass the filter, in the order
  of the world, and the condition on one cast that makes fraction 0 the least
  possible: fractions are not negative.
\<close>

fun hit_fractions ::
  "ClosestRayResultCallback \<Rightarrow> CollisionObject list \<Rightarrow> Vector3 \<Rightarrow> Vector3 \<Rightarrow> Scalar list" where
  "hit_fractions cb [] rayFrom rayTo = []"
| "hit_fractions cb (obj # objs) rayFrom rayTo =
     (if needsCollision cb obj
      then (case castRay obj rayFrom rayTo of
              None \<Rightarrow> hit_fractions cb objs rayFrom rayTo
            | Some fraction \<Rightarrow> fraction # hit_fractions cb objs rayFrom rayTo)
      else hit_fractions cb objs rayFrom rayTo)"

definition cast_ok :: "Vector3 \<Rightarrow> Vector3 \<Rightarrow> CollisionObject \<Rightarrow> bool" where
  "cast_ok rayFrom rayTo obj =
     (case castRay obj rayFrom rayTo of None \<Rightarrow> True | Some fraction \<Rightarrow> 0 \<le> fraction)"

definition same_filter :: "ClosestRayResultCallback \<Rightarrow> ClosestRayResultCallback \<Rightarrow> bool" where
  "same_filter cb cb' \<longleftrightarrow>
     m_collisionFilterGroup cb' = m_collisionFilterGroup cb
     \<and> m_collisionFilterMask cb' = m_collisionFilterMask cb
     \<and> m_rayFromWorld cb' = m_rayFromWorld cb \<and> m_rayToWorld cb' = m_rayToWorld cb"

text \<open>
  Two callbacks that differ at most in the object they point at.
\<close>

definition same_hit :: "ClosestRayResultCallback \<Rightarrow> ClosestRayResultCallback \<Rightarrow> bool" where
  "same_hit cb cb' \<longleftrightarrow>
     same_filter cb cb' \<and> m_closestHitFraction cb' = m_closestHitFraction cb
     \<and> hasHit cb' = hasHit cb"

text \<open>
  The cast of a ray against an infinite static plane with unit normal \<open>n\<close> and plane
  constant \<open>c\<close> (the points \<open>p\<close> with \<open>dot n p = c\<close>): the ray hits when it starts on
  the side the normal points to, or on the plane, and ends on the other side.
\<close>

definition plane_cast :: "Vector3 \<Rightarrow> Scalar \<Rightarrow> Vector3 \<Rightarrow> Vector3 \<Rightarrow> Scalar option" where
  "plane_cast planeNormal planeConstant rayFrom rayTo =
     (let d0 = dot planeNormal rayFrom - planeConstant;
          d1 = dot planeNormal rayTo - planeConstant
      in if 0 \<le> d0 \<and> d1 < 0 then Some (d0 / (d0 - d1)) else None)"

text \<open>
  The object the callback points at is in the world, passes the filter and is hit at
  the closest fraction.
\<close>

definition points_at ::
  "CollisionObject list \<Rightarrow> Vector3 \<Rightarrow> Vector3 \<Rightarrow> ClosestRayResultCallback \<Rightarrow> bool" where
  "points_at world f t cb \<longleftrightarrow>
     (case m_collisionObject cb of
        None \<Rightarrow> True
      | Some k \<Rightarrow> k < length world \<and> needsCollision cb (world ! k)
          \<and> castRay (world ! k) f t = Some (m_closestHitFraction cb))"

lemmas [sf_defs] = DefaultFilter_def AllFilter_def ClosestRayResultCallback_new_def hasHit_def
  needsCollision_def addSingleResult_def rayTestSingle_def process_def rayTest_def
  cast_ok_def same_filter_def points_at_def same_hit_def plane_cast_def

section \<open>The filter of the callback\<close>

lemma same_filter_refl [simp]: "same_filter cb cb"
  by (simp add: same_filter_def)

lemma same_filter_trans: "same_filter a b \<Longrightarrow> same_filter b c \<Longrightarrow> same_filter a c"
  by (simp add: same_filter_def)

lemma same_filter_needs: "same_filter cb cb' \<Longrightarrow> needsCollision cb' obj = needsCollision cb obj"
  by (simp add: same_filter_def needsCollision_def)

lemma same_filter_hits:
  "same_filter cb cb' \<Longrightarrow> hit_fractions cb' world f t = hit_fractions cb world f t"
  by (induction world) (simp_all add: same_filter_needs split: option.split)

lemma process_filter [simp]: "same_filter cb (process f t i obj cb)"
  by (simp add: process_def rayTestSingle_def addSingleResult_def same_filter_def
      split: option.split)

lemma rayTest_from_filter [simp]: "same_filter cb (rayTest_from i objs f t cb)"
proof (induction objs arbitrary: i cb)
  case (Cons obj objs)
  from process_filter Cons.IH show ?case unfolding rayTest_from.simps by (rule same_filter_trans)
qed simp

lemma rayTest_filter [simp]: "same_filter cb (rayTest world f t cb)"
  by (simp add: rayTest_def)

section \<open>One object\<close>

lemma hit_fractions_append [simp]:
  "hit_fractions cb (xs @ ys) f t = hit_fractions cb xs f t @ hit_fractions cb ys f t"
  by (induction xs) (simp_all split: option.split)

lemma set_hit_fractions:
  "set (hit_fractions cb world f t)
   = {h. \<exists>obj \<in> set world. needsCollision cb obj \<and> castRay obj f t = Some h}"
  by (induction world) (auto split: option.splits)

lemma hit_fractions_nonneg:
  assumes "list_all (cast_ok f t) world" and "h \<in> set (hit_fractions cb world f t)"
  shows "0 \<le> h"
  using assms by (auto simp: set_hit_fractions list_all_iff cast_ok_def split: option.splits)

lemma process_fraction:
  assumes "cast_ok f t obj" and "0 \<le> m_closestHitFraction cb"
  shows "m_closestHitFraction (process f t i obj cb)
         = fold min (hit_fractions cb [obj] f t) (m_closestHitFraction cb)"
  using assms
  by (cases "castRay obj f t")
    (auto simp: process_def rayTestSingle_def addSingleResult_def cast_ok_def)

lemma process_hasHit:
  assumes "cast_ok f t obj" and "0 \<le> m_closestHitFraction cb"
  shows "hasHit (process f t i obj cb)
         \<longleftrightarrow> hasHit cb \<or> (\<exists>h \<in> set (hit_fractions cb [obj] f t). h < m_closestHitFraction cb)"
  using assms
  by (cases "castRay obj f t")
    (auto simp: process_def rayTestSingle_def addSingleResult_def cast_ok_def hasHit_def)

lemma fold_min_nonneg:
  fixes c :: real
  assumes "0 \<le> c" and "\<And>h. h \<in> set hs \<Longrightarrow> 0 \<le> h"
  shows "0 \<le> fold min hs c"
  using assms by (induction hs arbitrary: c) simp_all

lemma fold_min_less:
  fixes c :: real
  shows "fold min hs c < d \<longleftrightarrow> c < d \<or> (\<exists>h \<in> set hs. h < d)"
  by (induction hs arbitrary: c) (auto simp: min_less_iff_disj)

lemma fold_min_Min: "fold min hs (c :: real) = Min (set (c # hs))"
  using Min.set_eq_fold [of c hs] by simp

section \<open>The whole world\<close>

lemma fold_min_le: "fold min hs (c :: real) \<le> c"
proof (induction hs arbitrary: c)
  case (Cons h hs)
  from Cons.IH [of "min h c"] show ?case by simp
qed simp

lemma fold_min_below:
  fixes c :: real
  shows "(\<exists>h \<in> set hs1. h < c) \<or> (\<exists>h \<in> set hs2. h < fold min hs1 c)
    \<longleftrightarrow> (\<exists>h \<in> set (hs1 @ hs2). h < c)"
proof -
  have "\<exists>h' \<in> set hs1. h' < c" if "h < c" and "\<not> h < fold min hs1 c" for h
  proof -
    from that have "fold min hs1 c < c" by simp
    then show ?thesis by (simp add: fold_min_less)
  qed
  moreover have "h < c" if "h < fold min hs1 c" for h
    using that fold_min_le [of hs1 c] by simp
  ultimately show ?thesis by auto
qed

lemma rayTest_from_closest:
  assumes "list_all (cast_ok f t) objs" and "0 \<le> m_closestHitFraction cb"
  shows "m_closestHitFraction (rayTest_from i objs f t cb)
         = fold min (hit_fractions cb objs f t) (m_closestHitFraction cb)
    \<and> (hasHit (rayTest_from i objs f t cb)
         \<longleftrightarrow> hasHit cb \<or> (\<exists>h \<in> set (hit_fractions cb objs f t). h < m_closestHitFraction cb))"
  using assms
proof (induction objs arbitrary: i cb)
  case (Cons obj objs)
  let ?cb = "process f t i obj cb"
  define hs1 where "hs1 = hit_fractions cb [obj] f t"
  define hs2 where "hs2 = hit_fractions cb objs f t"
  define c where "c = m_closestHitFraction cb"
  from Cons.prems have ok: "cast_ok f t obj" and oks: "list_all (cast_ok f t) objs" by simp_all
  have fr: "m_closestHitFraction ?cb = fold min hs1 c"
    unfolding hs1_def c_def by (rule process_fraction [OF ok Cons.prems(2)])
  have "0 \<le> h" if "h \<in> set hs1" for h
    using ok that unfolding hs1_def by (intro hit_fractions_nonneg [of f t "[obj]" h cb]) simp_all
  with Cons.prems(2) have nn: "0 \<le> m_closestHitFraction ?cb"
    unfolding fr c_def by (intro fold_min_nonneg)
  have hs: "hit_fractions ?cb objs f t = hs2"
    unfolding hs2_def by (rule same_filter_hits) simp
  have split: "hit_fractions cb (obj # objs) f t = hs1 @ hs2"
    unfolding hs1_def hs2_def using hit_fractions_append [of cb "[obj]" objs f t] by simp
  have h1: "hasHit ?cb \<longleftrightarrow> hasHit cb \<or> (\<exists>h \<in> set hs1. h < c)"
    unfolding hs1_def c_def by (rule process_hasHit [OF ok Cons.prems(2)])
  from Cons.IH [OF oks nn, of "Suc i"]
  have "m_closestHitFraction (rayTest_from (Suc i) objs f t ?cb) = fold min hs2 (fold min hs1 c)"
    and "hasHit (rayTest_from (Suc i) objs f t ?cb)
      \<longleftrightarrow> hasHit cb \<or> (\<exists>h \<in> set hs1. h < c) \<or> (\<exists>h \<in> set hs2. h < fold min hs1 c)"
    unfolding hs fr h1 by simp_all
  then show ?case
    unfolding rayTest_from.simps split c_def [symmetric] fold_min_below [symmetric] by simp
qed simp

lemmas rayTest_from_fraction = rayTest_from_closest [THEN conjunct1]
lemmas rayTest_from_hasHit = rayTest_from_closest [THEN conjunct2]

lemma rayTest_closest:
  assumes "list_all (cast_ok f t) world" and "0 \<le> m_closestHitFraction cb"
  shows "m_closestHitFraction (rayTest world f t cb)
         = Min (set (m_closestHitFraction cb # hit_fractions cb world f t))"
    and "hasHit (rayTest world f t cb)
         \<longleftrightarrow> hasHit cb \<or> (\<exists>h \<in> set (hit_fractions cb world f t). h < m_closestHitFraction cb)"
  unfolding rayTest_def fold_min_Min [symmetric]
  by (rule rayTest_from_fraction [OF assms], rule rayTest_from_hasHit [OF assms])

text \<open>
  The outcome does not depend on the order in which the broadphase hands over the
  objects, nor on how often an object is in the world.
\<close>

lemma rayTest_set:
  assumes "set world = set world'"
    and "list_all (cast_ok f t) world" and "0 \<le> m_closestHitFraction cb"
  shows "m_closestHitFraction (rayTest world' f t cb) = m_closestHitFraction (rayTest world f t cb)"
    and "hasHit (rayTest world' f t cb) = hasHit (rayTest world f t cb)"
proof -
  from assms(1,2) have ok: "list_all (cast_ok f t) world'" by (simp add: list_all_iff)
  have hs: "set (hit_fractions cb world' f t) = set (hit_fractions cb world f t)"
    by (simp add: set_hit_fractions assms(1))
  show "m_closestHitFraction (rayTest world' f t cb) = m_closestHitFraction (rayTest world f t cb)"
    and "hasHit (rayTest world' f t cb) = hasHit (rayTest world f t cb)"
    by (simp_all add: rayTest_closest [OF ok assms(3)] rayTest_closest [OF assms(2,3)] hs)
qed

section \<open>The object that is hit\<close>

lemma process_points_at:
  assumes "points_at (pre @ obj # objs) f t cb"
  shows "points_at (pre @ obj # objs) f t (process f t (length pre) obj cb)"
  using assms
  by (cases "castRay obj f t")
    (auto simp: points_at_def process_def rayTestSingle_def addSingleResult_def
      needsCollision_def split: option.splits)

lemma rayTest_from_points_at:
  assumes "points_at (pre @ objs) f t cb"
  shows "points_at (pre @ objs) f t (rayTest_from (length pre) objs f t cb)"
  using assms
proof (induction objs arbitrary: pre cb)
  case (Cons obj objs)
  from process_points_at [OF Cons.prems]
  have "points_at ((pre @ [obj]) @ objs) f t (process f t (length pre) obj cb)" by simp
  from Cons.IH [OF this] show ?case by simp
qed simp

lemma rayTest_points_at:
  assumes "m_collisionObject cb = None"
  shows "points_at world f t (rayTest world f t cb)"
  using rayTest_from_points_at [of "[]" world f t cb] assms
  by (simp add: rayTest_def points_at_def)

section \<open>Independence of the index\<close>

lemma same_hit_refl [simp]: "same_hit cb cb"
  by (simp add: same_hit_def)

lemma process_same_hit:
  assumes "same_hit cb cb'"
  shows "same_hit (process f t i obj cb) (process f t j obj cb')"
  using assms
  by (cases "castRay obj f t")
    (auto simp: same_hit_def same_filter_def process_def rayTestSingle_def addSingleResult_def
      needsCollision_def hasHit_def)

lemma rayTest_from_same_hit:
  assumes "same_hit cb cb'"
  shows "same_hit (rayTest_from i objs f t cb) (rayTest_from j objs f t cb')"
  using assms
proof (induction objs arbitrary: i j cb cb')
  case (Cons obj objs)
  from process_same_hit [OF Cons.prems] show ?case unfolding rayTest_from.simps by (rule Cons.IH)
qed simp

lemma rayTest_from_append:
  "rayTest_from i (xs @ ys) f t cb = rayTest_from (i + length xs) ys f t (rayTest_from i xs f t cb)"
  by (induction xs arbitrary: i cb) simp_all

lemma process_skip: "\<not> needsCollision cb obj \<Longrightarrow> process f t i obj cb = cb"
  by (simp add: process_def)

lemma rayTest_skip:
  assumes "\<not> needsCollision cb obj"
  shows "same_hit (rayTest (w1 @ obj # w2) f t cb) (rayTest (w1 @ w2) f t cb)"
proof -
  let ?cb = "rayTest_from 0 w1 f t cb"
  from assms have "\<not> needsCollision ?cb obj"
    by (simp add: same_filter_needs [OF rayTest_from_filter])
  then show ?thesis
    by (simp add: rayTest_def rayTest_from_append process_skip rayTest_from_same_hit)
qed

section \<open>The cast against a plane\<close>

lemma dot_lerp: "dot n (lerp p q f) = dot n p + f * (dot n q - dot n p)"
  by (simp add: dot_def lerp_def algebra_simps)

lemma plane_cast_Some:
  assumes "plane_cast n c p q = Some f"
  shows "0 \<le> f" and "f < 1" and "dot n (lerp p q f) = c"
    and "f = (dot n p - c) / (dot n p - dot n q)"
proof -
  let ?d0 = "dot n p - c" and ?d1 = "dot n q - c"
  from assms have d: "0 \<le> ?d0" "?d1 < 0" and f: "f = ?d0 / (?d0 - ?d1)"
    by (simp_all add: plane_cast_def Let_def split: if_splits)
  from d show "0 \<le> f" and "f < 1" unfolding f by simp_all
  show f': "f = (dot n p - c) / (dot n p - dot n q)" unfolding f by simp
  from d have "dot n p - dot n q \<noteq> 0" by simp
  then show "dot n (lerp p q f) = c"
    unfolding dot_lerp f' by (simp add: field_simps)
qed

lemma plane_cast_ok [simp]:
  "cast_ok p q \<lparr>m_collisionFilterGroup = g, m_collisionFilterMask = m, castRay = plane_cast n c\<rparr>"
  by (auto simp: cast_ok_def dest: plane_cast_Some(1) split: option.split)

end
