(* ===== verification/LiDAR360_World.thy ===== *)
theory LiDAR360_World
  imports LiDAR360_Properties Collision_World
begin

text \<open>
  The LiDAR in a collision world: the ray test that \<open>InternalUpdate\<close> performs for one
  beam, lines 105 to 113 of \<open>LiDAR360.cpp\<close>.

  The sensor model takes the ray test as a parameter of type \<open>RayTest\<close>. Here the
  parameter is instantiated the way the code does it: a \<open>ClosestRayResultCallback\<close>
  named \<open>closest\<close> whose filter group is \<open>MASK_DYNAMIC\<close> and whose filter mask is
  \<open>MASK_STATIC | MASK_DYNAMIC | MASK_ANIMATED_COLLIDING\<close>, handed to the ray query of the
  dynamics world; the beam has hit when \<open>hasHit\<close> holds, and then
  \<open>m_closestHitFraction\<close> is the fraction. The values of the three masks are defined in
  a header that is not among the sources, so they are a parameter, the record
  \<open>CollisionMasks\<close>.

  \<open>visible\<close> and \<open>closest_hit\<close> are the reference: an object is visible to the sensor
  when its group has a bit of one of the three masks and its mask has a bit of
  \<open>MASK_DYNAMIC\<close>, and the ray test returns the least fraction below 1 among the
  visible objects that the ray enters. The lemmas show that the query computes the
  reference, that objects that are not visible never change a scan, that every
  distance of a scan in a world with non-negative fractions lies within the range of
  the channel stretched by the length of the beam direction, that the distance stored
  for a beam is that of the nearest point where its ray enters a visible object
  (\<open>hit_distance\<close>, \<open>beam_hits\<close>), and what the sensor stores and draws above a
  horizontal floor (\<open>floor_distance\<close>, \<open>floor_height\<close>, \<open>floor_scan\<close>).
\<close>

section \<open>The ray test of one beam\<close>

record CollisionMasks =
  MASK_STATIC :: cint
  MASK_DYNAMIC :: cint
  MASK_ANIMATED_COLLIDING :: cint

definition closest :: "CollisionMasks \<Rightarrow> Vector3 \<Rightarrow> Vector3 \<Rightarrow> ClosestRayResultCallback" where
  "closest masks p_from p_to =
     (ClosestRayResultCallback_new p_from p_to)
       \<lparr>m_collisionFilterGroup := MASK_DYNAMIC masks,
        m_collisionFilterMask :=
          MASK_STATIC masks OR MASK_DYNAMIC masks OR MASK_ANIMATED_COLLIDING masks\<rparr>"

definition dynamicsWorld_rayTest :: "CollisionMasks \<Rightarrow> CollisionObject list \<Rightarrow> RayTest" where
  "dynamicsWorld_rayTest masks world p_from p_to =
     (let cb = rayTest world p_from p_to (closest masks p_from p_to)
      in if hasHit cb then Some (m_closestHitFraction cb) else None)"

section \<open>Reference\<close>

definition visible :: "CollisionMasks \<Rightarrow> CollisionObject \<Rightarrow> bool" where
  "visible masks obj \<longleftrightarrow>
     ((m_collisionFilterGroup obj AND MASK_STATIC masks) \<noteq> 0
      \<or> (m_collisionFilterGroup obj AND MASK_DYNAMIC masks) \<noteq> 0
      \<or> (m_collisionFilterGroup obj AND MASK_ANIMATED_COLLIDING masks) \<noteq> 0)
     \<and> (MASK_DYNAMIC masks AND m_collisionFilterMask obj) \<noteq> 0"

definition visible_hits ::
  "CollisionMasks \<Rightarrow> CollisionObject list \<Rightarrow> Vector3 \<Rightarrow> Vector3 \<Rightarrow> Scalar list" where
  "visible_hits masks world p_from p_to =
     concat (map (\<lambda>obj. case castRay obj p_from p_to of None \<Rightarrow> [] | Some h \<Rightarrow> [h])
                 (filter (visible masks) world))"

definition closest_hit :: "CollisionMasks \<Rightarrow> CollisionObject list \<Rightarrow> RayTest" where
  "closest_hit masks world p_from p_to =
     (let hs = filter (\<lambda>h. h < 1) (visible_hits masks world p_from p_to)
      in if hs = [] then None else Some (Min (set hs)))"

definition world_ok :: "CollisionObject list \<Rightarrow> bool" where
  "world_ok world \<longleftrightarrow> (\<forall>p_from p_to. list_all (cast_ok p_from p_to) world)"

text \<open>
  The distances of the surfaces along one beam: \<open>hit_distance\<close> is the distance from the
  origin of the sensor to the point of the ray at fraction \<open>h\<close>, and \<open>beam_hits\<close> lists
  it for every visible object that the ray enters before its end.
\<close>

definition hit_distance :: "SensorChannel \<Rightarrow> Vector3 \<Rightarrow> Scalar \<Rightarrow> Scalar" where
  "hit_distance ch dir h = (rangeMin ch + (rangeMax ch - rangeMin ch) * h) * length_v dir"

definition beam_hits ::
  "CollisionMasks \<Rightarrow> CollisionObject list \<Rightarrow> Transform \<Rightarrow> SensorChannel \<Rightarrow> Vector3 \<Rightarrow> Scalar list" where
  "beam_hits masks world mbTrans ch dir =
     map (hit_distance ch dir)
       (filter (\<lambda>h. h < 1)
          (visible_hits masks world (getOrigin mbTrans + rangeMin ch *\<^sub>R dir)
             (getOrigin mbTrans + rangeMax ch *\<^sub>R dir)))"

text \<open>
  The scan over a horizontal floor at depth \<open>H\<close> below a sensor in the identity frame:
  \<open>floor_hit\<close> says that the floor is within the range along the ray of vertical angle
  \<open>v\<close>, \<open>floor_distance\<close> is the distance the sensor is to store for such a beam, and
  \<open>floor_height\<close> the height of the end point drawn for it.
\<close>

definition floor_hit :: "SensorChannel \<Rightarrow> Scalar \<Rightarrow> Scalar \<Rightarrow> bool" where
  "floor_hit ch H v \<longleftrightarrow> rangeMin ch * (- sin v) \<le> H \<and> H < rangeMax ch * (- sin v)"

definition floor_distance :: "SensorChannel \<Rightarrow> Scalar \<Rightarrow> Scalar \<Rightarrow> Scalar" where
  "floor_distance ch H v =
     (if floor_hit ch H v then H / (- sin v) * sqrt (1 + (sin v)\<^sup>2) else 0)"

definition floor_height :: "SensorChannel \<Rightarrow> Scalar \<Rightarrow> Scalar \<Rightarrow> Scalar" where
  "floor_height ch H v = (if floor_hit ch H v then - H * sqrt (1 + (sin v)\<^sup>2) else 0)"

definition floor_scan :: "LiDAR360 \<Rightarrow> Scalar \<Rightarrow> Scalar list" where
  "floor_scan s H =
     map (\<lambda>p. floor_distance (channels s ! 0) H (angles_vert s ! (p div unat (resolution s))))
       [0..<unat (layers s) * unat (resolution s)]"

section \<open>A world used as example\<close>

definition example_masks :: CollisionMasks where
  "example_masks = \<lparr>MASK_STATIC = 1, MASK_DYNAMIC = 4, MASK_ANIMATED_COLLIDING = 2\<rparr>"

definition floor_object :: "CollisionMasks \<Rightarrow> Scalar \<Rightarrow> CollisionObject" where
  "floor_object masks depth =
     \<lparr>m_collisionFilterGroup = MASK_STATIC masks, m_collisionFilterMask = MASK_DYNAMIC masks,
      castRay = plane_cast (Vector3 0 0 1) (- depth)\<rparr>"

definition ghost_object :: "CollisionMasks \<Rightarrow> CollisionObject" where
  "ghost_object masks =
     \<lparr>m_collisionFilterGroup = 8, m_collisionFilterMask = MASK_DYNAMIC masks,
      castRay = (\<lambda>p_from p_to. Some 0)\<rparr>"

definition fixed_hit :: "CollisionMasks \<Rightarrow> Scalar \<Rightarrow> CollisionObject" where
  "fixed_hit masks h =
     \<lparr>m_collisionFilterGroup = MASK_STATIC masks, m_collisionFilterMask = MASK_DYNAMIC masks,
      castRay = (\<lambda>p q. Some h)\<rparr>"

lemmas [sf_defs] = closest_def dynamicsWorld_rayTest_def visible_def visible_hits_def
  closest_hit_def world_ok_def example_masks_def floor_object_def ghost_object_def

section \<open>The filter of the sensor\<close>

lemma closest_sel [simp]:
  "m_closestHitFraction (closest masks f t) = 1" "m_collisionObject (closest masks f t) = None"
  "\<not> hasHit (closest masks f t)"
  "m_collisionFilterGroup (closest masks f t) = MASK_DYNAMIC masks"
  "m_collisionFilterMask (closest masks f t)
   = MASK_STATIC masks OR MASK_DYNAMIC masks OR MASK_ANIMATED_COLLIDING masks"
  "m_rayFromWorld (closest masks f t) = f" "m_rayToWorld (closest masks f t) = t"
  by (simp_all add: closest_def ClosestRayResultCallback_new_def hasHit_def)

lemma needsCollision_closest [simp]: "needsCollision (closest masks f t) obj = visible masks obj"
  by (simp add: needsCollision_def visible_def word_ao_dist2 or_eq_0_iff)

lemma hit_fractions_closest:
  "hit_fractions (closest masks f t) world p q = visible_hits masks world p q"
  by (induction world) (simp_all add: visible_hits_def split: option.split)

lemma set_visible_hits:
  "set (visible_hits masks world p q)
   = {h. \<exists>obj \<in> set world. visible masks obj \<and> castRay obj p q = Some h}"
  unfolding hit_fractions_closest [of masks p q, symmetric] by (simp add: set_hit_fractions)

lemma visible_hits_nonneg:
  assumes "list_all (cast_ok p q) world" and "h \<in> set (visible_hits masks world p q)"
  shows "0 \<le> h"
  using assms unfolding hit_fractions_closest [of masks p q, symmetric]
  by (rule hit_fractions_nonneg)

section \<open>The query computes the closest hit\<close>

lemma Min_insert_below:
  fixes c :: real
  assumes "\<exists>h \<in> set hs. h < c"
  shows "Min (insert c (set hs)) = Min (set (filter (\<lambda>h. h < c) hs))"
proof (rule Min_eqI)
  let ?F = "set (filter (\<lambda>h. h < c) hs)"
  from assms have ne: "?F \<noteq> {}" by (auto simp: filter_empty_conv)
  then have m: "Min ?F \<in> ?F" by (intro Min_in) simp
  then show "Min ?F \<in> insert c (set hs)" by auto
  fix y assume "y \<in> insert c (set hs)"
  then consider "y \<in> ?F" | "c \<le> y" by force
  then show "Min ?F \<le> y"
  proof cases
    case 1
    then show ?thesis by (intro Min_le) simp_all
  next
    case 2
    with m show ?thesis by auto
  qed
qed simp

lemma dynamicsWorld_rayTest_eq:
  assumes "list_all (cast_ok p q) world"
  shows "dynamicsWorld_rayTest masks world p q = closest_hit masks world p q"
proof -
  let ?hs = "visible_hits masks world p q"
  let ?cb = "rayTest world p q (closest masks p q)"
  have c: "0 \<le> m_closestHitFraction (closest masks p q)" by simp
  note r = rayTest_closest [OF assms c, unfolded hit_fractions_closest closest_sel]
  have hit: "hasHit ?cb \<longleftrightarrow> filter (\<lambda>h. h < 1) ?hs \<noteq> []"
    by (auto simp: r(2) filter_empty_conv)
  show ?thesis
  proof (cases "hasHit ?cb")
    case True
    with r(2) have "\<exists>h \<in> set ?hs. h < 1" by simp
    from Min_insert_below [OF this] True hit show ?thesis
      by (simp add: dynamicsWorld_rayTest_def closest_hit_def r(1) Let_def)
  next
    case False
    with hit show ?thesis by (simp add: dynamicsWorld_rayTest_def closest_hit_def Let_def)
  qed
qed

lemma closest_hit_Some:
  assumes "closest_hit masks world p q = Some h"
  shows "h \<in> set (visible_hits masks world p q)" and "h < 1"
    and "\<And>h'. h' \<in> set (visible_hits masks world p q) \<Longrightarrow> h \<le> h'"
proof -
  let ?F = "set (filter (\<lambda>h. h < 1) (visible_hits masks world p q))"
  from assms have "filter (\<lambda>h. h < 1) (visible_hits masks world p q) \<noteq> []"
    and h: "h = Min ?F"
    by (simp_all add: closest_hit_def Let_def split: if_splits)
  then have ne: "?F \<noteq> {}" by (simp only: set_empty not_False_eq_True)
  from ne have "Min ?F \<in> ?F" by (intro Min_in) simp
  with h show in_F: "h \<in> set (visible_hits masks world p q)" and lt: "h < 1" by simp_all
  fix h' assume "h' \<in> set (visible_hits masks world p q)"
  then consider "h' \<in> ?F" | "1 \<le> h'" by force
  then show "h \<le> h'"
  proof cases
    case 1
    then show ?thesis unfolding h by (intro Min_le) simp_all
  next
    case 2
    with lt show ?thesis by simp
  qed
qed

lemma closest_hit_None:
  "closest_hit masks world p q = None
   \<longleftrightarrow> (\<forall>h \<in> set (visible_hits masks world p q). 1 \<le> h)"
  by (auto simp: closest_hit_def Let_def filter_empty_conv not_less)

lemma dynamicsWorld_rayTest_range:
  assumes "list_all (cast_ok p q) world" and "dynamicsWorld_rayTest masks world p q = Some h"
  shows "0 \<le> h" and "h < 1"
  using closest_hit_Some(1,2) [OF assms(2) [unfolded dynamicsWorld_rayTest_eq [OF assms(1)]]]
    visible_hits_nonneg [OF assms(1)] by simp_all

section \<open>Objects the sensor does not see\<close>

lemma dynamicsWorld_rayTest_skip:
  assumes "\<not> visible masks obj"
  shows "dynamicsWorld_rayTest masks (w1 @ obj # w2) = dynamicsWorld_rayTest masks (w1 @ w2)"
proof (intro ext)
  fix p q
  from assms have "\<not> needsCollision (closest masks p q) obj" by simp
  from rayTest_skip [OF this, of w1 w2 p q] show
    "dynamicsWorld_rayTest masks (w1 @ obj # w2) p q = dynamicsWorld_rayTest masks (w1 @ w2) p q"
    by (simp add: dynamicsWorld_rayTest_def same_hit_def Let_def)
qed

lemma dynamicsWorld_rayTest_set:
  assumes "set world = set world'" and "world_ok world"
  shows "dynamicsWorld_rayTest masks world' = dynamicsWorld_rayTest masks world"
proof (intro ext)
  fix p q
  from assms(2) have ok: "list_all (cast_ok p q) world" by (simp add: world_ok_def)
  from rayTest_set [OF assms(1) ok, of "closest masks p q"]
  show "dynamicsWorld_rayTest masks world' p q = dynamicsWorld_rayTest masks world p q"
    by (simp add: dynamicsWorld_rayTest_def Let_def)
qed

section \<open>The example world\<close>

lemma floor_object_ok [simp]: "cast_ok p q (floor_object masks depth)" "world_ok [floor_object masks depth]"
  by (simp_all add: floor_object_def world_ok_def)

lemma ghost_object_ok [simp]: "cast_ok p q (ghost_object masks)"
  by (simp add: ghost_object_def cast_ok_def)

lemma ghost_invisible [simp]: "\<not> visible example_masks (ghost_object example_masks)"
  by (simp add: visible_def ghost_object_def example_masks_def)

lemma example_masks_sel [simp]:
  "MASK_STATIC example_masks = 1" "MASK_DYNAMIC example_masks = 4"
  "MASK_ANIMATED_COLLIDING example_masks = 2"
  by (simp_all add: example_masks_def)

lemma floor_object_sel [simp]:
  "castRay (floor_object masks depth) = plane_cast (Vector3 0 0 1) (- depth)"
  "m_collisionFilterGroup (floor_object masks depth) = MASK_STATIC masks"
  "m_collisionFilterMask (floor_object masks depth) = MASK_DYNAMIC masks"
  by (simp_all add: floor_object_def)

lemma floor_visible:
  "visible masks (floor_object masks depth) \<longleftrightarrow> MASK_STATIC masks \<noteq> 0 \<and> MASK_DYNAMIC masks \<noteq> 0"
  by (auto simp: visible_def floor_object_def)

section \<open>The ray test of the sensor in a world\<close>

text \<open>
  C7. The ray test of a beam returns the closest hit. In a world whose casts for this
  ray have no negative fraction, the query the sensor makes (callback of group
  \<open>MASK_DYNAMIC\<close> and mask \<open>MASK_STATIC | MASK_DYNAMIC | MASK_ANIMATED_COLLIDING\<close>, objects
  visited in the order of the world, the visit cut short at fraction 0) returns the
  reference value: the least fraction below 1 at which the ray enters an object
  visible to the sensor, and no hit if there is none. The object the callback points
  at is in the world, is visible and is hit at the fraction returned.
\<close>

theorem dynamicsWorld_rayTest_closest:
  assumes "list_all (cast_ok p q) world"
  shows "dynamicsWorld_rayTest masks world p q = closest_hit masks world p q
    \<and> points_at world p q (rayTest world p q (closest masks p q))
    \<and> (case dynamicsWorld_rayTest masks world p q of
          None \<Rightarrow> list_all (\<lambda>h. 1 \<le> h) (visible_hits masks world p q)
        | Some h \<Rightarrow> 0 \<le> h \<and> h < 1 \<and> h \<in> set (visible_hits masks world p q)
            \<and> list_all (\<lambda>h'. h \<le> h') (visible_hits masks world p q))"
proof -
  note eq = dynamicsWorld_rayTest_eq [OF assms, of masks]
  have "points_at world p q (rayTest world p q (closest masks p q))"
    by (rule rayTest_points_at) simp
  moreover have "0 \<le> h \<and> h < 1 \<and> h \<in> set (visible_hits masks world p q)
      \<and> list_all (\<lambda>h'. h \<le> h') (visible_hits masks world p q)"
    if "closest_hit masks world p q = Some h" for h
    using closest_hit_Some [OF that] visible_hits_nonneg [OF assms, of h masks]
    by (simp add: list_all_iff)
  moreover have "list_all (\<lambda>h. 1 \<le> h) (visible_hits masks world p q)"
    if "closest_hit masks world p q = None"
    using that by (simp add: closest_hit_None list_all_iff)
  ultimately show ?thesis unfolding eq by (simp split: option.split)
qed

theorem dynamicsWorld_rayTest_closest_witness:
  "dynamicsWorld_rayTest example_masks
     [ghost_object example_masks, floor_object example_masks 3, floor_object example_masks 2]
     (Vector3 0 0 0) (Vector3 0 0 (- 4)) = Some (1 / 2)"
proof -
  have "list_all (cast_ok (Vector3 0 0 0) (Vector3 0 0 (- 4)))
     [ghost_object example_masks, floor_object example_masks 3, floor_object example_masks 2]"
    by simp
  from dynamicsWorld_rayTest_closest [OF this, of example_masks, THEN conjunct1] show ?thesis
    by (simp add: closest_hit_def visible_hits_def floor_visible plane_cast_def dot_def Let_def)
qed

text \<open>
  C16. Objects the sensor does not see. An object whose filter group has no bit of
  \<open>MASK_STATIC\<close>, \<open>MASK_DYNAMIC\<close> or \<open>MASK_ANIMATED_COLLIDING\<close>, or whose filter mask has no
  bit of \<open>MASK_DYNAMIC\<close>, never changes what the sensor measures: with or without it
  in the world, wherever it stands in the order of the objects and whatever its shape,
  every ray test and hence every scan is the same.
\<close>

theorem invisible_objects_ignored:
  assumes "(m_collisionFilterGroup obj AND MASK_STATIC masks) = 0
      \<and> (m_collisionFilterGroup obj AND MASK_DYNAMIC masks) = 0
      \<and> (m_collisionFilterGroup obj AND MASK_ANIMATED_COLLIDING masks) = 0
    \<or> (MASK_DYNAMIC masks AND m_collisionFilterMask obj) = 0"
  shows "dynamicsWorld_rayTest masks (w1 @ obj # w2) = dynamicsWorld_rayTest masks (w1 @ w2)
    \<and> InternalUpdate (dynamicsWorld_rayTest masks (w1 @ obj # w2)) frame dt s
      = InternalUpdate (dynamicsWorld_rayTest masks (w1 @ w2)) frame dt s"
proof -
  from assms have "\<not> visible masks obj" by (auto simp: visible_def)
  then show ?thesis by (simp add: dynamicsWorld_rayTest_skip)
qed

theorem invisible_objects_ignored_witness:
  "dynamicsWorld_rayTest example_masks [ghost_object example_masks, floor_object example_masks 2]
   = dynamicsWorld_rayTest example_masks [floor_object example_masks 2]"
  using invisible_objects_ignored [of "ghost_object example_masks" example_masks "[]"
      "[floor_object example_masks 2]"]
  by (simp add: ghost_object_def example_masks_def)

section \<open>Distances of a scan in a world\<close>

lemma sqrt_beam_le: "1 \<le> sqrt (1 + (sin v)\<^sup>2)" "sqrt (1 + (sin v)\<^sup>2) \<le> sqrt 2"
proof -
  have "(sin v)\<^sup>2 \<le> 1" using abs_sin_le_one [of v] by (simp add: abs_square_le_1)
  then show "sqrt (1 + (sin v)\<^sup>2) \<le> sqrt 2" by simp
qed simp

lemma world_beam_range:
  fixes masks world m ch h v
  assumes "orthonormal (getBasis m)" and "0 \<le> rangeMin ch" and "rangeMin ch \<le> rangeMax ch"
    and "world_ok world"
  defines "d \<equiv> measure_beam (dynamicsWorld_rayTest masks world) m ch (beam_dir m h v)"
  shows "0 \<le> d" and "d \<le> rangeMax ch * sqrt 2" and "d = 0 \<or> rangeMin ch \<le> d"
proof -
  let ?p = "getOrigin m + rangeMin ch *\<^sub>R beam_dir m h v"
  let ?q = "getOrigin m + rangeMax ch *\<^sub>R beam_dir m h v"
  let ?l = "sqrt (1 + (sin v)\<^sup>2)"
  from assms(1) have len: "length_v (beam_dir m h v) = ?l"
    by (simp add: length_v_def length2_beam_dir)
  from assms(4) have ok: "list_all (cast_ok ?p ?q) world" by (simp add: world_ok_def)
  show "0 \<le> d" by (simp add: d_def)
  have "d \<le> rangeMax ch * sqrt 2 \<and> (d = 0 \<or> rangeMin ch \<le> d)"
  proof (cases "dynamicsWorld_rayTest masks world ?p ?q")
    case None
    with assms(2,3) show ?thesis by (simp add: d_def measure_beam_miss)
  next
    case (Some f)
    from dynamicsWorld_rayTest_range [OF ok Some] have f: "0 \<le> f" "f \<le> 1" by simp_all
    note b = measure_beam_bounds [of ch "dynamicsWorld_rayTest masks world" m "beam_dir m h v" f, OF assms(2,3) Some f,
        unfolded len, folded d_def]
    from assms(2) sqrt_beam_le(1) [of v] have "rangeMin ch * 1 \<le> rangeMin ch * ?l"
      by (intro mult_left_mono)
    moreover from assms(2,3) sqrt_beam_le(2) [of v] have "rangeMax ch * ?l \<le> rangeMax ch * sqrt 2"
      by (intro mult_left_mono) simp_all
    ultimately show ?thesis using b by simp
  qed
  then show "d \<le> rangeMax ch * sqrt 2" and "d = 0 \<or> rangeMin ch \<le> d" by simp_all
qed

text \<open>
  C26. Every distance of a scan is within the range of the channel, up to the length
  of the beam direction. For a sensor that satisfies its invariant and whose grid fits
  32 bits, with a rotation as the orientation of its frame and a range
  \<open>0 \<le> rangeMin \<le> rangeMax\<close> on its channel, in any world whose casts return no negative
  fraction: \<open>InternalUpdate\<close> with the ray test of the dynamics world returns, every
  value of the sample is between 0 and \<open>rangeMax * sqrt 2\<close>, and every stored distance
  is either 0 (no hit) or at least \<open>rangeMin\<close>.
\<close>

theorem scan_within_range:
  assumes "LiDAR360_inv s" and "no_overflow s" and "world_ok world"
    and "orthonormal (getBasis frame)"
    and "0 \<le> rangeMin (channels s ! 0)" and "rangeMin (channels s ! 0) \<le> rangeMax (channels s ! 0)"
  shows "\<exists>s' smp. InternalUpdate (dynamicsWorld_rayTest masks world) frame dt s = Some (s', smp)
    \<and> length (sample_data smp) = unat (layers s) * unat (resolution s)
    \<and> list_all (\<lambda>d. 0 \<le> d \<and> d \<le> rangeMax (channels s ! 0) * sqrt 2) (sample_data smp)
    \<and> list_all (\<lambda>d. d = 0 \<or> rangeMin (channels s ! 0) \<le> d) (distances s')"
proof -
  let ?R = "dynamicsWorld_rayTest masks world"
  have "0 \<le> d \<and> d \<le> rangeMax (channels s ! 0) * sqrt 2 \<and> (d = 0 \<or> rangeMin (channels s ! 0) \<le> d)"
    if "d \<in> set (scan ?R frame s)" for d
  proof -
    from that obtain h v
      where "d = measure_beam ?R frame (channels s ! 0) (beam_dir frame h v)"
      by (auto simp: scan_def cell_value_def beam_value_def)
    with world_beam_range [OF assms(4,5,6,3), of masks h v] show ?thesis by simp
  qed
  then show ?thesis
    by (simp add: InternalUpdate_eq [OF assms(1,2)] list_all_iff)
qed

theorem scan_within_range_witness:
  "(case InternalUpdate (dynamicsWorld_rayTest example_masks [floor_object example_masks 2])
           identity_transform 0 (LiDAR360_new ''lidar'' 2 2 10 1) of
      None \<Rightarrow> False
    | Some (s', smp) \<Rightarrow> length (sample_data smp) = 4
        \<and> list_all (\<lambda>d. 0 \<le> d \<and> d \<le> BT_LARGE_FLOAT * sqrt 2) (sample_data smp))"
proof -
  let ?s = "LiDAR360_new ''lidar'' 2 2 10 1"
  have ch: "rangeMin (channels ?s ! 0) = 0" "rangeMax (channels ?s ! 0) = BT_LARGE_FLOAT"
    by (simp_all add: LiDAR360_new_def Let_def)
  have "LiDAR360_inv ?s" "no_overflow ?s" "world_ok [floor_object example_masks 2]"
    "orthonormal (getBasis identity_transform)"
    "0 \<le> rangeMin (channels ?s ! 0)" "rangeMin (channels ?s ! 0) \<le> rangeMax (channels ?s ! 0)"
    by (simp_all add: new_inv identity_transform_def ch less_imp_le)
  from scan_within_range [OF this, of example_masks 0] show ?thesis
    unfolding ch by auto
qed

section \<open>A sensor above a horizontal floor\<close>

lemma beam_dir_identity [simp]:
  "beam_dir identity_transform h v = Vector3 (cos h) (sin h) (sin v)"
  by (simp add: identity_transform_def beam_dir_def Vector3_eq_iff)

lemma floor_rayTest:
  assumes "MASK_STATIC masks \<noteq> 0" and "MASK_DYNAMIC masks \<noteq> 0"
  shows "dynamicsWorld_rayTest masks [floor_object masks H] p q
         = plane_cast (Vector3 0 0 1) (- H) p q"
proof (cases "plane_cast (Vector3 0 0 1) (- H) p q")
  case None
  with assms show ?thesis
    by (simp add: dynamicsWorld_rayTest_eq closest_hit_def visible_hits_def floor_visible)
next
  case (Some f)
  with assms plane_cast_Some(2) [OF Some] show ?thesis
    by (simp add: dynamicsWorld_rayTest_eq closest_hit_def visible_hits_def floor_visible)
qed

lemma floor_cast_beam:
  fixes v H a b :: real
  assumes "sin v < 0" and "a * (- sin v) \<le> H" and "H < b * (- sin v)"
  shows "plane_cast (Vector3 0 0 1) (- H) (0 + a *\<^sub>R Vector3 (cos h) (sin h) (sin v))
           (0 + b *\<^sub>R Vector3 (cos h) (sin h) (sin v))
         = Some ((a * sin v + H) / ((a - b) * sin v))"
  using assms by (simp add: plane_cast_def dot_def Let_def algebra_simps)

lemma floor_param:
  fixes v H a b :: real
  assumes "sin v < 0" and "H < b * (- sin v)" and "a * (- sin v) \<le> H"
  shows "a + (b - a) * ((a * sin v + H) / ((a - b) * sin v)) = H / (- sin v)"
proof -
  from assms(3,2) have "a * (- sin v) < b * (- sin v)" by (rule le_less_trans)
  with assms(1) have "a < b" by (simp add: mult_less_cancel_right)
  with assms(1) show ?thesis by (simp add: field_simps)
qed

lemma floor_beam_hit:
  assumes "MASK_STATIC masks \<noteq> 0" and "MASK_DYNAMIC masks \<noteq> 0"
    and "0 \<le> rangeMin ch" and "sin v < 0"
    and "rangeMin ch * (- sin v) \<le> H" and "H < rangeMax ch * (- sin v)"
  shows "\<exists>f. dynamicsWorld_rayTest masks [floor_object masks H]
            (getOrigin identity_transform + rangeMin ch *\<^sub>R beam_dir identity_transform h v)
            (getOrigin identity_transform + rangeMax ch *\<^sub>R beam_dir identity_transform h v)
          = Some f
        \<and> getZ (lerp (getOrigin identity_transform + rangeMin ch *\<^sub>R beam_dir identity_transform h v)
            (getOrigin identity_transform + rangeMax ch *\<^sub>R beam_dir identity_transform h v) f)
          = - H"
    and "measure_beam (dynamicsWorld_rayTest masks [floor_object masks H])
           identity_transform ch (beam_dir identity_transform h v)
         = H / (- sin v) * sqrt (1 + (sin v)\<^sup>2)"
proof -
  let ?R = "dynamicsWorld_rayTest masks [floor_object masks H]"
  let ?d = "beam_dir identity_transform h v"
  let ?p = "getOrigin identity_transform + rangeMin ch *\<^sub>R ?d"
  let ?q = "getOrigin identity_transform + rangeMax ch *\<^sub>R ?d"
  let ?f = "(rangeMin ch * sin v + H) / ((rangeMin ch - rangeMax ch) * sin v)"
  have len: "length_v ?d = sqrt (1 + (sin v)\<^sup>2)"
    by (simp add: length_v_def length2_beam_dir identity_transform_def)
  from assms(3,4) have "0 \<le> rangeMin ch * (- sin v)" by (intro mult_nonneg_nonneg) simp_all
  from this assms(5) have "0 \<le> H" by (rule order_trans)
  with assms(4) have t: "0 \<le> H / (- sin v)" by (simp add: divide_le_0_iff)
  have o: "getOrigin identity_transform = 0" by (simp add: identity_transform_def)
  have cast: "plane_cast (Vector3 0 0 1) (- H) ?p ?q = Some ?f"
    unfolding o beam_dir_identity by (rule floor_cast_beam [OF assms(4-6)])
  then have hit: "?R ?p ?q = Some ?f" by (simp only: floor_rayTest [OF assms(1,2)])
  from plane_cast_Some(3) [OF cast] have "getZ (lerp ?p ?q ?f) = - H" by (simp add: dot_def)
  with hit show "\<exists>f. ?R ?p ?q = Some f \<and> getZ (lerp ?p ?q f) = - H" by blast
  from measure_beam_hit [of ?R identity_transform ch ?d, OF hit]
  have "measure_beam ?R identity_transform ch ?d = \<bar>H / (- sin v)\<bar> * sqrt (1 + (sin v)\<^sup>2)"
    unfolding floor_param [OF assms(4,6,5)] len .
  with t show "measure_beam ?R identity_transform ch ?d = H / (- sin v) * sqrt (1 + (sin v)\<^sup>2)"
    by (simp only: abs_of_nonneg)
qed

lemma drawn_below_floor:
  fixes v H :: real
  assumes "sin v < 0"
  shows "getZ ((H / (- sin v) * sqrt (1 + (sin v)\<^sup>2)) *\<^sub>R render_dir v h)
         = - H * sqrt (1 + (sin v)\<^sup>2)"
    and "0 < H \<Longrightarrow> - H * sqrt (1 + (sin v)\<^sup>2) < - H"
proof -
  from assms show "getZ ((H / (- sin v) * sqrt (1 + (sin v)\<^sup>2)) *\<^sub>R render_dir v h)
      = - H * sqrt (1 + (sin v)\<^sup>2)"
    by (simp add: render_dir_def scaleR_Vector3_def)
  have "1 < sqrt (1 + (sin v)\<^sup>2)" using assms by simp
  then have "0 < H \<Longrightarrow> - H * sqrt (1 + (sin v)\<^sup>2) < - H * 1"
    by (simp only: mult_less_cancel_left_neg neg_less_0_iff_less)
  then show "0 < H \<Longrightarrow> - H * sqrt (1 + (sin v)\<^sup>2) < - H" by simp
qed

text \<open>
  A sensor with one layer looks down: its only vertical angle is \<open>- 21.2\<close> degrees. In
  the identity frame at height \<open>H\<close> over the floor, with the range the constructor
  sets, every beam of its scan stores the same distance.
\<close>

lemma one_layer_scan_over_floor:
  assumes "MASK_STATIC masks \<noteq> 0" and "MASK_DYNAMIC masks \<noteq> 0"
    and "0 \<le> H" and "H < BT_LARGE_FLOAT * sin (53 * pi / 450)"
  shows "map_option (sample_data \<circ> snd)
      (InternalUpdate (dynamicsWorld_rayTest masks [floor_object masks H]) identity_transform dt
         (LiDAR360_new name res 1 freq hist))
    = Some (replicate (unat res)
        (H / sin (53 * pi / 450) * sqrt (1 + (sin (53 * pi / 450))\<^sup>2)))"
proof -
  let ?s = "LiDAR360_new name res 1 freq hist"
  let ?R = "dynamicsWorld_rayTest masks [floor_object masks H]"
  let ?v = "- (53 * pi / 450)"
  have "0 < sin (53 * pi / 450)" by (intro sin_gt_zero) simp_all
  then have v: "sin ?v < 0" by simp
  have ch: "rangeMin (channels ?s ! 0) = 0" "rangeMax (channels ?s ! 0) = BT_LARGE_FLOAT"
    by (simp_all add: LiDAR360_new_def Let_def)
  have av: "angle_table 1 (53 * pi / 225) ! 0 = ?v" by (simp add: angle_table_def)
  from assms(3,4) have "rangeMin (channels ?s ! 0) * (- sin ?v) \<le> H"
    "H < rangeMax (channels ?s ! 0) * (- sin ?v)" by (simp_all add: ch)
  note hit = floor_beam_hit(2) [OF assms(1,2) _ v this, unfolded ch, simplified]
  have "cell_value ?R identity_transform ?s p
      = H / sin (53 * pi / 450) * sqrt (1 + (sin (53 * pi / 450))\<^sup>2)" if "p < unat res" for p
    using that hit by (simp add: cell_value_def beam_value_def av ch)
  then have "scan ?R identity_transform ?s
      = replicate (unat res) (H / sin (53 * pi / 450) * sqrt (1 + (sin (53 * pi / 450))\<^sup>2))"
    by (intro nth_equalityI) (simp_all add: scan_def)
  moreover have "unat res < 2 ^ 32" using unsigned_less [of res] by simp
  then have "no_overflow ?s" by simp
  ultimately show ?thesis by (simp add: InternalUpdate_eq [OF new_inv])
qed

section \<open>What the sensor stores and draws over a floor\<close>

text \<open>
  C17. A beam that looks down on a horizontal floor. The sensor stands in the identity
  frame, \<open>H\<close> above a floor that is a static object colliding with dynamic ones; the
  beam of horizontal angle \<open>h\<close> and vertical angle \<open>v\<close> with \<open>sin v < 0\<close> reaches the floor
  within the range of the channel. Then the ray test of the dynamics world hits, the
  hit point is on the floor, and the distance stored is
  \<open>H / (- sin v) * sqrt (1 + sin\<^sup>2 v)\<close>: the distance to the point where the ray
  \<open>(cos h, sin h, sin v)\<close> meets the floor, which is not the distance \<open>H / (- sin v)\<close> of
  the floor along the direction of elevation \<open>v\<close>. The end point that \<open>Render\<close> draws for
  this beam has height \<open>- H * sqrt (1 + sin\<^sup>2 v)\<close>: for \<open>0 < H\<close> it is below the floor.
\<close>

theorem floor_beam_distance:
  assumes "MASK_STATIC masks \<noteq> 0" and "MASK_DYNAMIC masks \<noteq> 0"
    and "0 \<le> rangeMin ch" and "sin v < 0"
    and "rangeMin ch * (- sin v) \<le> H" and "H < rangeMax ch * (- sin v)"
  shows "(\<exists>f. dynamicsWorld_rayTest masks [floor_object masks H]
            (getOrigin identity_transform + rangeMin ch *\<^sub>R beam_dir identity_transform h v)
            (getOrigin identity_transform + rangeMax ch *\<^sub>R beam_dir identity_transform h v)
          = Some f
        \<and> getZ (lerp (getOrigin identity_transform + rangeMin ch *\<^sub>R beam_dir identity_transform h v)
            (getOrigin identity_transform + rangeMax ch *\<^sub>R beam_dir identity_transform h v) f)
          = - H)
    \<and> (let d = measure_beam (dynamicsWorld_rayTest masks [floor_object masks H])
                   identity_transform ch (beam_dir identity_transform h v)
        in d = H / (- sin v) * sqrt (1 + (sin v)\<^sup>2)
         \<and> getZ (d *\<^sub>R render_dir v h) = - H * sqrt (1 + (sin v)\<^sup>2)
         \<and> (0 < H \<longrightarrow> getZ (d *\<^sub>R render_dir v h) < - H))"
  using floor_beam_hit [OF assms, of h] drawn_below_floor(1) [OF assms(4), of H h]
    drawn_below_floor(2) [OF assms(4), of H]
  by (simp only: Let_def) simp

theorem floor_beam_distance_witness:
  "measure_beam (dynamicsWorld_rayTest example_masks [floor_object example_masks 2])
     identity_transform
     \<lparr>channel_name = ''Distance'', channel_type = QuantityType_LENGTH,
      rangeMin = 0, rangeMax = 50, stdDev = 0\<rparr>
     (beam_dir identity_transform 0 (- (pi / 6))) = 2 * sqrt 5
   \<and> getZ ((2 * sqrt 5) *\<^sub>R render_dir (- (pi / 6)) 0) = - sqrt 5"
  using floor_beam_distance [of example_masks
      "\<lparr>channel_name = ''Distance'', channel_type = QuantityType_LENGTH,
        rangeMin = 0, rangeMax = 50, stdDev = 0\<rparr>" "- (pi / 6)" 2 0]
  by (simp add: sin_30 power2_eq_square real_sqrt_divide Let_def render_dir_def)

section \<open>A whole scan over a floor, and its drawing\<close>

lemma floor_hit_down:
  assumes "0 \<le> rangeMin ch" and "rangeMin ch \<le> rangeMax ch" and "floor_hit ch H v"
  shows "sin v < 0" and "0 \<le> H"
proof -
  from assms(3) have lo: "rangeMin ch * (- sin v) \<le> H" and hi: "H < rangeMax ch * (- sin v)"
    by (simp_all add: floor_hit_def)
  from lo hi have "rangeMin ch * (- sin v) < rangeMax ch * (- sin v)" by (rule le_less_trans)
  with assms(2) show "sin v < 0" by (simp add: mult_less_cancel_right)
  with assms(1) have "0 \<le> rangeMin ch * (- sin v)" by (intro mult_nonneg_nonneg) simp_all
  from this lo show "0 \<le> H" by (rule order_trans)
qed

lemma floor_cast_miss:
  fixes v H a b :: real
  assumes "\<not> (a * (- sin v) \<le> H \<and> H < b * (- sin v))"
  shows "plane_cast (Vector3 0 0 1) (- H) (0 + a *\<^sub>R Vector3 (cos h) (sin h) (sin v))
           (0 + b *\<^sub>R Vector3 (cos h) (sin h) (sin v)) = None"
  using assms by (auto simp: plane_cast_def dot_def Let_def algebra_simps)

lemma floor_beam_value:
  assumes "MASK_STATIC masks \<noteq> 0" and "MASK_DYNAMIC masks \<noteq> 0"
    and "0 \<le> rangeMin ch" and "rangeMin ch \<le> rangeMax ch"
  shows "measure_beam (dynamicsWorld_rayTest masks [floor_object masks H])
           identity_transform ch (beam_dir identity_transform h v)
         = floor_distance ch H v"
proof (cases "floor_hit ch H v")
  case True
  note down = floor_hit_down [OF assms(3,4) True]
  from True have "rangeMin ch * (- sin v) \<le> H" "H < rangeMax ch * (- sin v)"
    by (simp_all add: floor_hit_def)
  from floor_beam_hit(2) [OF assms(1-3) down(1) this] True show ?thesis
    by (simp only: floor_distance_def if_True)
next
  case False
  have o: "getOrigin identity_transform = 0" by (simp add: identity_transform_def)
  from False have "plane_cast (Vector3 0 0 1) (- H)
      (0 + rangeMin ch *\<^sub>R Vector3 (cos h) (sin h) (sin v))
      (0 + rangeMax ch *\<^sub>R Vector3 (cos h) (sin h) (sin v)) = None"
    unfolding floor_hit_def by (rule floor_cast_miss)
  then have "dynamicsWorld_rayTest masks [floor_object masks H]
      (getOrigin identity_transform + rangeMin ch *\<^sub>R beam_dir identity_transform h v)
      (getOrigin identity_transform + rangeMax ch *\<^sub>R beam_dir identity_transform h v) = None"
    unfolding o beam_dir_identity by (simp only: floor_rayTest [OF assms(1,2)])
  from measure_beam_miss [of "dynamicsWorld_rayTest masks [floor_object masks H]"
      identity_transform ch "beam_dir identity_transform h v", OF this] False
  show ?thesis by (simp add: floor_distance_def)
qed

lemma floor_drawn_height:
  assumes "0 \<le> rangeMin ch" and "rangeMin ch \<le> rangeMax ch"
  shows "getZ (floor_distance ch H v *\<^sub>R render_dir v h) = floor_height ch H v"
    and "floor_hit ch H v \<Longrightarrow> 0 < H \<Longrightarrow> floor_height ch H v < - H"
proof -
  show "getZ (floor_distance ch H v *\<^sub>R render_dir v h) = floor_height ch H v"
  proof (cases "floor_hit ch H v")
    case True
    from drawn_below_floor(1) [OF floor_hit_down(1) [OF assms True], of H h] True
    show ?thesis by (simp only: floor_distance_def floor_height_def if_True)
  qed (simp add: floor_distance_def floor_height_def)
  show "floor_height ch H v < - H" if "floor_hit ch H v" "0 < H"
    using drawn_below_floor(2) [OF floor_hit_down(1) [OF assms that(1)] that(2)] that(1)
    by (simp only: floor_height_def if_True)
qed

lemma scan_floor:
  assumes "MASK_STATIC masks \<noteq> 0" and "MASK_DYNAMIC masks \<noteq> 0"
    and "0 \<le> rangeMin (channels s ! 0)" and "rangeMin (channels s ! 0) \<le> rangeMax (channels s ! 0)"
  shows "scan (dynamicsWorld_rayTest masks [floor_object masks H]) identity_transform s
         = floor_scan s H"
  by (simp add: scan_def floor_scan_def cell_value_def beam_value_def floor_beam_value [OF assms]
      del: beam_dir_identity)

lemma floor_scan_frame [simp]:
  "length (floor_scan s H) = unat (layers s) * unat (resolution s)"
  "floor_scan (s\<lparr>distances := ds\<rparr>) H = floor_scan s H"
  by (simp_all add: floor_scan_def)

lemma nth_floor_scan:
  assumes "j < unat (layers s)" and "i < unat (resolution s)"
  shows "floor_scan s H ! (j * unat (resolution s) + i)
         = floor_distance (channels s ! 0) H (angles_vert s ! j)"
  using idx_bound [OF assms] assms(2) by (simp add: floor_scan_def)

lemma InternalUpdate_floor:
  assumes "LiDAR360_inv s" and "no_overflow s"
    and "MASK_STATIC masks \<noteq> 0" and "MASK_DYNAMIC masks \<noteq> 0"
    and "0 \<le> rangeMin (channels s ! 0)" and "rangeMin (channels s ! 0) \<le> rangeMax (channels s ! 0)"
  shows "InternalUpdate (dynamicsWorld_rayTest masks [floor_object masks H]) identity_transform dt s
         = Some (s\<lparr>distances := floor_scan s H\<rparr>,
                 \<lparr>nDim = resolution s * layers s, sample_data = floor_scan s H\<rparr>)"
  by (simp add: InternalUpdate_eq [OF assms(1,2)] scan_floor [OF assms(3-6)])

lemma Render_floor:
  assumes "LiDAR360_inv s" and "no_overflow s"
  shows "Render items True frame (s\<lparr>distances := floor_scan s H\<rparr>)
         = Some (items @ [\<lparr>rtype = SENSOR_LINES, model = frame,
              points = render_points (s\<lparr>distances := floor_scan s H\<rparr>)
                         (unat (layers s) * unat (resolution s))\<rparr>])"
proof -
  from assms have "LiDAR360_inv (s\<lparr>distances := floor_scan s H\<rparr>)"
    by (simp add: inv_frame(1) no_overflow_length)
  from Render_eq [OF this, of items True frame] assms(2) show ?thesis by simp
qed

lemma floor_points:
  assumes "j < unat (layers s)" and "i < unat (resolution s)"
  shows "render_points (s\<lparr>distances := floor_scan s H\<rparr>) (unat (layers s) * unat (resolution s))
           ! (2 * (j * unat (resolution s) + i)) = Vector3 0 0 0"
    and "render_points (s\<lparr>distances := floor_scan s H\<rparr>) (unat (layers s) * unat (resolution s))
           ! (2 * (j * unat (resolution s) + i) + 1)
         = floor_distance (channels s ! 0) H (angles_vert s ! j)
             *\<^sub>R render_dir (angles_vert s ! j) (angles_hori s ! i)"
  using render_points_beam [of j "unat (layers s)" i "s\<lparr>distances := floor_scan s H\<rparr>"]
    assms nth_floor_scan [OF assms, of H]
  by simp_all

lemma floor_end_point:
  assumes "0 \<le> rangeMin ch" and "rangeMin ch \<le> rangeMax ch"
  shows "floor_hit ch H v \<Longrightarrow>
           getZ (floor_distance ch H v *\<^sub>R render_dir v h) = - H * sqrt (1 + (sin v)\<^sup>2)"
    and "floor_hit ch H v \<Longrightarrow> 0 < H \<Longrightarrow> getZ (floor_distance ch H v *\<^sub>R render_dir v h) < - H"
    and "\<not> floor_hit ch H v \<Longrightarrow> floor_distance ch H v *\<^sub>R render_dir v h = Vector3 0 0 0"
  using floor_drawn_height(1) [OF assms, of H v h] floor_drawn_height(2) [OF assms, of H v]
  by (simp_all add: floor_height_def floor_distance_def zero_Vector3_def [symmetric])

text \<open>
  C18. A scan over a horizontal floor, and what is drawn of it. The sensor satisfies its
  invariant, its grid fits 32 bits, its range is \<open>0 \<le> rangeMin \<le> rangeMax\<close>, and it
  stands in the identity frame at height \<open>H\<close> over a floor that is a static object
  colliding with dynamic ones. Then \<open>InternalUpdate\<close> returns and the distance of
  every beam of layer \<open>j\<close> depends on the vertical angle \<open>v\<close> of the layer only: it is
  \<open>H / (- sin v) * sqrt (1 + sin\<^sup>2 v)\<close> if the floor is within the range along the ray
  (\<open>rangeMin * (- sin v) \<le> H < rangeMax * (- sin v)\<close>, which needs \<open>sin v < 0\<close>), and 0
  otherwise. \<open>Render\<close> on the sensor returned draws, for every beam, the origin
  and an end point of height \<open>- H * sqrt (1 + sin\<^sup>2 v)\<close> for a beam that hit, which is
  below the floor when \<open>0 < H\<close>, and the origin twice for a beam that did not.
\<close>

theorem scan_and_render_over_floor:
  assumes "LiDAR360_inv s" and "no_overflow s"
    and "MASK_STATIC masks \<noteq> 0" and "MASK_DYNAMIC masks \<noteq> 0"
    and "0 \<le> rangeMin (channels s ! 0)" and "rangeMin (channels s ! 0) \<le> rangeMax (channels s ! 0)"
  shows "\<exists>s' smp pts.
      InternalUpdate (dynamicsWorld_rayTest masks [floor_object masks H]) identity_transform dt s
        = Some (s', smp)
    \<and> sample_data smp = distances s'
    \<and> Render items True identity_transform s'
        = Some (items @ [\<lparr>rtype = SENSOR_LINES, model = identity_transform, points = pts\<rparr>])
    \<and> length pts = 2 * (unat (layers s) * unat (resolution s))
    \<and> (\<forall>j < unat (layers s). \<forall>i < unat (resolution s).
          distances s' ! (j * unat (resolution s) + i)
            = floor_distance (channels s ! 0) H (angles_vert s ! j)
        \<and> pts ! (2 * (j * unat (resolution s) + i)) = Vector3 0 0 0
        \<and> (floor_hit (channels s ! 0) H (angles_vert s ! j) \<longrightarrow>
             getZ (pts ! (2 * (j * unat (resolution s) + i) + 1))
               = - H * sqrt (1 + (sin (angles_vert s ! j))\<^sup>2)
           \<and> (0 < H \<longrightarrow> getZ (pts ! (2 * (j * unat (resolution s) + i) + 1)) < - H))
        \<and> (\<not> floor_hit (channels s ! 0) H (angles_vert s ! j) \<longrightarrow>
             pts ! (2 * (j * unat (resolution s) + i) + 1) = Vector3 0 0 0))"
proof -
  let ?s' = "s\<lparr>distances := floor_scan s H\<rparr>"
  let ?n = "unat (layers s) * unat (resolution s)"
  note iu = InternalUpdate_floor [OF assms, of H dt]
    and rd = Render_floor [OF assms(1,2), of items identity_transform H]
    and ep = floor_end_point [OF assms(5,6), of H]
  have "distances ?s' ! (j * unat (resolution s) + i)
        = floor_distance (channels s ! 0) H (angles_vert s ! j)
      \<and> render_points ?s' ?n ! (2 * (j * unat (resolution s) + i)) = Vector3 0 0 0
      \<and> (floor_hit (channels s ! 0) H (angles_vert s ! j) \<longrightarrow>
            getZ (render_points ?s' ?n ! (2 * (j * unat (resolution s) + i) + 1))
              = - H * sqrt (1 + (sin (angles_vert s ! j))\<^sup>2)
          \<and> (0 < H \<longrightarrow> getZ (render_points ?s' ?n ! (2 * (j * unat (resolution s) + i) + 1)) < - H))
      \<and> (\<not> floor_hit (channels s ! 0) H (angles_vert s ! j) \<longrightarrow>
            render_points ?s' ?n ! (2 * (j * unat (resolution s) + i) + 1) = Vector3 0 0 0)"
    if "j < unat (layers s)" "i < unat (resolution s)" for j i
    unfolding floor_points [OF that] using ep nth_floor_scan [OF that, of H] by simp
  moreover have "length (render_points ?s' ?n) = 2 * ?n"
    and "sample_data \<lparr>nDim = resolution s * layers s, sample_data = floor_scan s H\<rparr>
         = distances ?s'" by simp_all
  ultimately show ?thesis using iu rd by blast
qed

theorem scan_and_render_over_floor_witness:
  "(case InternalUpdate
          (dynamicsWorld_rayTest example_masks [floor_object example_masks (sin (53 * pi / 450))])
          identity_transform 0 (LiDAR360_new ''lidar'' 2 2 10 1) of
      None \<Rightarrow> False
    | Some (s', smp) \<Rightarrow>
        sample_data smp ! 0 = sqrt (1 + (sin (53 * pi / 450))\<^sup>2) \<and> sample_data smp ! 2 = 0
        \<and> (case Render [] True identity_transform s' of
             None \<Rightarrow> False
           | Some items \<Rightarrow>
               getZ (points (last items) ! 1)
                 = - sin (53 * pi / 450) * sqrt (1 + (sin (53 * pi / 450))\<^sup>2)
               \<and> points (last items) ! 5 = Vector3 0 0 0))"
proof -
  let ?x = "53 * pi / 450 :: real"
  let ?s = "LiDAR360_new ''lidar'' 2 2 10 1"
  have pos: "0 < sin ?x" by (intro sin_gt_zero) simp_all
  have ch: "rangeMin (channels ?s ! 0) = 0" "rangeMax (channels ?s ! 0) = BT_LARGE_FLOAT"
    by (simp_all add: LiDAR360_new_def Let_def)
  have av: "angles_vert ?s ! 0 = - ?x" "angles_vert ?s ! 1 = 0"
    by (simp_all add: angle_table_def upt_rec)
  from pos have "sin ?x * 1 < sin ?x * BT_LARGE_FLOAT"
    by (intro mult_strict_left_mono) (simp_all add: BT_LARGE_FLOAT_def)
  with pos have hit: "floor_hit (channels ?s ! 0) (sin ?x) (- ?x)"
    "\<not> floor_hit (channels ?s ! 0) (sin ?x) 0"
    by (simp_all add: floor_hit_def ch mult.commute)
  have pre: "LiDAR360_inv ?s" "no_overflow ?s" "MASK_STATIC example_masks \<noteq> 0"
    "MASK_DYNAMIC example_masks \<noteq> 0" "0 \<le> rangeMin (channels ?s ! 0)"
    "rangeMin (channels ?s ! 0) \<le> rangeMax (channels ?s ! 0)"
    by (simp_all add: new_inv ch less_imp_le)
  from scan_and_render_over_floor [OF pre, of "sin ?x" 0 "[]"] obtain s' smp pts
    where iu: "InternalUpdate
          (dynamicsWorld_rayTest example_masks [floor_object example_masks (sin ?x)])
          identity_transform 0 ?s = Some (s', smp)"
      and smp: "sample_data smp = distances s'"
      and rd: "Render [] True identity_transform s'
          = Some ([] @ [\<lparr>rtype = SENSOR_LINES, model = identity_transform, points = pts\<rparr>])"
      and beam: "\<forall>j < unat (layers ?s). \<forall>i < unat (resolution ?s).
          distances s' ! (j * unat (resolution ?s) + i)
            = floor_distance (channels ?s ! 0) (sin ?x) (angles_vert ?s ! j)
        \<and> pts ! (2 * (j * unat (resolution ?s) + i)) = Vector3 0 0 0
        \<and> (floor_hit (channels ?s ! 0) (sin ?x) (angles_vert ?s ! j) \<longrightarrow>
             getZ (pts ! (2 * (j * unat (resolution ?s) + i) + 1))
               = - sin ?x * sqrt (1 + (sin (angles_vert ?s ! j))\<^sup>2)
           \<and> (0 < sin ?x \<longrightarrow> getZ (pts ! (2 * (j * unat (resolution ?s) + i) + 1)) < - sin ?x))
        \<and> (\<not> floor_hit (channels ?s ! 0) (sin ?x) (angles_vert ?s ! j) \<longrightarrow>
             pts ! (2 * (j * unat (resolution ?s) + i) + 1) = Vector3 0 0 0)"
    by blast
  from beam [rule_format, of 0 0] beam [rule_format, of 1 0] hit pos
  have "distances s' ! 0 = sqrt (1 + (sin ?x)\<^sup>2)" "distances s' ! 2 = 0"
    "getZ (pts ! 1) = - sin ?x * sqrt (1 + (sin ?x)\<^sup>2)" "pts ! 5 = Vector3 0 0 0"
    unfolding av by (simp_all add: floor_distance_def)
  with iu smp rd show ?thesis by simp
qed

section \<open>The nearest surface along a beam\<close>

lemma hit_distance_point:
  assumes "0 \<le> rangeMin ch" and "0 \<le> rangeMax ch" and "0 \<le> h" and "h \<le> 1"
  shows "hit_distance ch d h
         = length_v (lerp (p + rangeMin ch *\<^sub>R d) (p + rangeMax ch *\<^sub>R d) h - p)"
proof -
  have "rangeMin ch + (rangeMax ch - rangeMin ch) * h = (1 - h) * rangeMin ch + h * rangeMax ch"
    by (simp add: algebra_simps)
  moreover from assms have "0 \<le> (1 - h) * rangeMin ch + h * rangeMax ch" by simp
  ultimately show ?thesis by (simp add: hit_distance_def lerp_on_ray length_v_scale)
qed

lemma hit_distance_mono:
  "rangeMin ch \<le> rangeMax ch \<Longrightarrow> h \<le> h' \<Longrightarrow> hit_distance ch d h \<le> hit_distance ch d h'"
  "rangeMax ch \<le> rangeMin ch \<Longrightarrow> h \<le> h' \<Longrightarrow> hit_distance ch d h' \<le> hit_distance ch d h"
  unfolding hit_distance_def
  by (intro mult_right_mono add_left_mono mult_left_mono; simp)
    (intro mult_right_mono add_left_mono mult_left_mono_neg; simp)

lemma beam_hits_closest:
  assumes "list_all (cast_ok (getOrigin m + rangeMin ch *\<^sub>R d) (getOrigin m + rangeMax ch *\<^sub>R d)) world"
    and "0 \<le> rangeMin ch" and "0 \<le> rangeMax ch"
  shows "measure_beam (dynamicsWorld_rayTest masks world) m ch d
    = (case closest_hit masks world (getOrigin m + rangeMin ch *\<^sub>R d)
              (getOrigin m + rangeMax ch *\<^sub>R d) of
         None \<Rightarrow> 0 | Some h \<Rightarrow> hit_distance ch d h)"
proof (cases "closest_hit masks world (getOrigin m + rangeMin ch *\<^sub>R d)
    (getOrigin m + rangeMax ch *\<^sub>R d)")
  case None
  then show ?thesis by (simp add: measure_beam_def dynamicsWorld_rayTest_eq [OF assms(1)])
next
  case (Some h)
  from closest_hit_Some(1,2) [OF Some] visible_hits_nonneg [OF assms(1)]
  have "0 \<le> h" "h \<le> 1" by auto
  from hit_distance_point [OF assms(2,3) this, of d "getOrigin m"] Some show ?thesis
    by (simp add: measure_beam_def dynamicsWorld_rayTest_eq [OF assms(1)])
qed

text \<open>
  C8. Each beam reports the nearest surface. In a world whose casts for the ray of the
  beam return no negative fraction, with a range \<open>0 \<le> rangeMin \<le> rangeMax\<close>, the
  distance stored for a beam is 0 if no object visible to the sensor is hit before
  the end of the ray, and otherwise the least of the distances from the origin of the
  sensor to the points where the ray enters a visible object. With an inverted range
  \<open>0 \<le> rangeMax \<le> rangeMin\<close>, which \<open>setRange\<close> accepts, it is the greatest of these
  distances: the sensor reports the surface farthest from it.
\<close>

theorem beam_measures_nearest:
  assumes "list_all (cast_ok (getOrigin m + rangeMin ch *\<^sub>R d) (getOrigin m + rangeMax ch *\<^sub>R d)) world"
    and "0 \<le> rangeMin ch" and "0 \<le> rangeMax ch"
  shows "(beam_hits masks world m ch d = [] \<longrightarrow>
            measure_beam (dynamicsWorld_rayTest masks world) m ch d = 0)
    \<and> (beam_hits masks world m ch d \<noteq> [] \<and> rangeMin ch \<le> rangeMax ch \<longrightarrow>
            measure_beam (dynamicsWorld_rayTest masks world) m ch d
              = Min (set (beam_hits masks world m ch d)))
    \<and> (beam_hits masks world m ch d \<noteq> [] \<and> rangeMax ch \<le> rangeMin ch \<longrightarrow>
            measure_beam (dynamicsWorld_rayTest masks world) m ch d
              = Max (set (beam_hits masks world m ch d)))
    \<and> (\<forall>x \<in> set (beam_hits masks world m ch d). \<exists>h. 0 \<le> h \<and> h < 1
          \<and> h \<in> set (visible_hits masks world (getOrigin m + rangeMin ch *\<^sub>R d)
                        (getOrigin m + rangeMax ch *\<^sub>R d))
          \<and> x = length_v (lerp (getOrigin m + rangeMin ch *\<^sub>R d)
                                (getOrigin m + rangeMax ch *\<^sub>R d) h - getOrigin m))"
proof -
  let ?p = "getOrigin m + rangeMin ch *\<^sub>R d" and ?q = "getOrigin m + rangeMax ch *\<^sub>R d"
  let ?hs = "filter (\<lambda>h. h < 1) (visible_hits masks world ?p ?q)"
  note eq = beam_hits_closest [OF assms, of masks]
  have bh: "beam_hits masks world m ch d = map (hit_distance ch d) ?hs"
    by (simp add: beam_hits_def)
  have fin: "finite (set ?hs)" by simp
  have ne: "set ?hs \<noteq> {}" if "?hs \<noteq> []" using that by (simp only: set_empty not_False_eq_True)
  have "measure_beam (dynamicsWorld_rayTest masks world) m ch d = 0" if "?hs = []"
    using that by (simp add: eq closest_hit_def)
  moreover have "measure_beam (dynamicsWorld_rayTest masks world) m ch d
      = hit_distance ch d (Min (set ?hs))" if "?hs \<noteq> []"
    using that by (simp add: eq closest_hit_def)
  moreover have "hit_distance ch d (Min (set ?hs)) = Min (hit_distance ch d ` set ?hs)"
    if "?hs \<noteq> []" "rangeMin ch \<le> rangeMax ch"
    by (rule Min_image_mono [OF fin ne [OF that(1)] hit_distance_mono(1) [OF that(2)]])
  moreover have "hit_distance ch d (Min (set ?hs)) = Max (hit_distance ch d ` set ?hs)"
    if "?hs \<noteq> []" "rangeMax ch \<le> rangeMin ch"
    by (rule Max_image_antimono [OF fin ne [OF that(1)] hit_distance_mono(2) [OF that(2)]])
  moreover have "\<exists>h. 0 \<le> h \<and> h < 1 \<and> h \<in> set (visible_hits masks world ?p ?q)
      \<and> x = length_v (lerp ?p ?q h - getOrigin m)" if "x \<in> set (beam_hits masks world m ch d)" for x
  proof -
    from that obtain h where h: "h \<in> set (visible_hits masks world ?p ?q)" "h < 1"
      and x: "x = hit_distance ch d h" by (auto simp: bh)
    from visible_hits_nonneg [OF assms(1) h(1)] have "0 \<le> h" .
    with h x hit_distance_point [OF assms(2,3), of h d "getOrigin m"] show ?thesis by auto
  qed
  ultimately show ?thesis unfolding bh by (simp add: bh)
qed

lemma fixed_hit_sel [simp]:
  "castRay (fixed_hit masks h) p q = Some h"
  "visible example_masks (fixed_hit example_masks h)"
  "cast_ok p q (fixed_hit masks h) \<longleftrightarrow> 0 \<le> h"
  by (simp_all add: fixed_hit_def visible_def cast_ok_def)

theorem beam_measures_nearest_witness:
  "measure_beam
     (dynamicsWorld_rayTest example_masks
        [fixed_hit example_masks (1 / 2), fixed_hit example_masks (1 / 5)])
     identity_transform
     \<lparr>channel_name = ''Distance'', channel_type = QuantityType_LENGTH,
      rangeMin = 0, rangeMax = 10, stdDev = 0\<rparr> (Vector3 1 0 0) = 2
   \<and> measure_beam
     (dynamicsWorld_rayTest example_masks
        [fixed_hit example_masks (1 / 2), fixed_hit example_masks (1 / 5)])
     identity_transform
     \<lparr>channel_name = ''Distance'', channel_type = QuantityType_LENGTH,
      rangeMin = 10, rangeMax = 0, stdDev = 0\<rparr> (Vector3 1 0 0) = 8"
proof -
  let ?w = "[fixed_hit example_masks (1 / 2), fixed_hit example_masks (1 / 5)]"
  let ?lo = "\<lparr>channel_name = ''Distance'', channel_type = QuantityType_LENGTH,
      rangeMin = 0, rangeMax = 10, stdDev = 0 :: real\<rparr>"
  let ?hi = "\<lparr>channel_name = ''Distance'', channel_type = QuantityType_LENGTH,
      rangeMin = 10, rangeMax = 0, stdDev = 0 :: real\<rparr>"
  have l: "length_v (Vector3 1 0 0) = 1" by (simp add: length_v_def length2_def dot_def)
  have "beam_hits example_masks ?w identity_transform ?lo (Vector3 1 0 0) = [5, 2]"
    and "beam_hits example_masks ?w identity_transform ?hi (Vector3 1 0 0) = [5, 8]"
    by (simp_all add: beam_hits_def visible_hits_def hit_distance_def l)
  with beam_measures_nearest [of identity_transform ?lo "Vector3 1 0 0" ?w example_masks]
    beam_measures_nearest [of identity_transform ?hi "Vector3 1 0 0" ?w example_masks]
  show ?thesis by simp
qed

end
