(* ===== verification/Featherstone_Tree.thy ===== *)
theory Featherstone_Tree
  imports Bullet_LinearMath
begin

text \<open>
  The articulated multibody tree: the data of \<open>FeatherstoneEntity.h\<close> and the
  construction of a tree.

  \<^item> From the header: the structs \<open>FeatherstoneLink\<close> and \<open>FeatherstoneJoint\<close> with their
    constructors, and the private members of the class \<open>FeatherstoneEntity\<close>. A pointer
    that may be \<open>NULL\<close> is an \<open>option\<close>.
  \<^item> After the design document, because the bodies of the methods are not among the
    sources: the back end \<open>MultiBody\<close> (one slot per non-base link, holding the
    generalized coordinate of the joint above that link, and one body state per link),
    the constructor, \<open>AddLink\<close>, the three \<open>Add...Joint\<close> operations, \<open>AddJointMotor\<close>,
    \<open>AddJointLimit\<close> and \<open>AddToDynamicsWorld\<close>, each returning an \<open>error\<close> where the
    document names one. The checks are exactly those the document asks for: indices in
    range, a declared number of links, every link the child of at most one joint, the
    base the child of none, no motor or limit on a fixed joint, \<open>lower \<le> upper\<close>.
  \<^item> Choices where the document is silent, kept as small as possible: the link of
    the base carries the identity transform and is renderable; a prismatic and a fixed
    joint have the zero vector as pivot; a joint gets its feedback slot when it is added;
    the checks are made in the order index, topology, parameter.

  The lemmas show that the constructor establishes the invariant \<open>FE_inv\<close> and every
  construction step keeps it, that a tree never has more joints than links minus one,
  that a tree whose joint slots are all taken has \<open>linkCount = jointCount + 1\<close> and
  every link but the base under exactly one joint, and what the check "each child
  once" does and does not give: it does not exclude cycles, and it gives a tree
  whenever every joint has \<open>parent < child\<close>.
\<close>

section \<open>Data\<close>

datatype eFeatherstoneJointType = eRevolute | ePrismatic | eFixed

datatype Phase = Unattached | Attached | Stepping

record SolidEntity =
  solid_name :: string
  solid_mass :: Scalar

record JointFeedback =
  reactionForce :: Vector3
  reactionTorque :: Vector3

record JointLimit =
  limit_lower :: Scalar
  limit_upper :: Scalar

datatype JointMotor =
  Motor_Idle
  | Motor_Position Scalar Scalar
  | Motor_Velocity Scalar Scalar

record FeatherstoneLink =
  solid :: SolidEntity
  link_trans :: Transform

definition FeatherstoneLink_new :: "SolidEntity \<Rightarrow> Transform \<Rightarrow> FeatherstoneLink" where
  "FeatherstoneLink_new s t = \<lparr>solid = s, link_trans = t\<rparr>"

record FeatherstoneJoint =
  jtype :: eFeatherstoneJointType
  feedback :: "JointFeedback option"
  limit :: "JointLimit option"
  motor :: "JointMotor option"
  parent :: uint
  child :: uint
  sigDamping :: Scalar
  velDamping :: Scalar

definition FeatherstoneJoint_new :: "eFeatherstoneJointType \<Rightarrow> uint \<Rightarrow> uint \<Rightarrow> FeatherstoneJoint" where
  "FeatherstoneJoint_new t p c =
     \<lparr>jtype = t, feedback = None, limit = None, motor = None, parent = p, child = c,
      sigDamping = 0, velDamping = 0\<rparr>"

record MultiBodyLink =
  mbl_jointType :: eFeatherstoneJointType
  mbl_parent :: uint
  mbl_axis :: Vector3
  mbl_pivot :: Vector3
  mbl_collide :: bool
  mbl_pos :: Scalar
  mbl_vel :: Scalar
  mbl_torque :: Scalar
  mbl_damping :: Scalar

record BodyState =
  body_pose :: Transform
  body_linvel :: Vector3
  body_angvel :: Vector3
  body_force :: Vector3
  body_torque :: Vector3

record MultiBody =
  numLinks :: uint
  hasFixedBase :: bool
  mb_links :: "MultiBodyLink option list"
  mb_bodies :: "BodyState list"
  mb_phase :: Phase
  selfCollision :: bool

record Entity =
  entity_name :: string

record FeatherstoneEntity = Entity +
  multiBody :: MultiBody
  links :: "FeatherstoneLink list"
  joints :: "FeatherstoneJoint list"
  baseRenderable :: bool


section \<open>The back end before the first step\<close>

definition BodyState_rest :: BodyState where
  "BodyState_rest =
     \<lparr>body_pose = identity_transform, body_linvel = 0, body_angvel = 0, body_force = 0,
      body_torque = 0\<rparr>"

definition MultiBody_new :: "uint \<Rightarrow> bool \<Rightarrow> MultiBody" where
  "MultiBody_new n fixedBase =
     \<lparr>numLinks = n, hasFixedBase = fixedBase, mb_links = replicate (unat n) None,
      mb_bodies = replicate (unat n + 1) BodyState_rest, mb_phase = Unattached,
      selfCollision = False\<rparr>"

definition setupLink ::
  "eFeatherstoneJointType \<Rightarrow> uint \<Rightarrow> Vector3 \<Rightarrow> Vector3 \<Rightarrow> bool \<Rightarrow> MultiBodyLink" where
  "setupLink t p pivot axis collide =
     \<lparr>mbl_jointType = t, mbl_parent = p, mbl_axis = axis, mbl_pivot = pivot,
      mbl_collide = collide, mbl_pos = 0, mbl_vel = 0, mbl_torque = 0, mbl_damping = 0\<rparr>"

definition slot_of :: "uint \<Rightarrow> nat" where
  "slot_of c = unat c - 1"

section \<open>Construction\<close>

definition FeatherstoneEntity_new ::
  "string \<Rightarrow> uint \<Rightarrow> SolidEntity \<Rightarrow> bool \<Rightarrow> FeatherstoneEntity result" where
  "FeatherstoneEntity_new uniqueName totalNumOfLinks baseSolid fixedBase =
     (if totalNumOfLinks = 0 then Inl InvalidParameter
      else Inr \<lparr>entity_name = uniqueName,
                multiBody = MultiBody_new (totalNumOfLinks - 1) fixedBase,
                links = [FeatherstoneLink_new baseSolid identity_transform],
                joints = [], baseRenderable = True\<rparr>)"

definition unattached :: "FeatherstoneEntity \<Rightarrow> bool" where
  "unattached e = (mb_phase (multiBody e) = Unattached)"

definition AddLink :: "SolidEntity \<Rightarrow> Transform \<Rightarrow> FeatherstoneEntity \<Rightarrow> FeatherstoneEntity result" where
  "AddLink s transform e =
     (if \<not> unattached e then Inl TopologyViolation
      else if unat (numLinks (multiBody e)) + 1 \<le> length (links e) then Inl TopologyViolation
      else Inr (e\<lparr>links := links e @ [FeatherstoneLink_new s transform]\<rparr>))"

definition child_used :: "FeatherstoneEntity \<Rightarrow> uint \<Rightarrow> bool" where
  "child_used e c = (c \<in> set (map child (joints e)))"

definition AddJoint ::
  "eFeatherstoneJointType \<Rightarrow> uint \<Rightarrow> uint \<Rightarrow> Vector3 \<Rightarrow> Vector3 \<Rightarrow> bool \<Rightarrow> FeatherstoneEntity
     \<Rightarrow> (FeatherstoneEntity \<times> cint) result" where
  "AddJoint t p c pivot axis collide e =
     (if \<not> unattached e then Inl TopologyViolation
      else if length (links e) \<le> unat p \<or> length (links e) \<le> unat c then Inl IndexOutOfRange
      else if c = 0 \<or> child_used e c then Inl TopologyViolation
      else Inr (e\<lparr>multiBody := (multiBody e)
                     \<lparr>mb_links := (mb_links (multiBody e))
                        [slot_of c := Some (setupLink t p pivot axis collide)]\<rparr>,
                   joints := joints e @
                     [(FeatherstoneJoint_new t p c)
                        \<lparr>feedback := Some \<lparr>reactionForce = 0, reactionTorque = 0\<rparr>\<rparr>]\<rparr>,
                of_nat (length (joints e))))"

definition AddRevoluteJoint ::
  "uint \<Rightarrow> uint \<Rightarrow> Vector3 \<Rightarrow> Vector3 \<Rightarrow> bool \<Rightarrow> FeatherstoneEntity
     \<Rightarrow> (FeatherstoneEntity \<times> cint) result" where
  "AddRevoluteJoint p c pivot axis collisionBetweenJointLinks =
     AddJoint eRevolute p c pivot axis collisionBetweenJointLinks"

definition AddPrismaticJoint ::
  "uint \<Rightarrow> uint \<Rightarrow> Vector3 \<Rightarrow> bool \<Rightarrow> FeatherstoneEntity \<Rightarrow> (FeatherstoneEntity \<times> cint) result" where
  "AddPrismaticJoint p c axis collisionBetweenJointLinks =
     AddJoint ePrismatic p c 0 axis collisionBetweenJointLinks"

definition AddFixedJoint ::
  "uint \<Rightarrow> uint \<Rightarrow> FeatherstoneEntity \<Rightarrow> (FeatherstoneEntity \<times> cint) result" where
  "AddFixedJoint p c = AddJoint eFixed p c 0 0 False"

definition AddJointMotor :: "uint \<Rightarrow> FeatherstoneEntity \<Rightarrow> FeatherstoneEntity result" where
  "AddJointMotor index e =
     (case at_opt (joints e) index of
        None \<Rightarrow> Inl IndexOutOfRange
      | Some j \<Rightarrow>
          if jtype j = eFixed \<or> motor j \<noteq> None then Inl TopologyViolation
          else Inr (e\<lparr>joints := (joints e)[unat index := j\<lparr>motor := Some Motor_Idle\<rparr>]\<rparr>))"

definition AddJointLimit ::
  "uint \<Rightarrow> Scalar \<Rightarrow> Scalar \<Rightarrow> FeatherstoneEntity \<Rightarrow> FeatherstoneEntity result" where
  "AddJointLimit index lower upper e =
     (case at_opt (joints e) index of
        None \<Rightarrow> Inl IndexOutOfRange
      | Some j \<Rightarrow>
          if jtype j = eFixed then Inl TopologyViolation
          else if upper < lower then Inl InvalidParameter
          else Inr (e\<lparr>joints := (joints e)
                      [unat index := j\<lparr>limit := Some \<lparr>limit_lower = lower, limit_upper = upper\<rparr>\<rparr>]\<rparr>))"

definition AddToDynamicsWorld ::
  "Transform option \<Rightarrow> FeatherstoneEntity \<Rightarrow> FeatherstoneEntity result" where
  "AddToDynamicsWorld worldTransform e =
     (if \<not> unattached e then Inl TopologyViolation
      else Inr (e\<lparr>multiBody := (multiBody e)
                     \<lparr>mb_bodies := (case worldTransform of
                          None \<Rightarrow> mb_bodies (multiBody e)
                        | Some t \<Rightarrow> (mb_bodies (multiBody e))
                            [0 := (mb_bodies (multiBody e) ! 0)\<lparr>body_pose := t\<rparr>]),
                       mb_phase := Attached\<rparr>\<rparr>))"

definition getNumOfJoints :: "FeatherstoneEntity \<Rightarrow> uint" where
  "getNumOfJoints e = of_nat (length (joints e))"

definition getNumOfLinks :: "FeatherstoneEntity \<Rightarrow> uint" where
  "getNumOfLinks e = of_nat (length (links e))"

definition getLink :: "FeatherstoneEntity \<Rightarrow> uint \<Rightarrow> FeatherstoneLink result" where
  "getLink e index = (case at_opt (links e) index of None \<Rightarrow> Inl IndexOutOfRange | Some l \<Rightarrow> Inr l)"

section \<open>Invariant and the shape of the tree\<close>

definition joint_ok :: "FeatherstoneEntity \<Rightarrow> FeatherstoneJoint \<Rightarrow> bool" where
  "joint_ok e j =
     (child j \<noteq> 0 \<and> unat (child j) < length (links e) \<and> unat (parent j) < length (links e)
      \<and> feedback j \<noteq> None
      \<and> (jtype j = eFixed \<longrightarrow> motor j = None \<and> limit j = None)
      \<and> (case limit j of None \<Rightarrow> True | Some l \<Rightarrow> limit_lower l \<le> limit_upper l)
      \<and> 0 \<le> sigDamping j \<and> 0 \<le> velDamping j
      \<and> (case mb_links (multiBody e) ! slot_of (child j) of
            None \<Rightarrow> False
          | Some sl \<Rightarrow> mbl_jointType sl = jtype j \<and> mbl_parent sl = parent j))"

definition FE_inv :: "FeatherstoneEntity \<Rightarrow> bool" where
  "FE_inv e =
     (1 \<le> length (links e) \<and> length (links e) \<le> unat (numLinks (multiBody e)) + 1
      \<and> unat (numLinks (multiBody e)) + 1 < 2 ^ 32
      \<and> length (mb_links (multiBody e)) = unat (numLinks (multiBody e))
      \<and> length (mb_bodies (multiBody e)) = unat (numLinks (multiBody e)) + 1
      \<and> distinct (map child (joints e))
      \<and> (\<forall>j \<in> set (joints e). joint_ok e j))"

definition complete :: "FeatherstoneEntity \<Rightarrow> bool" where
  "complete e = (length (joints e) = unat (numLinks (multiBody e)))"

definition parent_joint :: "FeatherstoneEntity \<Rightarrow> uint \<Rightarrow> FeatherstoneJoint option" where
  "parent_joint e c = find (\<lambda>j. child j = c) (joints e)"

fun reaches_base :: "FeatherstoneEntity \<Rightarrow> nat \<Rightarrow> uint \<Rightarrow> bool" where
  "reaches_base e 0 k = (k = 0)"
| "reaches_base e (Suc n) k =
     (k = 0 \<or> (case parent_joint e k of None \<Rightarrow> False | Some j \<Rightarrow> reaches_base e n (parent j)))"

definition is_tree :: "FeatherstoneEntity \<Rightarrow> bool" where
  "is_tree e = (\<forall>k \<in> set [0..<length (links e)]. reaches_base e (length (links e)) (of_nat k))"

definition topology ::
  "FeatherstoneEntity \<Rightarrow> nat \<times> (eFeatherstoneJointType \<times> uint \<times> uint) list" where
  "topology e = (length (links e), map (\<lambda>j. (jtype j, parent j, child j)) (joints e))"

fun phase_rank :: "Phase \<Rightarrow> nat" where
  "phase_rank Unattached = 0"
| "phase_rank Attached = 1"
| "phase_rank Stepping = 2"

section \<open>Two assemblies used as examples\<close>

definition example_solid :: SolidEntity where
  "example_solid = \<lparr>solid_name = ''link'', solid_mass = 2\<rparr>"

definition example_arm :: FeatherstoneEntity where
  "example_arm =
     \<lparr>entity_name = ''arm'',
      multiBody = \<lparr>numLinks = 1, hasFixedBase = True,
        mb_links = [Some (setupLink eRevolute 0 (Vector3 1 0 0) (Vector3 0 0 1) False)],
        mb_bodies = [BodyState_rest, BodyState_rest], mb_phase = Unattached,
        selfCollision = False\<rparr>,
      links = [FeatherstoneLink_new example_solid identity_transform,
               FeatherstoneLink_new example_solid identity_transform],
      joints = [(FeatherstoneJoint_new eRevolute 0 1)
                  \<lparr>feedback := Some \<lparr>reactionForce = 0, reactionTorque = 0\<rparr>\<rparr>],
      baseRenderable = True\<rparr>"

definition example_loop :: FeatherstoneEntity where
  "example_loop =
     \<lparr>entity_name = ''loop'',
      multiBody = \<lparr>numLinks = 2, hasFixedBase = True,
        mb_links = [Some (setupLink eFixed 2 0 0 False), Some (setupLink eFixed 1 0 0 False)],
        mb_bodies = [BodyState_rest, BodyState_rest, BodyState_rest], mb_phase = Unattached,
        selfCollision = False\<rparr>,
      links = [FeatherstoneLink_new example_solid identity_transform,
               FeatherstoneLink_new example_solid identity_transform,
               FeatherstoneLink_new example_solid identity_transform],
      joints = [(FeatherstoneJoint_new eFixed 2 1)
                  \<lparr>feedback := Some \<lparr>reactionForce = 0, reactionTorque = 0\<rparr>\<rparr>,
                (FeatherstoneJoint_new eFixed 1 2)
                  \<lparr>feedback := Some \<lparr>reactionForce = 0, reactionTorque = 0\<rparr>\<rparr>],
      baseRenderable = True\<rparr>"

lemmas [sf_defs] = FeatherstoneLink_new_def FeatherstoneJoint_new_def BodyState_rest_def
  MultiBody_new_def setupLink_def slot_of_def FeatherstoneEntity_new_def unattached_def
  AddLink_def child_used_def AddJoint_def AddRevoluteJoint_def AddPrismaticJoint_def
  AddFixedJoint_def AddJointMotor_def AddJointLimit_def AddToDynamicsWorld_def
  getNumOfJoints_def getNumOfLinks_def getLink_def joint_ok_def FE_inv_def complete_def
  parent_joint_def is_tree_def topology_def
  example_solid_def example_arm_def example_loop_def

section \<open>Slots\<close>

lemma slot_of_inj: "c \<noteq> 0 \<Longrightarrow> c' \<noteq> 0 \<Longrightarrow> slot_of c = slot_of c' \<longleftrightarrow> c = c'"
proof -
  assume "c \<noteq> 0" and "c' \<noteq> 0"
  then have "0 < unat c" and "0 < unat c'" by (simp_all add: unat_pos)
  then have "slot_of c = slot_of c' \<longleftrightarrow> unat c = unat c'" by (auto simp: slot_of_def)
  then show ?thesis by (simp add: word_unat_eq_iff)
qed

lemma slot_of_less: "c \<noteq> 0 \<Longrightarrow> unat c < n + 1 \<Longrightarrow> slot_of c < n"
  using unat_pos [of c] by (simp add: slot_of_def)

lemma joint_ok_mono:
  assumes "joint_ok e j" and "length (links e) \<le> length (links e')"
    and "mb_links (multiBody e') ! slot_of (child j) = mb_links (multiBody e) ! slot_of (child j)"
  shows "joint_ok e' j"
  using assms by (auto simp: joint_ok_def split: option.splits)

lemma FE_invD:
  assumes "FE_inv e"
  shows "1 \<le> length (links e)" and "length (links e) \<le> unat (numLinks (multiBody e)) + 1"
    and "unat (numLinks (multiBody e)) + 1 < 2 ^ 32"
    and "length (mb_links (multiBody e)) = unat (numLinks (multiBody e))"
    and "length (mb_bodies (multiBody e)) = unat (numLinks (multiBody e)) + 1"
    and "distinct (map child (joints e))"
    and "\<And>j. j \<in> set (joints e) \<Longrightarrow> joint_ok e j"
  using assms by (auto simp: FE_inv_def)

lemma joint_okD:
  assumes "joint_ok e j"
  shows "child j \<noteq> 0" and "unat (child j) < length (links e)"
    and "unat (parent j) < length (links e)" and "feedback j \<noteq> None"
    and "jtype j = eFixed \<Longrightarrow> motor j = None \<and> limit j = None"
    and "limit j = Some l \<Longrightarrow> limit_lower l \<le> limit_upper l"
    and "0 \<le> sigDamping j" and "0 \<le> velDamping j"
    and "\<exists>sl. mb_links (multiBody e) ! slot_of (child j) = Some sl \<and> mbl_jointType sl = jtype j
           \<and> mbl_parent sl = parent j"
  using assms by (auto simp: joint_ok_def split: option.splits)

lemma FE_invI:
  assumes "1 \<le> length (links e)" and "length (links e) \<le> unat (numLinks (multiBody e)) + 1"
    and "unat (numLinks (multiBody e)) + 1 < 2 ^ 32"
    and "length (mb_links (multiBody e)) = unat (numLinks (multiBody e))"
    and "length (mb_bodies (multiBody e)) = unat (numLinks (multiBody e)) + 1"
    and "distinct (map child (joints e))"
    and "\<And>j. j \<in> set (joints e) \<Longrightarrow> joint_ok e j"
  shows "FE_inv e"
  using assms by (auto simp: FE_inv_def)

lemma joint_ok_slot:
  assumes "joint_ok e x" and "length (links e') = length (links e)"
    and "mb_links (multiBody e') ! slot_of (child x) = Some sl'"
    and "mbl_jointType sl' = jtype x" and "mbl_parent sl' = parent x"
  shows "joint_ok e' x"
  using joint_okD(1-8) [OF assms(1)] assms(2-5) unfolding joint_ok_def
  by (auto split: option.splits)

section \<open>Constructor\<close>

lemma FeatherstoneJoint_new_sel [simp]:
  "jtype (FeatherstoneJoint_new t p c) = t" "parent (FeatherstoneJoint_new t p c) = p"
  "child (FeatherstoneJoint_new t p c) = c" "feedback (FeatherstoneJoint_new t p c) = None"
  "limit (FeatherstoneJoint_new t p c) = None" "motor (FeatherstoneJoint_new t p c) = None"
  "sigDamping (FeatherstoneJoint_new t p c) = 0" "velDamping (FeatherstoneJoint_new t p c) = 0"
  by (simp_all add: FeatherstoneJoint_new_def)

lemma new_Inr_iff:
  "(\<exists>e. FeatherstoneEntity_new name n s f = Inr e) \<longleftrightarrow> n \<noteq> 0"
  by (simp add: FeatherstoneEntity_new_def)



lemma FE_new_inv:
  assumes "FeatherstoneEntity_new name n s f = Inr e"
  shows "FE_inv e" and "unattached e" and "length (links e) = 1" and "joints e = []"
    and "unat (numLinks (multiBody e)) + 1 = unat n"
proof -
  from assms have n: "n \<noteq> 0" and e: "e = \<lparr>entity_name = name,
      multiBody = MultiBody_new (n - 1) f,
      links = [FeatherstoneLink_new s identity_transform], joints = [], baseRenderable = True\<rparr>"
    by (auto simp: FeatherstoneEntity_new_def split: if_splits)
  have "unat n < 2 ^ 32" using unsigned_less [of n] by simp
  with unat_pred [OF n] have "unat (n - 1) + 1 < 2 ^ 32" by simp
  then show "FE_inv e" unfolding e by (simp add: FE_inv_def MultiBody_new_def)
  show "unattached e" and "length (links e) = 1" and "joints e = []"
    unfolding e by (simp_all add: unattached_def MultiBody_new_def)
  from unat_pred [OF n] show "unat (numLinks (multiBody e)) + 1 = unat n"
    unfolding e by (simp add: MultiBody_new_def)
qed

section \<open>Every construction step keeps the invariant\<close>

lemma AddLink_Inr_iff:
  "AddLink s t e = Inr e' \<longleftrightarrow>
     unattached e \<and> length (links e) < unat (numLinks (multiBody e)) + 1
     \<and> e' = e\<lparr>links := links e @ [FeatherstoneLink_new s t]\<rparr>"
  by (auto simp: AddLink_def)

lemma AddLink_inv [sf_inv]:
  assumes "FE_inv e" and "AddLink s t e = Inr e'"
  shows "FE_inv e'"
proof -
  from assms(2) have e': "e' = e\<lparr>links := links e @ [FeatherstoneLink_new s t]\<rparr>"
    and lt: "length (links e) < unat (numLinks (multiBody e)) + 1"
    by (simp_all add: AddLink_Inr_iff)
  have "joint_ok e' j" if "j \<in> set (joints e)" for j
    using FE_invD(7) [OF assms(1) that] by (rule joint_ok_mono) (simp_all add: e')
  with FE_invD(1-6) [OF assms(1)] lt show ?thesis by (simp add: FE_inv_def e')
qed

lemma AddJoint_Inr_iff:
  "AddJoint t p c pivot axis collide e = Inr (e', k) \<longleftrightarrow>
     unattached e \<and> unat p < length (links e) \<and> unat c < length (links e) \<and> c \<noteq> 0
     \<and> c \<notin> child ` set (joints e)
     \<and> e' = e\<lparr>multiBody := (multiBody e)
                 \<lparr>mb_links := (mb_links (multiBody e))
                    [slot_of c := Some (setupLink t p pivot axis collide)]\<rparr>,
               joints := joints e @
                 [(FeatherstoneJoint_new t p c)
                    \<lparr>feedback := Some \<lparr>reactionForce = 0, reactionTorque = 0\<rparr>\<rparr>]\<rparr>
     \<and> k = of_nat (length (joints e))"
  by (auto simp: AddJoint_def child_used_def)

lemma AddJoint_inv [sf_inv]:
  assumes "FE_inv e" and "AddJoint t p c pivot axis collide e = Inr (e', k)"
  shows "FE_inv e'"
proof -
  let ?sl = "setupLink t p pivot axis collide"
  let ?j = "(FeatherstoneJoint_new t p c)\<lparr>feedback := Some \<lparr>reactionForce = 0, reactionTorque = 0\<rparr>\<rparr>"
  from assms(2) have p: "unat p < length (links e)" and c: "unat c < length (links e)" "c \<noteq> 0"
    and fresh: "c \<notin> child ` set (joints e)"
    and e': "e' = e\<lparr>multiBody := (multiBody e)\<lparr>mb_links := (mb_links (multiBody e))[slot_of c := Some ?sl]\<rparr>,
                   joints := joints e @ [?j]\<rparr>"
    by (simp_all add: AddJoint_Inr_iff)
  note inv = FE_invD [OF assms(1)]
  from c inv(2) have slot: "slot_of c < length (mb_links (multiBody e))"
    by (simp add: inv(4) slot_of_less)
  have old: "joint_ok e' j" if "j \<in> set (joints e)" for j
  proof -
    from that fresh have "child j \<noteq> c" by auto
    with joint_okD(1) [OF inv(7) [OF that]] c(2) have "slot_of (child j) \<noteq> slot_of c"
      by (simp add: slot_of_inj)
    then show ?thesis
      using inv(7) [OF that] by (intro joint_ok_mono [of e j e']) (simp_all add: e')
  qed
  from p c slot have new: "joint_ok e' ?j"
    by (simp add: joint_ok_def e' setupLink_def)
  from inv(1-6) fresh old new show ?thesis by (auto simp: FE_inv_def e' image_iff)
qed

lemma joints_update_inv:
  assumes "FE_inv e" and "unat i < length (joints e)"
    and "child j = child (joints e ! unat i)" and "joint_ok e j"
  shows "FE_inv (e\<lparr>joints := (joints e)[unat i := j]\<rparr>)"
proof -
  let ?e' = "e\<lparr>joints := (joints e)[unat i := j]\<rparr>"
  note inv = FE_invD [OF assms(1)]
  from assms(2,3) have "map child ((joints e)[unat i := j]) = map child (joints e)"
    by (simp add: map_update list_update_same_conv)
  moreover have "joint_ok ?e' x" if "x \<in> set ((joints e)[unat i := j])" for x
  proof -
    from that have "x = j \<or> x \<in> set (joints e)" by (auto dest: set_update_subset_insert [THEN subsetD])
    with assms(4) inv(7) have "joint_ok e x" by auto
    then show ?thesis by (rule joint_ok_mono) simp_all
  qed
  ultimately show ?thesis using inv(1-6) by (simp add: FE_inv_def)
qed

lemma AddJointMotor_Inr_iff:
  "AddJointMotor i e = Inr e' \<longleftrightarrow>
     unat i < length (joints e) \<and> jtype (joints e ! unat i) \<noteq> eFixed
     \<and> motor (joints e ! unat i) = None
     \<and> e' = e\<lparr>joints := (joints e)[unat i := (joints e ! unat i)\<lparr>motor := Some Motor_Idle\<rparr>]\<rparr>"
  by (auto simp: AddJointMotor_def at_opt_def split: option.splits)

lemma AddJointLimit_Inr_iff:
  "AddJointLimit i lo hi e = Inr e' \<longleftrightarrow>
     unat i < length (joints e) \<and> jtype (joints e ! unat i) \<noteq> eFixed \<and> lo \<le> hi
     \<and> e' = e\<lparr>joints := (joints e)
            [unat i := (joints e ! unat i)\<lparr>limit := Some \<lparr>limit_lower = lo, limit_upper = hi\<rparr>\<rparr>]\<rparr>"
  by (auto simp: AddJointLimit_def at_opt_def split: option.splits)

lemma AddJointMotor_inv [sf_inv]:
  assumes "FE_inv e" and "AddJointMotor i e = Inr e'"
  shows "FE_inv e'"
proof -
  from assms(2) have i: "unat i < length (joints e)" and nf: "jtype (joints e ! unat i) \<noteq> eFixed"
    and e': "e' = e\<lparr>joints := (joints e)[unat i := (joints e ! unat i)\<lparr>motor := Some Motor_Idle\<rparr>]\<rparr>"
    by (simp_all add: AddJointMotor_Inr_iff)
  from i have "joint_ok e (joints e ! unat i)" by (simp add: FE_invD(7) [OF assms(1)])
  with nf have "joint_ok e ((joints e ! unat i)\<lparr>motor := Some Motor_Idle\<rparr>)"
    by (auto simp: joint_ok_def split: option.splits)
  with assms(1) i show ?thesis unfolding e' by (intro joints_update_inv) simp_all
qed

lemma AddJointLimit_inv [sf_inv]:
  assumes "FE_inv e" and "AddJointLimit i lo hi e = Inr e'"
  shows "FE_inv e'"
proof -
  from assms(2) have i: "unat i < length (joints e)" and nf: "jtype (joints e ! unat i) \<noteq> eFixed"
    and le: "lo \<le> hi"
    and e': "e' = e\<lparr>joints := (joints e)
        [unat i := (joints e ! unat i)\<lparr>limit := Some \<lparr>limit_lower = lo, limit_upper = hi\<rparr>\<rparr>]\<rparr>"
    by (simp_all add: AddJointLimit_Inr_iff)
  from i have "joint_ok e (joints e ! unat i)" by (simp add: FE_invD(7) [OF assms(1)])
  with nf le have "joint_ok e
      ((joints e ! unat i)\<lparr>limit := Some \<lparr>limit_lower = lo, limit_upper = hi\<rparr>\<rparr>)"
    by (auto simp: joint_ok_def split: option.splits)
  with assms(1) i show ?thesis unfolding e' by (intro joints_update_inv) simp_all
qed

lemma AddToDynamicsWorld_Inr_iff:
  "AddToDynamicsWorld w e = Inr e' \<longleftrightarrow>
     unattached e
     \<and> e' = e\<lparr>multiBody := (multiBody e)
                 \<lparr>mb_bodies := (case w of None \<Rightarrow> mb_bodies (multiBody e)
                     | Some t \<Rightarrow> (mb_bodies (multiBody e))
                         [0 := (mb_bodies (multiBody e) ! 0)\<lparr>body_pose := t\<rparr>]),
                  mb_phase := Attached\<rparr>\<rparr>"
  by (auto simp: AddToDynamicsWorld_def)

lemma AddToDynamicsWorld_inv [sf_inv]:
  assumes "FE_inv e" and "AddToDynamicsWorld w e = Inr e'"
  shows "FE_inv e'"
proof -
  note inv = FE_invD [OF assms(1)]
  from assms(2) have e': "e' = e\<lparr>multiBody := (multiBody e)
        \<lparr>mb_bodies := (case w of None \<Rightarrow> mb_bodies (multiBody e)
            | Some t \<Rightarrow> (mb_bodies (multiBody e))[0 := (mb_bodies (multiBody e) ! 0)\<lparr>body_pose := t\<rparr>]),
         mb_phase := Attached\<rparr>\<rparr>"
    by (simp add: AddToDynamicsWorld_Inr_iff)
  have "joint_ok e' j" if "j \<in> set (joints e)" for j
    using inv(7) [OF that] by (rule joint_ok_mono) (simp_all add: e')
  with inv(1-6) show ?thesis by (cases w) (simp_all add: FE_inv_def e')
qed


section \<open>Counting links and joints\<close>

lemma children_range:
  assumes "FE_inv e"
  shows "unat ` child ` set (joints e) \<subseteq> {1..<length (links e)}"
  using joint_okD(1,2) [OF FE_invD(7) [OF assms]] by (auto simp: Suc_le_eq unat_pos)

lemma card_children:
  assumes "FE_inv e"
  shows "card (unat ` child ` set (joints e)) = length (joints e)"
proof -
  have "inj_on unat (child ` set (joints e))" by (simp add: inj_on_def word_unat_eq_iff)
  then have "card (unat ` child ` set (joints e)) = card (set (map child (joints e)))"
    by (simp add: card_image)
  then show ?thesis using distinct_card [OF FE_invD(6) [OF assms]] by simp
qed

lemma joints_le_links:
  assumes "FE_inv e"
  shows "length (joints e) + 1 \<le> length (links e)"
proof -
  have "card (unat ` child ` set (joints e)) \<le> card {1..<length (links e)}"
    by (intro card_mono children_range assms) simp
  with card_children [OF assms] FE_invD(1) [OF assms] show ?thesis by simp
qed

lemma complete_counts:
  assumes "FE_inv e" and "complete e"
  shows "length (links e) = length (joints e) + 1"
    and "length (links e) = unat (numLinks (multiBody e)) + 1"
  using joints_le_links [OF assms(1)] FE_invD(2) [OF assms(1)] assms(2)
  by (simp_all add: complete_def)

lemma complete_children:
  assumes "FE_inv e" and "complete e"
  shows "unat ` child ` set (joints e) = {1..<length (links e)}"
  by (intro card_subset_eq children_range assms)
    (simp_all add: card_children assms complete_counts(1) [OF assms])

lemma children_inj:
  assumes "FE_inv e" and "j \<in> set (joints e)" and "j' \<in> set (joints e)" and "child j = child j'"
  shows "j = j'"
  using FE_invD(6) [OF assms(1)] assms(2-4) by (auto simp: distinct_map inj_on_def)

lemma parent_joint_Some:
  assumes "FE_inv e" and "j \<in> set (joints e)"
  shows "parent_joint e (child j) = Some j"
proof -
  from assms(2) obtain x where x: "find (\<lambda>j'. child j' = child j) (joints e) = Some x"
    by (cases "find (\<lambda>j'. child j' = child j) (joints e)") (auto simp: find_None_iff)
  then have "x \<in> set (joints e)" and "child x = child j"
    by (auto simp: find_Some_iff)
  with assms x show ?thesis by (auto simp: parent_joint_def dest: children_inj)
qed

lemma complete_parent_joint:
  assumes "FE_inv e" and "complete e" and "k \<noteq> 0" and "unat k < length (links e)"
  obtains j where "j \<in> set (joints e)" and "child j = k" and "parent_joint e k = Some j"
proof -
  from assms(3,4) have "unat k \<in> {1..<length (links e)}" by (simp add: Suc_le_eq unat_pos)
  then have "unat k \<in> unat ` child ` set (joints e)" by (simp add: complete_children assms(1,2))
  then obtain j where "j \<in> set (joints e)" and "child j = k" by (auto simp: word_unat_eq_iff)
  with parent_joint_Some [OF assms(1)] that show thesis by blast
qed

section \<open>The shape of the tree\<close>

lemma reaches_base_ordered:
  assumes "FE_inv e" and "complete e" and "\<forall>j \<in> set (joints e). parent j < child j"
  shows "unat k \<le> n \<Longrightarrow> unat k < length (links e) \<Longrightarrow> reaches_base e n k"
proof (induction n arbitrary: k)
  case 0
  then show ?case by (simp add: unat_eq_0)
next
  case (Suc n)
  show ?case
  proof (cases "k = 0")
    case False
    with Suc.prems obtain j where j: "j \<in> set (joints e)" "child j = k" "parent_joint e k = Some j"
      by (elim complete_parent_joint [OF assms(1,2)])
    with assms(3) have "unat (parent j) < unat k" by (auto simp: word_less_nat_alt)
    with Suc.prems have "reaches_base e n (parent j)" by (intro Suc.IH) simp_all
    with j show ?thesis by simp
  qed simp
qed

lemma ordered_is_tree:
  assumes "FE_inv e" and "complete e" and "\<forall>j \<in> set (joints e). parent j < child j"
  shows "is_tree e"
proof -
  have "reaches_base e (length (links e)) (of_nat k)" if "k < length (links e)" for k
  proof -
    from that FE_invD(2,3) [OF assms(1)] have "unat (of_nat k :: uint) = k"
      by (simp add: unat_of_nat_uint)
    with that show ?thesis by (intro reaches_base_ordered assms) simp_all
  qed
  then show ?thesis by (simp add: is_tree_def)
qed

lemma count_exact:
  assumes "FE_inv e"
  shows "unat (getNumOfLinks e) = length (links e)" and "unat (getNumOfJoints e) = length (joints e)"
proof -
  from FE_invD(2,3) [OF assms] have "length (links e) < 2 ^ 32" by simp
  with joints_le_links [OF assms] have "length (joints e) < 2 ^ 32" by simp
  with \<open>length (links e) < 2 ^ 32\<close> show "unat (getNumOfLinks e) = length (links e)"
    and "unat (getNumOfJoints e) = length (joints e)"
    by (simp_all add: getNumOfLinks_def getNumOfJoints_def unat_of_nat_uint)
qed

section \<open>The examples satisfy the invariant\<close>

lemma example_arm_inv [simp]: "FE_inv example_arm" "complete example_arm" "unattached example_arm"
  by (simp_all add: FE_inv_def joint_ok_def complete_def unattached_def example_arm_def
      slot_of_def setupLink_def)

lemma example_loop_inv [simp]: "FE_inv example_loop" "complete example_loop"
  by (simp_all add: FE_inv_def joint_ok_def complete_def example_loop_def slot_of_def
      setupLink_def)

lemma example_loop_cycle: "\<not> is_tree example_loop"
  by (simp add: is_tree_def example_loop_def parent_joint_def upt_rec)

section \<open>Properties of the assembled tree\<close>

text \<open>
  Counting. In every state that satisfies the invariant there is at most one joint
  per link other than the base, \<open>jointCount + 1 \<le> linkCount \<le> totalNumOfLinks\<close>, and the
  counts returned as \<open>unsigned int\<close> by \<open>getNumOfLinks\<close> and \<open>getNumOfJoints\<close> are the
  true counts: they cannot wrap, because the constructor takes the total as an
  \<open>unsigned int\<close>.
\<close>

theorem joint_count_bound:
  assumes "FE_inv e"
  shows "length (joints e) + 1 \<le> length (links e)
    \<and> length (links e) \<le> unat (numLinks (multiBody e)) + 1
    \<and> unat (getNumOfLinks e) = length (links e)
    \<and> unat (getNumOfJoints e) = length (joints e)"
  using joints_le_links [OF assms] FE_invD(2) [OF assms] count_exact [OF assms] by simp

theorem joint_count_bound_witness:
  "FE_inv example_arm \<and> unat (getNumOfLinks example_arm) = 2
   \<and> unat (getNumOfJoints example_arm) = 1"
  using joint_count_bound [OF example_arm_inv(1)] example_arm_inv(1)
  by (simp add: example_arm_def)




end
