(* ===== verification/Featherstone_Dynamics.thy ===== *)
theory Featherstone_Dynamics
  imports Featherstone_Tree
begin

text \<open>
  Actuation, the step of the back end and the queries of the multibody tree, after the
  design document (the bodies of these methods are not among the sources), and the tree
  as a state machine over the calls of its interface.

  \<^item> Force injection: \<open>DriveJoint\<close>, \<open>ApplyGravity\<close>, \<open>ApplyDamping\<close>, \<open>AddLinkForce\<close>,
    \<open>AddLinkTorque\<close> add to accumulators that last one step; \<open>MotorPositionSetpoint\<close> and
    \<open>MotorVelocitySetpoint\<close> store a control law in the motor of a joint.
  \<^item> \<open>Step\<close> is one step of the back end. The solver is a parameter: it is given the
    state and the generalized force of every joint and answers with new coordinates, body
    states and joint reactions. \<open>Step\<close> enforces what the document promises of the back
    end whatever the solver answers: a limited joint stays within its limits, a fixed
    joint and a fixed base do not move, the accumulators are consumed.
  \<^item> Queries are functions of the state: \<open>getJointPosition\<close>, \<open>getJointVelocity\<close>,
    \<open>getJointTorque\<close>, \<open>getJointFeedback\<close>, \<open>getLinkTransform\<close> and the velocities of a
    link.
  \<^item> \<open>FE_call\<close> names the calls of the interface, \<open>FE_step\<close> performs one and \<open>FE_run\<close> a
    sequence, stopping at the first call that is refused.
\<close>

section \<open>Joints and their slots in the back end\<close>

definition joint_slot :: "FeatherstoneEntity \<Rightarrow> FeatherstoneJoint \<Rightarrow> MultiBodyLink option" where
  "joint_slot e j =
     (if child j \<noteq> 0 \<and> slot_of (child j) < length (mb_links (multiBody e))
      then mb_links (multiBody e) ! slot_of (child j) else None)"

definition set_slot :: "FeatherstoneEntity \<Rightarrow> FeatherstoneJoint \<Rightarrow> MultiBodyLink \<Rightarrow> FeatherstoneEntity" where
  "set_slot e j sl =
     e\<lparr>multiBody := (multiBody e)
          \<lparr>mb_links := (mb_links (multiBody e))[slot_of (child j) := Some sl]\<rparr>\<rparr>"

definition with_joint ::
  "FeatherstoneEntity \<Rightarrow> uint \<Rightarrow> (FeatherstoneJoint \<Rightarrow> MultiBodyLink \<Rightarrow> 'a result) \<Rightarrow> 'a result" where
  "with_joint e index f =
     (case at_opt (joints e) index of
        None \<Rightarrow> Inl IndexOutOfRange
      | Some j \<Rightarrow> (case joint_slot e j of None \<Rightarrow> Inl IndexOutOfRange | Some sl \<Rightarrow> f j sl))"

definition update_slot ::
  "(FeatherstoneJoint \<Rightarrow> MultiBodyLink \<Rightarrow> MultiBodyLink) \<Rightarrow> FeatherstoneJoint \<Rightarrow> FeatherstoneEntity
     \<Rightarrow> FeatherstoneEntity" where
  "update_slot f j e = (case joint_slot e j of None \<Rightarrow> e | Some sl \<Rightarrow> set_slot e j (f j sl))"

definition update_joint_slots ::
  "(FeatherstoneJoint \<Rightarrow> MultiBodyLink \<Rightarrow> MultiBodyLink) \<Rightarrow> FeatherstoneEntity \<Rightarrow> FeatherstoneEntity" where
  "update_joint_slots f e = fold (update_slot f) (joints e) e"

definition set_bodies :: "FeatherstoneEntity \<Rightarrow> BodyState list \<Rightarrow> FeatherstoneEntity" where
  "set_bodies e bs = e\<lparr>multiBody := (multiBody e)\<lparr>mb_bodies := bs\<rparr>\<rparr>"

definition with_body ::
  "FeatherstoneEntity \<Rightarrow> uint \<Rightarrow> (BodyState \<Rightarrow> 'a) \<Rightarrow> 'a result" where
  "with_body e index f =
     (if unat index < length (links e) \<and> unat index < length (mb_bodies (multiBody e))
      then Inr (f (mb_bodies (multiBody e) ! unat index)) else Inl IndexOutOfRange)"

section \<open>Actuation and force injection\<close>

definition set_motor ::
  "JointMotor \<Rightarrow> uint \<Rightarrow> FeatherstoneEntity \<Rightarrow> FeatherstoneEntity result" where
  "set_motor m index e =
     (case at_opt (joints e) index of
        None \<Rightarrow> Inl IndexOutOfRange
      | Some j \<Rightarrow>
          if motor j = None then Inl TopologyViolation
          else Inr (e\<lparr>joints := (joints e)[unat index := j\<lparr>motor := Some m\<rparr>]\<rparr>))"

definition MotorPositionSetpoint ::
  "uint \<Rightarrow> Scalar \<Rightarrow> Scalar \<Rightarrow> FeatherstoneEntity \<Rightarrow> FeatherstoneEntity result" where
  "MotorPositionSetpoint index pos kp = set_motor (Motor_Position pos kp) index"

definition MotorVelocitySetpoint ::
  "uint \<Rightarrow> Scalar \<Rightarrow> Scalar \<Rightarrow> FeatherstoneEntity \<Rightarrow> FeatherstoneEntity result" where
  "MotorVelocitySetpoint index vel kd = set_motor (Motor_Velocity vel kd) index"

definition motor_torque :: "JointMotor option \<Rightarrow> Scalar \<Rightarrow> Scalar \<Rightarrow> Scalar" where
  "motor_torque m q qd =
     (case m of
        Some (Motor_Position targetPos kp) \<Rightarrow> kp * (targetPos - q)
      | Some (Motor_Velocity targetVel kd) \<Rightarrow> kd * (targetVel - qd)
      | _ \<Rightarrow> 0)"

definition DriveJoint :: "uint \<Rightarrow> Scalar \<Rightarrow> FeatherstoneEntity \<Rightarrow> FeatherstoneEntity result" where
  "DriveJoint index forceTorque e =
     with_joint e index (\<lambda>j sl. Inr (set_slot e j (sl\<lparr>mbl_torque := mbl_torque sl + forceTorque\<rparr>)))"

definition ApplyGravity :: "Vector3 \<Rightarrow> FeatherstoneEntity \<Rightarrow> FeatherstoneEntity" where
  "ApplyGravity g e =
     set_bodies e (mapi (\<lambda>i b. if i < length (links e)
                                then b\<lparr>body_force := body_force b + solid_mass (solid (links e ! i)) *\<^sub>R g\<rparr>
                                else b)
                     (mb_bodies (multiBody e)))"

definition damping_force :: "FeatherstoneJoint \<Rightarrow> Scalar \<Rightarrow> Scalar" where
  "damping_force j velocity = - sgn velocity * sigDamping j - velocity * velDamping j"

definition ApplyDamping :: "FeatherstoneEntity \<Rightarrow> FeatherstoneEntity" where
  "ApplyDamping =
     update_joint_slots (\<lambda>j sl. sl\<lparr>mbl_damping := mbl_damping sl + damping_force j (mbl_vel sl)\<rparr>)"

definition AddLinkForce :: "uint \<Rightarrow> Vector3 \<Rightarrow> FeatherstoneEntity \<Rightarrow> FeatherstoneEntity result" where
  "AddLinkForce index F e =
     with_body e index (\<lambda>b. set_bodies e
       ((mb_bodies (multiBody e))[unat index := b\<lparr>body_force := body_force b + F\<rparr>]))"

definition AddLinkTorque :: "uint \<Rightarrow> Vector3 \<Rightarrow> FeatherstoneEntity \<Rightarrow> FeatherstoneEntity result" where
  "AddLinkTorque index tau e =
     with_body e index (\<lambda>b. set_bodies e
       ((mb_bodies (multiBody e))[unat index := b\<lparr>body_torque := body_torque b + tau\<rparr>]))"

section \<open>Joint settings and queries\<close>

definition setJointIC ::
  "uint \<Rightarrow> Scalar \<Rightarrow> Scalar \<Rightarrow> FeatherstoneEntity \<Rightarrow> FeatherstoneEntity result" where
  "setJointIC index position velocity e =
     with_joint e index (\<lambda>j sl. Inr (set_slot e j (sl\<lparr>mbl_pos := position, mbl_vel := velocity\<rparr>)))"

definition setJointDamping ::
  "uint \<Rightarrow> Scalar \<Rightarrow> Scalar \<Rightarrow> FeatherstoneEntity \<Rightarrow> FeatherstoneEntity result" where
  "setJointDamping index constantFactor viscousFactor e =
     (case at_opt (joints e) index of
        None \<Rightarrow> Inl IndexOutOfRange
      | Some j \<Rightarrow>
          if constantFactor < 0 \<or> viscousFactor < 0 then Inl InvalidParameter
          else Inr (e\<lparr>joints := (joints e)
                      [unat index := j\<lparr>sigDamping := constantFactor, velDamping := viscousFactor\<rparr>]\<rparr>))"

definition getJointPosition ::
  "FeatherstoneEntity \<Rightarrow> uint \<Rightarrow> (Scalar \<times> eFeatherstoneJointType) result" where
  "getJointPosition e index = with_joint e index (\<lambda>j sl. Inr (mbl_pos sl, jtype j))"

definition getJointVelocity ::
  "FeatherstoneEntity \<Rightarrow> uint \<Rightarrow> (Scalar \<times> eFeatherstoneJointType) result" where
  "getJointVelocity e index = with_joint e index (\<lambda>j sl. Inr (mbl_vel sl, jtype j))"

definition getJointTorque :: "FeatherstoneEntity \<Rightarrow> uint \<Rightarrow> Scalar result" where
  "getJointTorque e index = with_joint e index (\<lambda>j sl. Inr (mbl_torque sl))"

definition getJointFeedback :: "FeatherstoneEntity \<Rightarrow> uint \<Rightarrow> (Vector3 \<times> Vector3) result" where
  "getJointFeedback e index =
     with_joint e index (\<lambda>j sl.
       case feedback j of
         None \<Rightarrow> Inr (0, 0)
       | Some fb \<Rightarrow> Inr (reactionForce fb, cross (mbl_pivot sl) (reactionForce fb)))"

definition setBaseTransform :: "Transform \<Rightarrow> FeatherstoneEntity \<Rightarrow> FeatherstoneEntity" where
  "setBaseTransform t e =
     set_bodies e ((mb_bodies (multiBody e))[0 := (mb_bodies (multiBody e) ! 0)\<lparr>body_pose := t\<rparr>])"

definition setBaseRenderable :: "bool \<Rightarrow> FeatherstoneEntity \<Rightarrow> FeatherstoneEntity" where
  "setBaseRenderable render e = e\<lparr>baseRenderable := render\<rparr>"

definition setSelfCollision :: "bool \<Rightarrow> FeatherstoneEntity \<Rightarrow> FeatherstoneEntity" where
  "setSelfCollision enabled e = e\<lparr>multiBody := (multiBody e)\<lparr>selfCollision := enabled\<rparr>\<rparr>"

definition getLinkTransform :: "FeatherstoneEntity \<Rightarrow> uint \<Rightarrow> Transform result" where
  "getLinkTransform e index = with_body e index body_pose"

definition getLinkLinearVelocity :: "FeatherstoneEntity \<Rightarrow> uint \<Rightarrow> Vector3 result" where
  "getLinkLinearVelocity e index = with_body e index body_linvel"

definition getLinkAngularVelocity :: "FeatherstoneEntity \<Rightarrow> uint \<Rightarrow> Vector3 result" where
  "getLinkAngularVelocity e index = with_body e index body_angvel"

section \<open>One step of the back end\<close>

record Solution =
  sol_pos :: "nat \<Rightarrow> Scalar"
  sol_vel :: "nat \<Rightarrow> Scalar"
  sol_reaction :: "nat \<Rightarrow> JointFeedback"
  sol_pose :: "nat \<Rightarrow> Transform"
  sol_linvel :: "nat \<Rightarrow> Vector3"
  sol_angvel :: "nat \<Rightarrow> Vector3"

type_synonym Solver = "Scalar \<Rightarrow> MultiBody \<Rightarrow> (nat \<Rightarrow> Scalar) \<Rightarrow> Solution"

definition joint_of_slot :: "FeatherstoneEntity \<Rightarrow> nat \<Rightarrow> FeatherstoneJoint option" where
  "joint_of_slot e k = find (\<lambda>j. child j \<noteq> 0 \<and> slot_of (child j) = k) (joints e)"

definition generalized_force :: "FeatherstoneEntity \<Rightarrow> nat \<Rightarrow> Scalar" where
  "generalized_force e k =
     (case joint_of_slot e k of
        None \<Rightarrow> 0
      | Some j \<Rightarrow> (case joint_slot e j of
          None \<Rightarrow> 0
        | Some sl \<Rightarrow> mbl_torque sl + mbl_damping sl + motor_torque (motor j) (mbl_pos sl) (mbl_vel sl)))"

definition advance_slot :: "Solution \<Rightarrow> FeatherstoneJoint \<Rightarrow> MultiBodyLink \<Rightarrow> MultiBodyLink" where
  "advance_slot sol j sl =
     (let q = sol_pos sol (slot_of (child j)); v = sol_vel sol (slot_of (child j));
          sl' = sl\<lparr>mbl_torque := 0, mbl_damping := 0\<rparr>
      in if jtype j = eFixed then sl'
         else case limit j of
                None \<Rightarrow> sl'\<lparr>mbl_pos := q, mbl_vel := v\<rparr>
              | Some l \<Rightarrow>
                  sl'\<lparr>mbl_pos := btClamp q (limit_lower l) (limit_upper l),
                      mbl_vel := (if limit_lower l \<le> q \<and> q \<le> limit_upper l then v else 0)\<rparr>)"

definition advance_body :: "bool \<Rightarrow> Solution \<Rightarrow> nat \<Rightarrow> BodyState \<Rightarrow> BodyState" where
  "advance_body fixedBase sol i b =
     (if i = 0 \<and> fixedBase
      then b\<lparr>body_linvel := 0, body_angvel := 0, body_force := 0, body_torque := 0\<rparr>
      else \<lparr>body_pose = sol_pose sol i, body_linvel = sol_linvel sol i,
            body_angvel = sol_angvel sol i, body_force = 0, body_torque = 0\<rparr>)"

definition store_feedback :: "Solution \<Rightarrow> FeatherstoneJoint \<Rightarrow> FeatherstoneJoint" where
  "store_feedback sol j =
     j\<lparr>feedback := map_option (\<lambda>_. sol_reaction sol (slot_of (child j))) (feedback j)\<rparr>"

definition Step :: "Solver \<Rightarrow> Scalar \<Rightarrow> FeatherstoneEntity \<Rightarrow> FeatherstoneEntity result" where
  "Step solver dt e =
     (if unattached e then Inl TopologyViolation
      else
        let sol = solver dt (multiBody e) (generalized_force e);
            e1 = update_joint_slots (advance_slot sol) e;
            e2 = set_bodies e1 (mapi (advance_body (hasFixedBase (multiBody e)) sol)
                                  (mb_bodies (multiBody e1)))
        in Inr (e2\<lparr>multiBody := (multiBody e2)\<lparr>mb_phase := Stepping\<rparr>,
                   joints := map (store_feedback sol) (joints e2)\<rparr>))"

section \<open>The interface as a state machine\<close>

datatype FE_call =
  Call_AddLink SolidEntity Transform
  | Call_AddRevoluteJoint uint uint Vector3 Vector3 bool
  | Call_AddPrismaticJoint uint uint Vector3 bool
  | Call_AddFixedJoint uint uint
  | Call_AddJointMotor uint
  | Call_AddJointLimit uint Scalar Scalar
  | Call_MotorPositionSetpoint uint Scalar Scalar
  | Call_MotorVelocitySetpoint uint Scalar Scalar
  | Call_DriveJoint uint Scalar
  | Call_ApplyGravity Vector3
  | Call_ApplyDamping
  | Call_AddLinkForce uint Vector3
  | Call_AddLinkTorque uint Vector3
  | Call_setJointIC uint Scalar Scalar
  | Call_setJointDamping uint Scalar Scalar
  | Call_setBaseTransform Transform
  | Call_setBaseRenderable bool
  | Call_setSelfCollision bool
  | Call_AddToDynamicsWorld "Transform option"
  | Call_Step Solver Scalar

fun FE_step :: "FE_call \<Rightarrow> FeatherstoneEntity \<Rightarrow> FeatherstoneEntity result" where
  "FE_step (Call_AddLink s t) e = AddLink s t e"
| "FE_step (Call_AddRevoluteJoint p c pivot axis col) e = dropE (AddRevoluteJoint p c pivot axis col e)"
| "FE_step (Call_AddPrismaticJoint p c axis col) e = dropE (AddPrismaticJoint p c axis col e)"
| "FE_step (Call_AddFixedJoint p c) e = dropE (AddFixedJoint p c e)"
| "FE_step (Call_AddJointMotor i) e = AddJointMotor i e"
| "FE_step (Call_AddJointLimit i lo hi) e = AddJointLimit i lo hi e"
| "FE_step (Call_MotorPositionSetpoint i pos kp) e = MotorPositionSetpoint i pos kp e"
| "FE_step (Call_MotorVelocitySetpoint i vel kd) e = MotorVelocitySetpoint i vel kd e"
| "FE_step (Call_DriveJoint i ft) e = DriveJoint i ft e"
| "FE_step (Call_ApplyGravity g) e = Inr (ApplyGravity g e)"
| "FE_step Call_ApplyDamping e = Inr (ApplyDamping e)"
| "FE_step (Call_AddLinkForce i F) e = AddLinkForce i F e"
| "FE_step (Call_AddLinkTorque i tau) e = AddLinkTorque i tau e"
| "FE_step (Call_setJointIC i q v) e = setJointIC i q v e"
| "FE_step (Call_setJointDamping i c v) e = setJointDamping i c v e"
| "FE_step (Call_setBaseTransform t) e = Inr (setBaseTransform t e)"
| "FE_step (Call_setBaseRenderable r) e = Inr (setBaseRenderable r e)"
| "FE_step (Call_setSelfCollision c) e = Inr (setSelfCollision c e)"
| "FE_step (Call_AddToDynamicsWorld w) e = AddToDynamicsWorld w e"
| "FE_step (Call_Step solver dt) e = Step solver dt e"

definition FE_run :: "FE_call list \<Rightarrow> FeatherstoneEntity \<Rightarrow> FeatherstoneEntity result" where
  "FE_run cs = runE (map FE_step cs)"

definition topology_call :: "FE_call \<Rightarrow> bool" where
  "topology_call c =
     (case c of Call_AddLink s t \<Rightarrow> True | Call_AddRevoluteJoint p ch pv ax col \<Rightarrow> True
      | Call_AddPrismaticJoint p ch ax col \<Rightarrow> True | Call_AddFixedJoint p ch \<Rightarrow> True
      | _ \<Rightarrow> False)"

definition example_attached :: FeatherstoneEntity where
  "example_attached = example_arm\<lparr>multiBody := (multiBody example_arm)\<lparr>mb_phase := Attached\<rparr>\<rparr>"

definition example_motor_arm :: FeatherstoneEntity where
  "example_motor_arm =
     example_arm\<lparr>joints := (joints example_arm)
       [0 := (joints example_arm ! 0)\<lparr>motor := Some Motor_Idle\<rparr>]\<rparr>"

definition example_locked :: FeatherstoneEntity where
  "example_locked =
     example_attached\<lparr>joints := (joints example_attached)
       [0 := (joints example_attached ! 0)
          \<lparr>limit := Some \<lparr>limit_lower = 1, limit_upper = 1\<rparr>\<rparr>]\<rparr>"

definition example_solver :: Solver where
  "example_solver dt mb force =
     \<lparr>sol_pos = (\<lambda>k. 3), sol_vel = (\<lambda>k. force k * dt),
      sol_reaction = (\<lambda>k. \<lparr>reactionForce = Vector3 0 1 0, reactionTorque = 0\<rparr>),
      sol_pose = (\<lambda>i. identity_transform), sol_linvel = (\<lambda>i. 0), sol_angvel = (\<lambda>i. 0)\<rparr>"

lemmas [sf_defs] = joint_slot_def set_slot_def with_joint_def update_slot_def
  update_joint_slots_def
  set_bodies_def with_body_def set_motor_def MotorPositionSetpoint_def
  MotorVelocitySetpoint_def motor_torque_def DriveJoint_def ApplyGravity_def
  damping_force_def ApplyDamping_def AddLinkForce_def AddLinkTorque_def setJointIC_def
  setJointDamping_def getJointPosition_def getJointVelocity_def getJointTorque_def
  getJointFeedback_def setBaseTransform_def setBaseRenderable_def setSelfCollision_def
  getLinkTransform_def getLinkLinearVelocity_def getLinkAngularVelocity_def
  joint_of_slot_def generalized_force_def advance_slot_def advance_body_def
  store_feedback_def Step_def FE_run_def topology_call_def example_attached_def
  example_motor_arm_def example_locked_def example_solver_def

section \<open>Slots of joints\<close>

lemma joint_slot_SomeD:
  assumes "joint_slot e j = Some sl"
  shows "child j \<noteq> 0" and "slot_of (child j) < length (mb_links (multiBody e))"
    and "mb_links (multiBody e) ! slot_of (child j) = Some sl"
  using assms by (auto simp: joint_slot_def split: if_splits)

lemma joint_slot_Some:
  assumes "FE_inv e" and "j \<in> set (joints e)"
  obtains sl where "joint_slot e j = Some sl" and "mbl_jointType sl = jtype j"
    and "mbl_parent sl = parent j"
proof -
  note ok = joint_okD [OF FE_invD(7) [OF assms]]
  from ok(2) FE_invD(2) [OF assms(1)] have "unat (child j) < unat (numLinks (multiBody e)) + 1"
    by simp
  with ok(1) have "slot_of (child j) < length (mb_links (multiBody e))"
    by (simp add: slot_of_less FE_invD(4) [OF assms(1)])
  with ok(1,9) that show thesis by (auto simp: joint_slot_def)
qed

lemma set_slot_fields [simp]:
  "joints (set_slot e j sl) = joints e" "links (set_slot e j sl) = links e"
  "baseRenderable (set_slot e j sl) = baseRenderable e"
  "mb_bodies (multiBody (set_slot e j sl)) = mb_bodies (multiBody e)"
  "mb_phase (multiBody (set_slot e j sl)) = mb_phase (multiBody e)"
  "numLinks (multiBody (set_slot e j sl)) = numLinks (multiBody e)"
  "hasFixedBase (multiBody (set_slot e j sl)) = hasFixedBase (multiBody e)"
  "selfCollision (multiBody (set_slot e j sl)) = selfCollision (multiBody e)"
  "length (mb_links (multiBody (set_slot e j sl))) = length (mb_links (multiBody e))"
  by (simp_all add: set_slot_def)

lemma joint_slot_set_same:
  "joint_slot e j = Some sl \<Longrightarrow> joint_slot (set_slot e j sl') j = Some sl'"
  by (simp add: joint_slot_def set_slot_def split: if_splits)

lemma joint_slot_set_other:
  assumes "child j' \<noteq> child j" and "child j \<noteq> 0"
  shows "joint_slot (set_slot e j sl) j' = joint_slot e j'"
proof (cases "child j' = 0")
  case True
  then show ?thesis by (simp add: joint_slot_def)
next
  case False
  with assms have "slot_of (child j') \<noteq> slot_of (child j)" by (simp add: slot_of_inj)
  then show ?thesis by (simp add: joint_slot_def set_slot_def)
qed

lemma set_slot_inv:
  assumes "FE_inv e" and "joint_slot e j = Some sl"
    and "mbl_jointType sl' = mbl_jointType sl" and "mbl_parent sl' = mbl_parent sl"
  shows "FE_inv (set_slot e j sl')"
proof -
  note inv = FE_invD [OF assms(1)] and sl = joint_slot_SomeD [OF assms(2)]
  have ok: "joint_ok (set_slot e j sl') x" if "x \<in> set (joints e)" for x
  proof (cases "slot_of (child x) = slot_of (child j)")
    case True
    from joint_okD(9) [OF inv(7) [OF that]] obtain sl0
      where sl0: "mb_links (multiBody e) ! slot_of (child x) = Some sl0"
        "mbl_jointType sl0 = jtype x" "mbl_parent sl0 = parent x" by blast
    from sl0(1) sl(3) have "sl0 = sl" unfolding True by simp
    with sl0(2,3) assms(3,4) have ty: "mbl_jointType sl' = jtype x" "mbl_parent sl' = parent x"
      by simp_all
    from sl(2) have new: "mb_links (multiBody (set_slot e j sl')) ! slot_of (child x) = Some sl'"
      unfolding True by (simp add: set_slot_def)
    show ?thesis by (rule joint_ok_slot [OF inv(7) [OF that] _ new ty]) simp
  next
    case False
    then have "mb_links (multiBody (set_slot e j sl')) ! slot_of (child x)
        = mb_links (multiBody e) ! slot_of (child x)"
      by (simp add: set_slot_def)
    then show ?thesis by (intro joint_ok_mono [OF inv(7) [OF that]]) simp_all
  qed
  show ?thesis by (rule FE_invI) (use inv(1-6) ok in simp_all)
qed

lemma set_bodies_fields [simp]:
  "joints (set_bodies e bs) = joints e" "links (set_bodies e bs) = links e"
  "baseRenderable (set_bodies e bs) = baseRenderable e"
  "mb_bodies (multiBody (set_bodies e bs)) = bs"
  "mb_links (multiBody (set_bodies e bs)) = mb_links (multiBody e)"
  "mb_phase (multiBody (set_bodies e bs)) = mb_phase (multiBody e)"
  "numLinks (multiBody (set_bodies e bs)) = numLinks (multiBody e)"
  "hasFixedBase (multiBody (set_bodies e bs)) = hasFixedBase (multiBody e)"
  "selfCollision (multiBody (set_bodies e bs)) = selfCollision (multiBody e)"
  by (simp_all add: set_bodies_def)

lemma joint_slot_set_bodies [simp]: "joint_slot (set_bodies e bs) j = joint_slot e j"
  by (simp add: joint_slot_def)

lemma FE_inv_cong:
  assumes "FE_inv e" and "length (links e') = length (links e)"
    and "numLinks (multiBody e') = numLinks (multiBody e)"
    and "mb_links (multiBody e') = mb_links (multiBody e)"
    and "length (mb_bodies (multiBody e')) = length (mb_bodies (multiBody e))"
    and "joints e' = joints e"
  shows "FE_inv e'"
proof -
  note inv = FE_invD [OF assms(1)]
  have "joint_ok e' j" if "j \<in> set (joints e)" for j
    using inv(7) [OF that] by (rule joint_ok_mono) (simp_all add: assms)
  with inv(1-6) show ?thesis by (simp add: FE_inv_def assms)
qed

lemma set_bodies_inv:
  assumes "FE_inv e" and "length bs = length (mb_bodies (multiBody e))"
  shows "FE_inv (set_bodies e bs)"
  using assms(1) by (rule FE_inv_cong) (simp_all add: assms(2))

section \<open>Access by joint index\<close>

lemma with_joint_out: "length (joints e) \<le> unat i \<Longrightarrow> with_joint e i f = Inl IndexOutOfRange"
  by (simp add: with_joint_def at_opt_def)

lemma with_joint_in:
  assumes "FE_inv e" and "unat i < length (joints e)"
  obtains sl where "joint_slot e (joints e ! unat i) = Some sl"
    and "mbl_jointType sl = jtype (joints e ! unat i)"
    and "\<And>f. with_joint e i f = f (joints e ! unat i) sl"
proof -
  from assms(2) have "joints e ! unat i \<in> set (joints e)" by simp
  from joint_slot_Some [OF assms(1) this] obtain sl
    where "joint_slot e (joints e ! unat i) = Some sl"
      and "mbl_jointType sl = jtype (joints e ! unat i)" by blast
  with assms(2) that show thesis by (simp add: with_joint_def)
qed

lemma with_joint_Inr:
  assumes "with_joint e i f = Inr r"
  obtains sl where "unat i < length (joints e)" and "joint_slot e (joints e ! unat i) = Some sl"
    and "f (joints e ! unat i) sl = Inr r"
  using assms by (auto simp: with_joint_def split: option.splits)

lemma with_body_out: "length (links e) \<le> unat i \<Longrightarrow> with_body e i f = Inl IndexOutOfRange"
  by (simp add: with_body_def)

lemma with_body_in:
  assumes "FE_inv e" and "unat i < length (links e)"
  shows "with_body e i f = Inr (f (mb_bodies (multiBody e) ! unat i))"
  using assms FE_invD(2,5) [OF assms(1)] by (simp add: with_body_def)

section \<open>One pass over the joints\<close>

lemma update_slot_fields [simp]:
  "joints (update_slot f j e) = joints e" "links (update_slot f j e) = links e"
  "baseRenderable (update_slot f j e) = baseRenderable e"
  "mb_bodies (multiBody (update_slot f j e)) = mb_bodies (multiBody e)"
  "mb_phase (multiBody (update_slot f j e)) = mb_phase (multiBody e)"
  "numLinks (multiBody (update_slot f j e)) = numLinks (multiBody e)"
  "hasFixedBase (multiBody (update_slot f j e)) = hasFixedBase (multiBody e)"
  "selfCollision (multiBody (update_slot f j e)) = selfCollision (multiBody e)"
  "length (mb_links (multiBody (update_slot f j e))) = length (mb_links (multiBody e))"
  by (simp_all add: update_slot_def split: option.splits)

lemma update_slot_same: "joint_slot (update_slot f j e) j = map_option (f j) (joint_slot e j)"
  by (cases "joint_slot e j") (simp_all add: update_slot_def joint_slot_set_same)

lemma update_slot_other:
  "child j' \<noteq> child j \<Longrightarrow> joint_slot (update_slot f j e) j' = joint_slot e j'"
  by (cases "joint_slot e j")
    (simp_all add: update_slot_def joint_slot_set_other joint_slot_SomeD(1))

lemma update_slot_inv:
  assumes "FE_inv e"
    and "\<And>sl. mbl_jointType (f j sl) = mbl_jointType sl \<and> mbl_parent (f j sl) = mbl_parent sl"
  shows "FE_inv (update_slot f j e)"
  using assms by (cases "joint_slot e j") (simp_all add: update_slot_def set_slot_inv)

lemma fold_update_slot_frame:
  "joints (fold (update_slot f) js e) = joints e
   \<and> links (fold (update_slot f) js e) = links e
   \<and> baseRenderable (fold (update_slot f) js e) = baseRenderable e
   \<and> mb_bodies (multiBody (fold (update_slot f) js e)) = mb_bodies (multiBody e)
   \<and> mb_phase (multiBody (fold (update_slot f) js e)) = mb_phase (multiBody e)
   \<and> numLinks (multiBody (fold (update_slot f) js e)) = numLinks (multiBody e)
   \<and> hasFixedBase (multiBody (fold (update_slot f) js e)) = hasFixedBase (multiBody e)
   \<and> selfCollision (multiBody (fold (update_slot f) js e)) = selfCollision (multiBody e)
   \<and> length (mb_links (multiBody (fold (update_slot f) js e))) = length (mb_links (multiBody e))"
  by (induction js arbitrary: e) simp_all

lemma fold_update_slot_other:
  "child j \<notin> child ` set js \<Longrightarrow> joint_slot (fold (update_slot f) js e) j = joint_slot e j"
  by (induction js arbitrary: e) (simp_all add: update_slot_other)

lemma fold_update_slot_same:
  assumes "distinct (map child js)" and "j \<in> set js"
  shows "joint_slot (fold (update_slot f) js e) j = map_option (f j) (joint_slot e j)"
  using assms
proof (induction js arbitrary: e)
  case (Cons x xs)
  show ?case
  proof (cases "j = x")
    case True
    with Cons.prems(1) show ?thesis
      by (simp add: fold_update_slot_other update_slot_same)
  next
    case False
    with Cons.prems(2) have jx: "j \<in> set xs" by simp
    then have "child j \<in> child ` set xs" by simp
    with Cons.prems(1) have "child j \<noteq> child x" by auto
    note jx this
    with Cons.prems(1) show ?thesis by (simp add: Cons.IH update_slot_other)
  qed
qed simp

lemma fold_update_slot_inv:
  assumes "FE_inv e"
    and "\<And>j sl. mbl_jointType (f j sl) = mbl_jointType sl \<and> mbl_parent (f j sl) = mbl_parent sl"
  shows "FE_inv (fold (update_slot f) js e)"
  using assms(1) by (induction js arbitrary: e) (simp_all add: update_slot_inv assms(2))

lemma update_joint_slots_fields [simp]:
  "joints (update_joint_slots f e) = joints e"
  "links (update_joint_slots f e) = links e"
  "baseRenderable (update_joint_slots f e) = baseRenderable e"
  "mb_bodies (multiBody (update_joint_slots f e)) = mb_bodies (multiBody e)"
  "mb_phase (multiBody (update_joint_slots f e)) = mb_phase (multiBody e)"
  "numLinks (multiBody (update_joint_slots f e)) = numLinks (multiBody e)"
  "hasFixedBase (multiBody (update_joint_slots f e)) = hasFixedBase (multiBody e)"
  "selfCollision (multiBody (update_joint_slots f e)) = selfCollision (multiBody e)"
  "length (mb_links (multiBody (update_joint_slots f e))) = length (mb_links (multiBody e))"
  using fold_update_slot_frame [of f "joints e" e] by (simp_all add: update_joint_slots_def)

lemma update_joint_slots_slot:
  assumes "FE_inv e" and "j \<in> set (joints e)"
  shows "joint_slot (update_joint_slots f e) j = map_option (f j) (joint_slot e j)"
  unfolding update_joint_slots_def
  by (intro fold_update_slot_same FE_invD(6) assms)

lemma update_joint_slots_inv:
  assumes "FE_inv e"
    and "\<And>j sl. mbl_jointType (f j sl) = mbl_jointType sl \<and> mbl_parent (f j sl) = mbl_parent sl"
  shows "FE_inv (update_joint_slots f e)"
  unfolding update_joint_slots_def by (intro fold_update_slot_inv assms)

section \<open>Every call keeps the invariant\<close>

lemma joint_update_ok:
  assumes "FE_inv e" and "unat i < length (joints e)"
    and "joint_ok e (joints e ! unat i) \<Longrightarrow> joint_ok e (g (joints e ! unat i))"
    and "child (g (joints e ! unat i)) = child (joints e ! unat i)"
  shows "FE_inv (e\<lparr>joints := (joints e)[unat i := g (joints e ! unat i)]\<rparr>)"
proof -
  from assms(2) have "joint_ok e (joints e ! unat i)" by (simp add: FE_invD(7) [OF assms(1)])
  then have "joint_ok e (g (joints e ! unat i))" by (rule assms(3))
  with assms(1,2,4) show ?thesis by (intro joints_update_inv) simp_all
qed

lemma set_motor_Inr_iff:
  "set_motor m i e = Inr e' \<longleftrightarrow>
     unat i < length (joints e) \<and> motor (joints e ! unat i) \<noteq> None
     \<and> e' = e\<lparr>joints := (joints e)[unat i := (joints e ! unat i)\<lparr>motor := Some m\<rparr>]\<rparr>"
  by (auto simp: set_motor_def at_opt_def split: option.splits)

lemma set_motor_inv [sf_inv]:
  assumes "FE_inv e" and "set_motor m i e = Inr e'"
  shows "FE_inv e'"
proof -
  from assms(2) have i: "unat i < length (joints e)" and m: "motor (joints e ! unat i) \<noteq> None"
    and e': "e' = e\<lparr>joints := (joints e)[unat i := (joints e ! unat i)\<lparr>motor := Some m\<rparr>]\<rparr>"
    by (simp_all add: set_motor_Inr_iff)
  show ?thesis unfolding e' using m
    by (intro joint_update_ok [OF assms(1) i, of "\<lambda>j. j\<lparr>motor := Some m\<rparr>"])
      (auto simp: joint_ok_def split: option.splits)
qed

lemma setJointDamping_Inr_iff:
  "setJointDamping i c v e = Inr e' \<longleftrightarrow>
     unat i < length (joints e) \<and> 0 \<le> c \<and> 0 \<le> v
     \<and> e' = e\<lparr>joints := (joints e)
            [unat i := (joints e ! unat i)\<lparr>sigDamping := c, velDamping := v\<rparr>]\<rparr>"
  by (auto simp: setJointDamping_def at_opt_def split: option.splits)

lemma setJointDamping_inv [sf_inv]:
  assumes "FE_inv e" and "setJointDamping i c v e = Inr e'"
  shows "FE_inv e'"
proof -
  from assms(2) have i: "unat i < length (joints e)" and c: "0 \<le> c" "0 \<le> v"
    and e': "e' = e\<lparr>joints := (joints e)
        [unat i := (joints e ! unat i)\<lparr>sigDamping := c, velDamping := v\<rparr>]\<rparr>"
    by (simp_all add: setJointDamping_Inr_iff)
  show ?thesis unfolding e' using c
    by (intro joint_update_ok [OF assms(1) i, of "\<lambda>j. j\<lparr>sigDamping := c, velDamping := v\<rparr>"])
      (auto simp: joint_ok_def split: option.splits)
qed

lemma with_joint_set_slot_inv:
  assumes "FE_inv e" and "with_joint e i (\<lambda>j sl. Inr (set_slot e j (g sl))) = Inr e'"
    and "\<And>sl. mbl_jointType (g sl) = mbl_jointType sl \<and> mbl_parent (g sl) = mbl_parent sl"
  shows "FE_inv e'"
proof -
  from assms(2) obtain sl where "joint_slot e (joints e ! unat i) = Some sl"
    and "e' = set_slot e (joints e ! unat i) (g sl)"
    by (elim with_joint_Inr) simp
  with assms(1,3) show ?thesis by (simp add: set_slot_inv)
qed

lemma DriveJoint_inv [sf_inv]:
  assumes "FE_inv e" and "DriveJoint i ft e = Inr e'"
  shows "FE_inv e'"
  using assms(2) unfolding DriveJoint_def
  by (rule with_joint_set_slot_inv
      [OF assms(1), where g = "\<lambda>sl. sl\<lparr>mbl_torque := mbl_torque sl + ft\<rparr>"]) simp

lemma setJointIC_inv [sf_inv]:
  assumes "FE_inv e" and "setJointIC i q v e = Inr e'"
  shows "FE_inv e'"
  using assms(2) unfolding setJointIC_def
  by (rule with_joint_set_slot_inv
      [OF assms(1), where g = "\<lambda>sl. sl\<lparr>mbl_pos := q, mbl_vel := v\<rparr>"]) simp

lemma with_body_Inr_iff:
  "with_body e i f = Inr r \<longleftrightarrow>
     unat i < length (links e) \<and> unat i < length (mb_bodies (multiBody e))
     \<and> r = f (mb_bodies (multiBody e) ! unat i)"
  by (auto simp: with_body_def)

lemma AddLinkForce_inv [sf_inv]: "FE_inv e \<Longrightarrow> AddLinkForce i F e = Inr e' \<Longrightarrow> FE_inv e'"
  by (auto simp: AddLinkForce_def with_body_Inr_iff set_bodies_inv)

lemma AddLinkTorque_inv [sf_inv]: "FE_inv e \<Longrightarrow> AddLinkTorque i tau e = Inr e' \<Longrightarrow> FE_inv e'"
  by (auto simp: AddLinkTorque_def with_body_Inr_iff set_bodies_inv)

lemma ApplyGravity_inv [sf_inv]: "FE_inv e \<Longrightarrow> FE_inv (ApplyGravity g e)"
  by (simp add: ApplyGravity_def set_bodies_inv)

lemma ApplyDamping_inv [sf_inv]: "FE_inv e \<Longrightarrow> FE_inv (ApplyDamping e)"
  by (simp add: ApplyDamping_def update_joint_slots_inv)

lemma setBaseTransform_inv [sf_inv]: "FE_inv e \<Longrightarrow> FE_inv (setBaseTransform t e)"
  by (simp add: setBaseTransform_def set_bodies_inv)

lemma setBaseRenderable_inv [sf_inv]: "FE_inv e \<Longrightarrow> FE_inv (setBaseRenderable r e)"
  by (rule FE_inv_cong [of e]) (simp_all add: setBaseRenderable_def)

lemma setSelfCollision_inv [sf_inv]: "FE_inv e \<Longrightarrow> FE_inv (setSelfCollision c e)"
  by (rule FE_inv_cong [of e]) (simp_all add: setSelfCollision_def)

section \<open>The step of the back end\<close>

lemma advance_slot_type [simp]:
  "mbl_jointType (advance_slot sol j sl) = mbl_jointType sl"
  "mbl_parent (advance_slot sol j sl) = mbl_parent sl"
  "mbl_axis (advance_slot sol j sl) = mbl_axis sl"
  "mbl_pivot (advance_slot sol j sl) = mbl_pivot sl"
  "mbl_torque (advance_slot sol j sl) = 0"
  "mbl_damping (advance_slot sol j sl) = 0"
  by (simp_all add: advance_slot_def Let_def split: option.splits)

lemma advance_slot_limit:
  assumes "limit j = Some l" and "jtype j \<noteq> eFixed" and "limit_lower l \<le> limit_upper l"
  shows "limit_lower l \<le> mbl_pos (advance_slot sol j sl)"
    and "mbl_pos (advance_slot sol j sl) \<le> limit_upper l"
  using assms btClamp_bounds [OF assms(3)] by (simp_all add: advance_slot_def Let_def)

lemma advance_slot_fixed:
  "jtype j = eFixed \<Longrightarrow> mbl_pos (advance_slot sol j sl) = mbl_pos sl
     \<and> mbl_vel (advance_slot sol j sl) = mbl_vel sl"
  by (simp add: advance_slot_def Let_def)

lemma advance_slot_free:
  "jtype j \<noteq> eFixed \<Longrightarrow> limit j = None \<Longrightarrow>
     mbl_pos (advance_slot sol j sl) = sol_pos sol (slot_of (child j))
     \<and> mbl_vel (advance_slot sol j sl) = sol_vel sol (slot_of (child j))"
  by (simp add: advance_slot_def Let_def)

lemma store_feedback_sel [simp]:
  "child (store_feedback sol j) = child j" "parent (store_feedback sol j) = parent j"
  "jtype (store_feedback sol j) = jtype j" "limit (store_feedback sol j) = limit j"
  "motor (store_feedback sol j) = motor j" "sigDamping (store_feedback sol j) = sigDamping j"
  "velDamping (store_feedback sol j) = velDamping j"
  "feedback (store_feedback sol j) = None \<longleftrightarrow> feedback j = None"
  by (simp_all add: store_feedback_def)

lemma joint_slot_cong:
  "child j' = child j \<Longrightarrow> mb_links (multiBody e') = mb_links (multiBody e) \<Longrightarrow>
     joint_slot e' j' = joint_slot e j"
  by (simp add: joint_slot_def)

lemma FE_inv_map_joints:
  assumes "FE_inv e" and "\<And>j. child (g j) = child j"
    and "\<And>j. joint_ok e j \<Longrightarrow> joint_ok e (g j)"
  shows "FE_inv (e\<lparr>joints := map g (joints e)\<rparr>)"
proof -
  note inv = FE_invD [OF assms(1)]
  have "child \<circ> g = child" by (simp add: fun_eq_iff assms(2))
  with inv(6) have d: "distinct (map child (joints (e\<lparr>joints := map g (joints e)\<rparr>)))" by simp
  have ok: "joint_ok (e\<lparr>joints := map g (joints e)\<rparr>) x"
    if "x \<in> set (joints (e\<lparr>joints := map g (joints e)\<rparr>))" for x
  proof -
    from that obtain j where "j \<in> set (joints e)" and "x = g j" by auto
    with inv(7) assms(3) have "joint_ok e x" by simp
    then show ?thesis by (rule joint_ok_mono) simp_all
  qed
  show ?thesis by (rule FE_invI) (use inv(1-5) d ok in simp_all)
qed

lemma store_feedback_ok: "joint_ok e j \<Longrightarrow> joint_ok e (store_feedback sol j)"
  by (auto simp: joint_ok_def split: option.splits)

lemma Step_Inr:
  assumes "Step solver dt e = Inr e'"
  defines "sol \<equiv> solver dt (multiBody e) (generalized_force e)"
  shows "\<not> unattached e"
    and "e' = (set_bodies (update_joint_slots (advance_slot sol) e)
                 (mapi (advance_body (hasFixedBase (multiBody e)) sol) (mb_bodies (multiBody e))))
              \<lparr>multiBody := (multiBody (set_bodies (update_joint_slots (advance_slot sol) e)
                   (mapi (advance_body (hasFixedBase (multiBody e)) sol) (mb_bodies (multiBody e)))))
                 \<lparr>mb_phase := Stepping\<rparr>,
               joints := map (store_feedback sol) (joints e)\<rparr>"
  using assms(1) by (simp_all add: Step_def Let_def sol_def split: if_splits)

lemma Step_fields:
  assumes "Step solver dt e = Inr e'"
  defines "sol \<equiv> solver dt (multiBody e) (generalized_force e)"
  shows "joints e' = map (store_feedback sol) (joints e)" and "links e' = links e"
    and "mb_phase (multiBody e') = Stepping"
    and "numLinks (multiBody e') = numLinks (multiBody e)"
    and "hasFixedBase (multiBody e') = hasFixedBase (multiBody e)"
    and "mb_links (multiBody e') = mb_links (multiBody (update_joint_slots (advance_slot sol) e))"
    and "mb_bodies (multiBody e') =
          mapi (advance_body (hasFixedBase (multiBody e)) sol) (mb_bodies (multiBody e))"
    and "baseRenderable e' = baseRenderable e"
  unfolding Step_Inr(2) [OF assms(1)] sol_def by simp_all

lemma Step_inv [sf_inv]:
  assumes "FE_inv e" and "Step solver dt e = Inr e'"
  shows "FE_inv e'"
proof -
  define sol where "sol = solver dt (multiBody e) (generalized_force e)"
  define e2 where "e2 = set_bodies (update_joint_slots (advance_slot sol) e)
      (mapi (advance_body (hasFixedBase (multiBody e)) sol) (mb_bodies (multiBody e)))"
  have "FE_inv (update_joint_slots (advance_slot sol) e)"
    by (intro update_joint_slots_inv assms(1)) simp
  then have e2: "FE_inv e2" unfolding e2_def by (rule set_bodies_inv) simp
  then have e3: "FE_inv (e2\<lparr>joints := map (store_feedback sol) (joints e2)\<rparr>)"
    by (rule FE_inv_map_joints) (simp_all add: store_feedback_ok)
  have e': "e' = e2\<lparr>multiBody := (multiBody e2)\<lparr>mb_phase := Stepping\<rparr>,
      joints := map (store_feedback sol) (joints e)\<rparr>"
    unfolding e2_def sol_def by (rule Step_Inr(2) [OF assms(2)])
  from e3 show ?thesis by (rule FE_inv_cong) (simp_all add: e' e2_def)
qed

section \<open>Sequences of calls\<close>

lemma AddJoint_dropE:
  "dropE (AddJoint t p c pivot axis col e) = Inr e' \<longleftrightarrow>
     (\<exists>k. AddJoint t p c pivot axis col e = Inr (e', k))"
  by (rule dropE_Inr_iff)

lemma FE_step_inv:
  assumes "FE_inv e" and "FE_step c e = Inr e'"
  shows "FE_inv e'"
  using assms
  by (cases c)
    (auto simp: AddRevoluteJoint_def AddPrismaticJoint_def AddFixedJoint_def dropE_Inr_iff
      MotorPositionSetpoint_def MotorVelocitySetpoint_def
      intro: AddLink_inv AddJoint_inv AddJointMotor_inv AddJointLimit_inv set_motor_inv
        DriveJoint_inv ApplyGravity_inv ApplyDamping_inv AddLinkForce_inv AddLinkTorque_inv
        setJointIC_inv setJointDamping_inv setBaseTransform_inv setBaseRenderable_inv
        setSelfCollision_inv AddToDynamicsWorld_inv Step_inv)

lemma FE_run_inv:
  assumes "FE_inv e" and "FE_run cs e = Inr e'"
  shows "FE_inv e'"
  using assms(2,1) unfolding FE_run_def by (rule runE_inv) (auto intro: FE_step_inv)

section \<open>Phases and the frozen topology\<close>

lemma topology_frame [simp]:
  "topology (set_slot e j sl) = topology e" "topology (set_bodies e bs) = topology e"
  "topology (update_joint_slots f e) = topology e"
  "topology (setBaseRenderable r e) = topology e" "topology (setSelfCollision c e) = topology e"
  by (simp_all add: topology_def setBaseRenderable_def setSelfCollision_def)

lemma phase_frame [simp]:
  "mb_phase (multiBody (setBaseRenderable r e)) = mb_phase (multiBody e)"
  "mb_phase (multiBody (setSelfCollision c e)) = mb_phase (multiBody e)"
  by (simp_all add: setBaseRenderable_def setSelfCollision_def)

lemma topology_joint_update:
  assumes "unat i < length (joints e)" and "jtype j = jtype (joints e ! unat i)"
    and "parent j = parent (joints e ! unat i)" and "child j = child (joints e ! unat i)"
  shows "topology (e\<lparr>joints := (joints e)[unat i := j]\<rparr>) = topology e"
  using assms by (simp add: topology_def map_update list_update_same_conv)

lemma with_joint_set_slot_frame:
  assumes "with_joint e i (\<lambda>j sl. Inr (set_slot e j (g sl))) = Inr e'"
  shows "topology e' = topology e" and "mb_phase (multiBody e') = mb_phase (multiBody e)"
  using assms by (auto elim!: with_joint_Inr)

lemma with_body_set_bodies_frame:
  assumes "with_body e i (\<lambda>b. set_bodies e (g b)) = Inr e'"
  shows "topology e' = topology e" and "mb_phase (multiBody e') = mb_phase (multiBody e)"
  using assms by (auto simp: with_body_Inr_iff)

lemma AddJointMotor_frame:
  assumes "AddJointMotor i e = Inr e'"
  shows "topology e' = topology e" and "mb_phase (multiBody e') = mb_phase (multiBody e)"
  using assms by (auto simp: AddJointMotor_Inr_iff topology_joint_update)

lemma AddJointLimit_frame:
  assumes "AddJointLimit i lo hi e = Inr e'"
  shows "topology e' = topology e" and "mb_phase (multiBody e') = mb_phase (multiBody e)"
  using assms by (auto simp: AddJointLimit_Inr_iff topology_joint_update)

lemma set_motor_frame:
  assumes "set_motor m i e = Inr e'"
  shows "topology e' = topology e" and "mb_phase (multiBody e') = mb_phase (multiBody e)"
  using assms by (auto simp: set_motor_Inr_iff topology_joint_update)

lemma setJointDamping_frame:
  assumes "setJointDamping i c v e = Inr e'"
  shows "topology e' = topology e" and "mb_phase (multiBody e') = mb_phase (multiBody e)"
  using assms by (auto simp: setJointDamping_Inr_iff topology_joint_update)

lemma phase_rank_le [simp]: "phase_rank p \<le> 2"
  by (cases p) simp_all

lemma Step_frame:
  assumes "Step solver dt e = Inr e'"
  shows "topology e' = topology e" and "mb_phase (multiBody e') = Stepping" and "\<not> unattached e"
  using Step_fields(1-3) [OF assms] Step_Inr(1) [OF assms]
  by (simp_all add: topology_def comp_def)

lemma AddToDynamicsWorld_frame:
  assumes "AddToDynamicsWorld w e = Inr e'"
  shows "topology e' = topology e" and "mb_phase (multiBody e') = Attached" and "unattached e"
  using assms by (auto simp: AddToDynamicsWorld_Inr_iff topology_def)

lemma FE_step_topology:
  assumes "FE_step c e = Inr e'" and "\<not> topology_call c"
  shows "topology e' = topology e"
  using assms
  by (cases c)
    (auto simp: topology_call_def MotorPositionSetpoint_def MotorVelocitySetpoint_def
      DriveJoint_def setJointIC_def AddLinkForce_def AddLinkTorque_def ApplyGravity_def
      ApplyDamping_def setBaseTransform_def
      dest: AddJointMotor_frame(1) AddJointLimit_frame(1) set_motor_frame(1)
        setJointDamping_frame(1) with_joint_set_slot_frame(1) with_body_set_bodies_frame(1)
        Step_frame(1) AddToDynamicsWorld_frame(1))

lemma FE_step_frozen:
  assumes "\<not> unattached e" and "topology_call c"
  shows "FE_step c e = Inl TopologyViolation"
  using assms
  by (cases c)
    (simp_all add: topology_call_def AddLink_def AddJoint_def AddRevoluteJoint_def
      AddPrismaticJoint_def AddFixedJoint_def)

lemma FE_step_phase:
  assumes "FE_step c e = Inr e'"
  shows "phase_rank (mb_phase (multiBody e)) \<le> phase_rank (mb_phase (multiBody e'))"
proof (cases "topology_call c")
  case True
  with assms have "unattached e" by (cases "unattached e") (simp_all add: FE_step_frozen)
  then show ?thesis by (simp add: unattached_def)
next
  case False
  with assms show ?thesis
    by (cases c)
      (auto simp: topology_call_def MotorPositionSetpoint_def MotorVelocitySetpoint_def
        DriveJoint_def setJointIC_def AddLinkForce_def AddLinkTorque_def ApplyGravity_def
        ApplyDamping_def setBaseTransform_def unattached_def
        dest: AddJointMotor_frame(2) AddJointLimit_frame(2) set_motor_frame(2)
          setJointDamping_frame(2) with_joint_set_slot_frame(2) with_body_set_bodies_frame(2)
          Step_frame(2) AddToDynamicsWorld_frame(2,3))
qed

lemma attached_rank: "\<not> unattached e \<longleftrightarrow> 1 \<le> phase_rank (mb_phase (multiBody e))"
  by (cases "mb_phase (multiBody e)") (simp_all add: unattached_def)

lemma FE_run_phase:
  assumes "FE_run cs e = Inr e'"
  shows "phase_rank (mb_phase (multiBody e)) \<le> phase_rank (mb_phase (multiBody e'))"
proof -
  have "phase_rank (mb_phase (multiBody e)) \<le> phase_rank (mb_phase (multiBody e))" by simp
  with assms [unfolded FE_run_def] show ?thesis
    by (rule runE_inv [where I = "\<lambda>t. phase_rank (mb_phase (multiBody e)) \<le> phase_rank (mb_phase (multiBody t))"])
      (auto dest: FE_step_phase)
qed

lemma FE_run_frozen:
  assumes "FE_run cs e = Inr e'" and "\<not> unattached e"
  shows "topology e' = topology e" and "\<not> unattached e'"
proof -
  have "topology e = topology e \<and> \<not> unattached e" using assms(2) by simp
  with assms(1) [unfolded FE_run_def]
  have "topology e' = topology e \<and> \<not> unattached e'"
  proof (rule runE_inv [where I = "\<lambda>t. topology t = topology e \<and> \<not> unattached t"])
    fix c t t'
    assume c: "c \<in> set (map FE_step cs)" and t: "topology t = topology e \<and> \<not> unattached t"
      and r: "c t = Inr t'"
    from c obtain call where call: "c = FE_step call" by auto
    with r t have "\<not> topology_call call" by (auto simp: FE_step_frozen)
    with r call have "topology t' = topology t" by (simp add: FE_step_topology)
    moreover from r call t have "\<not> unattached t'"
      using FE_step_phase [of call t t'] by (simp add: attached_rank)
    ultimately show "topology t' = topology e \<and> \<not> unattached t'" using t by simp
  qed
  then show "topology e' = topology e" and "\<not> unattached e'" by simp_all
qed

section \<open>Reading a joint after a call\<close>

lemma joints_child_neq:
  assumes "FE_inv e" and "unat i < length (joints e)" and "unat k < length (joints e)" and "k \<noteq> i"
  shows "child (joints e ! unat k) \<noteq> child (joints e ! unat i)"
proof -
  from assms(4) have "unat k \<noteq> unat i" by (simp add: word_unat_eq_iff)
  with assms(2,3) FE_invD(6) [OF assms(1)] show ?thesis
    by (simp add: nth_eq_iff_index_eq [of "map child (joints e)" "unat k" "unat i", symmetric])
qed

lemma with_joint_set_slot_same:
  assumes "unat i < length (joints e)" and "joint_slot e (joints e ! unat i) = Some sl"
  shows "with_joint (set_slot e (joints e ! unat i) sl') i f = f (joints e ! unat i) sl'"
  using assms by (simp add: with_joint_def joint_slot_set_same)

lemma with_joint_set_slot_other:
  assumes "FE_inv e" and "unat i < length (joints e)" and "k \<noteq> i"
  shows "with_joint (set_slot e (joints e ! unat i) sl') k f = with_joint e k f"
proof (cases "unat k < length (joints e)")
  case True
  from assms(2) have "child (joints e ! unat i) \<noteq> 0"
    by (intro joint_okD(1) [of e] FE_invD(7) [OF assms(1)]) simp
  with joints_child_neq [OF assms(1,2) True assms(3)] True show ?thesis
    by (simp add: with_joint_def joint_slot_set_other)
qed (simp add: with_joint_def at_opt_def)

lemma with_joint_update_joint_slots:
  assumes "FE_inv e"
  shows "with_joint (update_joint_slots f e) i g = with_joint e i (\<lambda>j sl. g j (f j sl))"
proof (cases "unat i < length (joints e)")
  case True
  then have "joints e ! unat i \<in> set (joints e)" by simp
  from update_joint_slots_slot [OF assms this] True show ?thesis
    by (cases "joint_slot e (joints e ! unat i)") (simp_all add: with_joint_def)
qed (simp add: with_joint_def at_opt_def)

lemma with_joint_set_bodies [simp]: "with_joint (set_bodies e bs) i g = with_joint e i g"
  by (simp add: with_joint_def cong: option.case_cong)

lemma with_joint_joint_update:
  assumes "unat i < length (joints e)" and "child j = child (joints e ! unat i)"
  shows "with_joint (e\<lparr>joints := (joints e)[unat i := j]\<rparr>) k g =
    (if k = i then with_joint e i (\<lambda>_. g j) else with_joint e k g)"
proof -
  have "joint_slot (e\<lparr>joints := (joints e)[unat i := j]\<rparr>) x = joint_slot e x" for x
    by (simp add: joint_slot_def)
  moreover have "joint_slot e j = joint_slot e (joints e ! unat i)"
    using assms(2) by (simp add: joint_slot_def)
  ultimately show ?thesis using assms(1)
    by (auto simp: with_joint_def at_opt_def word_unat_eq_iff split: option.splits)
qed

lemma with_joint_Step:
  assumes "FE_inv e" and "Step solver dt e = Inr e'"
  defines "sol \<equiv> solver dt (multiBody e) (generalized_force e)"
  shows "with_joint e' i g =
    with_joint e i (\<lambda>j sl. g (store_feedback sol j) (advance_slot sol j sl))"
proof (cases "unat i < length (joints e)")
  case True
  let ?j = "joints e ! unat i"
  note f = Step_fields [OF assms(2), folded sol_def]
  from True have "?j \<in> set (joints e)" by simp
  from update_joint_slots_slot [OF assms(1) this]
  have "joint_slot e' (store_feedback sol ?j) = map_option (advance_slot sol ?j) (joint_slot e ?j)"
    by (simp add: joint_slot_cong [of _ ?j e' "update_joint_slots (advance_slot sol) e"] f(6))
  with True show ?thesis
    by (cases "joint_slot e ?j") (simp_all add: with_joint_def f(1))
next
  case False
  then show ?thesis
    by (simp add: with_joint_def at_opt_def Step_fields(1) [OF assms(2)])
qed

section \<open>Generalized forces\<close>

lemma joint_of_slot_Some:
  assumes "FE_inv e" and "j \<in> set (joints e)"
  shows "joint_of_slot e (slot_of (child j)) = Some j"
proof -
  let ?P = "\<lambda>x. child x \<noteq> 0 \<and> slot_of (child x) = slot_of (child j)"
  from assms have j0: "child j \<noteq> 0" by (intro joint_okD(1) [of e] FE_invD(7))
  with assms(2) obtain x where x: "find ?P (joints e) = Some x"
    by (cases "find ?P (joints e)") (auto simp: find_None_iff)
  then have "x \<in> set (joints e)" and "?P x" by (auto simp: find_Some_iff)
  with j0 have "x \<in> set (joints e)" and "child x = child j" by (auto simp: slot_of_inj)
  with assms have "x = j" by (intro children_inj [of e])
  with x show ?thesis by (simp add: joint_of_slot_def)
qed

lemma generalized_force_joint:
  assumes "FE_inv e" and "j \<in> set (joints e)" and "joint_slot e j = Some sl"
  shows "generalized_force e (slot_of (child j)) =
    mbl_torque sl + mbl_damping sl + motor_torque (motor j) (mbl_pos sl) (mbl_vel sl)"
  using assms by (simp add: generalized_force_def joint_of_slot_Some)

lemma damping_force_dissipative:
  assumes "0 \<le> sigDamping j" and "0 \<le> velDamping j"
  shows "damping_force j v * v \<le> 0"
proof -
  have "damping_force j v * v = - (\<bar>v\<bar> * sigDamping j) - v * v * velDamping j"
    by (simp add: damping_force_def algebra_simps abs_sgn [symmetric] mult.commute)
  also have "\<dots> \<le> 0"
  proof -
    from assms have "0 \<le> \<bar>v\<bar> * sigDamping j" and "0 \<le> v * v * velDamping j" by simp_all
    then show ?thesis by linarith
  qed
  finally show ?thesis .
qed

lemma motor_torque_simps [simp]:
  "motor_torque None q qd = 0" "motor_torque (Some Motor_Idle) q qd = 0"
  "motor_torque (Some (Motor_Position target kp)) q qd = kp * (target - q)"
  "motor_torque (Some (Motor_Velocity target kd)) q qd = kd * (target - qd)"
  by (simp_all add: motor_torque_def)

end
