(* ===== verification/Featherstone_Properties.thy ===== *)
theory Featherstone_Properties
  imports Featherstone_Dynamics
begin

text \<open>
  What the interface of the multibody tree promises, proved over the definitions of
  \<open>Featherstone_Tree\<close> and \<open>Featherstone_Dynamics\<close>: the invariant along every sequence of
  calls, the counts of a finished tree, the life cycle and the frozen topology, the round
  trip of the initial conditions, what \<open>getJointTorque\<close> and \<open>getJointFeedback\<close> report,
  the effect of damping, motor laws, gravity and link forces, what a step guarantees
  whatever the solver answers (limits, fixed joints, fixed base, consumed forces), the
  indices of new joints, the errors for indices out of range, and progress towards the
  phase \<open>Stepping\<close>. The examples \<open>example_arm\<close>, \<open>example_attached\<close>, \<open>example_motor_arm\<close> and
  \<open>example_locked\<close> are shown to be built by calls of the interface and serve as the
  concrete inputs of the witnesses.
\<close>

section \<open>The examples are built by the interface\<close>

lemma example_arm_built:
  "bindE (FeatherstoneEntity_new ''arm'' 2 example_solid True)
     (FE_run [Call_AddLink example_solid identity_transform,
              Call_AddRevoluteJoint 0 1 (Vector3 1 0 0) (Vector3 0 0 1) False]) = Inr example_arm"
  by (simp add: FE_run_def FeatherstoneEntity_new_def AddLink_def AddRevoluteJoint_def
      AddJoint_def unattached_def child_used_def MultiBody_new_def slot_of_def example_arm_def)

lemma example_loop_built:
  "bindE (FeatherstoneEntity_new ''loop'' 3 example_solid True)
     (FE_run [Call_AddLink example_solid identity_transform,
              Call_AddLink example_solid identity_transform,
              Call_AddFixedJoint 2 1, Call_AddFixedJoint 1 2]) = Inr example_loop"
  by (simp add: FE_run_def FeatherstoneEntity_new_def AddLink_def AddFixedJoint_def
      AddJoint_def unattached_def child_used_def MultiBody_new_def slot_of_def example_loop_def
      setupLink_def)
    (simp add: numeral_2_eq_2 numeral_3_eq_3)

lemma FE_step_numLinks:
  assumes "FE_step c e = Inr e'"
  shows "numLinks (multiBody e') = numLinks (multiBody e)"
  using assms
  by (cases c)
    (auto simp: AddLink_Inr_iff AddRevoluteJoint_def AddPrismaticJoint_def AddFixedJoint_def
      dropE_Inr_iff AddJoint_Inr_iff AddJointMotor_Inr_iff AddJointLimit_Inr_iff
      MotorPositionSetpoint_def MotorVelocitySetpoint_def set_motor_Inr_iff DriveJoint_def
      setJointIC_def AddLinkForce_def AddLinkTorque_def with_body_Inr_iff ApplyGravity_def
      ApplyDamping_def setJointDamping_Inr_iff setBaseTransform_def setBaseRenderable_def
      setSelfCollision_def AddToDynamicsWorld_Inr_iff Step_fields(4)
      elim!: with_joint_Inr)

lemma FE_run_numLinks:
  assumes "FE_run cs e = Inr e'"
  shows "numLinks (multiBody e') = numLinks (multiBody e)"
proof -
  have "numLinks (multiBody e) = numLinks (multiBody e)" by simp
  with assms [unfolded FE_run_def] show ?thesis
    by (rule runE_inv [where I = "\<lambda>t. numLinks (multiBody t) = numLinks (multiBody e)"])
      (auto dest: FE_step_numLinks)
qed

section \<open>Properties of the interface\<close>

text \<open>
  C3. The invariant of the tree. Whatever calls of the interface are made on a
  constructed entity, in whatever order, as long as each is accepted: the state
  satisfies \<open>FE_inv\<close> (back end sized for the declared number of links, every joint with
  a slot of its own type in the back end, no link the child of two joints, the base the
  child of none, limits ordered, damping coefficients non-negative), and the number of
  links never exceeds the number declared to the constructor.
\<close>

theorem FE_calls_keep_invariant:
  assumes "FeatherstoneEntity_new name n s f = Inr e0" and "FE_run cs e0 = Inr e"
  shows "FE_inv e \<and> length (joints e) + 1 \<le> length (links e) \<and> length (links e) \<le> unat n"
proof -
  from FE_new_inv(1) [OF assms(1)] assms(2) have inv: "FE_inv e" by (rule FE_run_inv)
  from FE_run_numLinks [OF assms(2)] FE_new_inv(5) [OF assms(1)]
  have "unat (numLinks (multiBody e)) + 1 = unat n" by simp
  with inv joints_le_links [OF inv] FE_invD(2) [OF inv] show ?thesis by simp
qed

theorem FE_calls_keep_invariant_witness:
  "FE_inv example_arm \<and> length (links example_arm) \<le> unat (2 :: uint)"
proof -
  from example_arm_built obtain e0
    where "FeatherstoneEntity_new ''arm'' 2 example_solid True = Inr e0"
      and "FE_run [Call_AddLink example_solid identity_transform,
                   Call_AddRevoluteJoint 0 1 (Vector3 1 0 0) (Vector3 0 0 1) False] e0
           = Inr example_arm"
    by (auto simp: bindE_Inr_iff)
  from FE_calls_keep_invariant [OF this] show ?thesis by simp
qed

text \<open>
  C10. Links and joints of a finished tree. If all joint slots of a constructed entity
  are taken (\<open>complete\<close>: as many joints as the back end was sized for), then
  \<open>getNumOfLinks = getNumOfJoints + 1\<close>, the number of links is the number declared to
  the constructor, and every link other than the base is the child of exactly one joint.
\<close>

theorem constructed_tree_counts:
  assumes "FeatherstoneEntity_new name n s f = Inr e0" and "FE_run cs e0 = Inr e"
    and "complete e"
  shows "getNumOfLinks e = getNumOfJoints e + 1 \<and> length (links e) = unat n
    \<and> (\<forall>k \<in> {1..<length (links e)}. \<exists>!j. j \<in> set (joints e) \<and> unat (child j) = k)"
proof -
  from FE_new_inv(1) [OF assms(1)] assms(2) have inv: "FE_inv e" by (rule FE_run_inv)
  note cnt = complete_counts [OF inv assms(3)]
  from FE_run_numLinks [OF assms(2)] FE_new_inv(5) [OF assms(1)] cnt(2)
  have "length (links e) = unat n" by simp
  moreover from cnt(1) have "getNumOfLinks e = getNumOfJoints e + 1"
    by (simp add: getNumOfLinks_def getNumOfJoints_def)
  moreover have "\<exists>!j. j \<in> set (joints e) \<and> unat (child j) = k" if "k \<in> {1..<length (links e)}" for k
  proof -
    from that complete_children [OF inv assms(3)] have "k \<in> unat ` child ` set (joints e)"
      by simp
    then obtain j where j: "j \<in> set (joints e)" "unat (child j) = k" by auto
    moreover have "j' = j" if "j' \<in> set (joints e)" "unat (child j') = k" for j'
      using that j by (intro children_inj [OF inv]) (simp_all add: word_unat_eq_iff)
    ultimately show ?thesis by blast
  qed
  ultimately show ?thesis by blast
qed

theorem constructed_tree_counts_witness:
  "complete example_arm \<and> getNumOfLinks example_arm = getNumOfJoints example_arm + 1
   \<and> (\<exists>!j. j \<in> set (joints example_arm) \<and> unat (child j) = 1)"
proof -
  from example_arm_built obtain e0
    where "FeatherstoneEntity_new ''arm'' 2 example_solid True = Inr e0"
      and "FE_run [Call_AddLink example_solid identity_transform,
                   Call_AddRevoluteJoint 0 1 (Vector3 1 0 0) (Vector3 0 0 1) False] e0
           = Inr example_arm"
    by (auto simp: bindE_Inr_iff)
  note t = constructed_tree_counts [OF this example_arm_inv(2)]
  have "1 \<in> {1..<length (links example_arm)}" by (simp add: example_arm_def)
  with t have "\<exists>!j. j \<in> set (joints example_arm) \<and> unat (child j) = 1" by blast
  with t show ?thesis by simp
qed

lemma example_attached_inv [simp]:
  "FE_inv example_attached" "\<not> unattached example_attached"
  "joints example_attached = joints example_arm" "links example_attached = links example_arm"
  "AddToDynamicsWorld None example_arm = Inr example_attached"
proof -
  show "FE_inv example_attached"
    by (rule FE_inv_cong [OF example_arm_inv(1)]) (simp_all add: example_attached_def)
qed (simp_all add: example_attached_def unattached_def AddToDynamicsWorld_def, simp add: example_arm_def)

text \<open>
  C11. The life cycle. Once the tree has left the phase \<open>Unattached\<close>, no accepted
  sequence of calls brings it back, the topology (number of links; type, parent and
  child of every joint, in order) stays what it was, and \<open>AddLink\<close> and the three
  \<open>Add...Joint\<close> operations are refused with a topology violation.
\<close>

theorem topology_frozen_after_attach:
  assumes "FE_run cs e = Inr e'" and "\<not> unattached e"
  shows "topology e' = topology e \<and> \<not> unattached e'
    \<and> (\<forall>c. topology_call c \<longrightarrow> FE_step c e' = Inl TopologyViolation)"
  using FE_run_frozen [OF assms] by (simp add: FE_step_frozen)

theorem topology_frozen_after_attach_witness:
  "FE_run [Call_setBaseRenderable False, Call_setSelfCollision True] example_attached
     = Inr (setSelfCollision True (setBaseRenderable False example_attached))
   \<and> \<not> unattached example_attached
   \<and> topology (setSelfCollision True (setBaseRenderable False example_attached))
       = topology example_attached
   \<and> FE_step (Call_AddFixedJoint 0 1)
        (setSelfCollision True (setBaseRenderable False example_attached))
       = Inl TopologyViolation"
proof -
  have run: "FE_run [Call_setBaseRenderable False, Call_setSelfCollision True] example_attached
     = Inr (setSelfCollision True (setBaseRenderable False example_attached))"
    by (simp add: FE_run_def)
  note t = topology_frozen_after_attach [OF run example_attached_inv(2)]
  then have "topology_call (Call_AddFixedJoint 0 1) \<longrightarrow>
      FE_step (Call_AddFixedJoint 0 1)
        (setSelfCollision True (setBaseRenderable False example_attached))
      = Inl TopologyViolation" by blast
  then have "FE_step (Call_AddFixedJoint 0 1)
        (setSelfCollision True (setBaseRenderable False example_attached))
      = Inl TopologyViolation" by (simp add: topology_call_def)
  with t run show ?thesis by simp
qed

text \<open>
  C12. Round trip of the initial conditions. On a joint index in range, \<open>setJointIC\<close>
  is accepted, and reading the joint back before any step returns exactly the position
  and the velocity that were set, with the type of the joint; the coordinates of every
  other joint and the topology are untouched.
\<close>

theorem setJointIC_roundtrip:
  assumes "FE_inv e" and "unat i < length (joints e)"
  shows "\<exists>e'. setJointIC i p v e = Inr e'
    \<and> getJointPosition e' i = Inr (p, jtype (joints e ! unat i))
    \<and> getJointVelocity e' i = Inr (v, jtype (joints e ! unat i))
    \<and> (\<forall>k. k \<noteq> i \<longrightarrow> getJointPosition e' k = getJointPosition e k
              \<and> getJointVelocity e' k = getJointVelocity e k)
    \<and> topology e' = topology e"
proof -
  from with_joint_in [OF assms] obtain sl
    where sl: "joint_slot e (joints e ! unat i) = Some sl"
      and w: "\<And>f :: FeatherstoneJoint \<Rightarrow> MultiBodyLink \<Rightarrow> FeatherstoneEntity result.
        with_joint e i f = f (joints e ! unat i) sl" by blast
  let ?e' = "set_slot e (joints e ! unat i) (sl\<lparr>mbl_pos := p, mbl_vel := v\<rparr>)"
  have "setJointIC i p v e = Inr ?e'" by (simp add: setJointIC_def w)
  moreover have "getJointPosition ?e' i = Inr (p, jtype (joints e ! unat i))"
    and "getJointVelocity ?e' i = Inr (v, jtype (joints e ! unat i))"
    by (simp_all add: getJointPosition_def getJointVelocity_def
        with_joint_set_slot_same [OF assms(2) sl])
  moreover have "getJointPosition ?e' k = getJointPosition e k
      \<and> getJointVelocity ?e' k = getJointVelocity e k" if "k \<noteq> i" for k
    by (simp add: getJointPosition_def getJointVelocity_def
        with_joint_set_slot_other [OF assms that])
  ultimately show ?thesis by (intro exI [of _ ?e']) simp
qed

theorem setJointIC_roundtrip_witness:
  "unat (0 :: uint) < length (joints example_arm)
   \<and> (\<exists>e'. setJointIC 0 (pi / 2) 7 example_arm = Inr e'
         \<and> getJointPosition e' 0 = Inr (pi / 2, eRevolute)
         \<and> getJointVelocity e' 0 = Inr (7, eRevolute))"
proof -
  have i: "unat (0 :: uint) < length (joints example_arm)" by (simp add: example_arm_def)
  from setJointIC_roundtrip [OF example_arm_inv(1) i, of "pi / 2" 7] i show ?thesis
    by (auto simp: example_arm_def)
qed

section \<open>The torque that is reported\<close>

lemma getJointTorque_in:
  assumes "FE_inv e" and "unat i < length (joints e)"
  obtains sl where "joint_slot e (joints e ! unat i) = Some sl"
    and "getJointTorque e i = Inr (mbl_torque sl)"
    and "DriveJoint i ft e =
      Inr (set_slot e (joints e ! unat i) (sl\<lparr>mbl_torque := mbl_torque sl + ft\<rparr>))"
proof -
  from with_joint_in [OF assms] obtain sl
    where sl: "joint_slot e (joints e ! unat i) = Some sl" by blast
  with assms(2) that show thesis
    by (simp add: getJointTorque_def DriveJoint_def with_joint_def)
qed

lemma getJointTorque_set_motor:
  assumes "set_motor m i e = Inr e'"
  shows "getJointTorque e' k = getJointTorque e k"
proof -
  let ?j = "(joints e ! unat i)\<lparr>motor := Some m\<rparr>"
  from assms have i: "unat i < length (joints e)"
    and e': "e' = e\<lparr>joints := (joints e)[unat i := ?j]\<rparr>"
    by (simp_all add: set_motor_Inr_iff)
  have c: "child ?j = child (joints e ! unat i)" by simp
  show ?thesis unfolding e' getJointTorque_def by (simp add: with_joint_joint_update [OF i c])
qed

lemma getJointTorque_ApplyDamping:
  "FE_inv e \<Longrightarrow> getJointTorque (ApplyDamping e) i = getJointTorque e i"
  by (simp add: getJointTorque_def ApplyDamping_def with_joint_update_joint_slots)

lemma getJointTorque_Step:
  assumes "FE_inv e" and "Step solver dt e = Inr e'" and "unat i < length (joints e)"
  shows "getJointTorque e' i = Inr 0"
proof -
  from with_joint_in [OF assms(1,3)] obtain sl
    where "joint_slot e (joints e ! unat i) = Some sl" by blast
  with assms(3) show ?thesis
    unfolding getJointTorque_def with_joint_Step [OF assms(1,2)]
    by (simp add: with_joint_def)
qed

text \<open>
  C20. What \<open>getJointTorque\<close> reports. On a joint index in range it returns the sum of
  the torques given to \<open>DriveJoint\<close> since the last step and nothing else: \<open>DriveJoint\<close>
  adds its argument, \<open>ApplyDamping\<close> and a change of the motor law leave the value as it
  is, and a step of the back end consumes it, so that it reads zero afterwards.
\<close>

theorem getJointTorque_manual_only:
  assumes "FE_inv e" and "unat i < length (joints e)"
  shows "\<exists>t e'. getJointTorque e i = Inr t \<and> DriveJoint i ft e = Inr e'
    \<and> getJointTorque e' i = Inr (t + ft)
    \<and> getJointTorque (ApplyDamping e') i = Inr (t + ft)
    \<and> (\<forall>m e''. set_motor m i e' = Inr e'' \<longrightarrow> getJointTorque e'' i = Inr (t + ft))
    \<and> (\<forall>solver dt e''. Step solver dt e' = Inr e'' \<longrightarrow> getJointTorque e'' i = Inr 0)"
proof -
  from getJointTorque_in [OF assms, of ft] obtain sl
    where sl: "joint_slot e (joints e ! unat i) = Some sl"
      and t: "getJointTorque e i = Inr (mbl_torque sl)"
      and d: "DriveJoint i ft e =
        Inr (set_slot e (joints e ! unat i) (sl\<lparr>mbl_torque := mbl_torque sl + ft\<rparr>))"
    by blast
  define e' where "e' = set_slot e (joints e ! unat i) (sl\<lparr>mbl_torque := mbl_torque sl + ft\<rparr>)"
  from d have d': "DriveJoint i ft e = Inr e'" by (simp add: e'_def)
  then have inv': "FE_inv e'" by (rule DriveJoint_inv [OF assms(1)])
  have i': "unat i < length (joints e')" using assms(2) by (simp add: e'_def)
  have t': "getJointTorque e' i = Inr (mbl_torque sl + ft)"
    unfolding e'_def getJointTorque_def by (simp add: with_joint_set_slot_same [OF assms(2) sl])
  show ?thesis
  proof (intro exI conjI allI impI)
    show "getJointTorque e i = Inr (mbl_torque sl)" by (rule t)
    show "DriveJoint i ft e = Inr e'" by (rule d')
    show "getJointTorque e' i = Inr (mbl_torque sl + ft)" by (rule t')
    show "getJointTorque (ApplyDamping e') i = Inr (mbl_torque sl + ft)"
      by (simp add: getJointTorque_ApplyDamping [OF inv'] t')
    show "getJointTorque e'' i = Inr (mbl_torque sl + ft)" if "set_motor m i e' = Inr e''" for m e''
      by (simp add: getJointTorque_set_motor [OF that] t')
    show "getJointTorque e'' i = Inr 0" if "Step solver dt e' = Inr e''" for solver dt e''
      by (rule getJointTorque_Step [OF inv' that i'])
  qed
qed

theorem getJointTorque_manual_only_witness:
  "unat (0 :: uint) < length (joints example_arm)
   \<and> (\<exists>e'. DriveJoint 0 5 example_arm = Inr e' \<and> getJointTorque e' 0 = Inr 5
         \<and> getJointTorque (ApplyDamping e') 0 = Inr 5)"
proof -
  have i: "unat (0 :: uint) < length (joints example_arm)" by (simp add: example_arm_def)
  have "getJointTorque example_arm 0 = Inr 0"
    by (simp add: getJointTorque_def with_joint_def joint_slot_def slot_of_def example_arm_def
        setupLink_def)
  with getJointTorque_manual_only [OF example_arm_inv(1) i, of 5] i show ?thesis by auto
qed

text \<open>
  C21. Indices out of range. Every operation that takes a joint index answers
  \<open>IndexOutOfRange\<close> for an index that is not below the number of joints, in particular
  for the index equal to \<open>getNumOfJoints\<close>; none of them returns a default value or
  changes the state.
\<close>

theorem joint_index_out_of_range:
  assumes "FE_inv e" and "getNumOfJoints e \<le> i"
  shows "getJointTorque e i = Inl IndexOutOfRange \<and> getJointPosition e i = Inl IndexOutOfRange
    \<and> getJointVelocity e i = Inl IndexOutOfRange \<and> getJointFeedback e i = Inl IndexOutOfRange
    \<and> setJointIC i p v e = Inl IndexOutOfRange \<and> setJointDamping i c d e = Inl IndexOutOfRange
    \<and> DriveJoint i ft e = Inl IndexOutOfRange \<and> AddJointMotor i e = Inl IndexOutOfRange
    \<and> AddJointLimit i lo hi e = Inl IndexOutOfRange
    \<and> MotorPositionSetpoint i q kp e = Inl IndexOutOfRange
    \<and> MotorVelocitySetpoint i qd kd e = Inl IndexOutOfRange"
proof -
  from assms(2) count_exact(2) [OF assms(1)] have "length (joints e) \<le> unat i"
    by (simp add: word_le_nat_alt)
  then show ?thesis
    by (simp add: getJointTorque_def getJointPosition_def getJointVelocity_def
        getJointFeedback_def setJointIC_def DriveJoint_def with_joint_out setJointDamping_def
        AddJointMotor_def AddJointLimit_def MotorPositionSetpoint_def MotorVelocitySetpoint_def
        set_motor_def at_opt_def)
qed

theorem joint_index_out_of_range_witness:
  "getNumOfJoints example_arm = 1 \<and> getJointTorque example_arm 1 = Inl IndexOutOfRange
   \<and> setJointIC 1 0 0 example_arm = Inl IndexOutOfRange"
proof -
  have n: "getNumOfJoints example_arm = 1" by (simp add: getNumOfJoints_def example_arm_def)
  then have "getNumOfJoints example_arm \<le> 1" by simp
  from joint_index_out_of_range [OF example_arm_inv(1) this, of 0 0] n show ?thesis by simp
qed

section \<open>Running calls one after the other\<close>

lemma FE_run_simps [simp]:
  "FE_run [] e = Inr e" "FE_run (c # cs) e = bindE (FE_step c e) (FE_run cs)"
  by (simp_all add: FE_run_def)

lemma FE_run_append: "FE_run (cs @ ds) e = bindE (FE_run cs e) (FE_run ds)"
  by (simp add: FE_run_def runE_append)

lemma Step_attached: "\<not> unattached e \<Longrightarrow> \<exists>e'. Step solver dt e = Inr e'"
  by (simp add: Step_def Let_def)

section \<open>Feedback\<close>

lemma getJointFeedback_in:
  assumes "FE_inv e" and "unat i < length (joints e)"
  obtains sl fb where "joint_slot e (joints e ! unat i) = Some sl"
    and "feedback (joints e ! unat i) = Some fb"
    and "getJointFeedback e i = Inr (reactionForce fb, cross (mbl_pivot sl) (reactionForce fb))"
proof -
  from with_joint_in [OF assms] obtain sl
    where sl: "joint_slot e (joints e ! unat i) = Some sl" by blast
  from assms(2) have "joint_ok e (joints e ! unat i)" by (simp add: FE_invD(7) [OF assms(1)])
  from joint_okD(4) [OF this] obtain fb where "feedback (joints e ! unat i) = Some fb" by blast
  with sl assms(2) that show thesis by (simp add: getJointFeedback_def with_joint_def)
qed

lemma feedback_shape:
  assumes "joint_slot e (joints e ! unat i) = Some sl"
    and "getJointFeedback e i = Inr (reactionForce fb, cross (mbl_pivot sl) (reactionForce fb))"
  shows "\<exists>F T sl. getJointFeedback e i = Inr (F, T)
    \<and> joint_slot e (joints e ! unat i) = Some sl \<and> T = cross (mbl_pivot sl) F
    \<and> dot T F = 0 \<and> dot T (mbl_pivot sl) = 0
    \<and> dot T (mbl_axis sl) = dot (cross F (mbl_axis sl)) (mbl_pivot sl)"
  unfolding assms by (simp add: triple_cyclic [of "mbl_pivot sl"])


lemma example_arm_feedback: "getJointFeedback example_arm 0 = Inr (0, 0)"
  by (simp add: getJointFeedback_def with_joint_def joint_slot_def slot_of_def example_arm_def
      setupLink_def cross_def zero_Vector3_def)


lemma example_step_feedback:
  assumes "Step example_solver 1 example_attached = Inr e'"
  shows "getJointFeedback e' 0 = Inr (Vector3 0 1 0, Vector3 0 0 1)"
proof -
  have "with_joint e' 0 (\<lambda>j sl. case feedback j of None \<Rightarrow> Inr (0, 0)
        | Some fb \<Rightarrow> Inr (reactionForce fb, cross (mbl_pivot sl) (reactionForce fb))) =
      with_joint example_attached 0 (\<lambda>j sl.
        case feedback (store_feedback (example_solver 1 (multiBody example_attached)
            (generalized_force example_attached)) j) of
          None \<Rightarrow> Inr (0, 0)
        | Some fb \<Rightarrow> Inr (reactionForce fb, cross (mbl_pivot
            (advance_slot (example_solver 1 (multiBody example_attached)
              (generalized_force example_attached)) j sl)) (reactionForce fb)))"
    by (rule with_joint_Step [OF example_attached_inv(1) assms])
  also have "\<dots> = Inr (Vector3 0 1 0, Vector3 0 0 1)"
    by (simp add: with_joint_def joint_slot_def slot_of_def example_attached_def example_arm_def
        setupLink_def store_feedback_def example_solver_def cross_def)
  finally show ?thesis by (simp add: getJointFeedback_def)
qed


section \<open>Damping and motors\<close>

lemma generalized_force_in:
  assumes "FE_inv e" and "unat i < length (joints e)"
    and "joint_slot e (joints e ! unat i) = Some sl"
  shows "generalized_force e (slot_of (child (joints e ! unat i))) =
    mbl_torque sl + mbl_damping sl
      + motor_torque (motor (joints e ! unat i)) (mbl_pos sl) (mbl_vel sl)"
  using assms by (intro generalized_force_joint) simp_all

lemma ApplyDamping_slot:
  assumes "FE_inv e" and "unat i < length (joints e)"
    and "joint_slot e (joints e ! unat i) = Some sl"
  shows "joint_slot (ApplyDamping e) (joints e ! unat i) =
    Some (sl\<lparr>mbl_damping := mbl_damping sl + damping_force (joints e ! unat i) (mbl_vel sl)\<rparr>)"
  using assms by (simp add: ApplyDamping_def update_joint_slots_slot)

text \<open>
  \<open>ApplyDamping\<close>. For every joint the generalized force of the step grows by
  \<open>- sgn v * sigDamping - v * velDamping\<close>, where \<open>v\<close> is the velocity of the joint; the
  torque given by \<open>DriveJoint\<close> and the motor law are not touched. With the
  non-negative coefficients that the invariant guarantees the added force never
  drives the joint: its power \<open>force * v\<close> is at most zero, and it vanishes at rest.
\<close>

theorem ApplyDamping_effect:
  assumes "FE_inv e" and "unat i < length (joints e)"
    and "joint_slot e (joints e ! unat i) = Some sl"
  shows "generalized_force (ApplyDamping e) (slot_of (child (joints e ! unat i))) =
      generalized_force e (slot_of (child (joints e ! unat i)))
        + damping_force (joints e ! unat i) (mbl_vel sl)
    \<and> damping_force (joints e ! unat i) (mbl_vel sl) * mbl_vel sl \<le> 0
    \<and> damping_force (joints e ! unat i) 0 = 0"
proof -
  let ?j = "joints e ! unat i"
  have inv': "FE_inv (ApplyDamping e)" by (rule ApplyDamping_inv [OF assms(1)])
  have j': "joints (ApplyDamping e) = joints e" by (simp add: ApplyDamping_def)
  from assms(2) have ok: "joint_ok e ?j" by (simp add: FE_invD(7) [OF assms(1)])
  have s': "joint_slot (ApplyDamping e) (joints (ApplyDamping e) ! unat i) =
      Some (sl\<lparr>mbl_damping := mbl_damping sl + damping_force ?j (mbl_vel sl)\<rparr>)"
    using ApplyDamping_slot [OF assms] by (simp add: j')
  have i': "unat i < length (joints (ApplyDamping e))" using assms(2) by (simp add: j')
  from generalized_force_in [OF inv' i' s']
  have "generalized_force (ApplyDamping e) (slot_of (child (joints (ApplyDamping e) ! unat i))) =
      mbl_torque sl + (mbl_damping sl + damping_force ?j (mbl_vel sl))
        + motor_torque (motor ?j) (mbl_pos sl) (mbl_vel sl)"
    by (simp add: j')
  then have "generalized_force (ApplyDamping e) (slot_of (child ?j)) =
      generalized_force e (slot_of (child ?j)) + damping_force ?j (mbl_vel sl)"
    by (simp add: generalized_force_in [OF assms] j')
  moreover have "damping_force ?j (mbl_vel sl) * mbl_vel sl \<le> 0"
    by (intro damping_force_dissipative joint_okD(7,8) [OF ok])
  ultimately show ?thesis by (simp add: damping_force_def)
qed

theorem ApplyDamping_effect_witness:
  "unat (0 :: uint) < length (joints example_arm)
   \<and> generalized_force (ApplyDamping example_arm) 0 = generalized_force example_arm 0"
proof -
  have i: "unat (0 :: uint) < length (joints example_arm)" by (simp add: example_arm_def)
  have sl: "joint_slot example_arm (joints example_arm ! unat (0 :: uint)) =
      Some (setupLink eRevolute 0 (Vector3 1 0 0) (Vector3 0 0 1) False)"
    by (simp add: joint_slot_def slot_of_def example_arm_def)
  from ApplyDamping_effect [OF example_arm_inv(1) i sl] i show ?thesis
    by (simp add: example_arm_def slot_of_def setupLink_def damping_force_def)
qed

lemma set_motor_in:
  assumes "unat i < length (joints e)" and "motor (joints e ! unat i) \<noteq> None"
  shows "set_motor m i e =
    Inr (e\<lparr>joints := (joints e)[unat i := (joints e ! unat i)\<lparr>motor := Some m\<rparr>]\<rparr>)"
  using assms by (simp add: set_motor_Inr_iff)

lemma generalized_force_set_motor:
  assumes "FE_inv e" and "unat i < length (joints e)"
    and "joint_slot e (joints e ! unat i) = Some sl" and "set_motor m i e = Inr e'"
  shows "generalized_force e' (slot_of (child (joints e ! unat i))) =
    mbl_torque sl + mbl_damping sl + motor_torque (Some m) (mbl_pos sl) (mbl_vel sl)"
proof -
  let ?j = "(joints e ! unat i)\<lparr>motor := Some m\<rparr>"
  from assms(4) have e': "e' = e\<lparr>joints := (joints e)[unat i := ?j]\<rparr>"
    by (simp add: set_motor_Inr_iff)
  have inv': "FE_inv e'" by (rule set_motor_inv [OF assms(1,4)])
  have i': "unat i < length (joints e')" and j': "joints e' ! unat i = ?j"
    using assms(2) by (simp_all add: e')
  have "joint_slot e' ?j = joint_slot e (joints e ! unat i)"
    by (rule joint_slot_cong) (simp_all add: e')
  with assms(3) have "joint_slot e' (joints e' ! unat i) = Some sl" by (simp add: j')
  from generalized_force_in [OF inv' i' this] show ?thesis by (simp add: j')
qed

text \<open>
  C38. Motor laws. On a joint that has a motor, \<open>MotorPositionSetpoint\<close> is accepted and
  the generalized force handed to the next solve is the driven torque plus the damping
  plus \<open>kp * (targetPos - position)\<close>; \<open>MotorVelocitySetpoint\<close> likewise with
  \<open>kd * (targetVel - velocity)\<close>. On a joint without a motor both are refused.
\<close>

theorem motor_setpoint_law:
  assumes "FE_inv e" and "unat i < length (joints e)"
    and "joint_slot e (joints e ! unat i) = Some sl"
  shows "(motor (joints e ! unat i) = None \<longrightarrow>
        MotorPositionSetpoint i target k e = Inl TopologyViolation
        \<and> MotorVelocitySetpoint i target k e = Inl TopologyViolation)
    \<and> (motor (joints e ! unat i) \<noteq> None \<longrightarrow>
        (\<exists>e'. MotorPositionSetpoint i target k e = Inr e'
           \<and> generalized_force e' (slot_of (child (joints e ! unat i))) =
               mbl_torque sl + mbl_damping sl + k * (target - mbl_pos sl))
        \<and> (\<exists>e'. MotorVelocitySetpoint i target k e = Inr e'
           \<and> generalized_force e' (slot_of (child (joints e ! unat i))) =
               mbl_torque sl + mbl_damping sl + k * (target - mbl_vel sl)))"
proof (cases "motor (joints e ! unat i) = None")
  case True
  with assms(2) show ?thesis
    by (simp add: MotorPositionSetpoint_def MotorVelocitySetpoint_def set_motor_def)
next
  case False
  note m = set_motor_in [OF assms(2) False]
  have "generalized_force
      (e\<lparr>joints := (joints e)[unat i := (joints e ! unat i)\<lparr>motor := Some mm\<rparr>]\<rparr>)
      (slot_of (child (joints e ! unat i))) =
    mbl_torque sl + mbl_damping sl + motor_torque (Some mm) (mbl_pos sl) (mbl_vel sl)" for mm
    by (rule generalized_force_set_motor [OF assms m])
  with False show ?thesis
    by (simp add: MotorPositionSetpoint_def MotorVelocitySetpoint_def m)
qed


lemma example_motor_arm_inv [simp]:
  "AddJointMotor 0 example_arm = Inr example_motor_arm" "FE_inv example_motor_arm"
proof -
  show a: "AddJointMotor 0 example_arm = Inr example_motor_arm"
    by (simp add: AddJointMotor_Inr_iff example_motor_arm_def) (simp add: example_arm_def)
  show "FE_inv example_motor_arm" by (rule AddJointMotor_inv [OF example_arm_inv(1) a])
qed

theorem motor_setpoint_law_witness:
  "unat (0 :: uint) < length (joints example_motor_arm)
   \<and> (\<exists>e'. MotorPositionSetpoint 0 (pi / 2) 10 example_motor_arm = Inr e'
         \<and> generalized_force e' 0 = 10 * (pi / 2))"
proof -
  have i: "unat (0 :: uint) < length (joints example_motor_arm)"
    by (simp add: example_motor_arm_def example_arm_def)
  have sl: "joint_slot example_motor_arm (joints example_motor_arm ! unat (0 :: uint)) =
      Some (setupLink eRevolute 0 (Vector3 1 0 0) (Vector3 0 0 1) False)"
    by (simp add: joint_slot_def slot_of_def example_motor_arm_def example_arm_def)
  have m: "motor (joints example_motor_arm ! unat (0 :: uint)) \<noteq> None"
    and c: "slot_of (child (joints example_motor_arm ! unat (0 :: uint))) = 0"
    by (simp_all add: example_motor_arm_def example_arm_def slot_of_def)
  from motor_setpoint_law [OF example_motor_arm_inv(2) i sl, of "pi / 2" 10] m i show ?thesis
    unfolding c by (simp add: setupLink_def)
qed

section \<open>What a step guarantees\<close>

lemma getJointPosition_Step:
  assumes "FE_inv e" and "Step solver dt e = Inr e'" and "unat i < length (joints e)"
    and "joint_slot e (joints e ! unat i) = Some sl"
  shows "getJointPosition e' i =
    Inr (mbl_pos (advance_slot (solver dt (multiBody e) (generalized_force e))
           (joints e ! unat i) sl), jtype (joints e ! unat i))"
  using assms(3,4) unfolding getJointPosition_def with_joint_Step [OF assms(1,2)]
  by (simp add: with_joint_def)



lemma example_locked_inv [simp]:
  "AddJointLimit 0 1 1 example_attached = Inr example_locked" "FE_inv example_locked"
  "\<not> unattached example_locked"
proof -
  show a: "AddJointLimit 0 1 1 example_attached = Inr example_locked"
    by (simp add: AddJointLimit_Inr_iff example_locked_def) (simp add: example_arm_def)
  show "FE_inv example_locked" by (rule AddJointLimit_inv [OF example_attached_inv(1) a])
  show "\<not> unattached example_locked"
    using example_attached_inv(2) by (simp add: example_locked_def unattached_def)
qed


section \<open>Forces on links\<close>

lemma ApplyGravity_body:
  assumes "FE_inv e" and "unat i < length (links e)"
  shows "mb_bodies (multiBody (ApplyGravity g e)) ! unat i =
    (mb_bodies (multiBody e) ! unat i)
      \<lparr>body_force := body_force (mb_bodies (multiBody e) ! unat i)
          + solid_mass (solid (links e ! unat i)) *\<^sub>R g\<rparr>"
  using assms FE_invD(2,5) [OF assms(1)] by (simp add: ApplyGravity_def)

lemma Step_body:
  assumes "Step solver dt e = Inr e'" and "k < length (mb_bodies (multiBody e))"
  shows "mb_bodies (multiBody e') ! k =
    advance_body (hasFixedBase (multiBody e)) (solver dt (multiBody e) (generalized_force e)) k
      (mb_bodies (multiBody e) ! k)"
  using assms(2) by (simp add: Step_fields(7) [OF assms(1)])

lemma advance_body_force [simp]:
  "body_force (advance_body f sol k b) = 0" "body_torque (advance_body f sol k b) = 0"
  by (simp_all add: advance_body_def)

text \<open>
  Gravity and the forces that last one step. \<open>ApplyGravity g\<close> adds \<open>mass * g\<close> to
  the force applied to every link and \<open>AddLinkForce\<close> adds its argument to the force of
  one link; neither moves a link. The step of the back end consumes the applied forces
  and torques: after it they are zero, so that a force that should persist has to be
  applied again.
\<close>

theorem link_forces_last_one_step:
  assumes "FE_inv e" and "unat i < length (links e)"
  shows "body_force (mb_bodies (multiBody (ApplyGravity g e)) ! unat i) =
      body_force (mb_bodies (multiBody e) ! unat i) + solid_mass (solid (links e ! unat i)) *\<^sub>R g
    \<and> getLinkTransform (ApplyGravity g e) i = getLinkTransform e i
    \<and> (\<exists>e'. AddLinkForce i F e = Inr e'
         \<and> body_force (mb_bodies (multiBody e') ! unat i) =
             body_force (mb_bodies (multiBody e) ! unat i) + F
         \<and> getLinkTransform e' i = getLinkTransform e i)
    \<and> (\<forall>solver dt e'. Step solver dt (ApplyGravity g e) = Inr e' \<longrightarrow>
         body_force (mb_bodies (multiBody e') ! unat i) = 0
         \<and> body_torque (mb_bodies (multiBody e') ! unat i) = 0)"
proof -
  from assms FE_invD(2,5) [OF assms(1)]
  have b: "unat i < length (mb_bodies (multiBody e))" by simp
  have g: "mb_bodies (multiBody (ApplyGravity g e)) ! unat i =
      (mb_bodies (multiBody e) ! unat i)
        \<lparr>body_force := body_force (mb_bodies (multiBody e) ! unat i)
            + solid_mass (solid (links e ! unat i)) *\<^sub>R g\<rparr>"
    by (rule ApplyGravity_body [OF assms])
  have lg: "links (ApplyGravity g e) = links e"
    and bg: "length (mb_bodies (multiBody (ApplyGravity g e))) = length (mb_bodies (multiBody e))"
    by (simp_all add: ApplyGravity_def)
  have 1: "getLinkTransform (ApplyGravity g e) i = getLinkTransform e i"
    using assms(2) b by (simp add: getLinkTransform_def with_body_def g lg bg)
  have 2: "AddLinkForce i F e = Inr (set_bodies e ((mb_bodies (multiBody e))
      [unat i := (mb_bodies (multiBody e) ! unat i)
         \<lparr>body_force := body_force (mb_bodies (multiBody e) ! unat i) + F\<rparr>]))"
    using assms(2) b by (simp add: AddLinkForce_def with_body_def)
  have 3: "body_force (mb_bodies (multiBody e') ! unat i) = 0
      \<and> body_torque (mb_bodies (multiBody e') ! unat i) = 0"
    if "Step solver dt (ApplyGravity g e) = Inr e'" for solver dt e'
    using b by (simp add: Step_body [OF that] bg)
  from g 1 2 3 assms(2) b show ?thesis
    by (simp add: getLinkTransform_def with_body_def)
qed

theorem link_forces_last_one_step_witness:
  "unat (1 :: uint) < length (links example_arm)
   \<and> body_force (mb_bodies (multiBody (ApplyGravity (Vector3 0 (- 10) 0) example_arm)) ! 1)
       = Vector3 0 (- 20) 0"
proof -
  have i: "unat (1 :: uint) < length (links example_arm)" by (simp add: example_arm_def)
  from link_forces_last_one_step [OF example_arm_inv(1) i, of "Vector3 0 (- 10) 0"] i
  show ?thesis
    by (simp add: example_arm_def BodyState_rest_def FeatherstoneLink_new_def example_solid_def
        scaleR_Vector3_def zero_Vector3_def plus_Vector3_def)
qed

section \<open>The base, new joints, and progress\<close>

text \<open>
  A fixed base. If the entity was constructed with a fixed base, a step of the back
  end leaves the transform of link 0 as it was and its velocities zero, whatever the
  solver answered.
\<close>

theorem fixed_base_stays:
  assumes "FE_inv e" and "Step solver dt e = Inr e'" and "hasFixedBase (multiBody e)"
  shows "getLinkTransform e' 0 = getLinkTransform e 0
    \<and> getLinkLinearVelocity e' 0 = Inr 0 \<and> getLinkAngularVelocity e' 0 = Inr 0"
proof -
  note inv = FE_invD [OF assms(1)] and f = Step_fields [OF assms(2)]
  from inv(5) have b: "0 < length (mb_bodies (multiBody e))" by simp
  have "mb_bodies (multiBody e') ! 0 =
      (mb_bodies (multiBody e) ! 0)
        \<lparr>body_linvel := 0, body_angvel := 0, body_force := 0, body_torque := 0\<rparr>"
    using assms(3) by (simp add: Step_body [OF assms(2) b] advance_body_def)
  moreover from inv(1) have "links e \<noteq> []" by auto
  ultimately show ?thesis using b
    by (simp add: getLinkTransform_def getLinkLinearVelocity_def getLinkAngularVelocity_def
        with_body_def f(2,7))
qed

theorem fixed_base_stays_witness:
  "hasFixedBase (multiBody example_attached)
   \<and> (\<exists>e'. Step example_solver 1 example_attached = Inr e'
         \<and> getLinkTransform e' 0 = Inr identity_transform)"
proof -
  from Step_attached [OF example_attached_inv(2)] obtain e'
    where e': "Step example_solver 1 example_attached = Inr e'" by blast
  have f: "hasFixedBase (multiBody example_attached)"
    and t: "getLinkTransform example_attached 0 = Inr identity_transform"
    by (simp_all add: example_attached_def example_arm_def getLinkTransform_def with_body_def
        BodyState_rest_def)
  from fixed_base_stays [OF example_attached_inv(1) e' f] e' f t show ?thesis by auto
qed

text \<open>
  C39. Joint indices. A joint that is accepted gets the next index in call order,
  whatever its links are: the returned value, read as \<open>unsigned int\<close>, is the number of
  joints there were; the new joint is last in the table with the type, parent and child
  given, no motor, no limit and zero damping; its position and velocity read zero; the
  joints that were there keep their indices.
\<close>

theorem AddJoint_index:
  assumes "FE_inv e" and "AddJoint t p c pivot axis col e = Inr (e', k)"
  shows "unat k = length (joints e) \<and> length (joints e') = length (joints e) + 1
    \<and> take (length (joints e)) (joints e') = joints e
    \<and> jtype (joints e' ! unat k) = t \<and> parent (joints e' ! unat k) = p
    \<and> child (joints e' ! unat k) = c \<and> motor (joints e' ! unat k) = None
    \<and> limit (joints e' ! unat k) = None \<and> sigDamping (joints e' ! unat k) = 0
    \<and> velDamping (joints e' ! unat k) = 0
    \<and> getJointPosition e' k = Inr (0, t) \<and> getJointVelocity e' k = Inr (0, t)"
proof -
  let ?j = "(FeatherstoneJoint_new t p c)\<lparr>feedback := Some \<lparr>reactionForce = 0, reactionTorque = 0\<rparr>\<rparr>"
  note r = assms(2) [unfolded AddJoint_Inr_iff]
  from r have js: "joints e' = joints e @ [?j]" and k: "k = of_nat (length (joints e))"
    and c: "c \<noteq> 0" "unat c < length (links e)"
    and ml: "mb_links (multiBody e') =
      (mb_links (multiBody e))[slot_of c := Some (setupLink t p pivot axis col)]"
    by simp_all
  from joints_le_links [OF assms(1)] FE_invD(2,3) [OF assms(1)]
  have "length (joints e) < 2 ^ 32" by simp
  with k have uk: "unat k = length (joints e)" by (simp add: unat_of_nat_uint)
  from c FE_invD(2,4) [OF assms(1)] have "slot_of c < length (mb_links (multiBody e))"
    by (simp add: slot_of_less)
  with c(1) have "joint_slot e' ?j = Some (setupLink t p pivot axis col)"
    by (simp add: joint_slot_def ml)
  then have "getJointPosition e' k = Inr (0, t)" and "getJointVelocity e' k = Inr (0, t)"
    by (simp_all add: getJointPosition_def getJointVelocity_def with_joint_def js uk
        setupLink_def)
  with uk show ?thesis by (simp add: js)
qed

theorem AddJoint_index_witness:
  "\<exists>e0 e1 e2. FeatherstoneEntity_new ''arm'' 2 example_solid True = Inr e0
     \<and> AddLink example_solid identity_transform e0 = Inr e1
     \<and> AddJoint eRevolute 0 1 (Vector3 1 0 0) (Vector3 0 0 1) False e1 = Inr (e2, 0)
     \<and> getJointPosition e2 0 = Inr (0, eRevolute)"
proof -
  obtain e0 where e0: "FeatherstoneEntity_new ''arm'' 2 example_solid True = Inr e0"
    by (simp add: FeatherstoneEntity_new_def)
  obtain e1 where e1: "AddLink example_solid identity_transform e0 = Inr e1"
    using e0 by (auto simp: FeatherstoneEntity_new_def AddLink_def unattached_def
        MultiBody_new_def)
  have inv1: "FE_inv e1" by (rule AddLink_inv [OF FE_new_inv(1) [OF e0] e1])
  obtain e2 where e2: "AddJoint eRevolute 0 1 (Vector3 1 0 0) (Vector3 0 0 1) False e1
      = Inr (e2, 0)"
    using e0 e1 by (auto simp: FeatherstoneEntity_new_def AddLink_def AddJoint_def
        unattached_def MultiBody_new_def child_used_def)
  from AddJoint_index [OF inv1 e2] e0 e1 e2 show ?thesis by blast
qed



end
