(* ===== verification/Featherstone_Abstract.thy ===== *)
theory Featherstone_Abstract
  imports Featherstone_Properties "HOL-Library.Sublist"
begin

text \<open>
  An abstract specification of the multibody tree and the proof that the detailed
  model implements it.

  The abstract tree \<open>ATree\<close> keeps only what decides whether a call is accepted: the
  phase of the life cycle, the declared and the current number of links, and for every
  joint its type, parent, child and whether it has a motor. It has no back end: no
  coordinates, forces, transforms, limits or damping coefficients. \<open>A_step\<close> is the
  state machine of the design document over this state: the life cycle
  Unattached, Attached, Stepping, the frozen topology, and the three kinds of error.

  \<open>abs_tree\<close> maps a detailed state to the abstract one. The refinement lemmas show,
  call by call and for sequences of calls, that under the invariant the detailed
  operation is accepted exactly when the abstract one is, fails with the same error,
  and leads to a state with the abstract successor as its image. Hence no value held
  by the back end ever influences which calls the interface accepts.

  \<open>A_reach n cs a\<close> says that the abstract machine, started for \<open>n\<close> declared links,
  reaches \<open>a\<close> by the calls \<open>cs\<close> (the latest first); \<open>A_inv\<close> is the invariant of the
  reachable states, proved by rule induction. Every state the detailed model builds
  from its constructor has a reachable image. On the abstract machine the joint table
  only grows at its end, which gives that joints keep their index, type and links in
  the detailed model.
\<close>

section \<open>The abstract tree\<close>

type_synonym AJoint = "eFeatherstoneJointType \<times> nat \<times> nat \<times> bool"

record ATree =
  a_phase :: Phase
  a_total :: nat
  a_links :: nat
  a_joints :: "AJoint list"

definition a_child :: "AJoint \<Rightarrow> nat" where
  "a_child j = (case j of (t, p, c, m) \<Rightarrow> c)"

definition a_topo :: "AJoint \<Rightarrow> eFeatherstoneJointType \<times> nat \<times> nat" where
  "a_topo j = (case j of (t, p, c, m) \<Rightarrow> (t, p, c))"

definition A_AddLink :: "ATree \<Rightarrow> ATree result" where
  "A_AddLink a =
     (if a_phase a \<noteq> Unattached \<or> a_total a \<le> a_links a then Inl TopologyViolation
      else Inr (a\<lparr>a_links := a_links a + 1\<rparr>))"

definition A_AddJoint :: "eFeatherstoneJointType \<Rightarrow> nat \<Rightarrow> nat \<Rightarrow> ATree \<Rightarrow> ATree result" where
  "A_AddJoint t p c a =
     (if a_phase a \<noteq> Unattached then Inl TopologyViolation
      else if a_links a \<le> p \<or> a_links a \<le> c then Inl IndexOutOfRange
      else if c = 0 \<or> c \<in> set (map a_child (a_joints a)) then Inl TopologyViolation
      else Inr (a\<lparr>a_joints := a_joints a @ [(t, p, c, False)]\<rparr>))"

definition A_joint :: "nat \<Rightarrow> (AJoint \<Rightarrow> ATree result) \<Rightarrow> ATree \<Rightarrow> ATree result" where
  "A_joint i f a = (if i < length (a_joints a) then f (a_joints a ! i) else Inl IndexOutOfRange)"

definition A_AddJointMotor :: "nat \<Rightarrow> ATree \<Rightarrow> ATree result" where
  "A_AddJointMotor i a =
     A_joint i (\<lambda>(t, p, c, m). if t = eFixed \<or> m then Inl TopologyViolation
                                else Inr (a\<lparr>a_joints := (a_joints a)[i := (t, p, c, True)]\<rparr>)) a"

definition A_AddJointLimit :: "nat \<Rightarrow> Scalar \<Rightarrow> Scalar \<Rightarrow> ATree \<Rightarrow> ATree result" where
  "A_AddJointLimit i lower upper a =
     A_joint i (\<lambda>(t, p, c, m). if t = eFixed then Inl TopologyViolation
                                else if upper < lower then Inl InvalidParameter else Inr a) a"

definition A_setpoint :: "nat \<Rightarrow> ATree \<Rightarrow> ATree result" where
  "A_setpoint i a = A_joint i (\<lambda>(t, p, c, m). if m then Inr a else Inl TopologyViolation) a"

definition A_touch_joint :: "nat \<Rightarrow> ATree \<Rightarrow> ATree result" where
  "A_touch_joint i a = A_joint i (\<lambda>_. Inr a) a"

definition A_setJointDamping :: "nat \<Rightarrow> Scalar \<Rightarrow> Scalar \<Rightarrow> ATree \<Rightarrow> ATree result" where
  "A_setJointDamping i c v a =
     A_joint i (\<lambda>_. if c < 0 \<or> v < 0 then Inl InvalidParameter else Inr a) a"

definition A_touch_link :: "nat \<Rightarrow> ATree \<Rightarrow> ATree result" where
  "A_touch_link i a = (if i < a_links a then Inr a else Inl IndexOutOfRange)"

definition A_attach :: "ATree \<Rightarrow> ATree result" where
  "A_attach a =
     (if a_phase a \<noteq> Unattached then Inl TopologyViolation else Inr (a\<lparr>a_phase := Attached\<rparr>))"

definition A_solve :: "ATree \<Rightarrow> ATree result" where
  "A_solve a =
     (if a_phase a = Unattached then Inl TopologyViolation else Inr (a\<lparr>a_phase := Stepping\<rparr>))"

fun A_step :: "FE_call \<Rightarrow> ATree \<Rightarrow> ATree result" where
  "A_step (Call_AddLink s t) a = A_AddLink a"
| "A_step (Call_AddRevoluteJoint p c pivot axis col) a = A_AddJoint eRevolute (unat p) (unat c) a"
| "A_step (Call_AddPrismaticJoint p c axis col) a = A_AddJoint ePrismatic (unat p) (unat c) a"
| "A_step (Call_AddFixedJoint p c) a = A_AddJoint eFixed (unat p) (unat c) a"
| "A_step (Call_AddJointMotor i) a = A_AddJointMotor (unat i) a"
| "A_step (Call_AddJointLimit i lo hi) a = A_AddJointLimit (unat i) lo hi a"
| "A_step (Call_MotorPositionSetpoint i pos kp) a = A_setpoint (unat i) a"
| "A_step (Call_MotorVelocitySetpoint i vel kd) a = A_setpoint (unat i) a"
| "A_step (Call_DriveJoint i ft) a = A_touch_joint (unat i) a"
| "A_step (Call_ApplyGravity g) a = Inr a"
| "A_step Call_ApplyDamping a = Inr a"
| "A_step (Call_AddLinkForce i F) a = A_touch_link (unat i) a"
| "A_step (Call_AddLinkTorque i tau) a = A_touch_link (unat i) a"
| "A_step (Call_setJointIC i q v) a = A_touch_joint (unat i) a"
| "A_step (Call_setJointDamping i c v) a = A_setJointDamping (unat i) c v a"
| "A_step (Call_setBaseTransform t) a = Inr a"
| "A_step (Call_setBaseRenderable r) a = Inr a"
| "A_step (Call_setSelfCollision c) a = Inr a"
| "A_step (Call_AddToDynamicsWorld w) a = A_attach a"
| "A_step (Call_Step solver dt) a = A_solve a"

definition A_run :: "FE_call list \<Rightarrow> ATree \<Rightarrow> ATree result" where
  "A_run cs = runE (map A_step cs)"

text \<open>
  The states the abstract machine reaches from a new tree of \<open>n\<close> declared links, with
  the calls that led there (the latest first), and the invariant of these states.
\<close>

definition A_new :: "nat \<Rightarrow> ATree" where
  "A_new n = \<lparr>a_phase = Unattached, a_total = n, a_links = 1, a_joints = []\<rparr>"

inductive A_reach :: "nat \<Rightarrow> FE_call list \<Rightarrow> ATree \<Rightarrow> bool" for n where
  A_reach_new: "0 < n \<Longrightarrow> A_reach n [] (A_new n)"
| A_reach_call: "A_reach n cs a \<Longrightarrow> A_step c a = Inr a' \<Longrightarrow> A_reach n (c # cs) a'"

code_pred A_reach .

inductive_cases A_reach_NilE: "A_reach n [] a"
inductive_cases A_reach_ConsE: "A_reach n (c # cs) a"

definition A_joint_ok :: "nat \<Rightarrow> AJoint \<Rightarrow> bool" where
  "A_joint_ok k j = (case j of (t, p, c, m) \<Rightarrow> 0 < c \<and> c < k \<and> p < k \<and> (t = eFixed \<longrightarrow> \<not> m))"

definition A_inv :: "nat \<Rightarrow> ATree \<Rightarrow> bool" where
  "A_inv n a \<longleftrightarrow>
     a_total a = n \<and> 0 < a_links a \<and> a_links a \<le> n \<and> distinct (map a_child (a_joints a))
     \<and> list_all (A_joint_ok (a_links a)) (a_joints a)"

section \<open>The abstraction function\<close>

definition abs_joint :: "FeatherstoneJoint \<Rightarrow> AJoint" where
  "abs_joint j = (jtype j, unat (parent j), unat (child j), motor j \<noteq> None)"

definition abs_tree :: "FeatherstoneEntity \<Rightarrow> ATree" where
  "abs_tree e =
     \<lparr>a_phase = mb_phase (multiBody e), a_total = unat (numLinks (multiBody e)) + 1,
      a_links = length (links e), a_joints = map abs_joint (joints e)\<rparr>"

definition absE :: "FeatherstoneEntity result \<Rightarrow> ATree result" where
  "absE r = (case r of Inl err \<Rightarrow> Inl err | Inr e \<Rightarrow> Inr (abs_tree e))"

lemmas [sf_defs] = A_AddLink_def A_AddJoint_def A_joint_def A_AddJointMotor_def
  A_AddJointLimit_def A_setpoint_def A_touch_joint_def A_setJointDamping_def
  A_touch_link_def A_attach_def A_solve_def A_run_def abs_joint_def abs_tree_def absE_def
  A_new_def a_child_def a_topo_def A_joint_ok_def A_inv_def

section \<open>Images of the detailed operations\<close>

lemma absE_simps [simp]: "absE (Inl err) = Inl err" "absE (Inr e) = Inr (abs_tree e)"
  by (simp_all add: absE_def)

lemma abs_tree_sel [simp]:
  "a_phase (abs_tree e) = mb_phase (multiBody e)"
  "a_total (abs_tree e) = unat (numLinks (multiBody e)) + 1"
  "a_links (abs_tree e) = length (links e)"
  "a_joints (abs_tree e) = map abs_joint (joints e)"
  by (simp_all add: abs_tree_def)

lemma abs_tree_cong:
  assumes "mb_phase (multiBody e') = mb_phase (multiBody e)"
    and "numLinks (multiBody e') = numLinks (multiBody e)"
    and "length (links e') = length (links e)"
    and "map abs_joint (joints e') = map abs_joint (joints e)"
  shows "abs_tree e' = abs_tree e"
  using assms by (simp add: abs_tree_def)

lemma abs_tree_frame [simp]:
  "abs_tree (set_slot e j sl) = abs_tree e" "abs_tree (set_bodies e bs) = abs_tree e"
  "abs_tree (update_joint_slots f e) = abs_tree e"
  "abs_tree (setBaseRenderable r e) = abs_tree e" "abs_tree (setSelfCollision c e) = abs_tree e"
  "abs_tree (ApplyGravity g e) = abs_tree e" "abs_tree (ApplyDamping e) = abs_tree e"
  "abs_tree (setBaseTransform t e) = abs_tree e"
  by (rule abs_tree_cong;
      simp add: setBaseRenderable_def setSelfCollision_def ApplyGravity_def ApplyDamping_def
        setBaseTransform_def)+

lemma abs_joint_update:
  assumes "unat i < length (joints e)" and "abs_joint j = abs_joint (joints e ! unat i)"
  shows "abs_tree (e\<lparr>joints := (joints e)[unat i := j]\<rparr>) = abs_tree e"
  using assms by (intro abs_tree_cong) (simp_all add: map_update list_update_same_conv)

lemma A_joint_in: "i < length (a_joints a) \<Longrightarrow> A_joint i f a = f (a_joints a ! i)"
  by (simp add: A_joint_def)

lemma A_joint_out: "length (a_joints a) \<le> i \<Longrightarrow> A_joint i f a = Inl IndexOutOfRange"
  by (simp add: A_joint_def)

lemma abs_AddLink: "absE (AddLink s t e) = A_AddLink (abs_tree e)"
  by (simp add: AddLink_def A_AddLink_def unattached_def abs_tree_def)

lemma child_used_abs:
  "child_used e c \<longleftrightarrow> unat c \<in> set (map a_child (map abs_joint (joints e)))"
  by (auto simp: child_used_def abs_joint_def a_child_def word_unat_eq_iff image_iff)

lemma abs_AddJoint:
  "absE (dropE (AddJoint t p c pivot axis col e)) = A_AddJoint t (unat p) (unat c) (abs_tree e)"
  by (simp add: AddJoint_def A_AddJoint_def unattached_def child_used_abs unat_eq_0)
    (simp add: abs_tree_def abs_joint_def)

lemma abs_AddJointMotor: "absE (AddJointMotor i e) = A_AddJointMotor (unat i) (abs_tree e)"
proof (cases "unat i < length (joints e)")
  case True
  then show ?thesis
    by (simp add: AddJointMotor_def A_AddJointMotor_def A_joint_in abs_joint_def)
      (simp add: abs_tree_def map_update abs_joint_def)
qed (simp add: AddJointMotor_def A_AddJointMotor_def A_joint_out at_opt_def)

lemma abs_AddJointLimit:
  "absE (AddJointLimit i lo hi e) = A_AddJointLimit (unat i) lo hi (abs_tree e)"
proof (cases "unat i < length (joints e)")
  case True
  then show ?thesis
    by (simp add: AddJointLimit_def A_AddJointLimit_def A_joint_in abs_joint_def
        abs_joint_update)
qed (simp add: AddJointLimit_def A_AddJointLimit_def A_joint_out at_opt_def)

lemma abs_set_motor: "absE (set_motor m i e) = A_setpoint (unat i) (abs_tree e)"
proof (cases "unat i < length (joints e)")
  case True
  then show ?thesis
    by (auto simp: set_motor_def A_setpoint_def A_joint_in abs_joint_def abs_joint_update)
qed (simp add: set_motor_def A_setpoint_def A_joint_out at_opt_def)

lemma abs_setJointDamping:
  "absE (setJointDamping i c v e) = A_setJointDamping (unat i) c v (abs_tree e)"
proof (cases "unat i < length (joints e)")
  case True
  then show ?thesis
    by (simp add: setJointDamping_def A_setJointDamping_def A_joint_in abs_joint_def
        abs_joint_update)
qed (simp add: setJointDamping_def A_setJointDamping_def A_joint_out at_opt_def)

lemma with_joint_ex:
  assumes "FE_inv e" and "unat i < length (joints e)"
  shows "\<exists>sl. with_joint e i f = f (joints e ! unat i) sl"
  by (rule with_joint_in [OF assms]) blast

lemma abs_with_joint:
  assumes "FE_inv e"
  shows "absE (with_joint e i (\<lambda>j sl. Inr (set_slot e j (g sl)))) = A_touch_joint (unat i) (abs_tree e)"
proof (cases "unat i < length (joints e)")
  case True
  from with_joint_ex [OF assms True] obtain sl
    where "with_joint e i (\<lambda>j sl. Inr (set_slot e j (g sl))) = Inr (set_slot e (joints e ! unat i) (g sl))"
    by blast
  with True show ?thesis by (simp add: A_touch_joint_def A_joint_in)
qed (simp add: with_joint_out A_touch_joint_def A_joint_out)

lemma abs_with_body:
  assumes "FE_inv e"
  shows "absE (with_body e i (\<lambda>b. set_bodies e (g b))) = A_touch_link (unat i) (abs_tree e)"
  using FE_invD(2,5) [OF assms] by (simp add: with_body_def A_touch_link_def)

lemma abs_AddToDynamicsWorld: "absE (AddToDynamicsWorld w e) = A_attach (abs_tree e)"
  by (simp add: AddToDynamicsWorld_def A_attach_def unattached_def abs_tree_def)

lemma abs_joint_store_feedback [simp]: "abs_joint (store_feedback sol j) = abs_joint j"
  by (simp add: abs_joint_def)

lemma abs_Step: "absE (Step solver dt e) = A_solve (abs_tree e)"
proof (cases "unattached e")
  case False
  then obtain e' where e': "Step solver dt e = Inr e'" by (simp add: Step_def Let_def)
  have "abs_tree e' = (abs_tree e)\<lparr>a_phase := Stepping\<rparr>"
    by (simp add: abs_tree_def Step_fields(1-4) [OF e'] comp_def)
  with False e' show ?thesis by (simp add: A_solve_def unattached_def)
qed (simp add: Step_def A_solve_def unattached_def)

section \<open>Refinement\<close>

lemma abs_FE_step:
  assumes "FE_inv e"
  shows "absE (FE_step c e) = A_step c (abs_tree e)"
  by (cases c)
    (simp_all add: abs_AddLink abs_AddJoint AddRevoluteJoint_def AddPrismaticJoint_def
      AddFixedJoint_def abs_AddJointMotor abs_AddJointLimit abs_set_motor
      MotorPositionSetpoint_def MotorVelocitySetpoint_def DriveJoint_def setJointIC_def
      abs_with_joint [OF assms] AddLinkForce_def AddLinkTorque_def abs_with_body [OF assms]
      abs_setJointDamping abs_AddToDynamicsWorld abs_Step)

lemma absE_bindE: "absE (bindE r f) = (case r of Inl err \<Rightarrow> Inl err | Inr e \<Rightarrow> absE (f e))"
  by (cases r) simp_all

lemma abs_FE_run:
  assumes "FE_inv e"
  shows "absE (FE_run cs e) = A_run cs (abs_tree e)"
  using assms
proof (induction cs arbitrary: e)
  case (Cons c cs)
  show ?case
  proof (cases "FE_step c e")
    case (Inl err)
    with abs_FE_step [OF Cons.prems, of c, symmetric] show ?thesis by (simp add: A_run_def)
  next
    case (Inr e')
    from FE_step_inv [OF Cons.prems Inr] have "absE (FE_run cs e') = A_run cs (abs_tree e')"
      by (rule Cons.IH)
    with Inr abs_FE_step [OF Cons.prems, of c, symmetric] show ?thesis by (simp add: A_run_def)
  qed
qed (simp add: A_run_def)

lemma abs_new:
  assumes "FeatherstoneEntity_new name n s f = Inr e"
  shows "abs_tree e = A_new (unat n)"
  using FE_new_inv(2-5) [OF assms] by (simp add: abs_tree_def A_new_def unattached_def)

section \<open>The invariant of the abstract machine\<close>

lemma A_joint_ok_Suc: "A_joint_ok k j \<Longrightarrow> A_joint_ok (Suc k) j"
  by (auto simp: A_joint_ok_def split: prod.splits)

lemma A_new_inv: "0 < n \<Longrightarrow> A_inv n (A_new n)"
  by (simp add: A_inv_def A_new_def)

lemma A_joint_Inr:
  assumes "A_joint i f a = Inr a'"
  shows "i < length (a_joints a)" and "f (a_joints a ! i) = Inr a'"
  using assms by (simp_all add: A_joint_def split: if_splits)

lemma A_AddLink_inv: "A_inv n a \<Longrightarrow> A_AddLink a = Inr a' \<Longrightarrow> A_inv n a'"
  by (auto simp: A_inv_def A_AddLink_def list_all_iff split: if_splits intro!: A_joint_ok_Suc)

lemma A_AddJoint_inv: "A_inv n a \<Longrightarrow> A_AddJoint t p c a = Inr a' \<Longrightarrow> A_inv n a'"
  by (auto simp: A_inv_def A_AddJoint_def A_joint_ok_def a_child_def split: if_splits)

lemma A_AddJointMotor_inv:
  assumes "A_inv n a" and "A_AddJointMotor i a = Inr a'"
  shows "A_inv n a'"
proof -
  obtain t p c m where j: "a_joints a ! i = (t, p, c, m)" by (cases "a_joints a ! i") auto
  from A_joint_Inr [OF assms(2) [unfolded A_AddJointMotor_def]] j
  have i: "i < length (a_joints a)" and t: "t \<noteq> eFixed"
    and a': "a' = a\<lparr>a_joints := (a_joints a)[i := (t, p, c, True)]\<rparr>"
    by (auto split: if_splits)
  have "map a_child ((a_joints a)[i := (t, p, c, True)]) = map a_child (a_joints a)"
    using i j by (simp add: map_update a_child_def list_update_same_conv)
  moreover have "A_joint_ok (a_links a) (t, p, c, True)"
    using assms(1) i j t nth_mem [OF i] by (auto simp: A_inv_def list_all_iff A_joint_ok_def)
  ultimately show ?thesis
    using assms(1) unfolding a' A_inv_def
    by (auto simp: list_all_iff dest: set_update_subset_insert [THEN subsetD])
qed

lemma A_same_inv:
  "A_AddJointLimit i lo hi a = Inr a' \<Longrightarrow> a' = a" "A_setpoint i a = Inr a' \<Longrightarrow> a' = a"
  "A_touch_joint i a = Inr a' \<Longrightarrow> a' = a" "A_setJointDamping i c v a = Inr a' \<Longrightarrow> a' = a"
  "A_touch_link k a = Inr a' \<Longrightarrow> a' = a"
  by (auto simp: A_AddJointLimit_def A_setpoint_def A_touch_joint_def A_setJointDamping_def
      A_touch_link_def A_joint_def split: if_splits prod.splits)

lemma A_phase_inv:
  "A_inv n a \<Longrightarrow> A_attach a = Inr a' \<Longrightarrow> A_inv n a'"
  "A_inv n a \<Longrightarrow> A_solve a = Inr a' \<Longrightarrow> A_inv n a'"
  by (auto simp: A_inv_def A_attach_def A_solve_def split: if_splits)

lemma A_step_inv:
  assumes "A_inv n a" and "A_step c a = Inr a'"
  shows "A_inv n a'"
  using assms
  by (cases c)
    (auto dest: A_AddLink_inv A_AddJoint_inv A_AddJointMotor_inv A_same_inv A_phase_inv)

lemma A_reach_inv: "A_reach n cs a \<Longrightarrow> A_inv n a"
  by (induction rule: A_reach.induct) (auto intro: A_new_inv A_step_inv)

lemma A_reach_run:
  assumes "A_reach n cs a" and "A_run ds a = Inr a'"
  shows "A_reach n (rev ds @ cs) a'"
  using assms
proof (induction ds arbitrary: cs a)
  case (Cons d ds)
  from Cons.prems(2) obtain b where b: "A_step d a = Inr b" and "A_run ds b = Inr a'"
    by (auto simp: A_run_def bindE_Inr_iff)
  from Cons.IH [OF A_reach_call [OF Cons.prems(1) b] this(2)] show ?case by simp
qed (simp add: A_run_def)

lemma A_reach_Nil_iff [simp]: "A_reach n [] a \<longleftrightarrow> 0 < n \<and> a = A_new n"
  by (auto elim: A_reach_NilE intro: A_reach_new)

lemma A_reach_Cons_iff [simp]:
  "A_reach n (c # cs) a' \<longleftrightarrow> (\<exists>a. A_reach n cs a \<and> A_step c a = Inr a')"
  by (auto elim: A_reach_ConsE intro: A_reach_call)

lemma A_reach_iff: "A_reach n cs a \<longleftrightarrow> 0 < n \<and> A_run (rev cs) (A_new n) = Inr a"
proof (induction cs arbitrary: a)
  case (Cons c cs)
  show ?case
    by (auto simp: Cons.IH A_run_def runE_append bindE_Inr_iff)
qed (auto simp: A_run_def)

lemma A_inv_count:
  assumes "A_inv n a"
  shows "length (a_joints a) < a_links a"
proof -
  from assms have d: "distinct (map a_child (a_joints a))"
    and r: "set (map a_child (a_joints a)) \<subseteq> {1..<a_links a}" and l: "0 < a_links a"
    by (auto simp: A_inv_def list_all_iff A_joint_ok_def a_child_def)
  from card_mono [OF _ r] distinct_card [OF d] have "length (a_joints a) \<le> a_links a - 1" by simp
  with l show ?thesis by simp
qed

section \<open>The tree implements the abstract machine\<close>

lemma example_arm_calls:
  obtains e0 where "FeatherstoneEntity_new ''arm'' 2 example_solid True = Inr e0"
    and "FE_run [Call_AddLink example_solid identity_transform,
                 Call_AddRevoluteJoint 0 1 (Vector3 1 0 0) (Vector3 0 0 1) False] e0
         = Inr example_arm"
  using example_arm_built by (auto simp: bindE_Inr_iff)

text \<open>
  C4. Functional refinement: for a tree made by the constructor with \<open>n\<close> declared links,
  every sequence of calls of the interface has the same outcome on the detailed model
  and on the abstract machine started in its initial state: both refuse the sequence
  with the same error, or both accept it and the abstract result is the image of the
  detailed one.
\<close>

theorem FE_refines_abstract_tree:
  assumes "FeatherstoneEntity_new name n s f = Inr e0"
  shows "absE (FE_run cs e0) = A_run cs (A_new (unat n))"
  using abs_FE_run [OF FE_new_inv(1) [OF assms], of cs] by (simp add: abs_new [OF assms])

theorem FE_refines_abstract_tree_witness:
  "A_run [Call_AddLink example_solid identity_transform,
          Call_AddRevoluteJoint 0 1 (Vector3 1 0 0) (Vector3 0 0 1) False] (A_new (unat (2 :: uint)))
   = Inr (abs_tree example_arm)"
proof -
  obtain e0 where new: "FeatherstoneEntity_new ''arm'' 2 example_solid True = Inr e0"
    and run: "FE_run [Call_AddLink example_solid identity_transform,
                 Call_AddRevoluteJoint 0 1 (Vector3 1 0 0) (Vector3 0 0 1) False] e0
         = Inr example_arm"
    by (rule example_arm_calls)
  from FE_refines_abstract_tree [OF new, of "[Call_AddLink example_solid identity_transform,
          Call_AddRevoluteJoint 0 1 (Vector3 1 0 0) (Vector3 0 0 1) False]"]
  show ?thesis unfolding run by simp
qed



text \<open>
  Which calls the interface accepts does not depend on the back end: two states
  that satisfy the invariant and have the same abstract image (the same phase, links
  and joints, whatever their coordinates, forces, limits and damping) react to every
  sequence of calls with the same error or with states of the same image.
\<close>

theorem acceptance_independent_of_dynamics:
  assumes "FE_inv e1" and "FE_inv e2" and "abs_tree e1 = abs_tree e2"
  shows "absE (FE_run cs e1) = absE (FE_run cs e2)"
  by (simp add: abs_FE_run [OF assms(1)] abs_FE_run [OF assms(2)] assms(3))

theorem acceptance_independent_of_dynamics_witness:
  "absE (FE_run [Call_AddJointMotor 0, Call_MotorPositionSetpoint 0 1 2, Call_DriveJoint 1 3]
           (ApplyGravity (Vector3 0 0 (- 10)) example_arm))
   = absE (FE_run [Call_AddJointMotor 0, Call_MotorPositionSetpoint 0 1 2, Call_DriveJoint 1 3]
           example_arm)"
  by (rule acceptance_independent_of_dynamics
      [OF ApplyGravity_inv [OF example_arm_inv(1)] example_arm_inv(1)]) simp

section \<open>Joints keep their index, type and links\<close>

lemma A_step_prefix:
  assumes "A_step c a = Inr a'"
  shows "prefix (map a_topo (a_joints a)) (map a_topo (a_joints a'))"
proof (cases c)
  case (Call_AddJointMotor i)
  with assms obtain t p c m where "unat i < length (a_joints a)"
    and "a_joints a ! unat i = (t, p, c, m)"
    and "a' = a\<lparr>a_joints := (a_joints a)[unat i := (t, p, c, True)]\<rparr>"
    by (auto simp: A_AddJointMotor_def A_joint_def split: if_splits prod.splits)
  then have "map a_topo (a_joints a') = map a_topo (a_joints a)"
    by (simp add: map_update a_topo_def list_update_same_conv)
  then show ?thesis by simp
qed (use assms in \<open>auto simp: A_AddLink_def A_AddJoint_def A_attach_def A_solve_def
      split: if_splits dest: A_same_inv\<close>)

lemma A_run_prefix:
  assumes "A_run cs a = Inr a'"
  shows "prefix (map a_topo (a_joints a)) (map a_topo (a_joints a'))"
  using assms
proof (induction cs arbitrary: a)
  case (Cons c cs)
  from Cons.prems obtain b where b: "A_step c a = Inr b" and "A_run cs b = Inr a'"
    by (auto simp: A_run_def bindE_Inr_iff)
  from A_step_prefix [OF b] Cons.IH [OF this(2)] show ?case by (rule prefix_order.trans)
qed (simp add: A_run_def)

lemma FE_run_joint:
  assumes "FE_inv e" and "FE_run cs e = Inr e'" and "i < length (joints e)"
  shows "i < length (joints e')" and "jtype (joints e' ! i) = jtype (joints e ! i)"
    and "parent (joints e' ! i) = parent (joints e ! i)"
    and "child (joints e' ! i) = child (joints e ! i)"
proof -
  from abs_FE_run [OF assms(1), of cs] assms(2)
  have "A_run cs (abs_tree e) = Inr (abs_tree e')" by simp
  from A_run_prefix [OF this] obtain zs
    where zs: "map (a_topo \<circ> abs_joint) (joints e') = map (a_topo \<circ> abs_joint) (joints e) @ zs"
    by (auto simp: prefix_def)
  from arg_cong [OF zs, of length] assms(3) show i: "i < length (joints e')" by simp
  from arg_cong [OF zs, of "\<lambda>xs. xs ! i"] assms(3) i
  have "a_topo (abs_joint (joints e' ! i)) = a_topo (abs_joint (joints e ! i))"
    by (simp add: nth_append)
  then show "jtype (joints e' ! i) = jtype (joints e ! i)"
    and "parent (joints e' ! i) = parent (joints e ! i)"
    and "child (joints e' ! i) = child (joints e ! i)"
    by (simp_all add: a_topo_def abs_joint_def word_unat_eq_iff)
qed

text \<open>
  C30. Type of a joint coordinate. The type returned with the position and with the
  velocity of a joint says whether the value is an angle or a distance. For a joint
  that exists in a state satisfying the invariant, after any accepted sequence of
  calls both queries succeed at the same index and return the type the joint has in
  that state, which is also the type of its link in the back end.
\<close>

theorem joint_type_tags_stable:
  assumes "FE_inv e" and "FE_run cs e = Inr e'" and "unat i < length (joints e)"
  shows "\<exists>q qd sl. getJointPosition e' i = Inr (q, jtype (joints e ! unat i))
    \<and> getJointVelocity e' i = Inr (qd, jtype (joints e ! unat i))
    \<and> joint_slot e' (joints e' ! unat i) = Some sl
    \<and> mbl_jointType sl = jtype (joints e ! unat i)"
proof -
  note j = FE_run_joint [OF assms]
  from FE_run_inv [OF assms(1,2)] have inv: "FE_inv e'" .
  from joint_slot_Some [OF inv nth_mem [OF j(1)]] obtain sl
    where "joint_slot e' (joints e' ! unat i) = Some sl"
      and "mbl_jointType sl = jtype (joints e' ! unat i)" by blast
  with j(1,2) show ?thesis
    by (simp add: getJointPosition_def getJointVelocity_def with_joint_def)
qed

theorem joint_type_tags_stable_witness:
  "\<exists>e' q qd sl. FE_run [Call_AddToDynamicsWorld None, Call_setJointIC 0 1 2,
                        Call_Step example_solver 1] example_arm = Inr e'
    \<and> getJointPosition e' 0 = Inr (q, eRevolute) \<and> getJointVelocity e' 0 = Inr (qd, eRevolute)
    \<and> joint_slot e' (joints e' ! 0) = Some sl \<and> mbl_jointType sl = eRevolute"
proof -
  have "\<exists>e'. FE_run [Call_AddToDynamicsWorld None, Call_setJointIC 0 1 2,
                        Call_Step example_solver 1] example_arm = Inr e'"
    by (simp add: bindE_Inr_iff AddToDynamicsWorld_def setJointIC_def with_joint_def
        joint_slot_def slot_of_def at_opt_def Step_def unattached_def set_slot_def
        example_arm_def Let_def)
  then obtain e' where run: "FE_run [Call_AddToDynamicsWorld None,
      Call_setJointIC 0 1 2, Call_Step example_solver 1] example_arm = Inr e'" ..
  have "unat (0 :: uint) < length (joints example_arm)" by (simp add: example_arm_def)
  from joint_type_tags_stable [OF example_arm_inv(1) run this] run show ?thesis
    by (simp add: example_arm_def)
qed

end
