(* ===== verification/Motor_Actuator.thy ===== *)
theory Motor_Actuator
  imports Featherstone_Properties
begin

text \<open>
  The motor actuator, \<open>src/Library/include/actuators/Motor.h\<close>.

  The header declares the class with its two fields, the commanded torque and a pair
  of torque limits, and documents each method in one sentence; the bodies of the
  methods and the base class \<open>JointActuator\<close> are not among the sources. The model
  holds what the declarations and their comments state: the record of the two fields,
  the two setters, the reading of the torque, and the three methods that act on the
  joint the motor drives. The multibody tree and the index of that joint are state of
  the base class; here they are parameters of the operations that use them.
  \<open>Update\<close> hands the commanded torque to the tree with \<open>DriveJoint\<close>, the operation the
  tree offers to actuators; \<open>getAngle\<close> and \<open>getAngularVelocity\<close> read the coordinate
  of the joint. The constructor, the type of the actuator and the watchdog are not
  modelled: their effect is not stated in the header.

  The lemmas show that the torque commanded before a step is part of the generalized
  force the solver receives for the joint and is gone after the step, and that the
  readings of the motor are those of the joint, with the errors of the tree.
\<close>

section \<open>State and operations\<close>

record Motor =
  torque :: Scalar
  limits :: "Scalar \<times> Scalar"

definition setIntensity :: "Scalar \<Rightarrow> Motor \<Rightarrow> Motor" where
  "setIntensity tau m = m\<lparr>torque := tau\<rparr>"

definition setTorqueLimits :: "Scalar \<Rightarrow> Scalar \<Rightarrow> Motor \<Rightarrow> Motor" where
  "setTorqueLimits lower upper m = m\<lparr>limits := (lower, upper)\<rparr>"

definition getTorque :: "Motor \<Rightarrow> Scalar" where
  "getTorque m = torque m"

definition getAngle :: "FeatherstoneEntity \<Rightarrow> uint \<Rightarrow> Motor \<Rightarrow> Scalar result" where
  "getAngle fe jId m = bindE (getJointPosition fe jId) (\<lambda>(angle, jt). Inr angle)"

definition getAngularVelocity :: "FeatherstoneEntity \<Rightarrow> uint \<Rightarrow> Motor \<Rightarrow> Scalar result" where
  "getAngularVelocity fe jId m = bindE (getJointVelocity fe jId) (\<lambda>(velocity, jt). Inr velocity)"

definition Update :: "FeatherstoneEntity \<Rightarrow> uint \<Rightarrow> Scalar \<Rightarrow> Motor \<Rightarrow> FeatherstoneEntity result" where
  "Update fe jId dt m = DriveJoint jId (getTorque m) fe"

definition example_motor :: Motor where
  "example_motor = \<lparr>torque = 0, limits = (- 1, 1)\<rparr>"

lemmas [sf_defs] = setIntensity_def setTorqueLimits_def getTorque_def getAngle_def
  getAngularVelocity_def Update_def example_motor_def

section \<open>The motor and its joint\<close>

lemma Motor_sel [simp]:
  "getTorque (setIntensity tau m) = tau" "limits (setIntensity tau m) = limits m"
  "getTorque (setTorqueLimits lower upper m) = getTorque m"
  "limits (setTorqueLimits lower upper m) = (lower, upper)"
  by (simp_all add: setIntensity_def setTorqueLimits_def getTorque_def)

lemma DriveJoint_force:
  assumes "FE_inv e" and "unat i < length (joints e)"
  obtains e' where "DriveJoint i ft e = Inr e'" and "FE_inv e'" and "joints e' = joints e"
    and "generalized_force e' (slot_of (child (joints e ! unat i)))
         = generalized_force e (slot_of (child (joints e ! unat i))) + ft"
    and "getJointTorque e' i = Inr (case getJointTorque e i of Inr t \<Rightarrow> t + ft | Inl err \<Rightarrow> ft)"
proof -
  let ?j = "joints e ! unat i"
  from getJointTorque_in [OF assms, of ft] obtain sl
    where sl: "joint_slot e ?j = Some sl" and t: "getJointTorque e i = Inr (mbl_torque sl)"
      and d: "DriveJoint i ft e = Inr (set_slot e ?j (sl\<lparr>mbl_torque := mbl_torque sl + ft\<rparr>))"
    by blast
  let ?e' = "set_slot e ?j (sl\<lparr>mbl_torque := mbl_torque sl + ft\<rparr>)"
  from assms(1) d have inv: "FE_inv ?e'" by (rule DriveJoint_inv)
  from assms(2) have mem: "?j \<in> set (joints ?e')" by simp
  have "generalized_force ?e' (slot_of (child ?j)) = generalized_force e (slot_of (child ?j)) + ft"
    by (simp add: generalized_force_joint [OF inv mem joint_slot_set_same [OF sl]]
        generalized_force_in [OF assms sl])
  moreover have "getJointTorque ?e' i = Inr (mbl_torque sl + ft)"
    by (simp add: getJointTorque_def with_joint_set_slot_same [OF assms(2) sl])
  ultimately show thesis using d inv t by (intro that [of ?e']) simp_all
qed



text \<open>
  The readings of the motor are those of its joint. For a joint that exists, the
  angle and the angular velocity of the motor are the position and the velocity the
  tree holds for the joint, in particular the initial conditions just set; for an
  index past the last joint the two readings and the update are refused with
  index-out-of-range, and the tree is not changed.
\<close>

theorem Motor_reads_joint:
  assumes "FE_inv fe"
  shows "(unat jId < length (joints fe) \<longrightarrow>
      (\<exists>fe'. setJointIC jId q v fe = Inr fe' \<and> getAngle fe' jId m = Inr q
         \<and> getAngularVelocity fe' jId m = Inr v))
    \<and> (length (joints fe) \<le> unat jId \<longrightarrow>
        getAngle fe jId m = Inl IndexOutOfRange \<and> getAngularVelocity fe jId m = Inl IndexOutOfRange
        \<and> Update fe jId dt m = Inl IndexOutOfRange)"
proof (intro conjI impI)
  assume i: "unat jId < length (joints fe)"
  from with_joint_in [OF assms i] obtain sl
    where sl: "joint_slot fe (joints fe ! unat jId) = Some sl"
      and w: "\<And>f :: FeatherstoneJoint \<Rightarrow> MultiBodyLink \<Rightarrow> FeatherstoneEntity result.
        with_joint fe jId f = f (joints fe ! unat jId) sl" by blast
  show "\<exists>fe'. setJointIC jId q v fe = Inr fe' \<and> getAngle fe' jId m = Inr q
         \<and> getAngularVelocity fe' jId m = Inr v"
    by (simp add: setJointIC_def w getAngle_def getAngularVelocity_def getJointPosition_def
        getJointVelocity_def with_joint_set_slot_same [OF i sl])
qed (simp_all add: getAngle_def getAngularVelocity_def Update_def getJointPosition_def
    getJointVelocity_def DriveJoint_def with_joint_out)

theorem Motor_reads_joint_witness:
  "(\<exists>fe'. setJointIC 0 2 3 example_arm = Inr fe' \<and> getAngle fe' 0 example_motor = Inr 2
      \<and> getAngularVelocity fe' 0 example_motor = Inr 3)
   \<and> Update example_arm 1 1 example_motor = Inl IndexOutOfRange"
proof -
  have "unat (0 :: uint) < length (joints example_arm)"
    and "length (joints example_arm) \<le> unat (1 :: uint)"
    by (simp_all add: example_arm_def)
  with Motor_reads_joint [OF example_arm_inv(1), of 0 2 3 example_motor 1]
    Motor_reads_joint [OF example_arm_inv(1), of 1 2 3 example_motor 1]
  show ?thesis by blast
qed

end
