(* ===== verification/Tree_Render.thy ===== *)
theory Tree_Render
  imports Featherstone_Properties LiDAR360_Properties
begin

text \<open>
  What the multibody tree hands to the rendering pipeline, \<open>FeatherstoneEntity::Render\<close>
  (declared in \<open>FeatherstoneEntity.h\<close>, line 104).

  The design document says in section 6 that the tree exposes to the rendering
  collaborator a sequence of drawable primitives derived from the current world
  transform of each link, and that the primitives are opaque beyond the transform.
  The header adds the flag \<open>baseRenderable\<close> with its setter \<open>setBaseRenderable\<close>.
  \<open>FE_Render\<close> is the list of one renderable per link, in the order of the links, with
  the pose the back end holds for the link as its model transform and no points; the
  base is left out unless \<open>baseRenderable\<close> is set. The geometry of the solids is not
  among the sources.

  The lemmas show that the item of a link carries what \<open>getLinkTransform\<close> returns for
  it, that the flag decides about the item of the base only, that applying forces
  changes nothing that is drawn before the next step, that a fixed base is drawn
  where it was after a step, and that the lines of a LiDAR mounted on a link are drawn
  in the frame of the item of that link.
\<close>

section \<open>Rendering the tree\<close>

definition first_drawn :: "FeatherstoneEntity \<Rightarrow> nat" where
  "first_drawn e = (if baseRenderable e then 0 else 1)"

definition FE_Render :: "FeatherstoneEntity \<Rightarrow> Renderable list" where
  "FE_Render e =
     map (\<lambda>i. \<lparr>rtype = RENDERABLE_OTHER, model = body_pose (mb_bodies (multiBody e) ! i),
                points = []\<rparr>)
       [first_drawn e..<length (links e)]"

lemmas [sf_defs] = FE_Render_def first_drawn_def

section \<open>Items and links\<close>

lemma length_FE_Render [simp]: "length (FE_Render e) = length (links e) - first_drawn e"
  by (simp add: FE_Render_def)

lemma FE_Render_nth:
  assumes "first_drawn e \<le> k" and "k < length (links e)"
  shows "FE_Render e ! (k - first_drawn e)
         = \<lparr>rtype = RENDERABLE_OTHER, model = body_pose (mb_bodies (multiBody e) ! k), points = []\<rparr>"
  using assms by (simp add: FE_Render_def)

lemma FE_Render_link:
  assumes "FE_inv e" and "unat i < length (links e)" and "first_drawn e \<le> unat i"
  shows "getLinkTransform e i = Inr (model (FE_Render e ! (unat i - first_drawn e)))"
    and "unat i - first_drawn e < length (FE_Render e)"
proof -
  from assms(2) FE_invD(2,5) [OF assms(1)]
  have "getLinkTransform e i = Inr (body_pose (mb_bodies (multiBody e) ! unat i))"
    by (simp add: getLinkTransform_def with_body_def)
  then show "getLinkTransform e i = Inr (model (FE_Render e ! (unat i - first_drawn e)))"
    by (simp add: FE_Render_nth [OF assms(3,2)])
  from assms(2,3) show "unat i - first_drawn e < length (FE_Render e)" by simp
qed

lemma FE_Render_cong:
  assumes "links e' = links e" and "baseRenderable e' = baseRenderable e"
    and "\<And>k. k < length (links e) \<Longrightarrow>
           body_pose (mb_bodies (multiBody e') ! k) = body_pose (mb_bodies (multiBody e) ! k)"
  shows "FE_Render e' = FE_Render e"
  using assms by (simp add: FE_Render_def first_drawn_def)

lemma FE_Render_base:
  assumes "FE_inv e"
  shows "FE_Render (setBaseRenderable True e)
         = \<lparr>rtype = RENDERABLE_OTHER, model = body_pose (mb_bodies (multiBody e) ! 0), points = []\<rparr>
           # FE_Render (setBaseRenderable False e)"
proof -
  from FE_invD(1) [OF assms] have "0 < length (links e)" by (cases "links e") simp_all
  then show ?thesis
    by (simp add: FE_Render_def first_drawn_def setBaseRenderable_def upt_conv_Cons)
qed

section \<open>Forces move nothing before the step\<close>

lemma FE_Render_forces:
  assumes "FE_inv e"
  shows "FE_Render (ApplyGravity g e) = FE_Render e"
    and "FE_Render (ApplyDamping e) = FE_Render e"
    and "DriveJoint i ft e = Inr e' \<Longrightarrow> FE_Render e' = FE_Render e"
    and "AddLinkForce i F e = Inr e' \<Longrightarrow> FE_Render e' = FE_Render e"
    and "AddLinkTorque i tau e = Inr e' \<Longrightarrow> FE_Render e' = FE_Render e"
proof -
  note inv = FE_invD(2,5) [OF assms]
  from inv show "FE_Render (ApplyGravity g e) = FE_Render e"
    by (intro FE_Render_cong) (simp_all add: ApplyGravity_def)
  show "FE_Render (ApplyDamping e) = FE_Render e"
    by (intro FE_Render_cong) (simp_all add: ApplyDamping_def)
  show "FE_Render e' = FE_Render e" if "DriveJoint i ft e = Inr e'"
    using that by (intro FE_Render_cong) (auto simp: DriveJoint_def with_joint_def split: if_splits option.splits)
  show "FE_Render e' = FE_Render e" if "AddLinkForce i F e = Inr e'"
    using that inv by (intro FE_Render_cong) (auto simp: AddLinkForce_def with_body_Inr_iff nth_list_update)
  show "FE_Render e' = FE_Render e" if "AddLinkTorque i tau e = Inr e'"
    using that inv by (intro FE_Render_cong) (auto simp: AddLinkTorque_def with_body_Inr_iff nth_list_update)
qed

section \<open>After a step, and with a sensor\<close>

lemma FE_Render_fixed_base:
  assumes "FE_inv e" and "Step solver dt e = Inr e'" and "hasFixedBase (multiBody e)"
    and "baseRenderable e"
  shows "FE_Render e' ! 0 = FE_Render e ! 0" and "length (FE_Render e') = length (FE_Render e)"
proof -
  note f = Step_fields [OF assms(2)]
  from FE_invD(1) [OF assms(1)] have l: "0 < length (links e)" by (cases "links e") simp_all
  from f(8) assms(4) have d: "first_drawn e' = 0" "first_drawn e = 0"
    by (simp_all add: first_drawn_def)
  from fixed_base_stays [OF assms(1-3)] l FE_invD(2,5) [OF assms(1)] f(2,4,7)
  have "body_pose (mb_bodies (multiBody e') ! 0) = body_pose (mb_bodies (multiBody e) ! 0)"
    by (simp add: getLinkTransform_def with_body_def)
  with l f(2) show "FE_Render e' ! 0 = FE_Render e ! 0"
    using FE_Render_nth [of e 0] FE_Render_nth [of e' 0] by (simp add: d)
  from f(2) d show "length (FE_Render e') = length (FE_Render e)" by simp
qed

text \<open>
  A LiDAR mounted on a link takes the pose of the link as its frame; the lines
  \<open>Render\<close> adds for it have the model transform of the item of the link.
\<close>

lemma sensor_lines_in_link_frame:
  assumes "FE_inv e" and "unat link < length (links e)" and "first_drawn e \<le> unat link"
    and "LiDAR360_inv s" and "no_overflow s"
  shows "\<exists>frame pts. getLinkTransform e link = Inr frame
    \<and> Render items True frame s
        = Some (items @ [\<lparr>rtype = SENSOR_LINES, model = frame, points = pts\<rparr>])
    \<and> model (FE_Render e ! (unat link - first_drawn e)) = frame"
  by (simp add: FE_Render_link(1) [OF assms(1-3)] Render_eq [OF assms(4,5)])

end
