(* ===== verification/OpenGL_Pipeline.thy ===== *)
theory OpenGL_Pipeline
  imports SF_Prelude
begin

text \<open>
  The interfaces of the rendering pipeline, \<open>OpenGLPipeline.h\<close> and \<open>OpenGLSky.h\<close>.

  The two headers declare data and signatures; no body of a method is among the
  sources, and what the methods do is drawing with OpenGL. The model holds the data
  the headers define completely: the colours of the drawing macros, the switches of
  the pipeline, the enumeration of the cubemaps of the sky with the values the
  language gives its constants, and the handles and sizes the sky keeps. Of the
  operations it holds the ones whose effect is on this data alone and is fixed by
  their signature: the two setters of the switches, which take one argument per
  switch, and the getters named after the field they read. \<open>Initialize\<close>, \<open>Render\<close>,
  \<open>DrawStandardObjects\<close>, \<open>Init\<close>, \<open>Destroy\<close>, \<open>Generate\<close>, \<open>ShowCubemap\<close> and
  \<open>ProcessCube\<close> are not modelled.

  The lemmas show that the colours are valid opaque colours, with the three axes in
  pure red, green and blue; that the constants of the enumeration are numbered from
  zero without gaps, so that it is linearly ordered by its values; and that the two
  groups of switches are set and read independently of each other.
\<close>

section \<open>Colours of the drawing macros\<close>

type_synonym GLfloat = real
type_synonym GLuint = "32 word"
type_synonym GLsizei = "32 word"
type_synonym Color4 = "GLfloat \<times> GLfloat \<times> GLfloat \<times> GLfloat"

definition glDummyColor :: Color4 where
  "glDummyColor = (1, 4 / 10, 1 / 10, 1)"

definition glXAxisColor :: Color4 where
  "glXAxisColor = (1, 0, 0, 1)"

definition glYAxisColor :: Color4 where
  "glYAxisColor = (0, 1, 0, 1)"

definition glZAxisColor :: Color4 where
  "glZAxisColor = (0, 0, 1, 1)"

definition glContactColor :: Color4 where
  "glContactColor = (1, 0, 0, 1)"

definition valid_color :: "Color4 \<Rightarrow> bool" where
  "valid_color c = (case c of (r, g, b, a) \<Rightarrow>
     0 \<le> r \<and> r \<le> 1 \<and> 0 \<le> g \<and> g \<le> 1 \<and> 0 \<le> b \<and> b \<le> 1 \<and> 0 \<le> a \<and> a \<le> 1)"

section \<open>The switches of the pipeline\<close>

record OpenGLPipeline =
  renderSky :: bool
  renderShadows :: bool
  renderFluid :: bool
  renderSAO :: bool
  showCoordSys :: bool
  showJoints :: bool
  showActuators :: bool
  showSensors :: bool
  showStickers :: bool

definition SetRenderingEffects ::
  "bool \<Rightarrow> bool \<Rightarrow> bool \<Rightarrow> bool \<Rightarrow> OpenGLPipeline \<Rightarrow> OpenGLPipeline" where
  "SetRenderingEffects sky shadows fluid sao p =
     p\<lparr>renderSky := sky, renderShadows := shadows, renderFluid := fluid, renderSAO := sao\<rparr>"

definition SetVisibleElements ::
  "bool \<Rightarrow> bool \<Rightarrow> bool \<Rightarrow> bool \<Rightarrow> bool \<Rightarrow> OpenGLPipeline \<Rightarrow> OpenGLPipeline" where
  "SetVisibleElements coordSystems joints actuators sensors stickers p =
     p\<lparr>showCoordSys := coordSystems, showJoints := joints, showActuators := actuators,
       showSensors := sensors, showStickers := stickers\<rparr>"

definition isFluidRendered :: "OpenGLPipeline \<Rightarrow> bool" where
  "isFluidRendered p = renderFluid p"

definition isSAORendered :: "OpenGLPipeline \<Rightarrow> bool" where
  "isSAORendered p = renderSAO p"

section \<open>The sky\<close>

datatype SkyCubemap =
  SKY | DOWNSAMPLE2 | DOWNSAMPLE4 | DOWNSAMPLE8 | CONVOLUTION_DIFFUSE | CONVOLUTION_REFLECT

fun SkyCubemap_value :: "SkyCubemap \<Rightarrow> nat" where
  "SkyCubemap_value SKY = 0"
| "SkyCubemap_value DOWNSAMPLE2 = 1"
| "SkyCubemap_value DOWNSAMPLE4 = 2"
| "SkyCubemap_value DOWNSAMPLE8 = 3"
| "SkyCubemap_value CONVOLUTION_DIFFUSE = 4"
| "SkyCubemap_value CONVOLUTION_REFLECT = 5"

definition SkyCubemap_all :: "SkyCubemap list" where
  "SkyCubemap_all =
     [SKY, DOWNSAMPLE2, DOWNSAMPLE4, DOWNSAMPLE8, CONVOLUTION_DIFFUSE, CONVOLUTION_REFLECT]"

definition SkyCubemap_of :: "nat \<Rightarrow> SkyCubemap option" where
  "SkyCubemap_of k = (if k < length SkyCubemap_all then Some (SkyCubemap_all ! k) else None)"

record OpenGLSky =
  skyCubeFBO :: GLuint
  skyCubeSize :: GLsizei
  skyCubemap :: GLuint
  ds2FBO :: GLuint
  ds4FBO :: GLuint
  ds8FBO :: GLuint
  ds2Cubemap :: GLuint
  ds4Cubemap :: GLuint
  ds8Cubemap :: GLuint
  convolveFBO :: GLuint
  convolveDiffuseCubemap :: GLuint
  convolveReflectionCubemap :: GLuint
  debugAngle :: GLfloat

definition getSkyCubemap :: "OpenGLSky \<Rightarrow> GLuint" where
  "getSkyCubemap sky = skyCubemap sky"

definition getDiffuseCubemap :: "OpenGLSky \<Rightarrow> GLuint" where
  "getDiffuseCubemap sky = convolveDiffuseCubemap sky"

definition getReflectionCubemap :: "OpenGLSky \<Rightarrow> GLuint" where
  "getReflectionCubemap sky = convolveReflectionCubemap sky"

lemmas [sf_defs] = glDummyColor_def glXAxisColor_def glYAxisColor_def glZAxisColor_def
  glContactColor_def valid_color_def SetRenderingEffects_def SetVisibleElements_def
  isFluidRendered_def isSAORendered_def SkyCubemap_all_def SkyCubemap_of_def
  getSkyCubemap_def getDiffuseCubemap_def getReflectionCubemap_def

section \<open>The enumeration of the cubemaps\<close>

lemma SkyCubemap_value_inj [simp]: "SkyCubemap_value a = SkyCubemap_value b \<longleftrightarrow> a = b"
  by (cases a; cases b) simp_all

lemma SkyCubemap_value_less [simp]: "SkyCubemap_value c < 6"
  by (cases c) simp_all

lemma SkyCubemap_all_nth [simp]: "SkyCubemap_all ! SkyCubemap_value c = c"
  by (cases c) (simp_all add: SkyCubemap_all_def)

lemma SkyCubemap_all_value: "map SkyCubemap_value SkyCubemap_all = [0..<6]"
  by (simp add: SkyCubemap_all_def upt_rec)

lemma SkyCubemap_of_value [simp]: "SkyCubemap_of (SkyCubemap_value c) = Some c"
  by (cases c) (simp_all add: SkyCubemap_of_def SkyCubemap_all_def)

lemma SkyCubemap_of_Some_iff: "SkyCubemap_of k = Some c \<longleftrightarrow> k = SkyCubemap_value c"
proof
  assume "SkyCubemap_of k = Some c"
  then have k: "k < 6" and c: "c = SkyCubemap_all ! k"
    by (simp_all add: SkyCubemap_of_def SkyCubemap_all_def split: if_splits)
  from k have "k = 0 \<or> k = 1 \<or> k = 2 \<or> k = 3 \<or> k = 4 \<or> k = 5" by arith
  with c show "k = SkyCubemap_value c" by (auto simp: SkyCubemap_all_def)
qed simp

instantiation SkyCubemap :: linorder
begin

definition less_eq_SkyCubemap :: "SkyCubemap \<Rightarrow> SkyCubemap \<Rightarrow> bool" where
  "less_eq_SkyCubemap a b \<longleftrightarrow> SkyCubemap_value a \<le> SkyCubemap_value b"

definition less_SkyCubemap :: "SkyCubemap \<Rightarrow> SkyCubemap \<Rightarrow> bool" where
  "less_SkyCubemap a b \<longleftrightarrow> SkyCubemap_value a < SkyCubemap_value b"

instance
  by standard (auto simp: less_eq_SkyCubemap_def less_SkyCubemap_def)

end

lemma SkyCubemap_sorted: "sorted SkyCubemap_all" "distinct SkyCubemap_all"
  "set SkyCubemap_all = UNIV"
proof -
  show "sorted SkyCubemap_all" "distinct SkyCubemap_all"
    by (simp_all add: SkyCubemap_all_def less_eq_SkyCubemap_def)
  have "c \<in> set SkyCubemap_all" for c by (cases c) (simp_all add: SkyCubemap_all_def)
  then show "set SkyCubemap_all = UNIV" by auto
qed

section \<open>Colours\<close>

lemma colors_valid:
  "valid_color glDummyColor" "valid_color glXAxisColor" "valid_color glYAxisColor"
  "valid_color glZAxisColor" "valid_color glContactColor"
  by (simp_all add: sf_defs)

lemma contact_color_is_x_axis: "glContactColor = glXAxisColor"
  by (simp add: sf_defs)

lemma axis_colors_distinct:
  "distinct [glDummyColor, glXAxisColor, glYAxisColor, glZAxisColor]"
  by (simp add: sf_defs)

section \<open>Switches\<close>

lemma isRendered_set [simp]:
  "isFluidRendered (SetRenderingEffects sky shadows fluid sao p) = fluid"
  "isSAORendered (SetRenderingEffects sky shadows fluid sao p) = sao"
  "isFluidRendered (SetVisibleElements c j a s t p) = isFluidRendered p"
  "isSAORendered (SetVisibleElements c j a s t p) = isSAORendered p"
  by (simp_all add: sf_defs)

lemma Set_commute:
  "SetVisibleElements c j a s t (SetRenderingEffects sky shadows fluid sao p)
   = SetRenderingEffects sky shadows fluid sao (SetVisibleElements c j a s t p)"
  by (simp add: sf_defs)

lemma Set_overwrite [simp]:
  "SetRenderingEffects sky shadows fluid sao (SetRenderingEffects sky' shadows' fluid' sao' p)
   = SetRenderingEffects sky shadows fluid sao p"
  "SetVisibleElements c j a s t (SetVisibleElements c' j' a' s' t' p)
   = SetVisibleElements c j a s t p"
  by (simp_all add: sf_defs)

text \<open>
  The switches of the pipeline. \<open>SetRenderingEffects\<close> and \<open>SetVisibleElements\<close>
  each set their own group of switches from their arguments and leave the other group
  as it was: the two calls commute, a later call of one of them replaces an earlier
  one whatever was called in between, and the two getters return what the last
  \<open>SetRenderingEffects\<close> was given for fluid and for ambient occlusion.
\<close>

lemma pipeline_switches_independent:
  "SetVisibleElements c j a s t (SetRenderingEffects sky shadows fluid sao p)
     = SetRenderingEffects sky shadows fluid sao (SetVisibleElements c j a s t p)
   \<and> SetRenderingEffects sky shadows fluid sao
       (SetVisibleElements c j a s t (SetRenderingEffects sky' shadows' fluid' sao' p))
     = SetVisibleElements c j a s t (SetRenderingEffects sky shadows fluid sao p)
   \<and> isFluidRendered (SetVisibleElements c j a s t (SetRenderingEffects sky shadows fluid sao p))
     = fluid
   \<and> isSAORendered (SetVisibleElements c j a s t (SetRenderingEffects sky shadows fluid sao p))
     = sao
   \<and> showSensors (SetRenderingEffects sky shadows fluid sao (SetVisibleElements c j a s t p)) = s
   \<and> renderSky (SetVisibleElements c j a s t (SetRenderingEffects sky shadows fluid sao p)) = sky"
  by (simp add: Set_commute) (simp add: sf_defs)

end
