(* ===== verification/Spec2Isabelle.thy ===== *)
theory Spec2Isabelle
  imports LiDAR360_World Featherstone_Abstract Motor_Actuator Tree_Render OpenGL_Pipeline
begin

text \<open>
  \<^bold>\<open>Stonefish: a verification development.\<close>

  Stonefish is a marine-robotics simulator built on the Bullet physics library. The
  sources at hand are the 360-degree LiDAR sensor
  (\<open>src/Library/src/sensors/scalar/LiDAR360.cpp\<close>, the one file with code in its
  methods), the interface of the articulated multibody tree (\<open>FeatherstoneEntity.h\<close>
  in \<open>src/unnamed/part_000\<close>, with the structs \<open>FeatherstoneLink\<close> and
  \<open>FeatherstoneJoint\<close>), the interface of the motor actuator
  (\<open>src/Library/include/actuators/Motor.h\<close>) and the interfaces of the rendering
  pipeline (\<open>OpenGLPipeline.h\<close> and \<open>OpenGLSky.h\<close> in \<open>src/unnamed/part_001\<close>). The
  design document describes the multibody tree: its data, its operations, its life
  cycle and its errors.

  \<^bold>\<open>Parts of the program and how they interact.\<close> In one step of the simulation the
  actuators and the caller apply torques, gravity, damping and external forces to the
  multibody tree, Bullet integrates the tree, and then sensors read the new state: a
  LiDAR attached to a link takes the frame of that link, casts \<open>layers \<times> resolution\<close>
  rays into the collision world and stores one distance per ray; the rendering
  pipeline draws what the entities and sensors hand it as lists of renderables.

  \<^bold>\<open>Theories.\<close>
  \<^item> \<open>SF_Prelude\<close>: scalars as reals, \<open>unsigned int\<close> as 32-bit words, checked vector
    access (\<open>at_opt\<close>, \<open>put_opt\<close>, \<open>map_at\<close>, \<open>map_back\<close>), operations that can be
    refused (\<open>error\<close>, \<open>result\<close>, \<open>bindE\<close>, \<open>runE\<close>), the counting loops \<open>uint_for\<close> and
    \<open>uint_forE\<close> with their fold form, their invariant rules and their iterations,
    row-major index arithmetic on naturals and on words.
  \<^item> \<open>Bullet_LinearMath\<close>: the vectors, matrices, transforms, clamping and constants of
    Bullet that the sources call, with the algebra of \<open>dot\<close>, \<open>cross\<close>, \<open>length_v\<close>, \<open>lerp\<close>.
  \<^item> \<open>LiDAR360_Sensor\<close>: the class \<open>LiDAR360\<close>. State: the record \<open>LiDAR360\<close>.
    Operations: \<open>LiDAR360_new\<close> (the constructor, with \<open>precompute_angles\<close> for its two
    loops), \<open>InternalUpdate\<close> (with \<open>update_layer\<close> and \<open>update_beam\<close> for the bodies of
    the outer and the inner loop, \<open>beam_dir\<close> and \<open>measure_beam\<close> for one ray), \<open>Render\<close>
    (with \<open>render_layer\<close>, \<open>render_beam\<close>, \<open>render_dir\<close>), \<open>setRange\<close>, \<open>setNoise\<close> and
    the getters. The ray test of a beam is a parameter of type \<open>RayTest\<close>. The theory
    ends with the characterisation of one scan.
  \<^item> \<open>LiDAR360_Properties\<close>: the other properties of the sensor (beams, rendering,
    settings, sequences of calls, angle tables, boundary cases).
  \<^item> \<open>Collision_World\<close>: the ray query of Bullet's collision world as far as the
    sensor uses it: objects with a filter group, a filter mask and a ray cast
    (\<open>CollisionObject\<close>), the \<open>ClosestRayResultCallback\<close> with \<open>needsCollision\<close>,
    \<open>addSingleResult\<close> and \<open>hasHit\<close>, and \<open>rayTest\<close>, which visits the objects in order
    (\<open>process\<close>, \<open>rayTestSingle\<close>). The shapes are a parameter of each object, the
    function \<open>castRay\<close>; \<open>plane_cast\<close> is the cast of a half-space.
  \<^item> \<open>LiDAR360_World\<close>: lines 105 to 113 of \<open>LiDAR360.cpp\<close>, the sensor's parameter
    instantiated: \<open>closest\<close> is the callback the code builds (group \<open>MASK_DYNAMIC\<close>, mask
    \<open>MASK_STATIC | MASK_DYNAMIC | MASK_ANIMATED_COLLIDING\<close>), \<open>dynamicsWorld_rayTest\<close> the
    query and the test of \<open>hasHit\<close>. The values of the masks are the record
    \<open>CollisionMasks\<close>. The reference is \<open>closest_hit\<close> over the objects that are
    \<open>visible\<close>.
  \<^item> \<open>Featherstone_Tree\<close>: the data of \<open>FeatherstoneEntity.h\<close> (the records
    \<open>FeatherstoneLink\<close>, \<open>FeatherstoneJoint\<close> with its constructor, \<open>FeatherstoneEntity\<close>)
    and the construction of a tree: \<open>FeatherstoneEntity_new\<close>, \<open>AddLink\<close>,
    \<open>AddRevoluteJoint\<close>, \<open>AddPrismaticJoint\<close>, \<open>AddFixedJoint\<close> (all three through
    \<open>AddJoint\<close>), \<open>AddJointMotor\<close>, \<open>AddJointLimit\<close>, \<open>AddToDynamicsWorld\<close>. The header
    gives the fields and the signatures; the checks and effects of the operations
    follow the design document, since \<open>FeatherstoneEntity.cpp\<close> is not among the
    sources. Bullet's \<open>btMultiBody\<close> is the record \<open>MultiBody\<close>: one optional slot per
    non-base link with the joint coordinate and the accumulated torques, and one
    \<open>BodyState\<close> per link. The invariant is \<open>FE_inv\<close>.
  \<^item> \<open>Featherstone_Dynamics\<close>: actuation (\<open>MotorPositionSetpoint\<close>,
    \<open>MotorVelocitySetpoint\<close>, \<open>DriveJoint\<close>, \<open>ApplyGravity\<close>, \<open>ApplyDamping\<close>,
    \<open>AddLinkForce\<close>, \<open>AddLinkTorque\<close>), joint settings and queries (\<open>setJointIC\<close>,
    \<open>setJointDamping\<close>, \<open>getJointPosition\<close>, \<open>getJointVelocity\<close>, \<open>getJointTorque\<close>,
    \<open>getJointFeedback\<close>), link settings and queries, and \<open>Step\<close>, one step of the back
    end. The forward-dynamics solver is a parameter of \<open>Step\<close>: a function from the time
    step, the tree and the generalized forces to a \<open>Solution\<close>. \<open>Step\<close> adds to its
    answer only what the design document promises of every solver: limits are enforced,
    fixed joints and a fixed base do not move, accumulated forces are consumed. The
    interface as a whole is the datatype \<open>FE_call\<close> with the step function \<open>FE_step\<close>;
    \<open>FE_run\<close> runs a sequence of calls up to the first refusal.
  \<^item> \<open>Featherstone_Properties\<close>: the properties of the tree.
  \<^item> \<open>Featherstone_Abstract\<close>: the abstract machine \<open>A_step\<close> over \<open>ATree\<close> (phase,
    declared and current number of links, type, parent, child and presence of a motor
    per joint), its reachable states \<open>A_reach\<close> and their invariant \<open>A_inv\<close>, the
    abstraction function \<open>abs_tree\<close>, and the refinement.
  \<^item> \<open>Tree_Render\<close>: \<open>FE_Render\<close>, the renderables the tree hands to the pipeline, one per
    link with the pose of the link, after section 6 of the design document; the base
    is drawn when \<open>baseRenderable\<close> is set.
  \<^item> \<open>Motor_Actuator\<close>: the fields and the documented methods of \<open>Motor.h\<close>; \<open>Update\<close>
    applies the commanded torque with \<open>DriveJoint\<close>.
  \<^item> \<open>OpenGL_Pipeline\<close>: the colours, the switches of \<open>OpenGLPipeline\<close> with their
    setters and getters, the enumeration \<open>SkyCubemap\<close> and the handles of \<open>OpenGLSky\<close>.
  \<^item> \<open>Spec2Isabelle\<close> (this theory): \<open>simulate_step\<close>, one step of the simulation
    across motor, tree and sensor, in the order the design document fixes (actuators
    before the solve, sensors after it), and \<open>simulate\<close>, a run of \<open>n\<close> such steps that
    collects the samples.

  \<^bold>\<open>What the lemmas show.\<close>
  \<^item> LiDAR: the constructor establishes the class invariant \<open>LiDAR360_inv\<close>, and every
    operation that returns keeps it. The loops of the constructor compute the
    closed-form angle tables; every angle lies in the half-open interval from minus
    half the range to plus half the range. \<open>InternalUpdate\<close> returns, touching no vector
    outside its bounds, exactly when \<open>layers * resolution\<close> fits 32 bits; when it
    returns, the cell of beam \<open>(j, i)\<close> holds the measurement of that beam. The
    direction along which a beam is measured and the one along which it is drawn
    differ unless the vertical angle has sine zero. No call changes the angle tables,
    and no two beams of a sensor reached from the constructor are cast, or drawn, along
    the same direction.
  \<^item> LiDAR in a world: the ray query returns the least fraction below 1 among the
    objects whose filter bits match those of the callback, whatever the order of the
    objects, and points at an object hit at that fraction; an object whose bits do not
    match changes no scan; every distance of a scan is 0 or between \<open>rangeMin\<close> and
    \<open>rangeMax * sqrt 2\<close>. The distance a beam stores is that of the nearest point
    where its ray enters a visible object (\<open>hit_distance\<close>, \<open>beam_hits\<close>), or 0 when
    there is none. Over a horizontal floor at depth \<open>H\<close> a beam of vertical angle
    \<open>v\<close> stores \<open>H / (- sin v) * sqrt (1 + sin\<^sup>2 v)\<close>, and the point drawn for it is below
    the floor; a whole scan over the floor, and what \<open>Render\<close> draws of it, is given
    beam by beam (\<open>floor_distance\<close>, \<open>floor_height\<close>). A grid without beams is scanned
    and drawn without an access to a vector, and with an inverted range the hit the ray
    test returns is the one farthest from the sensor.
  \<^item> Tree: the constructor establishes \<open>FE_inv\<close> and every accepted call keeps it; a
    tree has fewer joints than links, and a completed one exactly one fewer. The check
    that every link is a child at most once does not exclude cycles; it does when
    every joint has its parent below its child. After attachment the topology is
    frozen and the phase never goes back. Initial conditions are read back; the
    reported joint torque is the sum of the \<open>DriveJoint\<close> calls of the step only; the
    feedback torque is orthogonal to the force and to the pivot vector, but not to the
    joint axis; damping opposes the motion; motor laws are the proportional ones; the
    position after a step is within the limits; forces last one step.
  \<^item> Refinement: on every sequence of calls the tree and the abstract machine agree on
    acceptance, on the error, and on the resulting abstract state, so nothing the back
    end holds decides whether a call is accepted; joints keep index, type and links.
  \<^item> Rendering of the tree: the item of a link carries the transform that
    \<open>getLinkTransform\<close> returns, forces applied before the step move nothing that is
    drawn, a fixed base is drawn where it was, and the lines of a LiDAR mounted on a
    link have the model transform of the item of that link.
  \<^item> Motor: the commanded torque is part of the generalized force of the next step and
    is gone after it; the readings of the motor are those of its joint.
  \<^item> Simulation: the sensor measures in the pose the link has after the solve, and a
    run of any number of steps is accepted, keeps both invariants and the topology,
    and yields one sample per step.

  \<^bold>\<open>Bounds and fuel.\<close> Every loop is a counting loop over a 32-bit counter below a
  32-bit bound, defined by well-founded recursion on the distance to the bound;
  termination is proved once, in \<open>SF_Prelude\<close>, and the loops are shown to run
  \<open>unat n - unat i\<close> iterations. The only fuel is that of \<open>reaches_base\<close>, which follows
  parent joints from a link towards the base: \<open>is_tree\<close> gives it the number of links,
  and a path without repetition cannot be longer. \<open>simulate\<close> takes the number of
  steps as its argument and is total. Link counts are 32-bit words; the
  invariant keeps the declared number of links below \<open>2^32\<close>, so that indices and
  counts convert without wrap-around. Scalars are exact reals.

  \<^bold>\<open>Not modelled.\<close> Console output; floating-point rounding; the history of samples
  kept by the sensor base class (\<open>InternalUpdate\<close> returns the sample it hands over);
  the broad and the narrow phase of Bullet's collision world (the objects are a list
  and the cast of each shape is a function of the object; only the half-space has a
  definition) and the values of the collision masks, whose header is not among the
  sources; Bullet's integrator (the solver is a parameter); the geometry of the
  solids, so that the renderables of the tree carry a transform and no shape, and
  \<open>GetAABB\<close>, \<open>getType\<close> and \<open>getMultiBody\<close> of the tree; the constructor, the actuator
  type and the watchdog of the motor, and where its torque limits apply, none of
  which the header states; every method of the rendering pipeline and of the sky that
  draws, which the headers declare without a body; the process bootstrap and the unit
  system. What remains unmapped of the four source files is licence text, includes,
  include guards and these declarations without a body.
\<close>

section \<open>Steps of the simulation\<close>

definition simulate_step ::
  "Solver \<Rightarrow> RayTest \<Rightarrow> uint \<Rightarrow> uint \<Rightarrow> Scalar \<Rightarrow> Motor \<Rightarrow> FeatherstoneEntity \<Rightarrow> LiDAR360
     \<Rightarrow> (FeatherstoneEntity \<times> (LiDAR360 \<times> Sample) option) result" where
  "simulate_step solver ray jId link dt m fe s =
     bindE (Update fe jId dt m) (\<lambda>fe1.
     bindE (Step solver dt fe1) (\<lambda>fe2.
     bindE (getLinkTransform fe2 link) (\<lambda>frame.
       Inr (fe2, InternalUpdate ray frame dt s))))"

fun simulate ::
  "nat \<Rightarrow> Solver \<Rightarrow> RayTest \<Rightarrow> uint \<Rightarrow> uint \<Rightarrow> Scalar \<Rightarrow> Motor
     \<Rightarrow> FeatherstoneEntity \<times> LiDAR360 \<times> Sample list
     \<Rightarrow> (FeatherstoneEntity \<times> LiDAR360 \<times> Sample list) option result" where
  "simulate 0 solver ray jId link dt m st = Inr (Some st)"
| "simulate (Suc n) solver ray jId link dt m (fe, s, smps) =
     bindE (simulate_step solver ray jId link dt m fe s) (\<lambda>(fe', r).
       case r of
         None \<Rightarrow> Inr None
       | Some (s', smp) \<Rightarrow> simulate n solver ray jId link dt m (fe', s', smps @ [smp]))"

lemma Update_accepted:
  assumes "FE_inv fe" and "unat jId < length (joints fe)"
  obtains fe1 where "Update fe jId dt m = Inr fe1" and "FE_inv fe1"
    and "joints fe1 = joints fe" and "links fe1 = links fe"
    and "mb_bodies (multiBody fe1) = mb_bodies (multiBody fe)"
    and "mb_phase (multiBody fe1) = mb_phase (multiBody fe)"
    and "hasFixedBase (multiBody fe1) = hasFixedBase (multiBody fe)"
proof -
  from getJointTorque_in [OF assms, of "getTorque m"] obtain sl
    where d: "DriveJoint jId (getTorque m) fe =
      Inr (set_slot fe (joints fe ! unat jId) (sl\<lparr>mbl_torque := mbl_torque sl + getTorque m\<rparr>))"
    by blast
  from DriveJoint_inv [OF assms(1) d] d show thesis
    by (intro that [of "set_slot fe (joints fe ! unat jId)
        (sl\<lparr>mbl_torque := mbl_torque sl + getTorque m\<rparr>)"]) (simp_all add: Update_def)
qed

lemma topology_lengths:
  assumes "topology e' = topology e"
  shows "length (joints e') = length (joints e)" and "length (links e') = length (links e)"
proof -
  from assms have "map (\<lambda>j. (jtype j, parent j, child j)) (joints e')
      = map (\<lambda>j. (jtype j, parent j, child j)) (joints e)"
    and l: "length (links e') = length (links e)" by (simp_all add: topology_def)
  from map_eq_imp_length_eq [OF this(1)] l
  show "length (joints e') = length (joints e)" and "length (links e') = length (links e)" .
qed

lemma simulate_ignores_invisible:
  assumes "\<not> visible masks obj"
  shows "simulate n solver (dynamicsWorld_rayTest masks (w1 @ obj # w2))
         = simulate n solver (dynamicsWorld_rayTest masks (w1 @ w2))"
  by (simp add: dynamicsWorld_rayTest_skip [OF assms])

lemma same_setup_trans: "same_setup s t \<Longrightarrow> same_setup t u \<Longrightarrow> same_setup s u"
  by (auto simp: same_setup_def)

lemma same_setup_scan:
  assumes "LiDAR360_inv s" and "no_overflow s"
  shows "same_setup s (s\<lparr>distances := scan ray frame s\<rparr>)"
  using no_overflow_length [OF assms] by (auto simp: same_setup_def)

lemma simulate_step_ok:
  assumes "FE_inv fe" and "\<not> unattached fe" and "unat jId < length (joints fe)"
    and "unat link < length (links fe)" and "LiDAR360_inv s" and "no_overflow s"
  shows "\<exists>fe1 fe2 frame. Update fe jId dt m = Inr fe1 \<and> Step solver dt fe1 = Inr fe2
    \<and> frame = body_pose (advance_body (hasFixedBase (multiBody fe))
          (solver dt (multiBody fe1) (generalized_force fe1)) (unat link)
          (mb_bodies (multiBody fe) ! unat link))
    \<and> getLinkTransform fe2 link = Inr frame
    \<and> simulate_step solver ray jId link dt m fe s
        = Inr (fe2, Some (s\<lparr>distances := scan ray frame s\<rparr>,
                \<lparr>nDim = resolution s * layers s, sample_data = scan ray frame s\<rparr>))
    \<and> FE_inv fe2 \<and> topology fe2 = topology fe \<and> mb_phase (multiBody fe2) = Stepping
    \<and> getJointTorque fe2 jId = Inr 0
    \<and> LiDAR360_inv (s\<lparr>distances := scan ray frame s\<rparr>)"
proof -
  from Update_accepted [OF assms(1,3), of dt m] obtain fe1
    where u: "Update fe jId dt m = Inr fe1" and inv1: "FE_inv fe1"
      and js: "joints fe1 = joints fe" and ls: "links fe1 = links fe"
      and bs: "mb_bodies (multiBody fe1) = mb_bodies (multiBody fe)"
      and ph: "mb_phase (multiBody fe1) = mb_phase (multiBody fe)"
      and fb: "hasFixedBase (multiBody fe1) = hasFixedBase (multiBody fe)" by blast
  from assms(2) ph have "\<not> unattached fe1" by (simp add: unattached_def)
  from Step_attached [OF this] obtain fe2 where st: "Step solver dt fe1 = Inr fe2" by blast
  from inv1 st have inv2: "FE_inv fe2" by (rule Step_inv)
  let ?frame = "body_pose (advance_body (hasFixedBase (multiBody fe))
          (solver dt (multiBody fe1) (generalized_force fe1)) (unat link)
          (mb_bodies (multiBody fe) ! unat link))"
  from assms(4) FE_invD(2,5) [OF assms(1)] have k: "unat link < length (mb_bodies (multiBody fe1))"
    by (simp add: bs)
  from assms(4) have "unat link < length (links fe2)" by (simp add: Step_fields(2) [OF st] ls)
  from with_body_in [OF inv2 this, of body_pose] have g: "getLinkTransform fe2 link = Inr ?frame"
    by (simp add: getLinkTransform_def Step_body [OF st k] fb bs)
  have top: "topology fe2 = topology fe"
    by (simp add: Step_frame(1) [OF st]) (simp add: topology_def js ls)
  have tq: "getJointTorque fe2 jId = Inr 0"
    using inv1 st assms(3) [folded js] by (rule getJointTorque_Step)
  from InternalUpdate_eq [OF assms(5,6), of ray ?frame dt]
  have iu: "InternalUpdate ray ?frame dt s
      = Some (s\<lparr>distances := scan ray ?frame s\<rparr>,
              \<lparr>nDim = resolution s * layers s, sample_data = scan ray ?frame s\<rparr>)" .
  from assms(5) iu have "LiDAR360_inv (s\<lparr>distances := scan ray ?frame s\<rparr>)"
    by (rule InternalUpdate_Some_inv)
  with u st g iu inv2 top tq Step_frame(2) [OF st] show ?thesis by (simp add: simulate_step_def)
qed

lemma simulate_ok:
  assumes "FE_inv fe" and "\<not> unattached fe" and "unat jId < length (joints fe)"
    and "unat link < length (links fe)" and "LiDAR360_inv s" and "no_overflow s"
  shows "\<exists>fe' s' new. simulate n solver ray jId link dt m (fe, s, smps)
        = Inr (Some (fe', s', smps @ new))
    \<and> length new = n \<and> FE_inv fe' \<and> \<not> unattached fe' \<and> topology fe' = topology fe
    \<and> LiDAR360_inv s' \<and> same_setup s s'
    \<and> list_all (\<lambda>smp. nDim smp = resolution s * layers s) new"
  using assms
proof (induction n arbitrary: fe s smps)
  case 0
  then show ?case by simp
next
  case (Suc n)
  from simulate_step_ok [OF Suc.prems, of dt m solver ray] obtain fe2 frame
    where step: "simulate_step solver ray jId link dt m fe s
        = Inr (fe2, Some (s\<lparr>distances := scan ray frame s\<rparr>,
                \<lparr>nDim = resolution s * layers s, sample_data = scan ray frame s\<rparr>))"
      and inv2: "FE_inv fe2" and top: "topology fe2 = topology fe"
      and ph: "mb_phase (multiBody fe2) = Stepping"
      and sinv: "LiDAR360_inv (s\<lparr>distances := scan ray frame s\<rparr>)" by blast
  let ?s1 = "s\<lparr>distances := scan ray frame s\<rparr>"
  let ?smp = "\<lparr>nDim = resolution s * layers s, sample_data = scan ray frame s\<rparr>"
  note len = topology_lengths [OF top]
  have "\<exists>fe' s' new. simulate n solver ray jId link dt m (fe2, ?s1, smps @ [?smp])
        = Inr (Some (fe', s', (smps @ [?smp]) @ new))
    \<and> length new = n \<and> FE_inv fe' \<and> \<not> unattached fe' \<and> topology fe' = topology fe2
    \<and> LiDAR360_inv s' \<and> same_setup ?s1 s'
    \<and> list_all (\<lambda>smp. nDim smp = resolution ?s1 * layers ?s1) new"
    using Suc.prems(3,4,6) by (intro Suc.IH inv2 sinv) (simp_all add: ph unattached_def len)
  then obtain fe' s' new
    where run: "simulate n solver ray jId link dt m (fe2, ?s1, smps @ [?smp])
        = Inr (Some (fe', s', smps @ ?smp # new))"
      and rest: "length new = n" "FE_inv fe'" "\<not> unattached fe'" "topology fe' = topology fe2"
        "LiDAR360_inv s'" "same_setup ?s1 s'"
        "list_all (\<lambda>smp. nDim smp = resolution s * layers s) new"
    by auto
  from same_setup_scan [OF Suc.prems(5,6)] rest(6) have "same_setup s s'"
    by (rule same_setup_trans)
  with step run rest top show ?case
    by (intro exI [of _ fe'] exI [of _ s'] exI [of _ "?smp # new"]) simp
qed

text \<open>
  C6. One step of the simulation across actuator, tree and sensor. For an attached
  tree that satisfies its invariant, a motor on an existing joint, and a LiDAR that
  satisfies its invariant, whose grid fits 32 bits, on an existing link: the step is
  accepted; the tree keeps its invariant and its topology, is in the phase Stepping
  and has consumed the torque of the motor; the sensor measures in the pose the link
  has after the solve (the one the solver returned, or the unchanged pose of a fixed
  base), its distances are the scan in that pose, and it keeps its invariant.
\<close>

theorem simulate_step_correct:
  assumes "FE_inv fe" and "\<not> unattached fe" and "unat jId < length (joints fe)"
    and "unat link < length (links fe)" and "LiDAR360_inv s" and "no_overflow s"
  shows "\<exists>fe1 fe2 frame. Update fe jId dt m = Inr fe1 \<and> Step solver dt fe1 = Inr fe2
    \<and> frame = body_pose (advance_body (hasFixedBase (multiBody fe))
          (solver dt (multiBody fe1) (generalized_force fe1)) (unat link)
          (mb_bodies (multiBody fe) ! unat link))
    \<and> getLinkTransform fe2 link = Inr frame
    \<and> simulate_step solver ray jId link dt m fe s
        = Inr (fe2, Some (s\<lparr>distances := scan ray frame s\<rparr>,
                \<lparr>nDim = resolution s * layers s, sample_data = scan ray frame s\<rparr>))
    \<and> FE_inv fe2 \<and> topology fe2 = topology fe \<and> mb_phase (multiBody fe2) = Stepping
    \<and> getJointTorque fe2 jId = Inr 0
    \<and> LiDAR360_inv (s\<lparr>distances := scan ray frame s\<rparr>)"
  using assms by (rule simulate_step_ok)

theorem simulate_step_correct_witness:
  "\<exists>fe2 s' smp. simulate_step example_solver (\<lambda>a b. None) 0 1 1 (setIntensity 5 example_motor)
       example_attached (LiDAR360_new ''lidar'' 2 2 10 1) = Inr (fe2, Some (s', smp))
     \<and> nDim smp = 4 \<and> FE_inv fe2 \<and> LiDAR360_inv s' \<and> getJointTorque fe2 0 = Inr 0"
proof -
  have "unat (0 :: uint) < length (joints example_attached)"
    and "unat (1 :: uint) < length (links example_attached)"
    by (simp_all add: example_arm_def)
  from simulate_step_correct [OF example_attached_inv(1,2) this new_inv,
      of "''lidar''" 2 2 10 1 1 "setIntensity 5 example_motor" example_solver "\<lambda>a b. None"]
  show ?thesis by auto
qed

text \<open>
  C15. The simulation never gets stuck. From an attached tree that satisfies its
  invariant, with a motor on an existing joint and a LiDAR that satisfies its
  invariant, whose grid fits 32 bits, on an existing link, any number \<open>n\<close> of steps is
  accepted: no call is refused and no vector is accessed outside its bounds. The run
  hands over \<open>n\<close> samples of \<open>resolution * layers\<close> dimensions; the tree still
  satisfies its invariant with the topology it started with, and the sensor satisfies
  its invariant and differs from the initial one only in its distances.
\<close>

theorem simulation_never_stuck:
  assumes "FE_inv fe" and "\<not> unattached fe" and "unat jId < length (joints fe)"
    and "unat link < length (links fe)" and "LiDAR360_inv s" and "no_overflow s"
  shows "\<exists>fe' s' smps. simulate n solver ray jId link dt m (fe, s, []) = Inr (Some (fe', s', smps))
    \<and> length smps = n \<and> FE_inv fe' \<and> topology fe' = topology fe
    \<and> LiDAR360_inv s' \<and> same_setup s s'
    \<and> list_all (\<lambda>smp. nDim smp = resolution s * layers s) smps"
  using simulate_ok [OF assms, of n solver ray dt m "[]"] by auto

theorem simulation_never_stuck_witness:
  "\<exists>fe' s' smps. simulate 3 example_solver (\<lambda>a b. None) 0 1 1 (setIntensity 5 example_motor)
       (example_attached, LiDAR360_new ''lidar'' 2 2 10 1, []) = Inr (Some (fe', s', smps))
     \<and> length smps = 3 \<and> FE_inv fe' \<and> LiDAR360_inv s'"
proof -
  have "unat (0 :: uint) < length (joints example_attached)"
    and "unat (1 :: uint) < length (links example_attached)"
    by (simp_all add: example_arm_def)
  from simulation_never_stuck [OF example_attached_inv(1,2) this new_inv,
      of "''lidar''" 2 2 10 1 3 example_solver "\<lambda>a b. None" 1 "setIntensity 5 example_motor"]
  show ?thesis by auto
qed

end
